(* ===== verification/Go_Prelude.thy ===== *)
theory Go_Prelude
  imports Main "HOL-Library.State_Monad" "HOL-Library.Signed_Division" "HOL-Library.Word"
begin

text \<open>
  The part of the Go language and of its standard library that the operator uses, shared by
  every component: error values, byte strings (\<open>strings\<close>), decimal numbers
  (\<open>strconv\<close>), the scanning half of \<open>fmt\<close>, and the state monad in which calls
  with effects are written.

  A Go string is a sequence of bytes, and so is a HOL \<open>string\<close>. A Go \<open>int\<close> is 64 bits
  wide on the platforms the operator is built for; it is an \<open>int\<close> here, with the
  wrap-around written out (\<open>wrap64\<close>) wherever an operation can leave the range. A Go map is
  an association list with distinct keys: iteration over a Go map visits the entries in an
  unspecified order, and a statement about every association list is a statement about every
  order.
\<close>

section \<open>Collections\<close>

named_theorems go_str \<open>computation rules of the string operations\<close>
named_theorems go_num \<open>computation rules of the numeric operations\<close>
named_theorems io_run \<open>unfolding rules of effectful operations\<close>

section \<open>Errors\<close>

text \<open>
  An \<open>error\<close> value. \<open>RedisNil\<close> is the sentinel \<open>redis.Nil\<close> of the Redis client,
  \<open>ExtErr\<close> any other error that code outside the repository returns; both carry the text
  that code gives them. \<open>Errorf\<close> and \<open>ErrorfW\<close> are \<open>fmt.Errorf\<close> without and with
  a \<open>%w\<close> operand.
\<close>

datatype goerror =
    RedisNil string
  | ExtErr string
  | Errorf string
  | ErrorfW string goerror

fun error_text :: "goerror \<Rightarrow> string" where
  "error_text (RedisNil m) = m"
| "error_text (ExtErr m) = m"
| "error_text (Errorf m) = m"
| "error_text (ErrorfW m _) = m"

text \<open>\<open>errors.Is(err, redis.Nil)\<close>: the sentinel, or an error that wraps it.\<close>

fun is_redis_nil :: "goerror \<Rightarrow> bool" where
  "is_redis_nil (RedisNil _) = True"
| "is_redis_nil (ErrorfW _ e) = is_redis_nil e"
| "is_redis_nil _ = False"

text \<open>The text \<open>%v\<close> prints for an error that may be nil.\<close>

definition err_v :: "goerror option \<Rightarrow> string" where
  "err_v e = (case e of None \<Rightarrow> ''<nil>'' | Some x \<Rightarrow> error_text x)"

type_synonym 'a res = "goerror + 'a"
type_synonym gomap = "(string \<times> string) list"

text \<open>\<open>m[k]\<close> of a \<open>map[string]string\<close>: the empty string when the key is absent.\<close>

definition mget :: "gomap \<Rightarrow> string \<Rightarrow> string" where
  "mget m k = (case map_of m k of None \<Rightarrow> [] | Some v \<Rightarrow> v)"

lemma mget_Some [simp]: "map_of m k = Some v \<Longrightarrow> mget m k = v"
  and mget_None [simp]: "map_of m k = None \<Longrightarrow> mget m k = []"
  by (simp_all add: mget_def)

text \<open>A call that may panic, for instance because it dereferences a nil pointer.\<close>

datatype 'a outcome = Returned 'a | Panicked

section \<open>Effects\<close>

text \<open>
  A call with effects is a computation of the state monad over the world. The Go idiom
  \<open>x, err := f(); if err != nil { ... }\<close> is a bind followed by a case distinction on a sum.
\<close>

abbreviation ret :: "'a \<Rightarrow> ('s, 'a) state" where
  "ret \<equiv> State_Monad.return"

abbreviation run :: "('s, 'a) state \<Rightarrow> 's \<Rightarrow> 'a \<times> 's" where
  "run \<equiv> run_state"

text \<open>Continue with the value, or return the error after rewriting it.\<close>

definition on_err :: "('s, 'e + 'a) state \<Rightarrow> ('e \<Rightarrow> ('s, 'b) state) \<Rightarrow> ('a \<Rightarrow> ('s, 'b) state) \<Rightarrow> ('s, 'b) state" where
  "on_err m h k = State_Monad.bind m (\<lambda>r. case r of Inl e \<Rightarrow> h e | Inr v \<Rightarrow> k v)"

text \<open>The same for a call that returns only an error.\<close>

definition on_fail :: "('s, 'e option) state \<Rightarrow> ('e \<Rightarrow> ('s, 'b) state) \<Rightarrow> ('s, 'b) state \<Rightarrow> ('s, 'b) state" where
  "on_fail m h k = State_Monad.bind m (\<lambda>r. case r of Some e \<Rightarrow> h e | None \<Rightarrow> k)"

lemma run_on_err [simp, io_run]:
  "run (on_err m h k) s = (case run m s of (Inl e, s') \<Rightarrow> run (h e) s' | (Inr v, s') \<Rightarrow> run (k v) s')"
  by (simp add: on_err_def split: prod.split sum.split)

lemma run_on_fail [simp, io_run]:
  "run (on_fail m h k) s = (case run m s of (Some e, s') \<Rightarrow> run (h e) s' | (None, s') \<Rightarrow> run k s')"
  by (simp add: on_fail_def split: prod.split option.split)

subsection \<open>Partial correctness\<close>

text \<open>
  \<open>valid P m Q\<close>: from a state with \<open>P\<close>, whatever \<open>m\<close> returns satisfies \<open>Q\<close> with
  the state it leaves. \<open>keeps I m\<close>: \<open>m\<close> preserves \<open>I\<close> whatever it returns. The rules follow
  the shape of the code, so that an operation is proved by the rules of its calls.
\<close>

definition valid :: "('s \<Rightarrow> bool) \<Rightarrow> ('s, 'a) state \<Rightarrow> ('a \<Rightarrow> 's \<Rightarrow> bool) \<Rightarrow> bool" where
  "valid P m Q \<longleftrightarrow> (\<forall>s r s'. P s \<longrightarrow> run m s = (r, s') \<longrightarrow> Q r s')"

definition keeps :: "('s \<Rightarrow> bool) \<Rightarrow> ('s, 'a) state \<Rightarrow> bool" where
  "keeps I m \<longleftrightarrow> valid I m (\<lambda>_. I)"

named_theorems keeps_rules \<open>rules for \<open>keeps\<close>, one per form of a computation\<close>

lemma validD: "valid P m Q \<Longrightarrow> P s \<Longrightarrow> run m s = (r, s') \<Longrightarrow> Q r s'"
  by (simp add: valid_def)

lemma keepsD: "keeps I m \<Longrightarrow> I s \<Longrightarrow> run m s = (r, s') \<Longrightarrow> I s'"
  by (auto simp: keeps_def valid_def)

lemma valid_conseq: "valid P m Q \<Longrightarrow> (\<And>s. P' s \<Longrightarrow> P s) \<Longrightarrow> (\<And>r s. Q r s \<Longrightarrow> Q' r s) \<Longrightarrow> valid P' m Q'"
  unfolding valid_def by blast

lemma valid_ret: "(\<And>s. P s \<Longrightarrow> Q x s) \<Longrightarrow> valid P (ret x) Q"
  by (simp add: valid_def)

lemma valid_bind: "valid P m B \<Longrightarrow> (\<And>x. valid (B x) (k x) Q) \<Longrightarrow> valid P (State_Monad.bind m k) Q"
  unfolding valid_def by (fastforce split: prod.splits)

lemma valid_on_err:
  "valid P m (\<lambda>r s. case r of Inl e \<Rightarrow> E e s | Inr v \<Rightarrow> K v s) \<Longrightarrow> (\<And>e. valid (E e) (h e) Q)
   \<Longrightarrow> (\<And>v. valid (K v) (k v) Q) \<Longrightarrow> valid P (on_err m h k) Q"
  unfolding on_err_def by (rule valid_bind, assumption) (simp split: sum.split)

lemma valid_on_fail:
  "valid P m (\<lambda>r s. case r of Some e \<Rightarrow> E e s | None \<Rightarrow> K s) \<Longrightarrow> (\<And>e. valid (E e) (h e) Q)
   \<Longrightarrow> valid K k Q \<Longrightarrow> valid P (on_fail m h k) Q"
  unfolding on_fail_def by (rule valid_bind, assumption) (simp split: option.split)

lemma valid_pure: "(B \<Longrightarrow> valid P m Q) \<Longrightarrow> valid (\<lambda>s. P s \<and> B) m Q"
  by (auto simp: valid_def)

text \<open>The same rules for a call that keeps \<open>I\<close> and returns a value with \<open>B\<close>.\<close>

lemma valid_bind_pure:
  "valid P m (\<lambda>r s. I s \<and> B r) \<Longrightarrow> (\<And>r. B r \<Longrightarrow> valid I (k r) Q) \<Longrightarrow> valid P (State_Monad.bind m k) Q"
  by (rule valid_bind, assumption, rule valid_pure) simp

lemma valid_on_err_pure:
  "valid P m (\<lambda>r s. I s \<and> B r) \<Longrightarrow> (\<And>e. B (Inl e) \<Longrightarrow> valid I (h e) Q)
   \<Longrightarrow> (\<And>v. B (Inr v) \<Longrightarrow> valid I (k v) Q) \<Longrightarrow> valid P (on_err m h k) Q"
  unfolding on_err_def by (rule valid_bind_pure, assumption) (auto split: sum.split)

lemma valid_on_fail_pure:
  "valid P m (\<lambda>r s. I s \<and> B r) \<Longrightarrow> (\<And>e. B (Some e) \<Longrightarrow> valid I (h e) Q)
   \<Longrightarrow> (B None \<Longrightarrow> valid I k Q) \<Longrightarrow> valid P (on_fail m h k) Q"
  unfolding on_fail_def by (rule valid_bind_pure, assumption) (auto split: option.split)

lemma keeps_ret [keeps_rules]: "keeps I (ret x)"
  by (simp add: keeps_def valid_ret)

lemma keeps_bind [keeps_rules]: "keeps I m \<Longrightarrow> (\<And>x. keeps I (k x)) \<Longrightarrow> keeps I (State_Monad.bind m k)"
  unfolding keeps_def by (rule valid_bind)

lemma keeps_on_err [keeps_rules]:
  "keeps I m \<Longrightarrow> (\<And>e. keeps I (h e)) \<Longrightarrow> (\<And>v. keeps I (k v)) \<Longrightarrow> keeps I (on_err m h k)"
  unfolding on_err_def by (rule keeps_bind, assumption) (simp split: sum.split)

lemma keeps_on_fail [keeps_rules]:
  "keeps I m \<Longrightarrow> (\<And>e. keeps I (h e)) \<Longrightarrow> keeps I k \<Longrightarrow> keeps I (on_fail m h k)"
  unfolding on_fail_def by (rule keeps_bind, assumption) (simp split: option.split)

lemma keeps_if [keeps_rules]: "(b \<Longrightarrow> keeps I m) \<Longrightarrow> (\<not> b \<Longrightarrow> keeps I m') \<Longrightarrow> keeps I (if b then m else m')"
  by simp

lemma keeps_option [keeps_rules]:
  "(x = None \<Longrightarrow> keeps I m) \<Longrightarrow> (\<And>y. x = Some y \<Longrightarrow> keeps I (k y)) \<Longrightarrow> keeps I (case x of None \<Rightarrow> m | Some y \<Rightarrow> k y)"
  by (simp split: option.split)

lemma keeps_sum [keeps_rules]:
  "(\<And>e. x = Inl e \<Longrightarrow> keeps I (h e)) \<Longrightarrow> (\<And>y. x = Inr y \<Longrightarrow> keeps I (k y)) \<Longrightarrow> keeps I (case x of Inl e \<Rightarrow> h e | Inr y \<Rightarrow> k y)"
  by (simp split: sum.split)

section \<open>Strings\<close>

definition HasPrefix :: "string \<Rightarrow> string \<Rightarrow> bool" where
  "HasPrefix s p \<longleftrightarrow> take (length p) s = p"

definition TrimPrefix :: "string \<Rightarrow> string \<Rightarrow> string" where
  "TrimPrefix s p = (if HasPrefix s p then drop (length p) s else s)"

lemma HasPrefix_append [simp]: "HasPrefix (p @ s) p"
  by (simp add: HasPrefix_def)

lemma HasPrefix_Nil [simp]: "HasPrefix s []"
  and HasPrefix_Nil_Cons [simp]: "\<not> HasPrefix [] (y # p)"
  and HasPrefix_Cons [simp]: "HasPrefix (x # s) (y # p) \<longleftrightarrow> x = y \<and> HasPrefix s p"
  by (simp_all add: HasPrefix_def)

lemma TrimPrefix_Nil [simp]: "TrimPrefix s [] = s"
  and TrimPrefix_Cons [simp]: "HasPrefix s p \<Longrightarrow> TrimPrefix (x # s) (x # p) = TrimPrefix s p"
  by (simp_all add: TrimPrefix_def)

lemma HasPrefix_iff: "HasPrefix s p \<longleftrightarrow> (\<exists>r. s = p @ r)"
  by (metis HasPrefix_def HasPrefix_append append_take_drop_id)

lemma TrimPrefix_append [simp]: "TrimPrefix (p @ s) p = s"
  by (simp add: TrimPrefix_def)

lemma HasPrefix_TrimPrefix: "HasPrefix s p \<Longrightarrow> p @ TrimPrefix s p = s"
  by (auto simp: HasPrefix_iff)

text \<open>\<open>strings.SplitN(s, sep, 2)\<close> and \<open>strings.Split\<close> for a separator of one byte.\<close>

fun cut_at :: "char \<Rightarrow> string \<Rightarrow> (string \<times> string) option" where
  "cut_at c [] = None"
| "cut_at c (x # xs) =
     (if x = c then Some ([], xs)
      else map_option (\<lambda>(a, b). (x # a, b)) (cut_at c xs))"

lemma cut_at_Some: "cut_at c s = Some (a, b) \<longleftrightarrow> s = a @ c # b \<and> c \<notin> set a"
proof (induction s arbitrary: a)
  case (Cons x xs)
  then show ?case by (cases a) auto
qed simp

lemma cut_at_None: "cut_at c s = None \<longleftrightarrow> c \<notin> set s"
  by (induction s) auto

lemma cut_at_length: "cut_at c s = Some (a, b) \<Longrightarrow> length b < length s"
  by (auto simp: cut_at_Some)

function SplitN :: "char \<Rightarrow> nat \<Rightarrow> string \<Rightarrow> string list" where
  "SplitN c n s =
     (if n = 0 then [] else if n = 1 then [s]
      else case cut_at c s of None \<Rightarrow> [s] | Some (a, b) \<Rightarrow> a # SplitN c (n - 1) b)"
  by pat_completeness auto
termination
  by (relation "measure (\<lambda>(c, n, s). n)") auto

declare SplitN.simps [simp del]

function Split :: "char \<Rightarrow> string \<Rightarrow> string list" where
  "Split c s = (case cut_at c s of None \<Rightarrow> [s] | Some (a, b) \<Rightarrow> a # Split c b)"
  by pat_completeness auto
termination
  by (relation "measure (\<lambda>(c, s). length s)") (auto dest: cut_at_length)

declare Split.simps [simp del]

lemma Split_no_sep [simp]: "c \<notin> set s \<Longrightarrow> Split c s = [s]"
  by (subst Split.simps) (simp add: cut_at_None [THEN iffD2])

lemma Split_append: "c \<notin> set a \<Longrightarrow> Split c (a @ c # b) = a # Split c b"
proof -
  assume "c \<notin> set a"
  then have "cut_at c (a @ c # b) = Some (a, b)" by (simp add: cut_at_Some)
  then show ?thesis by (subst Split.simps) simp
qed

fun Join :: "string list \<Rightarrow> string \<Rightarrow> string" where
  "Join [] sep = []"
| "Join [x] sep = x"
| "Join (x # y # ys) sep = x @ sep @ Join (y # ys) sep"

lemma Split_Join:
  "xs \<noteq> [] \<Longrightarrow> \<forall>x\<in>set xs. c \<notin> set x \<Longrightarrow> Split c (Join xs [c]) = xs"
  by (induction xs "[c]" rule: Join.induct) (auto simp: Split_append)

text \<open>\<open>strings.ReplaceAll(s, c, r)\<close> for a pattern of one byte.\<close>

definition ReplaceAll :: "string \<Rightarrow> char \<Rightarrow> string \<Rightarrow> string" where
  "ReplaceAll s c r = concat (map (\<lambda>x. if x = c then r else [x]) s)"

text \<open>\<open>strings.ToLower\<close> on the ASCII letters; a string of ASCII bytes is all the callers pass.\<close>

definition lower_char :: "char \<Rightarrow> char" where
  "lower_char c = (let n = of_char c :: nat in if 65 \<le> n \<and> n \<le> 90 then char_of (n + 32) else c)"

definition ToLower :: "string \<Rightarrow> string" where
  "ToLower s = map lower_char s"

section \<open>White space\<close>

text \<open>
  \<open>unicode.IsSpace\<close> and the \<open>isSpace\<close> of \<open>fmt\<close> accept the same code points. They are
  listed by their UTF-8 encodings, of one, two and three bytes.
\<close>

definition spaces1 :: "char list" where
  "spaces1 = [CHR 0x09, CHR 0x0A, CHR 0x0B, CHR 0x0C, CHR 0x0D, CHR 0x20]"

definition spaces2 :: "string list" where
  "spaces2 = [[CHR 0xC2, CHR 0x85], [CHR 0xC2, CHR 0xA0]]"

definition spaces3 :: "string list" where
  "spaces3 = [[CHR 0xE1, CHR 0x9A, CHR 0x80],
     [CHR 0xE2, CHR 0x80, CHR 0x80], [CHR 0xE2, CHR 0x80, CHR 0x81], [CHR 0xE2, CHR 0x80, CHR 0x82],
     [CHR 0xE2, CHR 0x80, CHR 0x83], [CHR 0xE2, CHR 0x80, CHR 0x84], [CHR 0xE2, CHR 0x80, CHR 0x85],
     [CHR 0xE2, CHR 0x80, CHR 0x86], [CHR 0xE2, CHR 0x80, CHR 0x87], [CHR 0xE2, CHR 0x80, CHR 0x88],
     [CHR 0xE2, CHR 0x80, CHR 0x89], [CHR 0xE2, CHR 0x80, CHR 0x8A], [CHR 0xE2, CHR 0x80, CHR 0xA8],
     [CHR 0xE2, CHR 0x80, CHR 0xA9], [CHR 0xE2, CHR 0x80, CHR 0xAF], [CHR 0xE2, CHR 0x81, CHR 0x9F],
     [CHR 0xE3, CHR 0x80, CHR 0x80]]"

text \<open>The number of bytes of the white space at the start of a string, 0 when there is none.\<close>

definition space_len :: "string list \<Rightarrow> string list \<Rightarrow> string \<Rightarrow> nat" where
  "space_len two three s =
     (case s of [] \<Rightarrow> 0
      | c # _ \<Rightarrow> if c \<in> set spaces1 then 1
                else if take 2 s \<in> set two then 2
                else if take 3 s \<in> set three then 3 else 0)"

lemma space_len_pos: "0 < space_len two three s \<Longrightarrow> 0 < length s"
  by (cases s) (simp_all add: space_len_def)

function trim_front :: "string list \<Rightarrow> string list \<Rightarrow> string \<Rightarrow> string" where
  "trim_front two three s =
     (if space_len two three s = 0 then s
      else trim_front two three (drop (space_len two three s) s))"
  by pat_completeness auto
termination
  by (relation "measure (\<lambda>(_, _, s). length s)") (auto intro: diff_less dest: space_len_pos)

declare trim_front.simps [simp del]

definition TrimSpace :: "string \<Rightarrow> string" where
  "TrimSpace s =
     rev (trim_front (map rev spaces2) (map rev spaces3) (rev (trim_front spaces2 spaces3 s)))"

text \<open>\<open>strings.Trim(s, cutset)\<close>.\<close>

definition Trim :: "string \<Rightarrow> char list \<Rightarrow> string" where
  "Trim s cs = rev (dropWhile (\<lambda>c. c \<in> set cs) (rev (dropWhile (\<lambda>c. c \<in> set cs) s)))"

text \<open>A printable ASCII byte other than the blank neither is nor starts nor ends white space.\<close>

definition is_graph :: "char \<Rightarrow> bool" where
  "is_graph c \<longleftrightarrow> 33 \<le> (of_char c :: nat) \<and> (of_char c :: nat) \<le> 126"

lemma is_graph_spaces1: "is_graph c \<Longrightarrow> c \<notin> set spaces1"
  by (auto simp: is_graph_def spaces1_def)

lemma space_len_graph_gen:
  assumes "is_graph c" and "\<forall>t\<in>set two \<union> set three. t \<noteq> [] \<and> \<not> is_graph (hd t)"
  shows "space_len two three (c # r) = 0"
proof -
  have "take n (c # r) \<notin> set two \<union> set three" if "0 < n" for n
  proof
    assume "take n (c # r) \<in> set two \<union> set three"
    with assms(2) have "\<not> is_graph (hd (take n (c # r)))" by blast
    with assms(1) that show False by (cases n) auto
  qed
  from this [of 2] this [of 3] show ?thesis
    using is_graph_spaces1 [OF assms(1)] by (simp add: space_len_def)
qed

lemma trim_front_graph:
  assumes "s \<noteq> [] \<Longrightarrow> is_graph (hd s)"
    and "\<forall>t\<in>set two \<union> set three. t \<noteq> [] \<and> \<not> is_graph (hd t)"
  shows "trim_front two three s = s"
proof (cases s)
  case (Cons c r)
  then have "space_len two three s = 0"
    using assms space_len_graph_gen [of c two three r] by simp
  then show ?thesis by (subst trim_front.simps) simp
qed (subst trim_front.simps, simp add: space_len_def)

lemma multibyte_spaces_not_graph:
  "\<forall>t\<in>set spaces2 \<union> set spaces3. t \<noteq> [] \<and> \<not> is_graph (hd t)"
  "\<forall>t\<in>set (map rev spaces2) \<union> set (map rev spaces3). t \<noteq> [] \<and> \<not> is_graph (hd t)"
  by (simp_all add: spaces2_def spaces3_def is_graph_def)

lemma TrimSpace_graph [simp]: "list_all is_graph s \<Longrightarrow> TrimSpace s = s"
proof -
  assume g: "list_all is_graph s"
  then have "trim_front spaces2 spaces3 s = s"
    using trim_front_graph [OF _ multibyte_spaces_not_graph(1), of s] by (cases s) auto
  moreover have "trim_front (map rev spaces2) (map rev spaces3) (rev s) = rev s"
    using trim_front_graph [OF _ multibyte_spaces_not_graph(2), of "rev s"] g
    by (cases s rule: rev_cases) auto
  ultimately show ?thesis by (simp add: TrimSpace_def)
qed

end
