(* ===== verification/Go_Strconv.thy ===== *)
theory Go_Strconv
  imports Go_Prelude
begin

text \<open>
  Numbers as text: \<open>strconv.Itoa\<close>, \<open>strconv.Atoi\<close>, \<open>strconv.Quote\<close>, the
  hexadecimal form of a hardware address, and the verbs \<open>%d\<close> and \<open>%s\<close> of
  \<open>fmt.Sscanf\<close>. The lemmas are the round trips (\<open>Atoi\<close> and \<open>%d\<close> read back
  what \<open>Itoa\<close> wrote) and the ranges.
\<close>

section \<open>Machine integers\<close>

definition wrap64 :: "int \<Rightarrow> int" where
  "wrap64 x = (x + 2 ^ 63) mod 2 ^ 64 - 2 ^ 63"

definition int64 :: "int \<Rightarrow> bool" where
  "int64 x \<longleftrightarrow> - (2 ^ 63) \<le> x \<and> x < 2 ^ 63"

lemma wrap64_id [simp]: "int64 x \<Longrightarrow> wrap64 x = x"
  by (simp add: wrap64_def int64_def)

lemma int64_wrap64 [simp]: "int64 (wrap64 x)"
  using pos_mod_bound [of "2 ^ 64" "x + 2 ^ 63"] pos_mod_sign [of "2 ^ 64" "x + 2 ^ 63"]
  by (simp add: wrap64_def int64_def)

section \<open>Decimal digits\<close>

definition is_digit :: "char \<Rightarrow> bool" where
  "is_digit c \<longleftrightarrow> 48 \<le> (of_char c :: nat) \<and> (of_char c :: nat) \<le> 57"

definition digit_val :: "char \<Rightarrow> nat" where
  "digit_val c = of_char c - 48"

definition digit_char :: "nat \<Rightarrow> char" where
  "digit_char d = char_of (48 + d)"

lemma of_char_digit_char: "d < 10 \<Longrightarrow> (of_char (digit_char d) :: nat) = 48 + d"
  by (simp add: digit_char_def)

lemma is_digit_digit_char [simp]: "d < 10 \<Longrightarrow> is_digit (digit_char d)"
  by (simp add: is_digit_def of_char_digit_char)

lemma digit_val_digit_char [simp]: "d < 10 \<Longrightarrow> digit_val (digit_char d) = d"
  by (simp add: digit_val_def of_char_digit_char)

lemma is_graph_digit: "is_digit c \<Longrightarrow> is_graph c"
  by (simp add: is_digit_def is_graph_def)

fun dec :: "nat \<Rightarrow> string" where
  "dec n = (if n < 10 then [digit_char n] else dec (n div 10) @ [digit_char (n mod 10)])"

declare dec.simps [simp del]

definition dec_val :: "string \<Rightarrow> nat" where
  "dec_val s = foldl (\<lambda>a c. 10 * a + digit_val c) 0 s"

lemma dec_val_snoc [simp]: "dec_val (s @ [c]) = 10 * dec_val s + digit_val c"
  by (simp add: dec_val_def)

lemma dec_val_dec [simp]: "dec_val (dec n) = n"
proof (induction n rule: dec.induct)
  case (1 n)
  show ?case
  proof (cases "n < 10")
    case True
    then show ?thesis by (subst dec.simps) (simp add: dec_val_def)
  next
    case False
    with "1" have "dec_val (dec (n div 10)) = n div 10" by simp
    with False show ?thesis by (subst dec.simps) simp
  qed
qed

lemma dec_digits [simp]: "list_all is_digit (dec n)"
proof (induction n rule: dec.induct)
  case (1 n)
  then show ?case by (subst dec.simps) simp
qed

lemma dec_nonempty [simp]: "dec n \<noteq> []"
  by (subst dec.simps) simp

lemma dec_inj [simp]: "dec m = dec n \<longleftrightarrow> m = n"
  by (metis dec_val_dec)

definition Itoa :: "int \<Rightarrow> string" where
  "Itoa i = (if i < 0 then CHR ''-'' # dec (nat (- i)) else dec (nat i))"

section \<open>\<open>strconv.Quote\<close> and \<open>strconv.Atoi\<close>\<close>

definition hex_char :: "nat \<Rightarrow> char" where
  "hex_char d = (if d < 10 then char_of (48 + d) else char_of (87 + d))"

text \<open>
  \<open>%q\<close> of a string. ASCII bytes are escaped as Go escapes them; a byte from 128 on belongs to
  a multi-byte code point and is kept, as Go keeps printable code points. The operator uses
  \<open>%q\<close> only in the text of errors.
\<close>

definition quote_char :: "char \<Rightarrow> string" where
  "quote_char c = (let n = of_char c :: nat in
     if n = 34 \<or> n = 92 then [CHR 92, c]
     else if n = 7 then [CHR 92, CHR ''a''] else if n = 8 then [CHR 92, CHR ''b'']
     else if n = 9 then [CHR 92, CHR ''t''] else if n = 10 then [CHR 92, CHR ''n'']
     else if n = 11 then [CHR 92, CHR ''v''] else if n = 12 then [CHR 92, CHR ''f'']
     else if n = 13 then [CHR 92, CHR ''r'']
     else if n < 32 \<or> n = 127 then [CHR 92, CHR ''x'', hex_char (n div 16), hex_char (n mod 16)]
     else [c])"

definition Quote :: "string \<Rightarrow> string" where
  "Quote s = [CHR 34] @ concat (map quote_char s) @ [CHR 34]"

definition num_error :: "string \<Rightarrow> string \<Rightarrow> string \<Rightarrow> goerror" where
  "num_error fn s why = Errorf (''strconv.'' @ fn @ '': parsing '' @ Quote s @ '': '' @ why)"

text \<open>An optional sign, then the rest.\<close>

definition split_sign :: "string \<Rightarrow> bool \<times> string" where
  "split_sign s = (case s of [] \<Rightarrow> (False, [])
     | c # r \<Rightarrow> if c = CHR ''-'' then (True, r) else if c = CHR ''+'' then (False, r) else (False, s))"

text \<open>
  \<open>ParseInt(s, 10, 64)\<close> and \<open>Atoi\<close>: the value and the error. On a syntax error the value
  is 0, on a range error it is the nearest representable integer.
\<close>

definition parse_int :: "string \<Rightarrow> string \<Rightarrow> int \<times> goerror option" where
  "parse_int fn s = (case split_sign s of (neg, ds) \<Rightarrow>
     if ds = [] \<or> \<not> list_all is_digit ds then (0, Some (num_error fn s ''invalid syntax''))
     else let v = int (dec_val ds) in
       if neg then (if 2 ^ 63 < v then (- (2 ^ 63), Some (num_error fn s ''value out of range''))
                    else (- v, None))
       else (if 2 ^ 63 \<le> v then (2 ^ 63 - 1, Some (num_error fn s ''value out of range''))
             else (v, None)))"

definition Atoi :: "string \<Rightarrow> int \<times> goerror option" where
  "Atoi s = parse_int ''Atoi'' s"

lemma digit_not_sign: "is_digit c \<Longrightarrow> c \<noteq> CHR ''-'' \<and> c \<noteq> CHR ''+''"
  by (auto simp: is_digit_def)

lemma split_sign_digits: "list_all is_digit s \<Longrightarrow> split_sign s = (False, s)"
  by (cases s) (auto simp: split_sign_def dest: digit_not_sign)

lemma parse_int_dec:
  "list_all is_digit ds \<Longrightarrow> ds \<noteq> [] \<Longrightarrow> int (dec_val ds) < 2 ^ 63 \<Longrightarrow> parse_int fn ds = (int (dec_val ds), None)"
  by (simp add: parse_int_def split_sign_digits Let_def)

lemma parse_int_Itoa [go_num]:
  assumes "int64 i"
  shows "parse_int fn (Itoa i) = (i, None)"
proof (cases "i < 0")
  case True
  then have "split_sign (Itoa i) = (True, dec (nat (- i)))"
    by (simp add: Itoa_def split_sign_def)
  then show ?thesis using True assms by (simp add: parse_int_def Let_def int64_def)
next
  case False
  then show ?thesis using assms
    by (simp add: Itoa_def parse_int_dec int64_def)
qed

lemma Atoi_Itoa [simp]: "int64 i \<Longrightarrow> Atoi (Itoa i) = (i, None)"
  by (simp add: Atoi_def parse_int_Itoa)

lemma parse_int_range: "parse_int fn s = (i, e) \<Longrightarrow> int64 i"
  by (auto simp: parse_int_def int64_def Let_def split: prod.splits if_splits)

lemma Itoa_inj: "Itoa i = Itoa j \<Longrightarrow> i = j"
proof -
  have sgn_first: "hd (Itoa k) = CHR ''-'' \<longleftrightarrow> k < 0" for k
    using dec_digits [of "nat k"] by (cases "dec (nat k)") (auto simp: Itoa_def dest: digit_not_sign)
  assume eq: "Itoa i = Itoa j"
  then have "i < 0 \<longleftrightarrow> j < 0" using sgn_first by metis
  with eq show ?thesis by (auto simp: Itoa_def split: if_splits)
qed

section \<open>Hardware addresses\<close>

text \<open>\<open>net.HardwareAddr.String\<close>: lower-case hexadecimal pairs separated by colons.\<close>

definition hex_byte :: "8 word \<Rightarrow> string" where
  "hex_byte b = [hex_char (unat b div 16), hex_char (unat b mod 16)]"

definition mac_String :: "8 word list \<Rightarrow> string" where
  "mac_String bs = Join (map hex_byte bs) '':''"

section \<open>\<open>fmt.Sscanf\<close>\<close>

text \<open>
  The scanner reads a verb after skipping white space, in which a newline is an error;
  it leaves the input that follows the last verb unread, and nothing requires that there is none.
\<close>

function skip_space :: "string \<Rightarrow> string res" where
  "skip_space s =
     (if s \<noteq> [] \<and> (hd s = CHR 0x0A \<or> take 2 s = [CHR 0x0D, CHR 0x0A]) then Inl (Errorf ''unexpected newline'')
      else if space_len spaces2 spaces3 s = 0 then Inr s
      else skip_space (drop (space_len spaces2 spaces3 s) s))"
  by pat_completeness auto
termination
  by (relation "measure length") (auto intro: diff_less dest: space_len_pos)

declare skip_space.simps [simp del]

text \<open>A literal part of the format.\<close>

fun scan_lit :: "string \<Rightarrow> string \<Rightarrow> string res" where
  "scan_lit [] s = Inr s"
| "scan_lit (c # cs) [] = Inl (Errorf ''unexpected EOF'')"
| "scan_lit (c # cs) (x # xs) =
     (if c = x then scan_lit cs xs else Inl (Errorf ''input does not match format''))"

text \<open>The verb \<open>%d\<close> into an \<open>int\<close>: an optional sign and the longest run of digits.\<close>

definition scan_d :: "string \<Rightarrow> (int \<times> string) res" where
  "scan_d s = (case skip_space s of Inl e \<Rightarrow> Inl e
    | Inr r \<Rightarrow>
      if r = [] then Inl (Errorf ''EOF'')
      else (case (if hd r = CHR ''-'' \<or> hd r = CHR ''+'' then ([hd r], tl r) else ([], r)) of
        (sign, r') \<Rightarrow>
          if r' = [] then Inl (Errorf ''EOF'')
          else if \<not> is_digit (hd r') then Inl (Errorf ''expected integer'')
          else (case parse_int ''ParseInt'' (sign @ takeWhile is_digit r') of
                 (i, None) \<Rightarrow> Inr (i, dropWhile is_digit r')
               | (i, Some e) \<Rightarrow> Inl e)))"

text \<open>The verb \<open>%s\<close>: the longest run of bytes up to the next white space.\<close>

function scan_word :: "string \<Rightarrow> string" where
  "scan_word s =
     (if s = [] \<or> space_len spaces2 spaces3 s \<noteq> 0 then [] else hd s # scan_word (tl s))"
  by pat_completeness auto
termination
  by (relation "measure length") auto

declare scan_word.simps [simp del]

definition scan_s :: "string \<Rightarrow> string res" where
  "scan_s s = (case skip_space s of Inl e \<Rightarrow> Inl e
    | Inr r \<Rightarrow> if r = [] then Inl (Errorf ''EOF'') else Inr (scan_word r))"

lemma space_len_graph: "is_graph c \<Longrightarrow> space_len spaces2 spaces3 (c # s) = 0"
  by (rule space_len_graph_gen [OF _ multibyte_spaces_not_graph(1)])

lemma skip_space_graph [simp]: "is_graph c \<Longrightarrow> skip_space (c # s) = Inr (c # s)"
  by (subst skip_space.simps) (auto simp: space_len_graph is_graph_def)

lemma scan_word_graph [simp]: "list_all is_graph s \<Longrightarrow> scan_word s = s"
proof (induction s)
  case Nil
  then show ?case by (subst scan_word.simps) simp
next
  case (Cons c s)
  then show ?case by (subst scan_word.simps) (simp add: space_len_graph)
qed

lemma scan_s_graph: "list_all is_graph s \<Longrightarrow> s \<noteq> [] \<Longrightarrow> scan_s s = Inr s"
  by (cases s) (auto simp: scan_s_def)

lemma scan_lit_append [simp]: "scan_lit p (p @ s) = Inr s"
  by (induction p) auto

lemma scan_lit_Inr: "scan_lit p s = Inr r \<longleftrightarrow> s = p @ r"
  by (induction p s rule: scan_lit.induct) auto

lemma takeWhile_digits: "list_all is_digit ds \<Longrightarrow> (r = [] \<or> \<not> is_digit (hd r)) \<Longrightarrow>
   takeWhile is_digit (ds @ r) = ds \<and> dropWhile is_digit (ds @ r) = r"
  by (induction ds) (cases r; auto)+

text \<open>What \<open>%d\<close> printed, \<open>%d\<close> reads back, when no digit follows.\<close>

lemma scan_d_Itoa [simp]:
  assumes "int64 i" and "r = [] \<or> \<not> is_digit (hd r)"
  shows "scan_d (Itoa i @ r) = Inr (i, r)"
proof (cases "i < 0")
  case True
  have g: "is_graph CHR ''-''" by (simp add: is_graph_def)
  obtain c cs where d: "dec (nat (- i)) = c # cs" by (cases "dec (nat (- i))") auto
  then have "is_digit c" using dec_digits [of "nat (- i)"] by simp
  then show ?thesis
    using True takeWhile_digits [OF dec_digits assms(2), of "nat (- i)"] parse_int_Itoa [OF assms(1)]
    by (simp add: scan_d_def Itoa_def g d)
next
  case False
  obtain c cs where d: "dec (nat i) = c # cs" by (cases "dec (nat i)") auto
  then have c: "is_digit c" using dec_digits [of "nat i"] by simp
  then show ?thesis
    using False takeWhile_digits [OF dec_digits assms(2), of "nat i"] parse_int_Itoa [OF assms(1)]
      digit_not_sign [OF c] is_graph_digit [OF c]
    by (simp add: scan_d_def Itoa_def d)
qed

end
