(* ===== verification/Go_Netip.thy ===== *)
theory Go_Netip
  imports Go_Strconv
begin

text \<open>
  The part of \<open>net/netip\<close> the operator validates addresses with: \<open>ParseAddr\<close>,
  \<open>ParsePrefix\<close>, \<open>ParseAddrPort\<close> and \<open>Addr.String\<close>. An address is its bytes,
  with the zone for IPv6. The lemmas give the ranges of what the parsers accept.
\<close>

datatype addr = Addr4 "nat list" | Addr6 "nat list" string

definition parse_addr_error :: "string \<Rightarrow> string \<Rightarrow> string \<Rightarrow> goerror" where
  "parse_addr_error inp msg at =
     Errorf (''ParseAddr('' @ Quote inp @ ''): '' @ msg @
       (if at = [] then [] else '' (at '' @ Quote at @ '')''))"

section \<open>IPv4\<close>

text \<open>The loop of \<open>parseIPv4Fields\<close>: the previous byte, the rest, the octet read so far, its
  number of digits, the finished octets.\<close>

fun v4_loop :: "string \<Rightarrow> char option \<Rightarrow> string \<Rightarrow> nat \<Rightarrow> nat \<Rightarrow> nat list \<Rightarrow> nat list res" where
  "v4_loop inp prev [] val dl fs =
     (if length fs < 3 then Inl (parse_addr_error inp ''IPv4 address too short'' [])
      else Inr (fs @ [val]))"
| "v4_loop inp prev (c # r) val dl fs =
     (if is_digit c then
        (if dl = 1 \<and> val = 0 then Inl (parse_addr_error inp ''IPv4 field has octet with leading zero'' [])
         else if 255 < 10 * val + digit_val c then Inl (parse_addr_error inp ''IPv4 field has value >255'' [])
         else v4_loop inp (Some c) r (10 * val + digit_val c) (Suc dl) fs)
      else if c = CHR ''.'' then
        (if prev = None \<or> r = [] \<or> prev = Some (CHR ''.'')
         then Inl (parse_addr_error inp ''IPv4 field must have at least one digit'' (c # r))
         else if length fs = 3 then Inl (parse_addr_error inp ''IPv4 address too long'' [])
         else v4_loop inp (Some c) r 0 0 (fs @ [val]))
      else Inl (parse_addr_error inp ''unexpected character'' (c # r)))"

definition parse_v4_fields :: "string \<Rightarrow> string \<Rightarrow> nat list res" where
  "parse_v4_fields inp s = v4_loop inp None s 0 0 []"

lemma v4_loop_ok:
  "v4_loop inp prev s val dl fs = Inr bs \<Longrightarrow> val < 256 \<Longrightarrow> length fs \<le> 3 \<Longrightarrow> list_all (\<lambda>b. b < 256) fs
   \<Longrightarrow> length bs = 4 \<and> list_all (\<lambda>b. b < 256) bs"
  by (induction inp prev s val dl fs rule: v4_loop.induct) (auto split: if_splits)

section \<open>IPv6\<close>

definition is_hex :: "char \<Rightarrow> bool" where
  "is_hex c \<longleftrightarrow> (let n = of_char c :: nat in
     (48 \<le> n \<and> n \<le> 57) \<or> (97 \<le> n \<and> n \<le> 102) \<or> (65 \<le> n \<and> n \<le> 70))"

definition hex_val :: "char \<Rightarrow> nat" where
  "hex_val c = (let n = of_char c :: nat in
     if n \<le> 57 then n - 48 else if 97 \<le> n then n - 87 else n - 55)"

definition hexs_val :: "string \<Rightarrow> nat" where
  "hexs_val s = foldl (\<lambda>a c. 16 * a + hex_val c) 0 s"

text \<open>
  The loop over the groups: the rest of the text, the bytes read so far and the position of the
  ellipsis. It stops after 16 bytes, at the end of the text, or after an embedded IPv4 address.
\<close>

function v6_loop :: "string \<Rightarrow> string \<Rightarrow> nat list \<Rightarrow> nat option \<Rightarrow> (string \<times> nat list \<times> nat option) res" where
  "v6_loop inp s ip ell =
     (if 16 \<le> length ip then Inr (s, ip, ell)
      else let h = takeWhile is_hex s; r = dropWhile is_hex s in
        if 4 < length h then Inl (parse_addr_error inp ''each group must have 4 or less digits'' s)
        else if h = [] then Inl (parse_addr_error inp ''each colon-separated field must have at least one digit'' s)
        else if r \<noteq> [] \<and> hd r = CHR ''.'' then
          (if ell = None \<and> length ip \<noteq> 12
           then Inl (parse_addr_error inp ''embedded IPv4 address must replace the final 2 fields of the address'' s)
           else if 16 < length ip + 4
           then Inl (parse_addr_error inp ''too many hex fields to fit an embedded IPv4 at the end of the address'' s)
           else (case parse_v4_fields inp s of Inl e \<Rightarrow> Inl e | Inr bs \<Rightarrow> Inr ([], ip @ bs, ell)))
        else let v = hexs_val h; ip' = ip @ [v div 256, v mod 256] in
          if r = [] then Inr ([], ip', ell)
          else if hd r \<noteq> CHR '':'' then Inl (parse_addr_error inp ''unexpected character, want colon'' r)
          else if tl r = [] then Inl (parse_addr_error inp ''colon must be followed by more characters'' r)
          else if hd (tl r) = CHR '':'' then
            (if ell \<noteq> None then Inl (parse_addr_error inp ''multiple :: in address'' (tl r))
             else if tl (tl r) = [] then Inr ([], ip', Some (length ip'))
             else v6_loop inp (tl (tl r)) ip' (Some (length ip')))
          else v6_loop inp (tl r) ip' ell)"
  by pat_completeness auto
termination
  by (relation "measure (\<lambda>(inp, s, ip, ell). 16 - length ip)") auto

declare v6_loop.simps [simp del]

definition parse_v6 :: "string \<Rightarrow> addr res" where
  "parse_v6 inp =
     (case cut_at CHR ''%'' inp of
        Some (_, []) \<Rightarrow> Inl (parse_addr_error inp ''zone must be a non-empty string'' [])
      | split \<Rightarrow>
        (let (s, zone) = (case split of None \<Rightarrow> (inp, []) | Some (a, z) \<Rightarrow> (a, z));
             lead = HasPrefix s ''::''; s' = (if lead then drop 2 s else s) in
         if lead \<and> s' = [] then Inr (Addr6 (replicate 16 0) zone)
         else (case v6_loop inp s' [] (if lead then Some 0 else None) of
             Inl e \<Rightarrow> Inl e
           | Inr (rest, ip, ell) \<Rightarrow>
               if rest \<noteq> [] then Inl (parse_addr_error inp ''trailing garbage after address'' rest)
               else if length ip < 16 then
                 (case ell of None \<Rightarrow> Inl (parse_addr_error inp ''address string too short'' [])
                  | Some e \<Rightarrow> Inr (Addr6 (take e ip @ replicate (16 - length ip) 0 @ drop e ip) zone))
               else if ell \<noteq> None
               then Inl (parse_addr_error inp ''the :: must expand to at least one field of zeros'' [])
               else Inr (Addr6 ip zone))))"

section \<open>The entry points\<close>

text \<open>\<open>ParseAddr\<close> looks for the first of the three bytes that tell the form.\<close>

fun addr_form :: "string \<Rightarrow> char option" where
  "addr_form [] = None"
| "addr_form (c # r) = (if c \<in> {CHR ''.'', CHR '':'', CHR ''%''} then Some c else addr_form r)"

definition ParseAddr :: "string \<Rightarrow> addr res" where
  "ParseAddr s = (case addr_form s of
      None \<Rightarrow> Inl (parse_addr_error s ''unable to parse IP'' [])
    | Some c \<Rightarrow>
        if c = CHR ''.'' then (case parse_v4_fields s s of Inl e \<Rightarrow> Inl e | Inr bs \<Rightarrow> Inr (Addr4 bs))
        else if c = CHR '':'' then parse_v6 s
        else Inl (parse_addr_error s ''missing IPv6 address'' []))"

text \<open>The part before and after the last occurrence of a byte.\<close>

definition cut_last :: "char \<Rightarrow> string \<Rightarrow> (string \<times> string) option" where
  "cut_last c s = map_option (\<lambda>(a, b). (rev b, rev a)) (cut_at c (rev s))"

definition parse_prefix_error :: "string \<Rightarrow> string \<Rightarrow> goerror" where
  "parse_prefix_error s msg = Errorf (''netip.ParsePrefix('' @ Quote s @ ''): '' @ msg)"

fun max_bits :: "addr \<Rightarrow> int" where
  "max_bits (Addr4 _) = 32"
| "max_bits (Addr6 _ _) = 128"

fun has_zone :: "addr \<Rightarrow> bool" where
  "has_zone (Addr4 _) = False"
| "has_zone (Addr6 _ z) = (z \<noteq> [])"

definition ParsePrefix :: "string \<Rightarrow> (addr \<times> int) res" where
  "ParsePrefix s = (case cut_last CHR ''/'' s of
      None \<Rightarrow> Inl (parse_prefix_error s (''no '' @ [CHR 39] @ ''/'' @ [CHR 39]))
    | Some (a, bits) \<Rightarrow> (case ParseAddr a of
        Inl e \<Rightarrow> Inl (parse_prefix_error s (error_text e))
      | Inr ip \<Rightarrow>
          if has_zone ip then Inl (parse_prefix_error s ''IPv6 zones cannot be present in a prefix'')
          else if 1 < length bits \<and> \<not> (is_digit (hd bits) \<and> hd bits \<noteq> CHR ''0'')
          then Inl (parse_prefix_error s (''bad bits after slash: '' @ Quote bits))
          else (case Atoi bits of
              (_, Some e) \<Rightarrow> Inl (parse_prefix_error s (''bad bits after slash: '' @ Quote bits))
            | (n, None) \<Rightarrow>
                if n < 0 \<or> max_bits ip < n then Inl (parse_prefix_error s ''prefix length out of range'')
                else Inr (ip, n))))"

definition is_prefix_text :: "string \<Rightarrow> bool" where
  "is_prefix_text s \<longleftrightarrow> (case ParsePrefix s of Inl _ \<Rightarrow> False | Inr _ \<Rightarrow> True)"

fun is_v4 :: "addr \<Rightarrow> bool" where
  "is_v4 (Addr4 _) = True"
| "is_v4 (Addr6 _ _) = False"

definition ParseAddrPort :: "string \<Rightarrow> (addr \<times> nat) res" where
  "ParseAddrPort s = (case cut_last CHR '':'' s of
      None \<Rightarrow> Inl (Errorf ''not an ip:port'')
    | Some (ip, port) \<Rightarrow>
        if ip = [] then Inl (Errorf ''no IP'')
        else if port = [] then Inl (Errorf ''no port'')
        else let v6 = (hd ip = CHR ''['') in
          if v6 \<and> (length ip < 2 \<or> last ip \<noteq> CHR '']'') then Inl (Errorf ''missing ]'')
          else let host = (if v6 then butlast (tl ip) else ip) in
            if \<not> list_all is_digit port \<or> 65535 < dec_val port
            then Inl (Errorf (''invalid port '' @ Quote port @ '' parsing '' @ Quote s))
            else (case ParseAddr host of Inl e \<Rightarrow> Inl e
              | Inr a \<Rightarrow>
                  if v6 \<and> is_v4 a
                  then Inl (Errorf (''invalid ip:port '' @ Quote s @ '', square brackets can only be used with IPv6 addresses''))
                  else if \<not> v6 \<and> \<not> is_v4 a
                  then Inl (Errorf (''invalid ip:port '' @ Quote s @ '', IPv6 addresses must be surrounded by square brackets''))
                  else Inr (a, dec_val port)))"

section \<open>\<open>Addr.String\<close>\<close>

fun hex :: "nat \<Rightarrow> string" where
  "hex n = (if n < 16 then [hex_char n] else hex (n div 16) @ [hex_char (n mod 16)])"

declare hex.simps [simp del]

fun groups16 :: "nat list \<Rightarrow> nat list" where
  "groups16 (a # b # r) = (256 * a + b) # groups16 r"
| "groups16 _ = []"

definition zero_run :: "nat list \<Rightarrow> nat \<Rightarrow> nat" where
  "zero_run gs i = length (takeWhile (\<lambda>g. g = 0) (drop i gs))"

text \<open>The first longest run of at least two zero groups, as its start and its end.\<close>

definition best_zeros :: "nat list \<Rightarrow> nat \<times> nat" where
  "best_zeros gs = foldl (\<lambda>(s, e) i. if 2 \<le> zero_run gs i \<and> e - s < zero_run gs i then (i, i + zero_run gs i) else (s, e))
     (0, 0) [0..<8]"

definition v4_String :: "nat list \<Rightarrow> string" where
  "v4_String bs = Join (map dec bs) ''.''"

fun addr_String :: "addr \<Rightarrow> string" where
  "addr_String (Addr4 bs) = v4_String bs"
| "addr_String (Addr6 bs z) =
     (let body =
        (if take 12 bs = replicate 10 0 @ [255, 255] then ''::ffff:'' @ v4_String (drop 12 bs)
         else let gs = groups16 bs in (case best_zeros gs of (s, e) \<Rightarrow>
           if e = 0 then Join (map hex gs) '':''
           else Join (map hex (take s gs)) '':'' @ ''::'' @ Join (map hex (drop e gs)) '':''))
      in if z = [] then body else body @ ''%'' @ z)"

section \<open>What the parsers accept\<close>

lemma ParsePrefix_bits:
  "ParsePrefix s = Inr (ip, n) \<Longrightarrow> 0 \<le> n \<and> n \<le> max_bits ip"
  by (auto simp: ParsePrefix_def split: option.splits sum.splits if_splits prod.splits)

end
