(* ===== verification/Redis_Client.thy ===== *)
theory Redis_Client
  imports Go_Netip "HOL-Library.AList"
begin

text \<open>
  The Redis client (\<open>github.com/redis/go-redis\<close>) is not part of the repository: it is a
  parameter of the model, a record of the calls the operator makes. \<open>'c\<close> is the type of a
  \<open>*redis.Client\<close> and \<open>'w\<close> the world the calls act on.

  What the operator relies on is the predicate \<open>redis_contract\<close>, the documented behaviour of
  the commands on databases of hashes. It is relative to an abstraction of the world: the number
  of the database a client selects, the hash stored at each key, whether the server is reachable
  and answers, and the key patterns of \<open>KEYS\<close> and \<open>SCAN\<close>. A read never changes the data; a
  write that reports success has the documented effect on one key; nothing is promised of a write
  that reports an error.

  \<open>mem_redis\<close> is a store in memory that satisfies the contract. The concrete instances of
  the properties use it, no definition of the model does.
\<close>

record ('c, 'w) redis =
  HGet :: "'c \<Rightarrow> string \<Rightarrow> string \<Rightarrow> ('w, string res) state"
  HGetAll :: "'c \<Rightarrow> string \<Rightarrow> ('w, gomap res) state"
  HSet :: "'c \<Rightarrow> string \<Rightarrow> gomap \<Rightarrow> ('w, goerror option) state"
  HDel :: "'c \<Rightarrow> string \<Rightarrow> string \<Rightarrow> ('w, goerror option) state"
  HExists :: "'c \<Rightarrow> string \<Rightarrow> string \<Rightarrow> ('w, bool res) state"
  Exists :: "'c \<Rightarrow> string \<Rightarrow> ('w, int res) state"
  Del :: "'c \<Rightarrow> string \<Rightarrow> ('w, goerror option) state"
  Keys :: "'c \<Rightarrow> string \<Rightarrow> ('w, string list res) state"
  Scan :: "'c \<Rightarrow> 64 word \<Rightarrow> string \<Rightarrow> int \<Rightarrow> ('w, (string list \<times> 64 word) res) state"
  Ping :: "'c \<Rightarrow> ('w, goerror option) state"
  Close :: "'c \<Rightarrow> ('w, goerror option) state"
  NewClient :: "string \<Rightarrow> int \<Rightarrow> ('w, 'c) state"

text \<open>The abstraction the contract is relative to.\<close>

type_synonym hashes = "int \<Rightarrow> string \<Rightarrow> string \<rightharpoonup> string"

record ('c, 'w) store_view =
  db_of :: "'c \<Rightarrow> int"
  hashes_of :: "'w \<Rightarrow> hashes"
  reachable :: "'w \<Rightarrow> bool"
  glob :: "string \<Rightarrow> string \<Rightarrow> bool"

definition upd_hash :: "int \<Rightarrow> string \<Rightarrow> (string \<rightharpoonup> string) \<Rightarrow> hashes \<Rightarrow> hashes" where
  "upd_hash d k h H = H(d := (H d)(k := h))"

lemma upd_hash_apply [simp]: "upd_hash d k h H d' k' = (if d' = d \<and> k' = k then h else H d' k')"
  by (simp add: upd_hash_def)

text \<open>A pattern without special characters but one star matches by prefix and suffix.\<close>

definition plain :: "string \<Rightarrow> bool" where
  "plain p \<longleftrightarrow> (\<forall>c\<in>set p. c \<notin> {CHR ''*'', CHR ''?'', CHR ''['', CHR '']'', CHR 92})"

lemma plain_append [simp]: "plain (p @ q) \<longleftrightarrow> plain p \<and> plain q"
  by (auto simp: plain_def)

lemma plain_no_star: "plain p \<Longrightarrow> CHR ''*'' \<notin> set p"
  by (auto simp: plain_def)

definition glob_law :: "('c, 'w) store_view \<Rightarrow> bool" where
  "glob_law V \<longleftrightarrow> (\<forall>p q k. plain p \<longrightarrow> plain q \<longrightarrow>
     (glob V (p @ CHR ''*'' # q) k \<longleftrightarrow> (\<exists>m. k = p @ m @ q)))"

section \<open>The contract\<close>

text \<open>A reachable server answers, and stays reachable across a call.\<close>

definition answers :: "('w \<Rightarrow> bool) \<Rightarrow> ('w, 'a res) state \<Rightarrow> bool" where
  "answers up m \<longleftrightarrow> (\<forall>w. up w \<longrightarrow> (\<exists>v w'. run m w = (Inr v, w') \<and> up w'))"

definition accepts :: "('w \<Rightarrow> bool) \<Rightarrow> ('w, goerror option) state \<Rightarrow> bool" where
  "accepts up m \<longleftrightarrow> (\<forall>w. up w \<longrightarrow> (\<exists>w'. run m w = (None, w') \<and> up w'))"

text \<open>One law per command: what it returns and does, and that it succeeds on a reachable server.\<close>

definition HGet_law :: "('c, 'w) redis \<Rightarrow> ('c, 'w) store_view \<Rightarrow> bool" where
  "HGet_law R V \<longleftrightarrow>
     (\<forall>c k f w r w'. run (HGet R c k f) w = (r, w') \<longrightarrow> hashes_of V w' = hashes_of V w \<and>
        (case r of Inr v \<Rightarrow> hashes_of V w (db_of V c) k f = Some v
         | Inl e \<Rightarrow> (is_redis_nil e \<longrightarrow> hashes_of V w (db_of V c) k f = None)) \<and>
        (reachable V w \<longrightarrow> reachable V w' \<and> (\<forall>e. r = Inl e \<longrightarrow> is_redis_nil e)))"

definition HGetAll_law :: "('c, 'w) redis \<Rightarrow> ('c, 'w) store_view \<Rightarrow> bool" where
  "HGetAll_law R V \<longleftrightarrow>
     (\<forall>c k. answers (reachable V) (HGetAll R c k)) \<and>
     (\<forall>c k w r w'. run (HGetAll R c k) w = (r, w') \<longrightarrow> hashes_of V w' = hashes_of V w \<and>
        (\<forall>m. r = Inr m \<longrightarrow> map_of m = hashes_of V w (db_of V c) k))"

definition HExists_law :: "('c, 'w) redis \<Rightarrow> ('c, 'w) store_view \<Rightarrow> bool" where
  "HExists_law R V \<longleftrightarrow>
     (\<forall>c k f. answers (reachable V) (HExists R c k f)) \<and>
     (\<forall>c k f w r w'. run (HExists R c k f) w = (r, w') \<longrightarrow> hashes_of V w' = hashes_of V w \<and>
        (\<forall>b. r = Inr b \<longrightarrow> (b \<longleftrightarrow> hashes_of V w (db_of V c) k f \<noteq> None)))"

definition Exists_law :: "('c, 'w) redis \<Rightarrow> ('c, 'w) store_view \<Rightarrow> bool" where
  "Exists_law R V \<longleftrightarrow>
     (\<forall>c k. answers (reachable V) (Exists R c k)) \<and>
     (\<forall>c k w r w'. run (Exists R c k) w = (r, w') \<longrightarrow> hashes_of V w' = hashes_of V w \<and>
        (\<forall>n. r = Inr n \<longrightarrow> n = (if hashes_of V w (db_of V c) k = Map.empty then 0 else 1)))"

definition Keys_law :: "('c, 'w) redis \<Rightarrow> ('c, 'w) store_view \<Rightarrow> bool" where
  "Keys_law R V \<longleftrightarrow>
     (\<forall>c p. answers (reachable V) (Keys R c p)) \<and>
     (\<forall>c p w r w'. run (Keys R c p) w = (r, w') \<longrightarrow> hashes_of V w' = hashes_of V w \<and>
        (\<forall>ks. r = Inr ks \<longrightarrow> distinct ks \<and>
           set ks = {k. hashes_of V w (db_of V c) k \<noteq> Map.empty \<and> glob V p k}))"

definition HSet_law :: "('c, 'w) redis \<Rightarrow> ('c, 'w) store_view \<Rightarrow> bool" where
  "HSet_law R V \<longleftrightarrow>
     (\<forall>c k fvs. fvs \<noteq> [] \<longrightarrow> accepts (reachable V) (HSet R c k fvs)) \<and>
     (\<forall>c k fvs w w'. run (HSet R c k fvs) w = (None, w') \<longrightarrow>
        hashes_of V w' = upd_hash (db_of V c) k (hashes_of V w (db_of V c) k ++ map_of (rev fvs)) (hashes_of V w))"

definition HDel_law :: "('c, 'w) redis \<Rightarrow> ('c, 'w) store_view \<Rightarrow> bool" where
  "HDel_law R V \<longleftrightarrow>
     (\<forall>c k f. accepts (reachable V) (HDel R c k f)) \<and>
     (\<forall>c k f w w'. run (HDel R c k f) w = (None, w') \<longrightarrow>
        hashes_of V w' = upd_hash (db_of V c) k ((hashes_of V w (db_of V c) k)(f := None)) (hashes_of V w))"

definition Del_law :: "('c, 'w) redis \<Rightarrow> ('c, 'w) store_view \<Rightarrow> bool" where
  "Del_law R V \<longleftrightarrow>
     (\<forall>c k. accepts (reachable V) (Del R c k)) \<and>
     (\<forall>c k w w'. run (Del R c k) w = (None, w') \<longrightarrow>
        hashes_of V w' = upd_hash (db_of V c) k Map.empty (hashes_of V w))"

text \<open>
  A full iteration of \<open>SCAN\<close>: from a cursor through the cursors the server returns, until it
  returns 0. The server promises that a full iteration over data that does not change returns the
  matching keys (some perhaps more than once) and, on a finite database, that it ends.
\<close>

inductive scan_run :: "('c, 'w) redis \<Rightarrow> 'c \<Rightarrow> string \<Rightarrow> 64 word \<Rightarrow> 'w \<Rightarrow> string list list \<Rightarrow> 'w \<Rightarrow> bool"
  for R c p where
  scan_last: "run (Scan R c cur p 100) w = (Inr (b, 0), w') \<Longrightarrow> scan_run R c p cur w [b] w'"
| scan_more: "run (Scan R c cur p 100) w = (Inr (b, nxt), w') \<Longrightarrow> nxt \<noteq> 0 \<Longrightarrow>
     scan_run R c p nxt w' bs w'' \<Longrightarrow> scan_run R c p cur w (b # bs) w''"

definition Scan_law :: "('c, 'w) redis \<Rightarrow> ('c, 'w) store_view \<Rightarrow> bool" where
  "Scan_law R V \<longleftrightarrow>
     (\<forall>c p w. reachable V w \<longrightarrow> (\<exists>bs w'. scan_run R c p 0 w bs w' \<and> reachable V w')) \<and>
     (\<forall>c cur p n w r w'. run (Scan R c cur p n) w = (r, w') \<longrightarrow> hashes_of V w' = hashes_of V w) \<and>
     (\<forall>c p w bs w'. scan_run R c p 0 w bs w' \<longrightarrow>
        set (concat bs) = {k. hashes_of V w (db_of V c) k \<noteq> Map.empty \<and> glob V p k})"

definition Client_law :: "('c, 'w) redis \<Rightarrow> ('c, 'w) store_view \<Rightarrow> bool" where
  "Client_law R V \<longleftrightarrow>
     (\<forall>a d w c w'. run (NewClient R a d) w = (c, w') \<longrightarrow> db_of V c = d \<and> hashes_of V w' = hashes_of V w \<and>
        (reachable V w \<longrightarrow> reachable V w')) \<and>
     (\<forall>c. accepts (reachable V) (Ping R c)) \<and>
     (\<forall>c. accepts (reachable V) (Close R c)) \<and>
     (\<forall>c w r w'. run (Ping R c) w = (r, w') \<longrightarrow> hashes_of V w' = hashes_of V w) \<and>
     (\<forall>c w r w'. run (Close R c) w = (r, w') \<longrightarrow> hashes_of V w' = hashes_of V w)"

definition redis_contract :: "('c, 'w) redis \<Rightarrow> ('c, 'w) store_view \<Rightarrow> bool" where
  "redis_contract R V \<longleftrightarrow>
     HGet_law R V \<and> HGetAll_law R V \<and> HExists_law R V \<and> Exists_law R V \<and> Keys_law R V \<and>
     HSet_law R V \<and> HDel_law R V \<and> Del_law R V \<and> Scan_law R V \<and> Client_law R V \<and> glob_law V"

section \<open>The laws, one by one\<close>

lemma redis_contractD:
  assumes "redis_contract R V"
  shows "HGet_law R V" "HGetAll_law R V" "HExists_law R V" "Exists_law R V" "Keys_law R V"
    "HSet_law R V" "HDel_law R V" "Del_law R V" "Scan_law R V" "Client_law R V" "glob_law V"
  using assms by (simp_all add: redis_contract_def)

lemma HGet_data:
  "redis_contract R V \<Longrightarrow> run (HGet R c k f) w = (r, w') \<Longrightarrow> hashes_of V w' = hashes_of V w"
  using redis_contractD(1) [of R V] unfolding HGet_law_def by blast

lemma HGet_cases:
  assumes "redis_contract R V" and "run (HGet R c k f) w = (r, w')"
  shows "case r of Inr v \<Rightarrow> hashes_of V w (db_of V c) k f = Some v
         | Inl e \<Rightarrow> (is_redis_nil e \<longrightarrow> hashes_of V w (db_of V c) k f = None)"
  using redis_contractD(1) [OF assms(1)] assms(2) unfolding HGet_law_def by blast

lemma HGet_Inr:
  "redis_contract R V \<Longrightarrow> run (HGet R c k f) w = (Inr v, w') \<Longrightarrow> hashes_of V w (db_of V c) k f = Some v"
  by (drule (1) HGet_cases) simp

lemma HGet_nil:
  "redis_contract R V \<Longrightarrow> run (HGet R c k f) w = (Inl e, w') \<Longrightarrow> is_redis_nil e
   \<Longrightarrow> hashes_of V w (db_of V c) k f = None"
  by (drule (1) HGet_cases) simp

lemma HGet_up:
  "redis_contract R V \<Longrightarrow> reachable V w \<Longrightarrow> run (HGet R c k f) w = (r, w')
   \<Longrightarrow> reachable V w' \<and> (\<forall>e. r = Inl e \<longrightarrow> is_redis_nil e)"
  using redis_contractD(1) [of R V] unfolding HGet_law_def by blast

lemma HGetAll_data:
  "redis_contract R V \<Longrightarrow> run (HGetAll R c k) w = (r, w') \<Longrightarrow> hashes_of V w' = hashes_of V w"
  using redis_contractD(2) [of R V] unfolding HGetAll_law_def by blast

lemma HGetAll_Inr:
  "redis_contract R V \<Longrightarrow> run (HGetAll R c k) w = (Inr m, w') \<Longrightarrow> map_of m = hashes_of V w (db_of V c) k"
  using redis_contractD(2) [of R V] unfolding HGetAll_law_def by blast

lemma HExists_data:
  "redis_contract R V \<Longrightarrow> run (HExists R c k f) w = (r, w') \<Longrightarrow> hashes_of V w' = hashes_of V w"
  using redis_contractD(3) [of R V] unfolding HExists_law_def by blast

lemma HExists_Inr:
  "redis_contract R V \<Longrightarrow> run (HExists R c k f) w = (Inr b, w')
   \<Longrightarrow> b \<longleftrightarrow> hashes_of V w (db_of V c) k f \<noteq> None"
  using redis_contractD(3) [of R V] unfolding HExists_law_def by blast

lemma Exists_data:
  "redis_contract R V \<Longrightarrow> run (Exists R c k) w = (r, w') \<Longrightarrow> hashes_of V w' = hashes_of V w"
  using redis_contractD(4) [of R V] unfolding Exists_law_def by blast

lemma Exists_Inr:
  "redis_contract R V \<Longrightarrow> run (Exists R c k) w = (Inr n, w')
   \<Longrightarrow> n = (if hashes_of V w (db_of V c) k = Map.empty then 0 else 1)"
  using redis_contractD(4) [of R V] unfolding Exists_law_def by blast

lemma Keys_data:
  "redis_contract R V \<Longrightarrow> run (Keys R c p) w = (r, w') \<Longrightarrow> hashes_of V w' = hashes_of V w"
  using redis_contractD(5) [of R V] unfolding Keys_law_def by blast

lemma Keys_Inr:
  "redis_contract R V \<Longrightarrow> run (Keys R c p) w = (Inr ks, w')
   \<Longrightarrow> distinct ks \<and> set ks = {k. hashes_of V w (db_of V c) k \<noteq> Map.empty \<and> glob V p k}"
  using redis_contractD(5) [of R V] unfolding Keys_law_def by blast

lemma HSet_ok:
  "redis_contract R V \<Longrightarrow> run (HSet R c k fvs) w = (None, w')
   \<Longrightarrow> hashes_of V w' = upd_hash (db_of V c) k (hashes_of V w (db_of V c) k ++ map_of (rev fvs)) (hashes_of V w)"
  using redis_contractD(6) [of R V] unfolding HSet_law_def by blast

lemma HDel_ok:
  "redis_contract R V \<Longrightarrow> run (HDel R c k f) w = (None, w')
   \<Longrightarrow> hashes_of V w' = upd_hash (db_of V c) k ((hashes_of V w (db_of V c) k)(f := None)) (hashes_of V w)"
  using redis_contractD(7) [of R V] unfolding HDel_law_def by blast

lemma Del_ok:
  "redis_contract R V \<Longrightarrow> run (Del R c k) w = (None, w')
   \<Longrightarrow> hashes_of V w' = upd_hash (db_of V c) k Map.empty (hashes_of V w)"
  using redis_contractD(8) [of R V] unfolding Del_law_def by blast

lemma Scan_data:
  "redis_contract R V \<Longrightarrow> run (Scan R c cur p n) w = (r, w') \<Longrightarrow> hashes_of V w' = hashes_of V w"
  using redis_contractD(9) [of R V] unfolding Scan_law_def by blast

lemma scan_run_keys:
  "redis_contract R V \<Longrightarrow> scan_run R c p 0 w bs w'
   \<Longrightarrow> set (concat bs) = {k. hashes_of V w (db_of V c) k \<noteq> Map.empty \<and> glob V p k}"
  using redis_contractD(9) [of R V] unfolding Scan_law_def by blast

lemma scan_run_up:
  "redis_contract R V \<Longrightarrow> reachable V w \<Longrightarrow> \<exists>bs w'. scan_run R c p 0 w bs w' \<and> reachable V w'"
  using redis_contractD(9) [of R V] unfolding Scan_law_def by blast

lemma scan_run_data:
  "scan_run R c p cur w bs w' \<Longrightarrow> redis_contract R V \<Longrightarrow> hashes_of V w' = hashes_of V w"
  by (induction rule: scan_run.induct) (auto dest: Scan_data)

lemma NewClient_ok:
  "redis_contract R V \<Longrightarrow> run (NewClient R a d) w = (c, w') \<Longrightarrow> db_of V c = d \<and> hashes_of V w' = hashes_of V w"
  using redis_contractD(10) [of R V] unfolding Client_law_def by blast

lemma NewClient_up:
  "redis_contract R V \<Longrightarrow> reachable V w \<Longrightarrow> run (NewClient R a d) w = (c, w') \<Longrightarrow> reachable V w'"
  using redis_contractD(10) [of R V] unfolding Client_law_def by blast

lemma Ping_data:
  "redis_contract R V \<Longrightarrow> run (Ping R c) w = (r, w') \<Longrightarrow> hashes_of V w' = hashes_of V w"
  using redis_contractD(10) [of R V] unfolding Client_law_def by blast

lemma Close_data:
  "redis_contract R V \<Longrightarrow> run (Close R c) w = (r, w') \<Longrightarrow> hashes_of V w' = hashes_of V w"
  using redis_contractD(10) [of R V] unfolding Client_law_def by blast

lemma glob_plain:
  "redis_contract R V \<Longrightarrow> plain p \<Longrightarrow> plain q \<Longrightarrow> glob V (p @ CHR ''*'' # q) k \<longleftrightarrow> (\<exists>m. k = p @ m @ q)"
  using redis_contractD(11) [of R V] unfolding glob_law_def by blast

lemma answers_up:
  assumes "redis_contract R V"
  shows "answers (reachable V) (HGetAll R c k)" and "answers (reachable V) (HExists R c k f)"
    and "answers (reachable V) (Exists R c k)" and "answers (reachable V) (Keys R c p)"
  using redis_contractD [OF assms]
  by (simp_all add: HGetAll_law_def HExists_law_def Exists_law_def Keys_law_def)

lemma accepts_up:
  assumes "redis_contract R V"
  shows "fvs \<noteq> [] \<Longrightarrow> accepts (reachable V) (HSet R c k fvs)"
    and "accepts (reachable V) (HDel R c k f)" and "accepts (reachable V) (Del R c k)"
    and "accepts (reachable V) (Ping R c)" and "accepts (reachable V) (Close R c)"
  using redis_contractD [OF assms]
  by (simp_all add: HSet_law_def HDel_law_def Del_law_def Client_law_def)

lemma answersD: "answers up m \<Longrightarrow> up w \<Longrightarrow> \<exists>v w'. run m w = (Inr v, w') \<and> up w'"
  by (simp add: answers_def)

lemma acceptsD: "accepts up m \<Longrightarrow> up w \<Longrightarrow> \<exists>w'. run m w = (None, w') \<and> up w'"
  by (simp add: accepts_def)

lemmas redis_data = HGet_data HGetAll_data HExists_data Exists_data Keys_data Scan_data Ping_data Close_data

section \<open>A store in memory\<close>

text \<open>A client is the number of its database, the world an association list of hashes.\<close>

type_synonym mem = "((int \<times> string) \<times> gomap) list"

definition mem_hash :: "mem \<Rightarrow> int \<Rightarrow> string \<Rightarrow> gomap" where
  "mem_hash w d k = (case map_of w (d, k) of None \<Rightarrow> [] | Some m \<Rightarrow> m)"

fun star_match :: "string \<Rightarrow> string \<Rightarrow> bool" where
  "star_match [] s = (s = [])"
| "star_match (x # p) [] = (x = CHR ''*'' \<and> star_match p [])"
| "star_match (x # p) (c # s) =
     (if x = CHR ''*'' then star_match p (c # s) \<or> star_match (x # p) s
      else x = c \<and> star_match p s)"

definition mem_keys :: "mem \<Rightarrow> int \<Rightarrow> string \<Rightarrow> string list" where
  "mem_keys w d p = remdups (filter (\<lambda>k. mem_hash w d k \<noteq> [] \<and> star_match p k)
     (map (snd \<circ> fst) (filter (\<lambda>e. fst (fst e) = d) w)))"

definition mem_redis :: "(int, mem) redis" where
  "mem_redis = \<lparr>
     HGet = (\<lambda>d k f. State (\<lambda>w. (case map_of (mem_hash w d k) f of
        None \<Rightarrow> Inl (RedisNil ''redis: nil'') | Some v \<Rightarrow> Inr v, w))),
     HGetAll = (\<lambda>d k. State (\<lambda>w. (Inr (mem_hash w d k), w))),
     HSet = (\<lambda>d k fvs. State (\<lambda>w. (None, AList.update (d, k) (rev fvs @ mem_hash w d k) w))),
     HDel = (\<lambda>d k f. State (\<lambda>w. (None, AList.update (d, k) (AList.delete f (mem_hash w d k)) w))),
     HExists = (\<lambda>d k f. State (\<lambda>w. (Inr (map_of (mem_hash w d k) f \<noteq> None), w))),
     Exists = (\<lambda>d k. State (\<lambda>w. (Inr (if mem_hash w d k = [] then 0 else 1), w))),
     Del = (\<lambda>d k. State (\<lambda>w. (None, AList.delete (d, k) w))),
     Keys = (\<lambda>d p. State (\<lambda>w. (Inr (mem_keys w d p), w))),
     Scan = (\<lambda>d cur p n. State (\<lambda>w. (Inr (mem_keys w d p, 0), w))),
     Ping = (\<lambda>d. State (\<lambda>w. (None, w))),
     Close = (\<lambda>d. State (\<lambda>w. (None, w))),
     NewClient = (\<lambda>a d. State (\<lambda>w. (d, w)))\<rparr>"

definition mem_view :: "(int, mem) store_view" where
  "mem_view = \<lparr>db_of = (\<lambda>d. d), hashes_of = (\<lambda>w d k. map_of (mem_hash w d k)),
     reachable = (\<lambda>w. True), glob = star_match\<rparr>"

lemma star_match_literal:
  "CHR ''*'' \<notin> set q \<Longrightarrow> star_match q s \<longleftrightarrow> s = q"
  by (induction q s rule: star_match.induct) auto

lemma star_match_star:
  "CHR ''*'' \<notin> set q \<Longrightarrow> star_match (CHR ''*'' # q) s \<longleftrightarrow> (\<exists>m. s = m @ q)"
proof (induction s)
  case Nil
  then show ?case by (auto simp: star_match_literal)
next
  case (Cons c s)
  then have "star_match (CHR ''*'' # q) (c # s) \<longleftrightarrow> c # s = q \<or> (\<exists>m. s = m @ q)"
    by (simp add: star_match_literal)
  then show ?case by (metis append_Cons append_Nil list.exhaust list.inject)
qed

lemma star_match_plain:
  "CHR ''*'' \<notin> set p \<Longrightarrow> CHR ''*'' \<notin> set q \<Longrightarrow> star_match (p @ CHR ''*'' # q) s \<longleftrightarrow> (\<exists>m. s = p @ m @ q)"
proof (induction p arbitrary: s)
  case Nil
  then show ?case by (simp add: star_match_star)
next
  case (Cons a p)
  then show ?case by (cases s) auto
qed

lemma mem_hash_update:
  "mem_hash (AList.update (d, k) m w) d' k' = (if d' = d \<and> k' = k then m else mem_hash w d' k')"
  by (auto simp: mem_hash_def update_conv')

lemma mem_hash_delete:
  "mem_hash (AList.delete (d, k) w) d' k' = (if d' = d \<and> k' = k then [] else mem_hash w d' k')"
  by (auto simp: mem_hash_def delete_conv')

lemma mem_keys_set: "set (mem_keys w d p) = {k. mem_hash w d k \<noteq> [] \<and> star_match p k}"
proof -
  have "\<exists>m. ((d, k), m) \<in> set w" if "mem_hash w d k \<noteq> []" for k
    using that by (auto simp: mem_hash_def dest: map_of_SomeD split: option.splits)
  then show ?thesis by (fastforce simp: mem_keys_def image_iff)
qed

lemma map_of_empty_iff: "map_of m = Map.empty \<longleftrightarrow> m = []"
  by (cases m) (auto simp: fun_eq_iff split: if_splits)

lemma scan_run_mem: "scan_run mem_redis d p cur w bs w' \<longleftrightarrow> bs = [mem_keys w d p] \<and> w' = w"
  by (auto simp: mem_redis_def elim: scan_run.cases intro: scan_run.scan_last)

lemmas mem_simps = mem_redis_def mem_view_def mem_keys_set map_of_empty_iff
  mem_hash_update mem_hash_delete answers_def accepts_def

lemma mem_HGet_law: "HGet_law mem_redis mem_view"
  by (simp add: HGet_law_def mem_redis_def mem_view_def split: option.split)

lemma mem_reads:
  "HGetAll_law mem_redis mem_view" "HExists_law mem_redis mem_view" "Exists_law mem_redis mem_view"
  by (simp_all add: HGetAll_law_def HExists_law_def Exists_law_def mem_simps)

lemma mem_Keys_law: "Keys_law mem_redis mem_view"
  by (simp add: Keys_law_def mem_simps) (simp add: mem_keys_def)

lemma mem_writes:
  "HSet_law mem_redis mem_view" "HDel_law mem_redis mem_view" "Del_law mem_redis mem_view"
  by (simp_all add: HSet_law_def HDel_law_def Del_law_def mem_simps upd_hash_def fun_eq_iff delete_conv')

lemma mem_Scan_law: "Scan_law mem_redis mem_view"
  by (simp add: Scan_law_def scan_run_mem) (simp add: mem_simps)

lemma mem_rest: "Client_law mem_redis mem_view" "glob_law mem_view"
  by (simp_all add: Client_law_def mem_simps glob_law_def star_match_plain plain_no_star)

lemma mem_redis_contract: "redis_contract mem_redis mem_view"
  by (simp add: redis_contract_def mem_HGet_law mem_reads mem_Keys_law mem_writes mem_Scan_law mem_rest)

end
