(* ===== verification/Db_Accessor.thy ===== *)
theory Db_Accessor
  imports Redis_Client
begin

text \<open>
  The core of the package \<open>pkg/sonic\<close> (\<open>db_accessor.go\<close>): the accessor with its three
  clients, the key scan, the validation of names and the parsing of supported speeds. Also the
  interface that the reconciling operations \<open>SyncIPAddresses\<close> and \<open>SyncPortVLANs\<close> have in
  common: a set of entries of one database that can be listed, removed and added, as the locale
  \<open>keyed_entries\<close>. Its lemmas are proved once and the two operations are interpretations.

  An operation that scans keys may not return, when the server never ends the iteration: its
  result is an \<open>option\<close>, and \<open>None\<close> means that the call does not return.
\<close>

record 'c dbAccessor =
  configDB :: 'c
  stateDB :: 'c
  applDB :: 'c

definition NewDBAccessor :: "'c \<Rightarrow> 'c \<Rightarrow> 'c \<Rightarrow> 'c dbAccessor" where
  "NewDBAccessor cdb sdb adb = \<lparr>configDB = cdb, stateDB = sdb, applDB = adb\<rparr>"

section \<open>Key scan\<close>

partial_function (option) scan_loop ::
  "('c, 'w) redis \<Rightarrow> 'c \<Rightarrow> string \<Rightarrow> 64 word \<Rightarrow> string list \<Rightarrow> 'w \<Rightarrow> (string list res \<times> 'w) option" where
  "scan_loop R c pattern cursor keys w =
     (case run (Scan R c cursor pattern 100) w of
        (Inl e, w') \<Rightarrow> Some (Inl e, w')
      | (Inr (batch, nextCursor), w') \<Rightarrow>
          if nextCursor = 0 then Some (Inr (keys @ batch), w')
          else scan_loop R c pattern nextCursor (keys @ batch) w')"

definition scanKeys :: "('c, 'w) redis \<Rightarrow> 'c \<Rightarrow> string \<Rightarrow> ('w, string list res option) state" where
  "scanKeys R c pattern = State (\<lambda>w. case scan_loop R c pattern 0 [] w of
      None \<Rightarrow> (None, w) | Some (r, w') \<Rightarrow> (Some r, w'))"

text \<open>Continue after a call that may not return.\<close>

definition on_scan :: "('w, 'a res option) state \<Rightarrow> (goerror \<Rightarrow> ('w, 'b option) state) \<Rightarrow> ('a \<Rightarrow> ('w, 'b option) state) \<Rightarrow> ('w, 'b option) state" where
  "on_scan m h k = State_Monad.bind m (\<lambda>r. case r of None \<Rightarrow> ret None | Some (Inl e) \<Rightarrow> h e | Some (Inr v) \<Rightarrow> k v)"

lemma run_on_scan [simp, io_run]:
  "run (on_scan m h k) w = (case run m w of (None, w') \<Rightarrow> (None, w') | (Some (Inl e), w') \<Rightarrow> run (h e) w'
     | (Some (Inr v), w') \<Rightarrow> run (k v) w')"
  by (simp add: on_scan_def split: prod.split option.split sum.split)

text \<open>The loop collects the batches of a full iteration.\<close>

lemma scan_loop_run:
  "scan_run R c p cur w bs w' \<Longrightarrow> scan_loop R c p cur keys w = Some (Inr (keys @ concat bs), w')"
proof (induction arbitrary: keys rule: scan_run.induct)
  case (scan_last cur w b w')
  then show ?case by (subst scan_loop.simps) simp
next
  case (scan_more cur w b nxt w' bs w'')
  then show ?case by (subst scan_loop.simps) simp
qed

text \<open>Conversely, a loop that returns keys has seen a full iteration.\<close>

lemma scan_loop_returns:
  assumes ret: "scan_loop R c p cur keys w = Some rw"
  shows "\<forall>ks w'. rw = (Inr ks, w') \<longrightarrow> (\<exists>bs. scan_run R c p cur w bs w' \<and> ks = keys @ concat bs)"
proof (rule scan_loop.raw_induct [where P =
      "\<lambda>R c p cur keys w rw. \<forall>ks w'. rw = (Inr ks, w') \<longrightarrow> (\<exists>bs. scan_run R c p cur w bs w' \<and> ks = keys @ concat bs)", OF _ ret])
  fix f R c p cur keys w rw
  assume IH: "\<And>R c p cur keys w rw. f R c p cur keys w = Some rw \<Longrightarrow>
      \<forall>ks w'. rw = (Inr ks, w') \<longrightarrow> (\<exists>bs. scan_run R c p cur w bs w' \<and> ks = keys @ concat bs)"
    and eq: "(case run (Scan R c cur p 100) w of (Inl e, w') \<Rightarrow> Some (Inl e, w')
      | (Inr (batch, nextCursor), w') \<Rightarrow>
          if nextCursor = 0 then Some (Inr (keys @ batch), w') else f R c p nextCursor (keys @ batch) w') = Some rw"
  show "\<forall>ks w'. rw = (Inr ks, w') \<longrightarrow> (\<exists>bs. scan_run R c p cur w bs w' \<and> ks = keys @ concat bs)"
  proof (intro allI impI)
    fix ks w' assume rw: "rw = (Inr ks, w')"
    with eq obtain b nxt w1 where sc: "run (Scan R c cur p 100) w = (Inr (b, nxt), w1)"
      by (auto split: prod.splits sum.splits)
    show "\<exists>bs. scan_run R c p cur w bs w' \<and> ks = keys @ concat bs"
    proof (cases "nxt = 0")
      case True
      then show ?thesis using eq rw sc by (intro exI [of _ "[b]"]) (auto intro: scan_run.scan_last)
    next
      case False
      with eq sc rw have "f R c p nxt (keys @ b) w1 = Some (Inr ks, w')" by simp
      from IH [OF this] obtain bs where "scan_run R c p nxt w1 bs w'" "ks = (keys @ b) @ concat bs" by blast
      then show ?thesis using False sc by (intro exI [of _ "b # bs"]) (auto intro: scan_run.scan_more)
    qed
  qed
qed

lemma scanKeys_Inr:
  assumes "redis_contract R V" and "run (scanKeys R c p) w = (Some (Inr ks), w')"
  shows "hashes_of V w' = hashes_of V w"
    and "set ks = {k. hashes_of V w (db_of V c) k \<noteq> Map.empty \<and> glob V p k}"
proof -
  from assms(2) have "scan_loop R c p 0 [] w = Some (Inr ks, w')"
    by (auto simp: scanKeys_def split: option.splits prod.splits)
  from scan_loop_returns [OF this] obtain bs where bs: "scan_run R c p 0 w bs w'" and ks: "ks = concat bs" by auto
  show "hashes_of V w' = hashes_of V w" using scan_run_data [OF bs assms(1)] .
  show "set ks = {k. hashes_of V w (db_of V c) k \<noteq> Map.empty \<and> glob V p k}"
    using scan_run_keys [OF assms(1) bs] ks by simp
qed

lemma scanKeys_up:
  assumes "redis_contract R V" and "reachable V w"
  shows "\<exists>ks w'. run (scanKeys R c p) w = (Some (Inr ks), w') \<and> reachable V w'"
proof -
  from scan_run_up [OF assms] obtain bs w' where "scan_run R c p 0 w bs w'" and "reachable V w'" by blast
  then show ?thesis using scan_loop_run [of R c p 0 w bs w' "[]"] by (auto simp: scanKeys_def)
qed

section \<open>Validation of names\<close>

definition validatePortName :: "string \<Rightarrow> goerror option" where
  "validatePortName portName =
     (if HasPrefix portName ''Ethernet'' then None
      else Some (Errorf (''invalid port name '' @ Quote portName @ '': must start with Ethernet'')))"

definition validateVlanName :: "string \<Rightarrow> goerror option" where
  "validateVlanName vlanName =
     (if \<not> HasPrefix vlanName ''Vlan''
      then Some (Errorf (''invalid VLAN name '' @ Quote vlanName @ '': must start with Vlan''))
      else (case Atoi (TrimPrefix vlanName ''Vlan'') of (vid, err) \<Rightarrow>
        if err \<noteq> None \<or> vid < 1 \<or> 4094 < vid
        then Some (Errorf (''invalid VLAN name '' @ Quote vlanName @ '': numeric suffix must be between 1 and 4094''))
        else None))"

definition validateLoopbackName :: "string \<Rightarrow> goerror option" where
  "validateLoopbackName loopbackName =
     (if \<not> HasPrefix loopbackName ''Loopback''
      then Some (Errorf (''invalid loopback name '' @ Quote loopbackName @ '': must start with Loopback''))
      else None)"

lemma validateVlanName_None:
  "validateVlanName v = None \<longleftrightarrow> (\<exists>r n. v = ''Vlan'' @ r \<and> Atoi r = (n, None) \<and> 1 \<le> n \<and> n \<le> 4094)"
  by (auto simp: validateVlanName_def HasPrefix_iff split: prod.splits if_splits)

lemma Atoi_no_bar: "Atoi r = (n, None) \<Longrightarrow> CHR ''|'' \<notin> set r"
  by (auto simp: Atoi_def parse_int_def split_sign_def is_digit_def list_all_iff
      split: list.splits if_splits prod.splits)

lemma vlan_no_bar: "validateVlanName v = None \<Longrightarrow> CHR ''|'' \<notin> set v"
  by (auto simp: validateVlanName_None dest: Atoi_no_bar)

section \<open>Supported speeds\<close>

fun speeds_loop :: "string list \<Rightarrow> 32 word list" where
  "speeds_loop [] = []"
| "speeds_loop (s # ss) =
     (case Atoi (TrimSpace s) of (mbps, err) \<Rightarrow>
        if err = None \<and> 0 < mbps then word_of_int (mbps sdiv 1000) # speeds_loop ss else speeds_loop ss)"

definition ParseSupportedSpeeds :: "string \<Rightarrow> int \<Rightarrow> 32 word list" where
  "ParseSupportedSpeeds raw fallbackMbps =
     (if raw \<noteq> [] then speeds_loop (Split CHR '','' raw)
      else if 0 < fallbackMbps then [word_of_int (fallbackMbps sdiv 1000)] else [])"

section \<open>Entries that can be listed, removed and added\<close>

text \<open>A loop over a slice that returns at the first error.\<close>

fun for_each :: "('a \<Rightarrow> ('w, 'e option) state) \<Rightarrow> 'a list \<Rightarrow> ('w, 'e option) state" where
  "for_each f [] = ret None"
| "for_each f (x # xs) = on_fail (f x) (\<lambda>e. ret (Some e)) (for_each f xs)"

lemma for_each_up:
  assumes "\<And>x w. x \<in> set xs \<Longrightarrow> up w \<Longrightarrow> \<exists>w'. run (f x) w = (None, w') \<and> up w'" and "up w"
  shows "\<exists>w'. run (for_each f xs) w = (None, w') \<and> up w'"
  using assms
proof (induction xs arbitrary: w)
  case (Cons x xs)
  obtain w1 where "run (f x) w = (None, w1)" "up w1" using Cons.prems(1) [of x w] Cons.prems(2) by auto
  then show ?case using Cons.IH [of w1] Cons.prems(1) by auto
qed simp

text \<open>
  The interface behind both reconciliations. \<open>ok\<close> is what has to hold of the world,
  \<open>entries\<close> the entries of the object with their values, \<open>rest\<close> everything else that is
  stored. A listing returns at least the entries; removal and addition, when they report success,
  change one entry and nothing else.
\<close>

locale keyed_entries =
  fixes ok :: "'w \<Rightarrow> bool"
    and entries :: "'w \<Rightarrow> 'k \<rightharpoonup> 'v"
    and rest :: "'w \<Rightarrow> 'r"
    and list_e :: "('w, 'k list res option) state"
    and del_e :: "'k \<Rightarrow> ('w, goerror option) state"
    and add_e :: "'k \<times> 'v \<Rightarrow> ('w, goerror option) state"
  assumes list_ok: "ok w \<Longrightarrow> run list_e w = (Some (Inr ks), w')
      \<Longrightarrow> dom (entries w) \<subseteq> set ks \<and> entries w' = entries w \<and> rest w' = rest w \<and> ok w'"
    and del_ok: "ok w \<Longrightarrow> run (del_e k) w = (None, w')
      \<Longrightarrow> entries w' = (entries w)(k := None) \<and> rest w' = rest w \<and> ok w'"
    and add_ok: "ok w \<Longrightarrow> run (add_e kv) w = (None, w')
      \<Longrightarrow> entries w' = (entries w)(fst kv \<mapsto> snd kv) \<and> rest w' = rest w \<and> ok w'"
begin

lemma del_all:
  "ok w \<Longrightarrow> run (for_each del_e ks) w = (None, w')
   \<Longrightarrow> entries w' = entries w |` (- set ks) \<and> rest w' = rest w \<and> ok w'"
proof (induction ks arbitrary: w)
  case Nil
  then show ?case by simp
next
  case (Cons k ks)
  from Cons.prems(2) obtain w1 where w1: "run (del_e k) w = (None, w1)" "run (for_each del_e ks) w1 = (None, w')"
    by (auto split: prod.splits option.splits)
  from del_ok [OF Cons.prems(1) w1(1)] Cons.IH [OF _ w1(2)] show ?case
    by (auto simp: restrict_map_def fun_eq_iff)
qed

lemma add_all:
  "ok w \<Longrightarrow> run (for_each add_e kvs) w = (None, w') \<Longrightarrow> distinct (map fst kvs)
   \<Longrightarrow> entries w' = entries w ++ map_of kvs \<and> rest w' = rest w \<and> ok w'"
proof (induction kvs arbitrary: w)
  case Nil
  then show ?case by simp
next
  case (Cons kv kvs)
  from Cons.prems(2) obtain w1 where w1: "run (add_e kv) w = (None, w1)" "run (for_each add_e kvs) w1 = (None, w')"
    by (auto split: prod.splits option.splits)
  from Cons.prems(3) have "map_of kvs (fst kv) = None" by (simp add: map_of_eq_None_iff)
  with add_ok [OF Cons.prems(1) w1(1)] Cons.IH [OF _ w1(2)] Cons.prems(3) show ?case
    by (cases kv) (auto simp: map_add_def fun_eq_iff split: option.splits)
qed

text \<open>Removing what is listed and not wanted and then adding what is wanted leaves what is wanted.\<close>

lemma reconcile:
  assumes "ok w" and "run list_e w = (Some (Inr cur), w1)"
    and "run (for_each del_e (filter (\<lambda>k. k \<notin> fst ` set kvs) cur)) w1 = (None, w2)"
    and "run (for_each add_e kvs) w2 = (None, w')" and "distinct (map fst kvs)"
  shows "entries w' = map_of kvs" and "rest w' = rest w"
proof -
  from list_ok [OF assms(1,2)] have 1: "dom (entries w) \<subseteq> set cur" "entries w1 = entries w" "rest w1 = rest w" "ok w1"
    by auto
  from del_all [OF 1(4) assms(3)]
  have 2: "entries w2 = entries w |` (- set (filter (\<lambda>k. k \<notin> fst ` set kvs) cur))" "rest w2 = rest w" "ok w2"
    using 1 by auto
  from add_all [OF 2(3) assms(4,5)] have 3: "entries w' = entries w2 ++ map_of kvs" "rest w' = rest w"
    using 2 by auto
  show "rest w' = rest w" by (rule 3(2))
  show "entries w' = map_of kvs"
  proof
    fix k
    show "entries w' k = map_of kvs k"
    proof (cases "map_of kvs k")
      case None
      then have "k \<notin> fst ` set kvs" by (simp add: map_of_eq_None_iff)
      then have "entries w2 k = None" using 1(1) unfolding 2(1) by (auto simp: restrict_map_def)
      then show ?thesis by (simp add: 3(1) map_add_def None)
    qed (simp add: 3(1) map_add_def)
  qed
qed

end

text \<open>
  The same with a listing that is exact, where an entry that is present need not be added again,
  for entries without a value.
\<close>

locale exact_entries = keyed_entries ok entries rest list_e del_e add_e
  for ok :: "'w \<Rightarrow> bool" and entries :: "'w \<Rightarrow> 'k \<rightharpoonup> unit" and rest :: "'w \<Rightarrow> 'r" and list_e del_e add_e +
  assumes list_exact: "ok w \<Longrightarrow> run list_e w = (Some (Inr ks), w') \<Longrightarrow> set ks = dom (entries w)"
begin

lemma reconcile_missing:
  assumes "ok w" and "run list_e w = (Some (Inr cur), w1)"
    and "run (for_each del_e (filter (\<lambda>k. k \<notin> set want) cur)) w1 = (None, w2)"
    and "run (for_each (\<lambda>k. add_e (k, ())) (filter (\<lambda>k. k \<notin> set cur) want)) w2 = (None, w')"
  shows "dom (entries w') = set want" and "rest w' = rest w"
proof -
  have add_all_units: "ok v \<Longrightarrow> run (for_each (\<lambda>k. add_e (k, ())) ks) v = (None, v')
     \<Longrightarrow> dom (entries v') = dom (entries v) \<union> set ks \<and> rest v' = rest v" for ks v v'
  proof (induction ks arbitrary: v)
    case (Cons k ks)
    from Cons.prems(2) obtain v1 where v1: "run (add_e (k, ())) v = (None, v1)"
        "run (for_each (\<lambda>k. add_e (k, ())) ks) v1 = (None, v')"
      by (auto split: prod.splits option.splits)
    from add_ok [OF Cons.prems(1) v1(1)] Cons.IH [OF _ v1(2)] show ?case by auto
  qed simp
  from list_ok [OF assms(1,2)] list_exact [OF assms(1,2)]
  have 1: "set cur = dom (entries w)" "entries w1 = entries w" "rest w1 = rest w" "ok w1" by auto
  from del_all [OF 1(4) assms(3)]
  have 2: "dom (entries w2) = dom (entries w) \<inter> set want" "rest w2 = rest w" "ok w2"
    using 1 by auto
  from add_all_units [OF 2(3) assms(4)] show "dom (entries w') = set want" "rest w' = rest w"
    using 1(1) 2 by auto
qed

end

end
