(* ===== verification/Db_Port.thy ===== *)
theory Db_Port
  imports Db_Accessor
begin

text \<open>
  The port operations of the accessor (\<open>pkg/sonic/db_port.go\<close>, the interface
  \<open>PortAccessor\<close>). The lemmas say what a successful write leaves in CONFIG\_DB and that nothing
  else changes, and that a rejected argument causes no call at all.
\<close>

definition ListPortNames :: "('c, 'w) redis \<Rightarrow> 'c dbAccessor \<Rightarrow> ('w, string list res option) state" where
  "ListPortNames R db =
     on_scan (scanKeys R (configDB db) ''PORT|*'')
       (\<lambda>err. ret (Some (Inl (ErrorfW (''failed to list PORT keys: '' @ error_text err) err))))
       (\<lambda>keys. ret (Some (Inr (map (\<lambda>k. TrimPrefix k ''PORT|'') keys))))"

definition GetPortSpeed :: "('c, 'w) redis \<Rightarrow> 'c dbAccessor \<Rightarrow> string \<Rightarrow> ('w, int res) state" where
  "GetPortSpeed R db portName = (case validatePortName portName of
      Some err \<Rightarrow> ret (Inl err)
    | None \<Rightarrow> on_err (HGet R (configDB db) (''PORT|'' @ portName) ''speed'')
        (\<lambda>err. if is_redis_nil err then ret (Inr 0)
               else ret (Inl (ErrorfW (''failed to get speed for port '' @ portName @ '': '' @ error_text err) err)))
        (\<lambda>raw. ret (Inr (fst (Atoi raw)))))"

definition GetPortSupportedSpeeds :: "('c, 'w) redis \<Rightarrow> 'c dbAccessor \<Rightarrow> string \<Rightarrow> ('w, string res) state" where
  "GetPortSupportedSpeeds R db portName = (case validatePortName portName of
      Some err \<Rightarrow> ret (Inl err)
    | None \<Rightarrow> on_err (HGet R (stateDB db) (''PORT_TABLE|'' @ portName) ''supported_speeds'')
        (\<lambda>err. if is_redis_nil err then ret (Inr [])
               else ret (Inl (ErrorfW (''failed to get supported speeds for port '' @ portName @ '': '' @ error_text err) err)))
        (\<lambda>raw. ret (Inr raw)))"

definition GetTransceiverType :: "('c, 'w) redis \<Rightarrow> 'c dbAccessor \<Rightarrow> string \<Rightarrow> ('w, string res) state" where
  "GetTransceiverType R db portName = (case validatePortName portName of
      Some err \<Rightarrow> ret (Inl err)
    | None \<Rightarrow> on_err (HGet R (stateDB db) (''TRANSCEIVER_INFO|'' @ portName) ''type'')
        (\<lambda>err. if is_redis_nil err then ret (Inr [])
               else ret (Inl (ErrorfW (''failed to get transceiver type for '' @ portName @ '': '' @ error_text err) err)))
        (\<lambda>t. ret (Inr t)))"

definition GetPortAlias :: "('c, 'w) redis \<Rightarrow> 'c dbAccessor \<Rightarrow> string \<Rightarrow> ('w, string res) state" where
  "GetPortAlias R db portName = (case validatePortName portName of
      Some err \<Rightarrow> ret (Inl err)
    | None \<Rightarrow> on_err (HGet R (configDB db) (''PORT|'' @ portName) ''alias'')
        (\<lambda>err. ret (Inl (ErrorfW (''failed to get alias for port '' @ portName @ '': '' @ error_text err) err)))
        (\<lambda>alias. ret (Inr alias)))"

text \<open>A nil map is \<open>None\<close>.\<close>

definition GetLLDPEntry :: "('c, 'w) redis \<Rightarrow> 'c dbAccessor \<Rightarrow> string \<Rightarrow> ('w, gomap option res) state" where
  "GetLLDPEntry R db portName = (case validatePortName portName of
      Some err \<Rightarrow> ret (Inl err)
    | None \<Rightarrow> on_err (HGetAll R (applDB db) (''LLDP_ENTRY_TABLE:'' @ portName))
        (\<lambda>err. ret (Inl (ErrorfW (''failed to get LLDP entry for '' @ portName @ '': '' @ error_text err) err)))
        (\<lambda>fields. if fields = [] then ret (Inr None) else ret (Inr (Some fields))))"

fun port_table_loop :: "('c, 'w) redis \<Rightarrow> 'c dbAccessor \<Rightarrow> string list \<Rightarrow> (string \<times> gomap) list \<Rightarrow>
    ('w, (string \<times> gomap) list res option) state" where
  "port_table_loop R db [] result = ret (Some (Inr result))"
| "port_table_loop R db (key # ks) result =
     on_err (HGetAll R (applDB db) key)
       (\<lambda>err. ret (Some (Inl (ErrorfW (''failed to get PORT_TABLE fields for '' @ TrimPrefix key ''PORT_TABLE:''
            @ '': '' @ error_text err) err))))
       (\<lambda>fields. port_table_loop R db ks (AList.update (TrimPrefix key ''PORT_TABLE:'') fields result))"

definition ListPortTableEntries :: "('c, 'w) redis \<Rightarrow> 'c dbAccessor \<Rightarrow> ('w, (string \<times> gomap) list res option) state" where
  "ListPortTableEntries R db =
     on_scan (scanKeys R (applDB db) ''PORT_TABLE:*'')
       (\<lambda>err. ret (Some (Inl (ErrorfW (''failed to list PORT_TABLE keys: '' @ error_text err) err))))
       (\<lambda>keys. port_table_loop R db keys [])"

definition HasPort :: "('c, 'w) redis \<Rightarrow> 'c dbAccessor \<Rightarrow> string \<Rightarrow> ('w, bool res) state" where
  "HasPort R db portName = (case validatePortName portName of
      Some err \<Rightarrow> ret (Inl err)
    | None \<Rightarrow> on_err (Exists R (configDB db) (''PORT|'' @ portName))
        (\<lambda>err. ret (Inl (ErrorfW (''failed to check existence of port '' @ portName @ '': '' @ error_text err) err)))
        (\<lambda>n. ret (Inr (0 < n))))"

text \<open>The write that ends each setter: one field of one hash of CONFIG\_DB, its error wrapped.\<close>

definition set_field :: "('c, 'w) redis \<Rightarrow> 'c dbAccessor \<Rightarrow> string \<Rightarrow> string \<Rightarrow> string \<Rightarrow> string \<Rightarrow> ('w, goerror option) state" where
  "set_field R db key field val what =
     on_fail (HSet R (configDB db) key [(field, val)])
       (\<lambda>err. ret (Some (ErrorfW (what @ '': '' @ error_text err) err)))
       (ret None)"

definition SetMTU :: "('c, 'w) redis \<Rightarrow> 'c dbAccessor \<Rightarrow> string \<Rightarrow> int \<Rightarrow> ('w, goerror option) state" where
  "SetMTU R db portName mtu = (case validatePortName portName of
      Some err \<Rightarrow> ret (Some err)
    | None \<Rightarrow>
        if mtu < 68 \<or> 9216 < mtu
        then ret (Some (Errorf (''invalid MTU '' @ Itoa mtu @ '' for '' @ portName @ '': must be between 68 and 9216'')))
        else set_field R db (''PORT|'' @ portName) ''mtu'' (Itoa mtu) (''failed to set MTU for '' @ portName))"

definition SetFEC :: "('c, 'w) redis \<Rightarrow> 'c dbAccessor \<Rightarrow> string \<Rightarrow> string \<Rightarrow> ('w, goerror option) state" where
  "SetFEC R db portName fec = (case validatePortName portName of
      Some err \<Rightarrow> ret (Some err)
    | None \<Rightarrow>
        if fec \<notin> {''rs'', ''fc'', ''none''}
        then ret (Some (Errorf (''invalid FEC value '' @ Quote fec @ '' for '' @ portName @ '': must be rs, fc, or none'')))
        else set_field R db (''PORT|'' @ portName) ''fec'' fec (''failed to set FEC for '' @ portName))"

definition SetSpeed :: "('c, 'w) redis \<Rightarrow> 'c dbAccessor \<Rightarrow> string \<Rightarrow> int \<Rightarrow> ('w, goerror option) state" where
  "SetSpeed R db portName speedMbps = (case validatePortName portName of
      Some err \<Rightarrow> ret (Some err)
    | None \<Rightarrow>
        if speedMbps \<le> 0
        then ret (Some (Errorf (''invalid speed '' @ Itoa speedMbps @ '' for '' @ portName @ '': must be positive'')))
        else set_field R db (''PORT|'' @ portName) ''speed'' (Itoa speedMbps) (''failed to set speed for '' @ portName))"

definition SetPortAlias :: "('c, 'w) redis \<Rightarrow> 'c dbAccessor \<Rightarrow> string \<Rightarrow> string \<Rightarrow> ('w, goerror option) state" where
  "SetPortAlias R db portName alias = (case validatePortName portName of
      Some err \<Rightarrow> ret (Some err)
    | None \<Rightarrow>
        if alias = [] then ret (Some (Errorf (''alias must not be empty for port '' @ portName)))
        else set_field R db (''PORT|'' @ portName) ''alias'' alias (''failed to set alias for port '' @ portName))"

section \<open>Effects of the setters\<close>

text \<open>The data after one field of CONFIG\_DB has been written.\<close>

definition cfg_put :: "('c, 'w) store_view \<Rightarrow> 'c dbAccessor \<Rightarrow> string \<Rightarrow> string \<Rightarrow> string \<Rightarrow> hashes \<Rightarrow> hashes" where
  "cfg_put V db key field val H =
     upd_hash (db_of V (configDB db)) key ((H (db_of V (configDB db)) key)(field \<mapsto> val)) H"

lemma set_field_ok:
  assumes "redis_contract R V" and "run (set_field R db key field val what) w = (None, w')"
  shows "hashes_of V w' = cfg_put V db key field val (hashes_of V w)"
proof -
  from assms(2) have "run (HSet R (configDB db) key [(field, val)]) w = (None, w')"
    by (auto simp: set_field_def split: prod.splits option.splits)
  from HSet_ok [OF assms(1) this] show ?thesis by (simp add: cfg_put_def)
qed

lemma set_field_up:
  assumes "redis_contract R V" and "reachable V w"
  shows "\<exists>w'. run (set_field R db key field val what) w = (None, w') \<and> reachable V w'"
  using acceptsD [OF accepts_up(1) [OF assms(1), of "[(field, val)]" "configDB db" key] assms(2)]
  by (auto simp: set_field_def)

lemmas setter_defs = SetMTU_def SetFEC_def SetSpeed_def SetPortAlias_def validatePortName_def

lemma SetSpeed_valid:
  "HasPrefix p ''Ethernet'' \<Longrightarrow> 0 < s
   \<Longrightarrow> SetSpeed R db p s = set_field R db (''PORT|'' @ p) ''speed'' (Itoa s) (''failed to set speed for '' @ p)"
  by (simp add: setter_defs)

lemma SetSpeed_success:
  "run (SetSpeed R db p s) w = (None, w') \<Longrightarrow> HasPrefix p ''Ethernet'' \<and> 0 < s"
  by (auto simp: setter_defs split: if_splits)

text \<open>A read of a field of CONFIG\_DB after the field was written.\<close>

lemma cfg_put_get [simp]: "cfg_put V db key field val H (db_of V (configDB db)) key field = Some val"
  by (simp add: cfg_put_def)

lemma cfg_put_other: "d \<noteq> db_of V (configDB db) \<or> k \<noteq> key \<or> f \<noteq> field \<Longrightarrow> cfg_put V db key field val H d k f = H d k f"
  by (auto simp: cfg_put_def)

text \<open>Property C40. \<open>SetMTU\<close> accepts an Ethernet port and an MTU in 68 to 9216, both included: on a reachable server it then succeeds.
  Whenever it succeeds the arguments are such, CONFIG\_DB holds the decimal MTU in the field \<open>mtu\<close> of the port and nothing else has
  changed. Other arguments are rejected before any call to the database.\<close>

theorem SetMTU_effect:
  assumes "redis_contract R V" and "run (SetMTU R db p m) w = (r, w')"
  shows "(HasPrefix p ''Ethernet'' \<and> 68 \<le> m \<and> m \<le> 9216 \<and> reachable V w \<longrightarrow> r = None) \<and>
         (r = None \<longrightarrow> HasPrefix p ''Ethernet'' \<and> 68 \<le> m \<and> m \<le> 9216 \<and>
            hashes_of V w' = cfg_put V db (''PORT|'' @ p) ''mtu'' (Itoa m) (hashes_of V w)) \<and>
         (\<not> (HasPrefix p ''Ethernet'' \<and> 68 \<le> m \<and> m \<le> 9216) \<longrightarrow> r \<noteq> None \<and> w' = w)"
proof (cases "HasPrefix p ''Ethernet'' \<and> 68 \<le> m \<and> m \<le> 9216")
  case True
  then have set: "run (set_field R db (''PORT|'' @ p) ''mtu'' (Itoa m) (''failed to set MTU for '' @ p)) w = (r, w')"
    using assms(2) by (simp add: SetMTU_def validatePortName_def)
  have "reachable V w \<Longrightarrow> r = None" using set_field_up [OF assms(1), of w db "''PORT|'' @ p" "''mtu''"] set by (metis fst_conv)
  moreover have "r = None \<Longrightarrow> hashes_of V w' = cfg_put V db (''PORT|'' @ p) ''mtu'' (Itoa m) (hashes_of V w)"
    using set_field_ok [OF assms(1)] set by blast
  ultimately show ?thesis using True by blast
next
  case False
  then show ?thesis using assms(2) by (auto simp: SetMTU_def validatePortName_def split: if_splits)
qed

text \<open>The property at a store in memory: the smallest and the largest MTU are set, one below and one above are not.\<close>

theorem SetMTU_effect_witness:
  "fst (run (SetMTU mem_redis \<lparr>configDB = 4, stateDB = 6, applDB = 0\<rparr> ''Ethernet0'' 68) []) = None \<and>
   fst (run (SetMTU mem_redis \<lparr>configDB = 4, stateDB = 6, applDB = 0\<rparr> ''Ethernet0'' 9216) []) = None \<and>
   fst (run (SetMTU mem_redis \<lparr>configDB = 4, stateDB = 6, applDB = 0\<rparr> ''Ethernet0'' 67) []) \<noteq> None \<and>
   fst (run (SetMTU mem_redis \<lparr>configDB = 4, stateDB = 6, applDB = 0\<rparr> ''Ethernet0'' 9217) []) \<noteq> None"
proof -
  have "reachable mem_view []" by (simp add: mem_view_def)
  moreover note SetMTU_effect [OF mem_redis_contract prod.collapse [symmetric],
      where db = "\<lparr>configDB = 4, stateDB = 6, applDB = 0\<rparr>" and p = "''Ethernet0''" and w = "[]"]
  ultimately show ?thesis by simp
qed

text \<open>What \<open>SetSpeed\<close> wrote, \<open>GetPortSpeed\<close> reads back: on a reachable server, for an
  Ethernet port and a positive speed, both calls succeed and the speed read is the speed written.\<close>

lemma SetSpeed_GetPortSpeed:
  assumes "redis_contract R V" and "reachable V w" and "HasPrefix p ''Ethernet''" and "0 < s" and "int64 s"
  shows "\<exists>w1 w2. run (SetSpeed R db p s) w = (None, w1) \<and> run (GetPortSpeed R db p) w1 = (Inr s, w2)"
proof -
  from set_field_up [OF assms(1,2)] obtain w1 where
    w1: "run (SetSpeed R db p s) w = (None, w1)" "reachable V w1"
    unfolding SetSpeed_valid [OF assms(3,4)] by blast
  from w1(1) have data: "hashes_of V w1 = cfg_put V db (''PORT|'' @ p) ''speed'' (Itoa s) (hashes_of V w)"
    unfolding SetSpeed_valid [OF assms(3,4)] by (rule set_field_ok [OF assms(1)])
  obtain r w2 where get: "run (HGet R (configDB db) (''PORT|'' @ p) ''speed'') w1 = (r, w2)" by fastforce
  have "r = Inr (Itoa s)"
    using HGet_cases [OF assms(1) get] HGet_up [OF assms(1) w1(2) get] data by (cases r) auto
  with get assms(3,5) have "run (GetPortSpeed R db p) w1 = (Inr s, w2)"
    by (simp add: GetPortSpeed_def validatePortName_def)
  with w1(1) show ?thesis by blast
qed

end
