(* ===== verification/Db_Interface.thy ===== *)
theory Db_Interface
  imports Db_Port
begin

text \<open>
  Interfaces: administrative and operational status, loopbacks and IP addresses
  (\<open>pkg/sonic/db_interface.go\<close>, the interface \<open>InterfaceAccessor\<close>).
  \<open>SyncIPAddresses\<close> is shown to leave exactly the desired addresses on the interface and to
  change nothing else, as an interpretation of \<open>exact_entries\<close>.
\<close>

definition hgetIsUp :: "('c, 'w) redis \<Rightarrow> 'c \<Rightarrow> string \<Rightarrow> string \<Rightarrow> ('w, bool res) state" where
  "hgetIsUp R client key field =
     on_err (HGet R client key field)
       (\<lambda>err. if is_redis_nil err then ret (Inr False) else ret (Inl err))
       (\<lambda>val. ret (Inr (val = ''up'')))"

definition GetAdminStatus :: "('c, 'w) redis \<Rightarrow> 'c dbAccessor \<Rightarrow> string \<Rightarrow> ('w, bool res) state" where
  "GetAdminStatus R db interfaceName =
     (if HasPrefix interfaceName ''Loopback'' then hgetIsUp R (configDB db) (''LOOPBACK_INTERFACE|'' @ interfaceName) ''admin_status''
      else if HasPrefix interfaceName ''Vlan'' then hgetIsUp R (applDB db) (''VLAN_TABLE:'' @ interfaceName) ''admin_status''
      else if HasPrefix interfaceName ''Ethernet'' then hgetIsUp R (applDB db) (''PORT_TABLE:'' @ interfaceName) ''admin_status''
      else ret (Inl (Errorf (''unknown interface: '' @ interfaceName))))"

definition GetOperStatus :: "('c, 'w) redis \<Rightarrow> 'c dbAccessor \<Rightarrow> string \<Rightarrow> ('w, bool res) state" where
  "GetOperStatus R db interfaceName =
     (if HasPrefix interfaceName ''Loopback'' then hgetIsUp R (configDB db) (''LOOPBACK_INTERFACE|'' @ interfaceName) ''admin_status''
      else if HasPrefix interfaceName ''Vlan'' then hgetIsUp R (applDB db) (''VLAN_TABLE:'' @ interfaceName) ''admin_status''
      else if HasPrefix interfaceName ''Ethernet'' then hgetIsUp R (applDB db) (''PORT_TABLE:'' @ interfaceName) ''oper_status''
      else ret (Inl (Errorf (''unknown interface: '' @ interfaceName))))"

definition SetAdminStatus :: "('c, 'w) redis \<Rightarrow> 'c dbAccessor \<Rightarrow> string \<Rightarrow> string \<Rightarrow> ('w, goerror option) state" where
  "SetAdminStatus R db interfaceName adminStatus =
     (if adminStatus \<noteq> ''up'' \<and> adminStatus \<noteq> ''down''
      then ret (Some (Errorf (''invalid admin_status '' @ Quote adminStatus @ '' for '' @ interfaceName
             @ '': must be '' @ Quote ''up'' @ '' or '' @ Quote ''down'')))
      else case (if HasPrefix interfaceName ''Loopback'' then Some (''LOOPBACK_INTERFACE|'' @ interfaceName)
                 else if HasPrefix interfaceName ''Vlan'' then Some (''VLAN|'' @ interfaceName)
                 else if HasPrefix interfaceName ''Ethernet'' then Some (''PORT|'' @ interfaceName)
                 else if HasPrefix interfaceName ''PortChannel'' then Some (''PORTCHANNEL|'' @ interfaceName)
                 else None) of
          None \<Rightarrow> ret (Some (Errorf (''unknown interface type for admin status: '' @ interfaceName)))
        | Some key \<Rightarrow> set_field R db key ''admin_status'' adminStatus (''failed to set admin status for '' @ interfaceName))"

definition interfaceIPTable :: "string \<Rightarrow> string res" where
  "interfaceIPTable interfaceName =
     (if HasPrefix interfaceName ''Loopback'' then Inr ''LOOPBACK_INTERFACE''
      else if HasPrefix interfaceName ''Vlan'' then Inr ''VLAN_INTERFACE''
      else if HasPrefix interfaceName ''Ethernet'' then Inr ''INTERFACE''
      else if HasPrefix interfaceName ''PortChannel'' then Inr ''PORTCHANNEL_INTERFACE''
      else Inl (Errorf (''unknown interface type for IP assignment: '' @ interfaceName)))"

definition EnsureLoopback :: "('c, 'w) redis \<Rightarrow> 'c dbAccessor \<Rightarrow> string \<Rightarrow> ('w, goerror option) state" where
  "EnsureLoopback R db loopbackName = (case validateLoopbackName loopbackName of
      Some err \<Rightarrow> ret (Some err)
    | None \<Rightarrow> set_field R db (''LOOPBACK_INTERFACE|'' @ loopbackName) ''NULL'' ''NULL''
        (''failed to ensure loopback interface '' @ loopbackName))"

text \<open>A deletion of one key of CONFIG\_DB, its error wrapped.\<close>

definition del_key :: "('c, 'w) redis \<Rightarrow> 'c dbAccessor \<Rightarrow> string \<Rightarrow> string \<Rightarrow> ('w, goerror option) state" where
  "del_key R db key what =
     on_fail (Del R (configDB db) key)
       (\<lambda>err. ret (Some (ErrorfW (what @ '': '' @ error_text err) err)))
       (ret None)"

definition DeleteLoopback :: "('c, 'w) redis \<Rightarrow> 'c dbAccessor \<Rightarrow> string \<Rightarrow> ('w, goerror option) state" where
  "DeleteLoopback R db loopbackName = (case validateLoopbackName loopbackName of
      Some err \<Rightarrow> ret (Some err)
    | None \<Rightarrow> del_key R db (''LOOPBACK_INTERFACE|'' @ loopbackName)
        (''failed to delete loopback interface '' @ loopbackName))"

definition add_ip :: "('c, 'w) redis \<Rightarrow> 'c dbAccessor \<Rightarrow> string \<Rightarrow> string \<Rightarrow> string \<Rightarrow> ('w, goerror option) state" where
  "add_ip R db table interfaceName prefix = (case ParsePrefix prefix of
      Inl err \<Rightarrow> ret (Some (ErrorfW (''invalid IP prefix '' @ Quote prefix @ '': '' @ error_text err) err))
    | Inr _ \<Rightarrow> set_field R db (table @ ''|'' @ interfaceName @ ''|'' @ prefix) ''NULL'' ''NULL''
        (''failed to add IP '' @ prefix @ '' to '' @ interfaceName))"

definition AddIPAddresses :: "('c, 'w) redis \<Rightarrow> 'c dbAccessor \<Rightarrow> string \<Rightarrow> string list \<Rightarrow> ('w, goerror option) state" where
  "AddIPAddresses R db interfaceName prefixes = (case interfaceIPTable interfaceName of
      Inl err \<Rightarrow> ret (Some err)
    | Inr table \<Rightarrow> for_each (add_ip R db table interfaceName) prefixes)"

definition remove_ip :: "('c, 'w) redis \<Rightarrow> 'c dbAccessor \<Rightarrow> string \<Rightarrow> string \<Rightarrow> string \<Rightarrow> ('w, goerror option) state" where
  "remove_ip R db table interfaceName prefix = (case ParsePrefix prefix of
      Inl err \<Rightarrow> ret (Some (ErrorfW (''invalid IP prefix '' @ Quote prefix @ '': '' @ error_text err) err))
    | Inr _ \<Rightarrow> del_key R db (table @ ''|'' @ interfaceName @ ''|'' @ prefix)
        (''failed to remove IP '' @ prefix @ '' from '' @ interfaceName))"

definition RemoveIPAddresses :: "('c, 'w) redis \<Rightarrow> 'c dbAccessor \<Rightarrow> string \<Rightarrow> string list \<Rightarrow> ('w, goerror option) state" where
  "RemoveIPAddresses R db interfaceName prefixes = (case interfaceIPTable interfaceName of
      Inl err \<Rightarrow> ret (Some err)
    | Inr table \<Rightarrow> for_each (remove_ip R db table interfaceName) prefixes)"

definition ListIPAddresses :: "('c, 'w) redis \<Rightarrow> 'c dbAccessor \<Rightarrow> string \<Rightarrow> ('w, string list res option) state" where
  "ListIPAddresses R db interfaceName = (case interfaceIPTable interfaceName of
      Inl err \<Rightarrow> ret (Some (Inl err))
    | Inr table \<Rightarrow>
        on_scan (scanKeys R (configDB db) (table @ ''|'' @ interfaceName @ ''|*''))
          (\<lambda>err. ret (Some (Inl (ErrorfW (''failed to list IP addresses for '' @ interfaceName @ '': '' @ error_text err) err))))
          (\<lambda>keys. ret (Some (Inr (map (\<lambda>k. TrimPrefix k (table @ ''|'' @ interfaceName @ ''|'')) keys)))))"

definition SyncIPAddresses :: "('c, 'w) redis \<Rightarrow> 'c dbAccessor \<Rightarrow> string \<Rightarrow> string list \<Rightarrow> ('w, goerror option option) state" where
  "SyncIPAddresses R db interfaceName desired =
     on_scan (ListIPAddresses R db interfaceName) (\<lambda>err. ret (Some (Some err)))
       (\<lambda>current.
          let toRemove = filter (\<lambda>p. p \<notin> set desired) current;
              toAdd = filter (\<lambda>p. p \<notin> set current) desired in
          on_fail (if toRemove \<noteq> [] then RemoveIPAddresses R db interfaceName toRemove else ret None)
            (\<lambda>err. ret (Some (Some err)))
            (on_fail (if toAdd \<noteq> [] then AddIPAddresses R db interfaceName toAdd else ret None)
               (\<lambda>err. ret (Some (Some err)))
               (ret (Some None))))"

section \<open>The addresses of an interface as entries\<close>

definition ip_pfx :: "string \<Rightarrow> string \<Rightarrow> string" where
  "ip_pfx table ifname = table @ ''|'' @ ifname @ ''|''"

abbreviation ip_key :: "string \<Rightarrow> string \<Rightarrow> string \<Rightarrow> string" where
  "ip_key table ifname p \<equiv> ip_pfx table ifname @ p"

text \<open>The addresses stored for an interface, and what is stored under the other keys.\<close>

definition ip_entries :: "('c, 'w) store_view \<Rightarrow> 'c dbAccessor \<Rightarrow> string \<Rightarrow> string \<Rightarrow> 'w \<Rightarrow> string \<rightharpoonup> unit" where
  "ip_entries V db table ifname w p =
     (if hashes_of V w (db_of V (configDB db)) (ip_key table ifname p) = Map.empty then None else Some ())"

definition ip_rest :: "('c, 'w) store_view \<Rightarrow> 'c dbAccessor \<Rightarrow> string \<Rightarrow> string \<Rightarrow> 'w \<Rightarrow> hashes" where
  "ip_rest V db table ifname w =
     (\<lambda>d k. if d = db_of V (configDB db) \<and> HasPrefix k (ip_pfx table ifname) then Map.empty else hashes_of V w d k)"

lemma table_plain: "interfaceIPTable i = Inr t \<Longrightarrow> plain t"
  by (auto simp: interfaceIPTable_def plain_def split: if_splits)

lemma del_key_ok:
  assumes "redis_contract R V" and "run (del_key R db key what) w = (None, w')"
  shows "hashes_of V w' = upd_hash (db_of V (configDB db)) key Map.empty (hashes_of V w)"
proof -
  from assms(2) have "run (Del R (configDB db) key) w = (None, w')"
    by (auto simp: del_key_def split: prod.splits option.splits)
  from Del_ok [OF assms(1) this] show ?thesis .
qed

lemma del_key_up:
  assumes "redis_contract R V" and "reachable V w"
  shows "\<exists>w'. run (del_key R db key what) w = (None, w') \<and> reachable V w'"
  using acceptsD [OF accepts_up(3) [OF assms(1), of "configDB db" key] assms(2)] by (auto simp: del_key_def)

lemma ListIPAddresses_Inr:
  assumes "redis_contract R V" and "interfaceIPTable i = Inr t" and "plain i"
    and "run (ListIPAddresses R db i) w = (Some (Inr ks), w')"
  shows "set ks = dom (ip_entries V db t i w) \<and> hashes_of V w' = hashes_of V w"
proof -
  let ?H = "hashes_of V w (db_of V (configDB db))"
  from assms(2,4) obtain keys where
    sc: "run (scanKeys R (configDB db) (ip_pfx t i @ CHR ''*'' # [])) w = (Some (Inr keys), w')"
    and ks: "ks = map (\<lambda>k. TrimPrefix k (ip_pfx t i)) keys"
    by (auto simp: ListIPAddresses_def ip_pfx_def split: prod.splits option.splits sum.splits)
  have "plain (ip_pfx t i)" using table_plain [OF assms(2)] assms(3) by (auto simp: plain_def ip_pfx_def)
  then have "glob V (ip_pfx t i @ CHR ''*'' # []) k \<longleftrightarrow> HasPrefix k (ip_pfx t i)" for k
    using glob_plain [OF assms(1), of "ip_pfx t i" "[]" k] by (simp add: plain_def HasPrefix_iff)
  then have keys: "set keys = {k. ?H k \<noteq> Map.empty \<and> HasPrefix k (ip_pfx t i)}"
    using scanKeys_Inr(2) [OF assms(1) sc] by simp
  have "p \<in> set ks \<longleftrightarrow> ?H (ip_key t i p) \<noteq> Map.empty" for p
  proof
    assume "p \<in> set ks"
    then obtain k where k: "k \<in> set keys" and p: "p = TrimPrefix k (ip_pfx t i)" by (auto simp: ks)
    from k have pre: "HasPrefix k (ip_pfx t i)" and ex: "?H k \<noteq> Map.empty" unfolding keys by simp_all
    show "?H (ip_key t i p) \<noteq> Map.empty" unfolding p HasPrefix_TrimPrefix [OF pre] by (rule ex)
  next
    assume "?H (ip_key t i p) \<noteq> Map.empty"
    then have "ip_key t i p \<in> set keys" by (simp add: keys)
    then have "TrimPrefix (ip_key t i p) (ip_pfx t i) \<in> set ks" unfolding ks list.set_map by (rule imageI)
    then show "p \<in> set ks" by simp
  qed
  then have "set ks = dom (ip_entries V db t i w)" by (simp add: set_eq_iff domIff ip_entries_def)
  then show ?thesis using scanKeys_Inr(1) [OF assms(1) sc] by blast
qed

text \<open>The laws of the interface hold of the accessor's own operations.\<close>

interpretation ip_sync: exact_entries
  "\<lambda>w. redis_contract R V \<and> interfaceIPTable i = Inr t \<and> plain i" "ip_entries V db t i" "ip_rest V db t i"
  "ListIPAddresses R db i" "remove_ip R db t i" "\<lambda>(p, u). add_ip R db t i p"
  for R V db i t
proof (unfold_locales, goal_cases)
  case (1 w ks w')
  then have "set ks = dom (ip_entries V db t i w)" and eq: "hashes_of V w' = hashes_of V w"
    using ListIPAddresses_Inr [of R V i t db w ks w'] by auto
  moreover have "ip_entries V db t i w' = ip_entries V db t i w" "ip_rest V db t i w' = ip_rest V db t i w"
    by (simp_all add: ip_entries_def ip_rest_def fun_eq_iff eq)
  ultimately show ?case using 1(1) by simp
next
  case (2 w p w')
  then have c: "redis_contract R V" and "run (del_key R db (ip_key t i p) (''failed to remove IP '' @ p @ '' from '' @ i)) w = (None, w')"
    by (auto simp: remove_ip_def ip_pfx_def split: sum.splits)
  from del_key_ok [OF this] 2(1) show ?case by (auto simp: ip_entries_def ip_rest_def fun_eq_iff)
next
  case (3 w kv w')
  obtain p where kv: "kv = (p, ())" by (cases kv) auto
  from 3 have c: "redis_contract R V" and "run (set_field R db (ip_key t i p) ''NULL'' ''NULL'' (''failed to add IP '' @ p @ '' to '' @ i)) w = (None, w')"
    by (auto simp: kv add_ip_def ip_pfx_def split: sum.splits)
  from set_field_ok [OF this] 3(1) show ?case
    by (auto simp: kv ip_entries_def ip_rest_def fun_eq_iff cfg_put_def)
next
  case (4 w ks w')
  then show ?case using ListIPAddresses_Inr [of R V i t db w ks w'] by simp
qed

section \<open>Synchronisation of the addresses\<close>

lemma SyncIPAddresses_steps:
  assumes t: "interfaceIPTable i = Inr t" and "run (SyncIPAddresses R db i desired) w = (Some None, w')"
  obtains cur w1 w2 where "run (ListIPAddresses R db i) w = (Some (Inr cur), w1)"
    and "run (for_each (remove_ip R db t i) (filter (\<lambda>p. p \<notin> set desired) cur)) w1 = (None, w2)"
    and "run (for_each (add_ip R db t i) (filter (\<lambda>p. p \<notin> set cur) desired)) w2 = (None, w')"
proof -
  have rm: "(if ps \<noteq> [] then RemoveIPAddresses R db i ps else ret None) = for_each (remove_ip R db t i) ps" for ps
    by (simp add: RemoveIPAddresses_def t)
  have add: "(if ps \<noteq> [] then AddIPAddresses R db i ps else ret None) = for_each (add_ip R db t i) ps" for ps
    by (simp add: AddIPAddresses_def t)
  show thesis
    using assms(2) that unfolding SyncIPAddresses_def Let_def rm add
    by (fastforce split: prod.splits option.splits sum.splits)
qed

text \<open>Property C4. When \<open>SyncIPAddresses\<close> reports success, the addresses stored for the interface are exactly
  the desired ones, and no other key of any database has changed, whatever was stored before.
  The name of the interface must be free of the special characters of key patterns.\<close>

theorem SyncIPAddresses_exact:
  assumes "redis_contract R V" and "plain i" and "run (SyncIPAddresses R db i desired) w = (Some None, w')"
  shows "\<exists>t. interfaceIPTable i = Inr t \<and> dom (ip_entries V db t i w') = set desired \<and>
     ip_rest V db t i w' = ip_rest V db t i w"
proof -
  obtain t where t: "interfaceIPTable i = Inr t"
    using assms(3) by (cases "interfaceIPTable i") (auto simp: SyncIPAddresses_def ListIPAddresses_def)
  from t assms(3) obtain cur w1 w2 where steps: "run (ListIPAddresses R db i) w = (Some (Inr cur), w1)"
    "run (for_each (remove_ip R db t i) (filter (\<lambda>p. p \<notin> set desired) cur)) w1 = (None, w2)"
    "run (for_each (add_ip R db t i) (filter (\<lambda>p. p \<notin> set cur) desired)) w2 = (None, w')"
    by (rule SyncIPAddresses_steps)
  have "(\<lambda>k. (case (k, ()) of (p, u) \<Rightarrow> add_ip R db t i p)) = add_ip R db t i" by (simp add: fun_eq_iff)
  with steps(3) have "run (for_each (\<lambda>k. (case (k, ()) of (p, u) \<Rightarrow> add_ip R db t i p)) (filter (\<lambda>p. p \<notin> set cur) desired)) w2 = (None, w')"
    by simp
  from ip_sync.reconcile_missing [OF _ steps(1,2) this, of V] t assms(1,2) show ?thesis by blast
qed

text \<open>The property at a store with two addresses, one of which is wanted.\<close>

theorem SyncIPAddresses_exact_witness:
  "\<exists>t. interfaceIPTable ''Loopback0'' = Inr t \<and>
     dom (ip_entries mem_view \<lparr>configDB = 4, stateDB = 6, applDB = 0\<rparr> t ''Loopback0''
       (snd (run (SyncIPAddresses mem_redis \<lparr>configDB = 4, stateDB = 6, applDB = 0\<rparr> ''Loopback0''
          [''10.0.0.2/32'', ''10.0.0.3/32''])
        [((4, ''LOOPBACK_INTERFACE|Loopback0|10.0.0.1/32''), [(''NULL'', ''NULL'')]),
         ((4, ''LOOPBACK_INTERFACE|Loopback0|10.0.0.2/32''), [(''NULL'', ''NULL'')])])))
     = {''10.0.0.2/32'', ''10.0.0.3/32''}"
proof -
  let ?m = "SyncIPAddresses mem_redis \<lparr>configDB = 4, stateDB = 6, applDB = 0\<rparr> ''Loopback0'' [''10.0.0.2/32'', ''10.0.0.3/32'']"
  let ?w = "[((4, ''LOOPBACK_INTERFACE|Loopback0|10.0.0.1/32''), [(''NULL'', ''NULL'')]),
         ((4, ''LOOPBACK_INTERFACE|Loopback0|10.0.0.2/32''), [(''NULL'', ''NULL'')])] :: mem"
  have "list_all is_prefix_text [''10.0.0.1/32'', ''10.0.0.2/32'', ''10.0.0.3/32'']" by code_simp
  then have "fst (run ?m ?w) = Some None"
    by (simp add: SyncIPAddresses_def ListIPAddresses_def interfaceIPTable_def scanKeys_def scan_loop.simps
        RemoveIPAddresses_def AddIPAddresses_def remove_ip_def add_ip_def set_field_def del_key_def
        mem_redis_def mem_keys_def mem_hash_def is_prefix_text_def split: sum.splits)
  then have "run ?m ?w = (Some None, snd (run ?m ?w))" by (metis prod.collapse)
  from SyncIPAddresses_exact [OF mem_redis_contract _ this] show ?thesis by (auto simp: plain_def)
qed

text \<open>Property C16. \<open>SyncIPAddresses\<close> returns and succeeds on a reachable server when the kind of the interface is
  known and every desired and every stored address is a valid prefix.\<close>

theorem SyncIPAddresses_succeeds:
  assumes "redis_contract R V" and "reachable V w" and "plain i" and "interfaceIPTable i = Inr t"
    and "list_all is_prefix_text desired"
    and "\<forall>p. ip_entries V db t i w p \<noteq> None \<longrightarrow> is_prefix_text p"
  shows "\<exists>w'. run (SyncIPAddresses R db i desired) w = (Some None, w') \<and> reachable V w'"
proof -
  have rm1: "\<exists>v'. run (remove_ip R db t i p) v = (None, v') \<and> reachable V v'" if "is_prefix_text p" "reachable V v" for p v
    using that del_key_up [OF assms(1)] by (auto simp: remove_ip_def is_prefix_text_def split: sum.splits)
  have add1: "\<exists>v'. run (add_ip R db t i p) v = (None, v') \<and> reachable V v'" if "is_prefix_text p" "reachable V v" for p v
    using that set_field_up [OF assms(1)] by (auto simp: add_ip_def is_prefix_text_def split: sum.splits)
  obtain keys w1 where sc: "run (scanKeys R (configDB db) (t @ ''|'' @ i @ ''|*'')) w = (Some (Inr keys), w1)" "reachable V w1"
    using scanKeys_up [OF assms(1,2)] by blast
  obtain cur where cur: "run (ListIPAddresses R db i) w = (Some (Inr cur), w1)"
    using sc(1) by (simp add: ListIPAddresses_def assms(4))
  have valid: "\<forall>p\<in>set cur. is_prefix_text p"
    using ListIPAddresses_Inr [OF assms(1,4,3) cur] assms(6) by (simp add: domIff)
  let ?rm = "filter (\<lambda>p. p \<notin> set desired) cur" and ?add = "filter (\<lambda>p. p \<notin> set cur) desired"
  from for_each_up [of ?rm "reachable V" "remove_ip R db t i" w1] rm1 valid sc(2)
  obtain w2 where w2: "run (for_each (remove_ip R db t i) ?rm) w1 = (None, w2)" "reachable V w2" by auto
  from for_each_up [of ?add "reachable V" "add_ip R db t i" w2] add1 assms(5) w2(2)
  obtain w3 where w3: "run (for_each (add_ip R db t i) ?add) w2 = (None, w3)" "reachable V w3"
    by (auto simp: list_all_iff)
  have "run (if ?rm \<noteq> [] then RemoveIPAddresses R db i ?rm else ret None) w1 = (None, w2)"
    using w2(1) by (auto simp: RemoveIPAddresses_def assms(4))
  moreover have "run (if ?add \<noteq> [] then AddIPAddresses R db i ?add else ret None) w2 = (None, w3)"
    using w3(1) by (auto simp: AddIPAddresses_def assms(4))
  ultimately show ?thesis using cur w3(2) by (simp add: SyncIPAddresses_def Let_def del: if_split)
qed

text \<open>The property at a store whose one address is to be replaced.\<close>

theorem SyncIPAddresses_succeeds_witness:
  "\<exists>w'. run (SyncIPAddresses mem_redis \<lparr>configDB = 4, stateDB = 6, applDB = 0\<rparr> ''Vlan10'' [''10.0.0.3/32''])
     [((4, ''VLAN_INTERFACE|Vlan10|10.0.0.1/24''), [(''NULL'', ''NULL'')])] = (Some None, w') \<and> reachable mem_view w'"
proof (rule SyncIPAddresses_succeeds [OF mem_redis_contract, where t = "''VLAN_INTERFACE''"])
  have "list_all is_prefix_text [''10.0.0.1/24'', ''10.0.0.3/32'']" by code_simp
  then show "list_all is_prefix_text [''10.0.0.3/32'']"
    and "\<forall>p. ip_entries mem_view \<lparr>configDB = 4, stateDB = 6, applDB = 0\<rparr> ''VLAN_INTERFACE'' ''Vlan10''
       [((4, ''VLAN_INTERFACE|Vlan10|10.0.0.1/24''), [(''NULL'', ''NULL'')])] p \<noteq> None \<longrightarrow> is_prefix_text p"
    by (auto simp: ip_entries_def mem_view_def mem_hash_def ip_pfx_def)
qed (simp_all add: mem_view_def plain_def interfaceIPTable_def)

end
