(* ===== verification/Db_Vlan.thy ===== *)
theory Db_Vlan
  imports Db_Interface
begin

text \<open>
  VLANs, their members and their DHCP relays (\<open>pkg/sonic/db_vlan.go\<close>, the interface
  \<open>VLANAccessor\<close>), and the device metadata (\<open>pkg/sonic/db_device.go\<close>).
  \<open>SyncPortVLANs\<close> is shown to leave a port in exactly the desired VLANs with the desired
  tagging modes, as an interpretation of \<open>keyed_entries\<close>, and to write nothing when an
  argument is invalid.
\<close>

section \<open>VLANs\<close>

text \<open>The guard every operation on a VLAN starts with.\<close>

definition with_vlan :: "string \<Rightarrow> (goerror \<Rightarrow> 'b) \<Rightarrow> 'b \<Rightarrow> 'b" where
  "with_vlan vlanName h k = (case validateVlanName vlanName of Some err \<Rightarrow> h err | None \<Rightarrow> k)"

definition EnsureVLAN :: "('c, 'w) redis \<Rightarrow> 'c dbAccessor \<Rightarrow> string \<Rightarrow> ('w, goerror option) state" where
  "EnsureVLAN R db vlanName = with_vlan vlanName (\<lambda>err. ret (Some err))
     (set_field R db (''VLAN|'' @ vlanName) ''vlanid'' (TrimPrefix vlanName ''Vlan'') (''failed to ensure VLAN '' @ vlanName))"

definition EnsureVLANInterface :: "('c, 'w) redis \<Rightarrow> 'c dbAccessor \<Rightarrow> string \<Rightarrow> string \<Rightarrow> ('w, goerror option) state" where
  "EnsureVLANInterface R db vlanName vrfName = with_vlan vlanName (\<lambda>err. ret (Some err))
     (let fields = (if vrfName \<noteq> [] then [(''NULL'', ''NULL''), (''vrf_name'', vrfName)] else [(''NULL'', ''NULL'')]) in
      on_fail (HSet R (configDB db) (''VLAN_INTERFACE|'' @ vlanName) fields)
        (\<lambda>err. ret (Some (ErrorfW (''failed to ensure VLAN interface '' @ vlanName @ '': '' @ error_text err) err)))
        (ret None))"

definition DeleteVLAN :: "('c, 'w) redis \<Rightarrow> 'c dbAccessor \<Rightarrow> string \<Rightarrow> ('w, goerror option) state" where
  "DeleteVLAN R db vlanName = with_vlan vlanName (\<lambda>err. ret (Some err))
     (del_key R db (''VLAN|'' @ vlanName) (''failed to delete VLAN '' @ vlanName))"

definition DeleteVLANInterface :: "('c, 'w) redis \<Rightarrow> 'c dbAccessor \<Rightarrow> string \<Rightarrow> ('w, goerror option) state" where
  "DeleteVLANInterface R db vlanName = with_vlan vlanName (\<lambda>err. ret (Some err))
     (del_key R db (''VLAN_INTERFACE|'' @ vlanName) (''failed to delete VLAN interface '' @ vlanName))"

definition HasVLAN :: "('c, 'w) redis \<Rightarrow> 'c dbAccessor \<Rightarrow> string \<Rightarrow> ('w, bool res) state" where
  "HasVLAN R db vlanName = with_vlan vlanName (\<lambda>err. ret (Inl err))
     (on_err (Exists R (configDB db) (''VLAN|'' @ vlanName))
        (\<lambda>err. ret (Inl (ErrorfW (''failed to check VLAN '' @ vlanName @ '': '' @ error_text err) err)))
        (\<lambda>n. ret (Inr (0 < n))))"

definition SetVLANDescription :: "('c, 'w) redis \<Rightarrow> 'c dbAccessor \<Rightarrow> string \<Rightarrow> string \<Rightarrow> ('w, goerror option) state" where
  "SetVLANDescription R db vlanName description = with_vlan vlanName (\<lambda>err. ret (Some err))
     (set_field R db (''VLAN|'' @ vlanName) ''description'' description (''failed to set description for VLAN '' @ vlanName))"

section \<open>Members\<close>

definition bad_mode :: "string \<Rightarrow> string \<Rightarrow> string \<Rightarrow> goerror option" where
  "bad_mode taggingMode vlanName portName =
     (if taggingMode \<noteq> ''tagged'' \<and> taggingMode \<noteq> ''untagged''
      then Some (Errorf (''invalid tagging mode '' @ Quote taggingMode @ '' for '' @ vlanName @ '' on '' @ portName
             @ '': must be tagged or untagged''))
      else None)"

definition EnsureVLANMember :: "('c, 'w) redis \<Rightarrow> 'c dbAccessor \<Rightarrow> string \<Rightarrow> string \<Rightarrow> string \<Rightarrow> ('w, goerror option) state" where
  "EnsureVLANMember R db vlanName portName taggingMode = with_vlan vlanName (\<lambda>err. ret (Some err))
     (case validatePortName portName of Some err \<Rightarrow> ret (Some err)
      | None \<Rightarrow> (case bad_mode taggingMode vlanName portName of Some err \<Rightarrow> ret (Some err)
        | None \<Rightarrow> set_field R db (''VLAN_MEMBER|'' @ vlanName @ ''|'' @ portName) ''tagging_mode'' taggingMode
            (''failed to ensure VLAN member '' @ vlanName @ '' on '' @ portName)))"

definition RemoveVLANMember :: "('c, 'w) redis \<Rightarrow> 'c dbAccessor \<Rightarrow> string \<Rightarrow> string \<Rightarrow> ('w, goerror option) state" where
  "RemoveVLANMember R db vlanName portName = with_vlan vlanName (\<lambda>err. ret (Some err))
     (case validatePortName portName of Some err \<Rightarrow> ret (Some err)
      | None \<Rightarrow> del_key R db (''VLAN_MEMBER|'' @ vlanName @ ''|'' @ portName)
            (''failed to remove VLAN member '' @ vlanName @ '' from '' @ portName))"

fun member_vlans :: "string list \<Rightarrow> string list" where
  "member_vlans [] = []"
| "member_vlans (k # ks) =
     (let parts = SplitN CHR ''|'' 3 k in
      if length parts = 3 then parts ! 1 # member_vlans ks else member_vlans ks)"

definition ListPortVLANs :: "('c, 'w) redis \<Rightarrow> 'c dbAccessor \<Rightarrow> string \<Rightarrow> ('w, string list res option) state" where
  "ListPortVLANs R db portName = (case validatePortName portName of
      Some err \<Rightarrow> ret (Some (Inl err))
    | None \<Rightarrow> on_scan (scanKeys R (configDB db) (''VLAN_MEMBER|*|'' @ portName))
        (\<lambda>err. ret (Some (Inl (ErrorfW (''failed to list VLAN members for '' @ portName @ '': '' @ error_text err) err))))
        (\<lambda>keys. ret (Some (Inr (member_vlans keys)))))"

fun check_desired :: "string \<Rightarrow> gomap \<Rightarrow> goerror option" where
  "check_desired portName [] = None"
| "check_desired portName ((vlan, mode) # ms) = (case validateVlanName vlan of Some err \<Rightarrow> Some err
     | None \<Rightarrow> (case bad_mode mode vlan portName of Some err \<Rightarrow> Some err | None \<Rightarrow> check_desired portName ms))"

text \<open>
  The map of desired memberships is a list without repeated keys. Go ranges over it twice, in two
  unspecified orders. The outcome of the first loop does not depend on its order but for the
  invalid entry that is reported.
\<close>

definition SyncPortVLANs :: "('c, 'w) redis \<Rightarrow> 'c dbAccessor \<Rightarrow> string \<Rightarrow> gomap \<Rightarrow> ('w, goerror option option) state" where
  "SyncPortVLANs R db portName desired = (case validatePortName portName of
      Some err \<Rightarrow> ret (Some (Some err))
    | None \<Rightarrow> (case check_desired portName desired of Some err \<Rightarrow> ret (Some (Some err))
      | None \<Rightarrow>
         on_scan (ListPortVLANs R db portName) (\<lambda>err. ret (Some (Some err)))
           (\<lambda>current.
              on_fail (for_each (\<lambda>vlan. RemoveVLANMember R db vlan portName)
                         (filter (\<lambda>vlan. vlan \<notin> fst ` set desired) current))
                (\<lambda>err. ret (Some (Some err)))
                (on_fail (for_each (\<lambda>(vlan, taggingMode). EnsureVLANMember R db vlan portName taggingMode) desired)
                   (\<lambda>err. ret (Some (Some err)))
                   (ret (Some None))))))"

lemma check_desired_None:
  "check_desired p ds = None \<longleftrightarrow> (\<forall>(v, m)\<in>set ds. validateVlanName v = None \<and> m \<in> {''tagged'', ''untagged''})"
  by (induction p ds rule: check_desired.induct) (auto simp: bad_mode_def split: option.splits)

section \<open>DHCP relay\<close>

fun check_servers :: "string list \<Rightarrow> goerror option" where
  "check_servers [] = None"
| "check_servers (s # ss) = (case ParseAddr s of
      Inl err \<Rightarrow> Some (ErrorfW (''invalid DHCP server address '' @ Quote s @ '': '' @ error_text err) err)
    | Inr _ \<Rightarrow> check_servers ss)"

definition EnsureDHCPRelay :: "('c, 'w) redis \<Rightarrow> 'c dbAccessor \<Rightarrow> string \<Rightarrow> string list \<Rightarrow> ('w, goerror option) state" where
  "EnsureDHCPRelay R db vlanName servers = with_vlan vlanName (\<lambda>err. ret (Some err))
     (if servers = [] then ret (Some (Errorf ''servers must not be empty''))
      else (case check_servers servers of Some err \<Rightarrow> ret (Some err)
        | None \<Rightarrow> set_field R db (''VLAN|'' @ vlanName) ''dhcp_servers@'' (Join servers '','')
            (''failed to set dhcp_servers for '' @ vlanName)))"

definition DeleteDHCPRelay :: "('c, 'w) redis \<Rightarrow> 'c dbAccessor \<Rightarrow> string \<Rightarrow> ('w, goerror option) state" where
  "DeleteDHCPRelay R db vlanName = with_vlan vlanName (\<lambda>err. ret (Some err))
     (on_fail (HDel R (configDB db) (''VLAN|'' @ vlanName) ''dhcp_servers@'')
        (\<lambda>err. ret (Some (ErrorfW (''failed to delete dhcp_servers for '' @ vlanName @ '': '' @ error_text err) err)))
        (ret None))"

definition HasDHCPRelay :: "('c, 'w) redis \<Rightarrow> 'c dbAccessor \<Rightarrow> string \<Rightarrow> ('w, bool res) state" where
  "HasDHCPRelay R db vlanName = with_vlan vlanName (\<lambda>err. ret (Inl err))
     (on_err (HExists R (configDB db) (''VLAN|'' @ vlanName) ''dhcp_servers@'')
        (\<lambda>err. ret (Inl (ErrorfW (''failed to check dhcp_servers for '' @ vlanName @ '': '' @ error_text err) err)))
        (\<lambda>result. ret (Inr result)))"

section \<open>Device metadata\<close>

definition SetHostname :: "('c, 'w) redis \<Rightarrow> 'c dbAccessor \<Rightarrow> string \<Rightarrow> ('w, goerror option) state" where
  "SetHostname R db hostname =
     (if hostname = [] then ret (Some (Errorf ''hostname must not be empty''))
      else set_field R db ''DEVICE_METADATA|localhost'' ''hostname'' hostname ''failed to set hostname'')"

definition GetDeviceMetadata :: "('c, 'w) redis \<Rightarrow> 'c dbAccessor \<Rightarrow> ('w, gomap res) state" where
  "GetDeviceMetadata R db =
     on_err (HGetAll R (configDB db) ''DEVICE_METADATA|localhost'')
       (\<lambda>err. ret (Inl (ErrorfW (''failed to get device metadata: '' @ error_text err) err)))
       (\<lambda>fields. ret (Inr fields))"

section \<open>The memberships of a port as entries\<close>

definition member_key :: "string \<Rightarrow> string \<Rightarrow> string" where
  "member_key p v = ''VLAN_MEMBER|'' @ v @ ''|'' @ p"

lemma member_key_inj [simp]: "member_key p v = member_key p v' \<longleftrightarrow> v = v'"
  by (simp add: member_key_def)

text \<open>
  The tagging mode stored for each VLAN (a name without the separator of keys) the port is a member
  of (empty when the field is absent), and what is stored under the other keys.
\<close>

definition vlan_entries :: "('c, 'w) store_view \<Rightarrow> 'c dbAccessor \<Rightarrow> string \<Rightarrow> 'w \<Rightarrow> string \<rightharpoonup> string" where
  "vlan_entries V db p w v =
     (let h = hashes_of V w (db_of V (configDB db)) (member_key p v) in
      if CHR ''|'' \<in> set v \<or> h = Map.empty then None else Some (case h ''tagging_mode'' of None \<Rightarrow> [] | Some m \<Rightarrow> m))"

definition vlan_rest :: "('c, 'w) store_view \<Rightarrow> 'c dbAccessor \<Rightarrow> string \<Rightarrow> 'w \<Rightarrow> hashes" where
  "vlan_rest V db p w =
     (\<lambda>d k. if d = db_of V (configDB db) \<and> (\<exists>v. CHR ''|'' \<notin> set v \<and> k = member_key p v) then Map.empty
            else hashes_of V w d k)"

lemma SplitN_3: "CHR ''|'' \<notin> set a \<Longrightarrow> CHR ''|'' \<notin> set b \<Longrightarrow> SplitN CHR ''|'' 3 (a @ CHR ''|'' # b @ CHR ''|'' # c) = [a, b, c]"
proof -
  assume "CHR ''|'' \<notin> set a" "CHR ''|'' \<notin> set b"
  then have "cut_at CHR ''|'' (a @ CHR ''|'' # b @ CHR ''|'' # c) = Some (a, b @ CHR ''|'' # c)"
    and "cut_at CHR ''|'' (b @ CHR ''|'' # c) = Some (b, c)" by (simp_all add: cut_at_Some)
  then show ?thesis by (simp add: SplitN.simps)
qed

lemma SplitN_member_key: "CHR ''|'' \<notin> set v \<Longrightarrow> SplitN CHR ''|'' 3 (member_key p v) = [''VLAN_MEMBER'', v, p]"
  using SplitN_3 [of "''VLAN_MEMBER''" v p] by (simp add: member_key_def)

lemma member_vlans_mem: "member_key p v \<in> set ks \<Longrightarrow> CHR ''|'' \<notin> set v \<Longrightarrow> v \<in> set (member_vlans ks)"
  by (induction ks rule: member_vlans.induct) (auto simp: SplitN_member_key Let_def)

lemma ListPortVLANs_Inr:
  assumes "redis_contract R V" and "plain p" and "run (ListPortVLANs R db p) w = (Some (Inr vs), w')"
  shows "dom (vlan_entries V db p w) \<subseteq> set vs \<and> hashes_of V w' = hashes_of V w"
proof -
  from assms(3) obtain keys where
    sc: "run (scanKeys R (configDB db) (''VLAN_MEMBER|*|'' @ p)) w = (Some (Inr keys), w')"
    and vs: "vs = member_vlans keys"
    by (auto simp: ListPortVLANs_def split: prod.splits option.splits sum.splits)
  have "plain ''VLAN_MEMBER|''" "plain (CHR ''|'' # p)" using assms(2) by (auto simp: plain_def)
  from glob_plain [OF assms(1) this]
  have "glob V (''VLAN_MEMBER|*|'' @ p) (member_key p v)" for v by (simp add: member_key_def)
  then have "hashes_of V w (db_of V (configDB db)) (member_key p v) \<noteq> Map.empty \<Longrightarrow> member_key p v \<in> set keys" for v
    using scanKeys_Inr(2) [OF assms(1) sc] by blast
  then have "dom (vlan_entries V db p w) \<subseteq> set vs"
    using member_vlans_mem [of p _ keys] by (auto simp: vs vlan_entries_def Let_def split: if_splits)
  then show ?thesis using scanKeys_Inr(1) [OF assms(1) sc] by blast
qed

lemma RemoveVLANMember_ok:
  assumes "redis_contract R V" and "run (RemoveVLANMember R db v p) w = (None, w')"
  shows "vlan_entries V db p w' = (vlan_entries V db p w)(v := None) \<and> vlan_rest V db p w' = vlan_rest V db p w"
proof -
  from assms(2) have v: "validateVlanName v = None"
    and "run (del_key R db (member_key p v) (''failed to remove VLAN member '' @ v @ '' from '' @ p)) w = (None, w')"
    by (auto simp: RemoveVLANMember_def with_vlan_def member_key_def split: option.splits)
  from del_key_ok [OF assms(1) this(2)] vlan_no_bar [OF v] show ?thesis
    by (auto simp: vlan_entries_def vlan_rest_def fun_eq_iff Let_def)
qed

lemma EnsureVLANMember_ok:
  assumes "redis_contract R V" and "run (EnsureVLANMember R db v p mode) w = (None, w')"
  shows "vlan_entries V db p w' = (vlan_entries V db p w)(v \<mapsto> mode) \<and> vlan_rest V db p w' = vlan_rest V db p w"
proof -
  from assms(2) have v: "validateVlanName v = None"
    and "run (set_field R db (member_key p v) ''tagging_mode'' mode (''failed to ensure VLAN member '' @ v @ '' on '' @ p)) w = (None, w')"
    by (auto simp: EnsureVLANMember_def with_vlan_def member_key_def split: option.splits)
  from set_field_ok [OF assms(1) this(2)] vlan_no_bar [OF v] show ?thesis
    by (auto simp: vlan_entries_def vlan_rest_def cfg_put_def fun_eq_iff Let_def)
qed

text \<open>The laws of the interface hold of the accessor's own operations.\<close>

interpretation vlan_sync: keyed_entries
  "\<lambda>w. redis_contract R V \<and> plain p" "vlan_entries V db p" "vlan_rest V db p"
  "ListPortVLANs R db p" "\<lambda>v. RemoveVLANMember R db v p" "\<lambda>(v, m). EnsureVLANMember R db v p m"
  for R V db p
proof (unfold_locales, goal_cases)
  case (1 w ks w')
  then have "dom (vlan_entries V db p w) \<subseteq> set ks" and eq: "hashes_of V w' = hashes_of V w"
    using ListPortVLANs_Inr [of R V p db w ks w'] by auto
  moreover have "vlan_entries V db p w' = vlan_entries V db p w" "vlan_rest V db p w' = vlan_rest V db p w"
    unfolding vlan_entries_def vlan_rest_def eq by (rule refl)+
  ultimately show ?case using 1(1) by simp
next
  case (2 w v w')
  then show ?case using RemoveVLANMember_ok [of R V db v p w w'] by simp
next
  case (3 w kv w')
  then show ?case using EnsureVLANMember_ok [of R V db "fst kv" p "snd kv" w w'] by (simp add: case_prod_beta)
qed

section \<open>Synchronisation of the memberships\<close>

lemma SyncPortVLANs_steps:
  assumes "run (SyncPortVLANs R db p desired) w = (Some None, w')"
  obtains cur w1 w2 where "run (ListPortVLANs R db p) w = (Some (Inr cur), w1)"
    and "run (for_each (\<lambda>v. RemoveVLANMember R db v p) (filter (\<lambda>v. v \<notin> fst ` set desired) cur)) w1 = (None, w2)"
    and "run (for_each (\<lambda>(v, m). EnsureVLANMember R db v p m) desired) w2 = (None, w')"
  using assms unfolding SyncPortVLANs_def
  by (fastforce split: prod.splits option.splits sum.splits)

text \<open>Property C3. When \<open>SyncPortVLANs\<close> reports success, the port is a member of exactly the desired VLANs,
  each with the desired tagging mode, and no other key of any database has changed, whatever was
  stored before. The name of the port must be free of the special characters of key patterns.\<close>

theorem SyncPortVLANs_exact:
  assumes "redis_contract R V" and "plain p" and "distinct (map fst desired)"
    and "run (SyncPortVLANs R db p desired) w = (Some None, w')"
  shows "vlan_entries V db p w' = map_of desired \<and> vlan_rest V db p w' = vlan_rest V db p w"
proof -
  from assms(4) obtain cur w1 w2 where steps: "run (ListPortVLANs R db p) w = (Some (Inr cur), w1)"
    "run (for_each (\<lambda>v. RemoveVLANMember R db v p) (filter (\<lambda>v. v \<notin> fst ` set desired) cur)) w1 = (None, w2)"
    "run (for_each (\<lambda>(v, m). EnsureVLANMember R db v p m) desired) w2 = (None, w')"
    by (rule SyncPortVLANs_steps)
  from vlan_sync.reconcile [OF _ steps assms(3), of V] assms(1,2) show ?thesis by blast
qed

text \<open>The property at a port that leaves one VLAN, stays in one and joins another.\<close>

theorem SyncPortVLANs_exact_witness:
  "vlan_entries mem_view \<lparr>configDB = 4, stateDB = 6, applDB = 0\<rparr> ''Ethernet0''
     (snd (run (SyncPortVLANs mem_redis \<lparr>configDB = 4, stateDB = 6, applDB = 0\<rparr> ''Ethernet0''
          [(''Vlan20'', ''tagged''), (''Vlan30'', ''untagged'')])
        [((4, ''VLAN_MEMBER|Vlan10|Ethernet0''), [(''tagging_mode'', ''tagged'')]),
         ((4, ''VLAN_MEMBER|Vlan20|Ethernet0''), [(''tagging_mode'', ''untagged'')])]))
   = [''Vlan20'' \<mapsto> ''tagged'', ''Vlan30'' \<mapsto> ''untagged'']"
proof -
  let ?m = "SyncPortVLANs mem_redis \<lparr>configDB = 4, stateDB = 6, applDB = 0\<rparr> ''Ethernet0''
          [(''Vlan20'', ''tagged''), (''Vlan30'', ''untagged'')]"
  let ?w = "[((4, ''VLAN_MEMBER|Vlan10|Ethernet0''), [(''tagging_mode'', ''tagged'')]),
         ((4, ''VLAN_MEMBER|Vlan20|Ethernet0''), [(''tagging_mode'', ''untagged'')])] :: mem"
  have v: "validateVlanName ''Vlan10'' = None" "validateVlanName ''Vlan20'' = None" "validateVlanName ''Vlan30'' = None"
    by code_simp+
  have "fst (run ?m ?w) = Some None"
    by (simp add: v SyncPortVLANs_def ListPortVLANs_def validatePortName_def bad_mode_def scanKeys_def scan_loop.simps
        RemoveVLANMember_def EnsureVLANMember_def with_vlan_def set_field_def del_key_def SplitN.simps
        mem_redis_def mem_keys_def mem_hash_def)
  then have "run ?m ?w = (Some None, snd (run ?m ?w))" by (metis prod.collapse)
  from SyncPortVLANs_exact [OF mem_redis_contract _ _ this] show ?thesis by (auto simp: plain_def)
qed

text \<open>\<open>SyncPortVLANs\<close> validates before it acts: if the name of the port, the name of a desired
  VLAN or a tagging mode is invalid, it returns an error without any call to the database, and in
  particular without having removed a membership.\<close>

lemma SyncPortVLANs_validates_first:
  assumes "\<not> HasPrefix p ''Ethernet'' \<or>
     (\<exists>(v, m)\<in>set desired. validateVlanName v \<noteq> None \<or> m \<notin> {''tagged'', ''untagged''})"
  shows "\<exists>e. run (SyncPortVLANs R db p desired) w = (Some (Some e), w)"
proof -
  have "validatePortName p \<noteq> None \<or> check_desired p desired \<noteq> None"
  proof (rule ccontr)
    assume "\<not> (validatePortName p \<noteq> None \<or> check_desired p desired \<noteq> None)"
    then have "HasPrefix p ''Ethernet''" and ok: "check_desired p desired = None"
      by (simp_all add: validatePortName_def split: if_split_asm)
    with assms obtain v m where "(v, m) \<in> set desired" "validateVlanName v \<noteq> None \<or> m \<notin> {''tagged'', ''untagged''}"
      by (simp only: not_True_eq_False simp_thms) (erule bexE, simp only: split_paired_all prod.case)
    with ok [unfolded check_desired_None, THEN bspec, of "(v, m)"] show False by simp
  qed
  then show ?thesis
    by (cases "validatePortName p"; cases "check_desired p desired") (simp_all add: SyncPortVLANs_def)
qed

section \<open>DHCP relay: what is configured can be read back\<close>

lemma EnsureDHCPRelay_ok:
  assumes "run (EnsureDHCPRelay R db v ss) w = (None, w')"
  shows "validateVlanName v = None \<and> ss \<noteq> [] \<and> check_servers ss = None \<and>
    run (set_field R db (''VLAN|'' @ v) ''dhcp_servers@'' (Join ss '','') (''failed to set dhcp_servers for '' @ v)) w = (None, w')"
  using assms by (auto simp: EnsureDHCPRelay_def with_vlan_def split: option.splits if_splits)

text \<open>After \<open>EnsureDHCPRelay\<close> succeeded on a reachable server, \<open>HasDHCPRelay\<close> answers true and the stored
  list splits at its commas into the servers given (none of which contains a comma); after a
  \<open>DeleteDHCPRelay\<close> that succeeds, \<open>HasDHCPRelay\<close> answers false.\<close>

lemma DHCPRelay_roundtrip:
  assumes "redis_contract R V" and "run (EnsureDHCPRelay R db v ss) w = (None, w1)" and "reachable V w1"
    and "\<forall>s\<in>set ss. CHR '','' \<notin> set s"
  shows "\<exists>raw w2 w3 w4. hashes_of V w1 (db_of V (configDB db)) (''VLAN|'' @ v) ''dhcp_servers@'' = Some raw \<and>
     Split CHR '','' raw = ss \<and> run (HasDHCPRelay R db v) w1 = (Inr True, w2) \<and>
     run (DeleteDHCPRelay R db v) w2 = (None, w3) \<and> run (HasDHCPRelay R db v) w3 = (Inr False, w4)"
proof -
  from EnsureDHCPRelay_ok [OF assms(2)] have v: "validateVlanName v = None" and ss: "ss \<noteq> []"
    and "run (set_field R db (''VLAN|'' @ v) ''dhcp_servers@'' (Join ss '','') (''failed to set dhcp_servers for '' @ v)) w = (None, w1)"
    by auto
  from set_field_ok [OF assms(1) this(3)]
  have raw: "hashes_of V w1 (db_of V (configDB db)) (''VLAN|'' @ v) ''dhcp_servers@'' = Some (Join ss '','')"
    by simp
  have has: "\<exists>u'. run (HasDHCPRelay R db v) u = (Inr (hashes_of V u (db_of V (configDB db)) (''VLAN|'' @ v) ''dhcp_servers@'' \<noteq> None), u')
       \<and> reachable V u'" if "reachable V u" for u
    using answersD [OF answers_up(2) [OF assms(1), of "configDB db" "''VLAN|'' @ v" "''dhcp_servers@''"] that]
      HExists_Inr [OF assms(1), of "configDB db" "''VLAN|'' @ v" "''dhcp_servers@''" u]
    by (auto simp: HasDHCPRelay_def with_vlan_def v)
  from has [OF assms(3)] raw obtain w2 where w2: "run (HasDHCPRelay R db v) w1 = (Inr True, w2)" "reachable V w2" by auto
  from acceptsD [OF accepts_up(2) [OF assms(1), of "configDB db" "''VLAN|'' @ v" "''dhcp_servers@''"] w2(2)]
  obtain w3 where del: "run (HDel R (configDB db) (''VLAN|'' @ v) ''dhcp_servers@'') w2 = (None, w3)" "reachable V w3" by auto
  then have w3: "run (DeleteDHCPRelay R db v) w2 = (None, w3)" by (simp add: DeleteDHCPRelay_def with_vlan_def v)
  from has [OF del(2)] HDel_ok [OF assms(1) del(1)]
  obtain w4 where "run (HasDHCPRelay R db v) w3 = (Inr False, w4)" by auto
  with raw w2(1) w3 Split_Join [OF ss assms(4)] show ?thesis by blast
qed

end
