(* ===== verification/Db_Api.thy ===== *)
theory Db_Api
  imports Db_Vlan
begin

text \<open>
  The interface of \<open>pkg/sonic\<close> (\<open>db_accessor.go\<close>): the four groups of operations, and the accessor that \<open>NewDBAccessor\<close> returns as an
  implementation of them. What all operations have in common: those that read change nothing, and on a reachable server none of
  them writes to another database than CONFIG\_DB.
\<close>

record 'w PortAccessor =
  acc_ListPortNames :: "('w, string list res option) state"
  acc_GetPortSpeed :: "string \<Rightarrow> ('w, int res) state"
  acc_GetPortSupportedSpeeds :: "string \<Rightarrow> ('w, string res) state"
  acc_GetTransceiverType :: "string \<Rightarrow> ('w, string res) state"
  acc_GetPortAlias :: "string \<Rightarrow> ('w, string res) state"
  acc_GetLLDPEntry :: "string \<Rightarrow> ('w, gomap option res) state"
  acc_ListPortTableEntries :: "('w, (string \<times> gomap) list res option) state"
  acc_HasPort :: "string \<Rightarrow> ('w, bool res) state"
  acc_SetMTU :: "string \<Rightarrow> int \<Rightarrow> ('w, goerror option) state"
  acc_SetFEC :: "string \<Rightarrow> string \<Rightarrow> ('w, goerror option) state"
  acc_SetSpeed :: "string \<Rightarrow> int \<Rightarrow> ('w, goerror option) state"
  acc_SetPortAlias :: "string \<Rightarrow> string \<Rightarrow> ('w, goerror option) state"

record 'w InterfaceAccessor =
  acc_GetAdminStatus :: "string \<Rightarrow> ('w, bool res) state"
  acc_GetOperStatus :: "string \<Rightarrow> ('w, bool res) state"
  acc_SetAdminStatus :: "string \<Rightarrow> string \<Rightarrow> ('w, goerror option) state"
  acc_EnsureLoopback :: "string \<Rightarrow> ('w, goerror option) state"
  acc_DeleteLoopback :: "string \<Rightarrow> ('w, goerror option) state"
  acc_AddIPAddresses :: "string \<Rightarrow> string list \<Rightarrow> ('w, goerror option) state"
  acc_RemoveIPAddresses :: "string \<Rightarrow> string list \<Rightarrow> ('w, goerror option) state"
  acc_ListIPAddresses :: "string \<Rightarrow> ('w, string list res option) state"
  acc_SyncIPAddresses :: "string \<Rightarrow> string list \<Rightarrow> ('w, goerror option option) state"

record 'w VLANAccessor =
  acc_EnsureVLAN :: "string \<Rightarrow> ('w, goerror option) state"
  acc_EnsureVLANInterface :: "string \<Rightarrow> string \<Rightarrow> ('w, goerror option) state"
  acc_DeleteVLAN :: "string \<Rightarrow> ('w, goerror option) state"
  acc_DeleteVLANInterface :: "string \<Rightarrow> ('w, goerror option) state"
  acc_HasVLAN :: "string \<Rightarrow> ('w, bool res) state"
  acc_SetVLANDescription :: "string \<Rightarrow> string \<Rightarrow> ('w, goerror option) state"
  acc_EnsureVLANMember :: "string \<Rightarrow> string \<Rightarrow> string \<Rightarrow> ('w, goerror option) state"
  acc_RemoveVLANMember :: "string \<Rightarrow> string \<Rightarrow> ('w, goerror option) state"
  acc_ListPortVLANs :: "string \<Rightarrow> ('w, string list res option) state"
  acc_SyncPortVLANs :: "string \<Rightarrow> gomap \<Rightarrow> ('w, goerror option option) state"
  acc_EnsureDHCPRelay :: "string \<Rightarrow> string list \<Rightarrow> ('w, goerror option) state"
  acc_DeleteDHCPRelay :: "string \<Rightarrow> ('w, goerror option) state"
  acc_HasDHCPRelay :: "string \<Rightarrow> ('w, bool res) state"

record 'w DeviceAccessor =
  acc_SetHostname :: "string \<Rightarrow> ('w, goerror option) state"
  acc_GetDeviceMetadata :: "('w, gomap res) state"

record 'w DBAccessor =
  as_PortAccessor :: "'w PortAccessor"
  as_InterfaceAccessor :: "'w InterfaceAccessor"
  as_VLANAccessor :: "'w VLANAccessor"
  as_DeviceAccessor :: "'w DeviceAccessor"

text \<open>The implementation.\<close>

definition dbAccessor_DBAccessor :: "('c, 'w) redis \<Rightarrow> 'c dbAccessor \<Rightarrow> 'w DBAccessor" where
  "dbAccessor_DBAccessor R A = \<lparr>
     as_PortAccessor = \<lparr>
       acc_ListPortNames = ListPortNames R A, acc_GetPortSpeed = GetPortSpeed R A, acc_GetPortSupportedSpeeds = GetPortSupportedSpeeds R A,
       acc_GetTransceiverType = GetTransceiverType R A, acc_GetPortAlias = GetPortAlias R A, acc_GetLLDPEntry = GetLLDPEntry R A,
       acc_ListPortTableEntries = ListPortTableEntries R A, acc_HasPort = HasPort R A, acc_SetMTU = SetMTU R A, acc_SetFEC = SetFEC R A,
       acc_SetSpeed = SetSpeed R A, acc_SetPortAlias = SetPortAlias R A\<rparr>,
     as_InterfaceAccessor = \<lparr>
       acc_GetAdminStatus = GetAdminStatus R A, acc_GetOperStatus = GetOperStatus R A, acc_SetAdminStatus = SetAdminStatus R A,
       acc_EnsureLoopback = EnsureLoopback R A, acc_DeleteLoopback = DeleteLoopback R A, acc_AddIPAddresses = AddIPAddresses R A,
       acc_RemoveIPAddresses = RemoveIPAddresses R A, acc_ListIPAddresses = ListIPAddresses R A, acc_SyncIPAddresses = SyncIPAddresses R A\<rparr>,
     as_VLANAccessor = \<lparr>
       acc_EnsureVLAN = EnsureVLAN R A, acc_EnsureVLANInterface = EnsureVLANInterface R A, acc_DeleteVLAN = DeleteVLAN R A,
       acc_DeleteVLANInterface = DeleteVLANInterface R A, acc_HasVLAN = HasVLAN R A, acc_SetVLANDescription = SetVLANDescription R A,
       acc_EnsureVLANMember = EnsureVLANMember R A, acc_RemoveVLANMember = RemoveVLANMember R A, acc_ListPortVLANs = ListPortVLANs R A,
       acc_SyncPortVLANs = SyncPortVLANs R A, acc_EnsureDHCPRelay = EnsureDHCPRelay R A, acc_DeleteDHCPRelay = DeleteDHCPRelay R A,
       acc_HasDHCPRelay = HasDHCPRelay R A\<rparr>,
     as_DeviceAccessor = \<lparr>acc_SetHostname = SetHostname R A, acc_GetDeviceMetadata = GetDeviceMetadata R A\<rparr>\<rparr>"

section \<open>What the operations have in common\<close>

text \<open>Every operation that reads, and every operation that writes, keeps a property of the world.\<close>

definition reads_keep :: "('w \<Rightarrow> bool) \<Rightarrow> 'w DBAccessor \<Rightarrow> bool" where
  "reads_keep I D \<longleftrightarrow> (let p = as_PortAccessor D; i = as_InterfaceAccessor D; v = as_VLANAccessor D; d = as_DeviceAccessor D in
     keeps I (acc_ListPortNames p) \<and> (\<forall>n. keeps I (acc_GetPortSpeed p n)) \<and> (\<forall>n. keeps I (acc_GetPortSupportedSpeeds p n)) \<and>
     (\<forall>n. keeps I (acc_GetTransceiverType p n)) \<and> (\<forall>n. keeps I (acc_GetPortAlias p n)) \<and> (\<forall>n. keeps I (acc_GetLLDPEntry p n)) \<and>
     keeps I (acc_ListPortTableEntries p) \<and> (\<forall>n. keeps I (acc_HasPort p n)) \<and>
     (\<forall>n. keeps I (acc_GetAdminStatus i n)) \<and> (\<forall>n. keeps I (acc_GetOperStatus i n)) \<and> (\<forall>n. keeps I (acc_ListIPAddresses i n)) \<and>
     (\<forall>n. keeps I (acc_HasVLAN v n)) \<and> (\<forall>n. keeps I (acc_ListPortVLANs v n)) \<and> (\<forall>n. keeps I (acc_HasDHCPRelay v n)) \<and>
     keeps I (acc_GetDeviceMetadata d))"

definition writes_keep :: "('w \<Rightarrow> bool) \<Rightarrow> 'w DBAccessor \<Rightarrow> bool" where
  "writes_keep I D \<longleftrightarrow> (let p = as_PortAccessor D; i = as_InterfaceAccessor D; v = as_VLANAccessor D; d = as_DeviceAccessor D in
     (\<forall>n m. keeps I (acc_SetMTU p n m)) \<and> (\<forall>n f. keeps I (acc_SetFEC p n f)) \<and> (\<forall>n s. keeps I (acc_SetSpeed p n s)) \<and>
     (\<forall>n a. keeps I (acc_SetPortAlias p n a)) \<and> (\<forall>n s. keeps I (acc_SetAdminStatus i n s)) \<and>
     (\<forall>n. keeps I (acc_EnsureLoopback i n)) \<and> (\<forall>n. keeps I (acc_DeleteLoopback i n)) \<and> (\<forall>n ps. keeps I (acc_AddIPAddresses i n ps)) \<and>
     (\<forall>n ps. keeps I (acc_RemoveIPAddresses i n ps)) \<and> (\<forall>n ps. keeps I (acc_SyncIPAddresses i n ps)) \<and>
     (\<forall>n. keeps I (acc_EnsureVLAN v n)) \<and> (\<forall>n r. keeps I (acc_EnsureVLANInterface v n r)) \<and> (\<forall>n. keeps I (acc_DeleteVLAN v n)) \<and>
     (\<forall>n. keeps I (acc_DeleteVLANInterface v n)) \<and> (\<forall>n t. keeps I (acc_SetVLANDescription v n t)) \<and>
     (\<forall>n p m. keeps I (acc_EnsureVLANMember v n p m)) \<and> (\<forall>n p. keeps I (acc_RemoveVLANMember v n p)) \<and>
     (\<forall>p m. keeps I (acc_SyncPortVLANs v p m)) \<and> (\<forall>n ss. keeps I (acc_EnsureDHCPRelay v n ss)) \<and> (\<forall>n. keeps I (acc_DeleteDHCPRelay v n)) \<and>
     (\<forall>h. keeps I (acc_SetHostname d h)))"

text \<open>The rules for the forms of computation that the accessor uses besides those of the prelude.\<close>

lemma keeps_on_scan [keeps_rules]:
  "keeps I m \<Longrightarrow> (\<And>e. keeps I (h e)) \<Longrightarrow> (\<And>v. keeps I (k v)) \<Longrightarrow> keeps I (on_scan m h k)"
  unfolding on_scan_def by (rule keeps_bind, assumption) (auto intro: keeps_ret split: option.split sum.split)

lemma keeps_for_each [keeps_rules]: "(\<And>x. keeps I (f x)) \<Longrightarrow> keeps I (for_each f xs)"
  by (induction xs) (auto intro!: keeps_rules)

lemma keeps_with_vlan [keeps_rules]: "(\<And>e. keeps I (h e)) \<Longrightarrow> keeps I k \<Longrightarrow> keeps I (with_vlan n h k)"
  by (auto simp: with_vlan_def split: option.split)

text \<open>
  What the operations rely on: commands that read, and for those that write also the commands that change a key of CONFIG\_DB, keep
  the property. No operation uses another command.
\<close>

locale read_commands =
  fixes R :: "('c, 'w) redis" and A :: "'c dbAccessor" and I :: "'w \<Rightarrow> bool"
  assumes HGet_keeps [keeps_rules]: "keeps I (HGet R c k f)"
    and HGetAll_keeps [keeps_rules]: "keeps I (HGetAll R c k)"
    and HExists_keeps [keeps_rules]: "keeps I (HExists R c k f)"
    and Exists_keeps [keeps_rules]: "keeps I (Exists R c k)"
    and scanKeys_keeps [keeps_rules]: "keeps I (scanKeys R c p)"
begin

lemma port_table_loop_keeps [keeps_rules]: "keeps I (port_table_loop R A ks result)"
  by (induction ks arbitrary: result) (auto intro!: keeps_rules)

lemma hgetIsUp_keeps [keeps_rules]: "keeps I (hgetIsUp R c k f)"
  unfolding hgetIsUp_def by (intro keeps_rules)

lemma lists_keep [keeps_rules]: "keeps I (ListIPAddresses R A n)" "keeps I (ListPortVLANs R A n)"
  unfolding ListIPAddresses_def ListPortVLANs_def by (intro keeps_rules)+

lemma accessor_reads_keep: "reads_keep I (dbAccessor_DBAccessor R A)"
  unfolding reads_keep_def Let_def dbAccessor_DBAccessor_def DBAccessor.simps PortAccessor.simps InterfaceAccessor.simps VLANAccessor.simps
    DeviceAccessor.simps ListPortNames_def GetPortSpeed_def GetPortSupportedSpeeds_def GetTransceiverType_def GetPortAlias_def GetLLDPEntry_def
    ListPortTableEntries_def HasPort_def GetAdminStatus_def GetOperStatus_def HasVLAN_def HasDHCPRelay_def GetDeviceMetadata_def
  by (intro conjI allI keeps_rules)

end

locale write_commands = read_commands +
  assumes HSet_keeps [keeps_rules]: "fvs \<noteq> [] \<Longrightarrow> keeps I (HSet R (configDB A) k fvs)"
    and HDel_keeps [keeps_rules]: "keeps I (HDel R (configDB A) k f)"
    and Del_keeps [keeps_rules]: "keeps I (Del R (configDB A) k)"
begin

lemma set_field_keeps [keeps_rules]: "keeps I (set_field R A k f v what)"
  unfolding set_field_def by (intro keeps_rules) simp

lemma del_key_keeps [keeps_rules]: "keeps I (del_key R A k what)"
  unfolding del_key_def by (intro keeps_rules)

lemma entries_keep [keeps_rules]:
  "keeps I (AddIPAddresses R A n ps)" "keeps I (RemoveIPAddresses R A n ps)"
  "keeps I (EnsureVLANMember R A v p m)" "keeps I (RemoveVLANMember R A v p)"
  unfolding AddIPAddresses_def RemoveIPAddresses_def add_ip_def remove_ip_def EnsureVLANMember_def RemoveVLANMember_def
  by (intro keeps_rules)+

lemma members_keep [keeps_rules]: "keeps I (for_each (\<lambda>(v, m). EnsureVLANMember R A v p m) ms)"
  by (rule keeps_for_each) (auto intro: keeps_rules)

lemma accessor_writes_keep: "writes_keep I (dbAccessor_DBAccessor R A)"
  unfolding writes_keep_def Let_def dbAccessor_DBAccessor_def DBAccessor.simps PortAccessor.simps InterfaceAccessor.simps VLANAccessor.simps
    DeviceAccessor.simps SetMTU_def SetFEC_def SetSpeed_def SetPortAlias_def SetAdminStatus_def EnsureLoopback_def DeleteLoopback_def
    SyncIPAddresses_def EnsureVLAN_def EnsureVLANInterface_def DeleteVLAN_def DeleteVLANInterface_def SetVLANDescription_def
    SyncPortVLANs_def EnsureDHCPRelay_def DeleteDHCPRelay_def SetHostname_def
  by (intro conjI allI keeps_rules) simp_all

end

section \<open>The accessor over Redis\<close>

lemma scan_loop_data:
  assumes "redis_contract R V" and "scan_loop R c p cur keys w = Some rw"
  shows "hashes_of V (snd rw) = hashes_of V w"
proof -
  have "redis_contract R V \<longrightarrow> hashes_of V (snd rw) = hashes_of V w"
  proof (rule scan_loop.raw_induct [where P = "\<lambda>R c p cur keys w rw. redis_contract R V \<longrightarrow> hashes_of V (snd rw) = hashes_of V w", OF _ assms(2)])
    fix f R c p cur keys w rw
    assume IH: "\<And>R c p cur keys w rw. f R c p cur keys w = Some rw \<Longrightarrow> redis_contract R V \<longrightarrow> hashes_of V (snd rw) = hashes_of V w"
      and eq: "(case run (Scan R c cur p 100) w of (Inl e, w') \<Rightarrow> Some (Inl e, w')
        | (Inr (batch, nextCursor), w') \<Rightarrow>
            if nextCursor = 0 then Some (Inr (keys @ batch), w') else f R c p nextCursor (keys @ batch) w') = Some rw"
    obtain r w1 where r: "run (Scan R c cur p 100) w = (r, w1)" by (metis surj_pair)
    show "redis_contract R V \<longrightarrow> hashes_of V (snd rw) = hashes_of V w"
      using eq r IH [of R c p "snd (projr r)" "keys @ fst (projr r)" w1 rw] Scan_data [of R V c cur p 100 w r w1]
      by (auto split: sum.splits prod.splits if_splits)
  qed
  with assms(1) show ?thesis by blast
qed

lemma scanKeys_data: "redis_contract R V \<Longrightarrow> run (scanKeys R c p) w = (r, w') \<Longrightarrow> hashes_of V w' = hashes_of V w"
  using scan_loop_data [of R V c p 0 "[]" w] by (auto simp: scanKeys_def split: option.splits prod.splits)

text \<open>The databases have a given content.\<close>

definition contains :: "('c, 'w) redis \<Rightarrow> ('c, 'w) store_view \<Rightarrow> hashes \<Rightarrow> 'w \<Rightarrow> bool" where
  "contains R V H w \<longleftrightarrow> redis_contract R V \<and> hashes_of V w = H"

interpretation reading: read_commands R A "contains R V H" for R A V H
  by unfold_locales (auto simp: keeps_def valid_def contains_def HGet_data HGetAll_data HExists_data Exists_data scanKeys_data)

text \<open>The server is reachable, and the databases other than the one of the client for CONFIG\_DB have a given content.\<close>

definition elsewhere :: "('c, 'w) redis \<Rightarrow> ('c, 'w) store_view \<Rightarrow> 'c dbAccessor \<Rightarrow> hashes \<Rightarrow> 'w \<Rightarrow> bool" where
  "elsewhere R V A H w \<longleftrightarrow> redis_contract R V \<and> reachable V w \<and> (\<forall>d. d \<noteq> db_of V (configDB A) \<longrightarrow> hashes_of V w d = H d)"

lemma elsewhere_read:
  assumes "\<And>w r w'. redis_contract R V \<Longrightarrow> run m w = (r, w') \<Longrightarrow> hashes_of V w' = hashes_of V w"
    and "\<And>w r w'. redis_contract R V \<Longrightarrow> reachable V w \<Longrightarrow> run m w = (r, w') \<Longrightarrow> reachable V w'"
  shows "keeps (elsewhere R V A H) m"
  unfolding keeps_def valid_def elsewhere_def using assms by metis

lemma elsewhere_answers:
  assumes "\<And>w r w'. redis_contract R V \<Longrightarrow> run m w = (r, w') \<Longrightarrow> hashes_of V w' = hashes_of V w"
    and "redis_contract R V \<Longrightarrow> answers (reachable V) m"
  shows "keeps (elsewhere R V A H) m"
  by (rule elsewhere_read [OF assms(1)], assumption+) (metis answersD assms(2) prod.inject)

lemma elsewhere_write:
  assumes "redis_contract R V \<Longrightarrow> accepts (reachable V) m"
    and "\<And>w w'. redis_contract R V \<Longrightarrow> run m w = (None, w') \<Longrightarrow> \<exists>k h. hashes_of V w' = upd_hash (db_of V (configDB A)) k h (hashes_of V w)"
  shows "keeps (elsewhere R V A H) m"
proof -
  have "elsewhere R V A H w'" if w: "elsewhere R V A H w" and m: "run m w = (r, w')" for w r w'
  proof -
    have c: "redis_contract R V" and "reachable V w" using w by (simp_all add: elsewhere_def)
    from acceptsD [OF assms(1) [OF c] this(2)] m have r: "r = None" "reachable V w'" by auto
    from assms(2) [OF c] m r(1) obtain k h where "hashes_of V w' = upd_hash (db_of V (configDB A)) k h (hashes_of V w)" by blast
    then show ?thesis using w r by (auto simp: elsewhere_def fun_eq_iff)
  qed
  then show ?thesis unfolding keeps_def valid_def by blast
qed

interpretation writing: write_commands R A "elsewhere R V A H" for R A V H
proof
  show "keeps (elsewhere R V A H) (HGet R c k f)" for c k f
    by (rule elsewhere_read) (simp_all add: HGet_data HGet_up)
  show "keeps (elsewhere R V A H) (HGetAll R c k)" for c k
    by (rule elsewhere_answers [OF HGetAll_data answers_up(1)])
  show "keeps (elsewhere R V A H) (HExists R c k f)" for c k f
    by (rule elsewhere_answers [OF HExists_data answers_up(2)])
  show "keeps (elsewhere R V A H) (Exists R c k)" for c k
    by (rule elsewhere_answers [OF Exists_data answers_up(3)])
  show "keeps (elsewhere R V A H) (scanKeys R c p)" for c p
    by (rule elsewhere_read [OF scanKeys_data], assumption+) (metis scanKeys_up prod.inject)
  show "keeps (elsewhere R V A H) (HSet R (configDB A) k fvs)" if "fvs \<noteq> []" for k fvs
    by (rule elsewhere_write) (use that in \<open>auto simp: accepts_up dest: HSet_ok\<close>)
  show "keeps (elsewhere R V A H) (HDel R (configDB A) k f)" for k f
    by (rule elsewhere_write) (auto simp: accepts_up dest: HDel_ok)
  show "keeps (elsewhere R V A H) (Del R (configDB A) k)" for k
    by (rule elsewhere_write) (auto simp: accepts_up dest: Del_ok)
qed

text \<open>Property C19. The operations of a \<open>DBAccessor\<close> that read change no database, whatever happens. On a reachable server no operation, with
  any arguments, changes another database than that of its client for CONFIG\_DB, and the server stays reachable: STATE\_DB and APPL\_DB,
  which belong to the daemons of the switch, are never written.\<close>

theorem accessor_writes_config_only:
  assumes "redis_contract R V"
  shows "reads_keep (\<lambda>w. hashes_of V w = H) (dbAccessor_DBAccessor R A) \<and>
    reads_keep (\<lambda>w. reachable V w \<and> (\<forall>d. d \<noteq> db_of V (configDB A) \<longrightarrow> hashes_of V w d = H d)) (dbAccessor_DBAccessor R A) \<and>
    writes_keep (\<lambda>w. reachable V w \<and> (\<forall>d. d \<noteq> db_of V (configDB A) \<longrightarrow> hashes_of V w d = H d)) (dbAccessor_DBAccessor R A)"
  using reading.accessor_reads_keep [of R V H A] writing.accessor_reads_keep [of R V A H] writing.accessor_writes_keep [of R V A H] assms
  by (simp add: contains_def [abs_def] elsewhere_def [abs_def])

text \<open>The property at a store in memory.\<close>

theorem accessor_writes_config_only_witness:
  "writes_keep (\<lambda>w. reachable mem_view w \<and> (\<forall>d. d \<noteq> db_of mem_view (configDB (NewDBAccessor 4 6 0)) \<longrightarrow> hashes_of mem_view w d = (\<lambda>_. Map.empty)))
     (dbAccessor_DBAccessor mem_redis (NewDBAccessor 4 6 0))"
  using accessor_writes_config_only [OF mem_redis_contract, where H = "\<lambda>_ _. Map.empty" and A = "NewDBAccessor 4 6 0"] by simp

end
