(* ===== verification/Go_Heap.thy ===== *)
theory Go_Heap
  imports Go_Prelude
begin

text \<open>
  Memory of a Go program, for the code whose point is aliasing. Memory consists of blocks, each an array of
  values of one type; a pointer is a block and an index, a slice a block, an offset and a length; both can be
  nil. The next block to allocate is a number, and every block below it was allocated.

  What a structure in memory stands for is its \<^emph>\<open>view\<close>, a partial function of the memory: it has none when a pointer
  in it dangles. The locale \<open>deep_copier\<close> is the contract of a deep copy. Its one essential law
  says that the copy can be read from the newly allocated memory alone, so it shares nothing with what was
  there before. Copies of pointers, slices and structures are built from copies of their parts, and so are
  the proofs of their contract.
\<close>

section \<open>Memory\<close>

type_synonym 'b mem = "nat \<rightharpoonup> 'b"

record 'b heap =
  mem :: "'b mem"
  lim :: nat

type_synonym ptr = "(nat \<times> nat) option"
type_synonym slice = "(nat \<times> nat \<times> nat) option"

definition wf_heap :: "'b heap \<Rightarrow> bool" where
  "wf_heap h \<longleftrightarrow> (\<forall>a. mem h a \<noteq> None \<longrightarrow> a < lim h)"

definition alloc :: "'b \<Rightarrow> ('b heap, nat) state" where
  "alloc b = State (\<lambda>h. (lim h, \<lparr>mem = (mem h)(lim h \<mapsto> b), lim = Suc (lim h)\<rparr>))"

definition store :: "nat \<Rightarrow> 'b \<Rightarrow> ('b heap, unit) state" where
  "store a b = State (\<lambda>h. ((), h\<lparr>mem := (mem h)(a \<mapsto> b)\<rparr>))"

lemma run_memory [simp]:
  "run (alloc b) h = (lim h, \<lparr>mem = (mem h)(lim h \<mapsto> b), lim = Suc (lim h)\<rparr>)"
  "run (store a b) h = ((), h\<lparr>mem := (mem h)(a \<mapsto> b)\<rparr>)"
  by (simp_all add: alloc_def store_def)

text \<open>The blocks of one type: how an array is put into a block and read from it, and the zero value.\<close>

record ('b, 'a) block =
  wrap :: "'a list \<Rightarrow> 'b"
  unwrap :: "'b \<Rightarrow> 'a list option"
  zero_value :: 'a

definition block_ok :: "('b, 'a) block \<Rightarrow> bool" where
  "block_ok B \<longleftrightarrow> (\<forall>xs. unwrap B (wrap B xs) = Some xs)"

definition elements :: "('b, 'a) block \<Rightarrow> 'b mem \<Rightarrow> nat \<times> nat \<times> nat \<Rightarrow> 'a list option" where
  "elements B m s = (case s of (a, off, n) \<Rightarrow>
     Option.bind (m a) (\<lambda>b. Option.bind (unwrap B b) (\<lambda>xs. if off + n \<le> length xs then Some (take n (drop off xs)) else None)))"

section \<open>Copies\<close>

text \<open>\<open>make([]T, n)\<close> and then, for each index, the copy of the element.\<close>

fun fill :: "('b, 'a) block \<Rightarrow> ('a \<Rightarrow> ('b heap, 'a) state) \<Rightarrow> nat \<Rightarrow> 'a list \<Rightarrow> 'a list \<Rightarrow> ('b heap, unit) state" where
  "fill B copy a done [] = ret ()"
| "fill B copy a done (x # xs) = State_Monad.bind (copy x) (\<lambda>y.
     State_Monad.bind (store a (wrap B (done @ y # replicate (length xs) (zero_value B)))) (\<lambda>_. fill B copy a (done @ [y]) xs))"

text \<open>A slice that cannot be read does not occur in a well-typed program; it is left as it is.\<close>

definition copy_slice :: "('b, 'a) block \<Rightarrow> ('a \<Rightarrow> ('b heap, 'a) state) \<Rightarrow> slice \<Rightarrow> ('b heap, slice) state" where
  "copy_slice B copy s = (case s of None \<Rightarrow> ret None
    | Some r \<Rightarrow> State_Monad.bind State_Monad.get (\<lambda>h. case elements B (mem h) r of
        None \<Rightarrow> ret s
      | Some xs \<Rightarrow> State_Monad.bind (alloc (wrap B (replicate (length xs) (zero_value B)))) (\<lambda>a.
          State_Monad.bind (fill B copy a [] xs) (\<lambda>_. ret (Some (a, 0, length xs))))))"

text \<open>\<open>new(T)\<close> and the copy of what the pointer points to.\<close>

definition copy_ptr :: "('b, 'a) block \<Rightarrow> ('a \<Rightarrow> ('b heap, 'a) state) \<Rightarrow> ptr \<Rightarrow> ('b heap, ptr) state" where
  "copy_ptr B copy p = State_Monad.bind (copy_slice B copy (map_option (\<lambda>(a, i). (a, i, 1)) p))
     (\<lambda>s. ret (map_option (\<lambda>(a, i, n). (a, i)) s))"

definition copy_pair :: "('a \<Rightarrow> ('b heap, 'a) state) \<Rightarrow> ('c \<Rightarrow> ('b heap, 'c) state) \<Rightarrow> 'a \<times> 'c \<Rightarrow> ('b heap, 'a \<times> 'c) state" where
  "copy_pair copy1 copy2 p = State_Monad.bind (copy1 (fst p)) (\<lambda>x. State_Monad.bind (copy2 (snd p)) (\<lambda>y. ret (x, y)))"

section \<open>Views\<close>

definition view_slice :: "('b, 'a) block \<Rightarrow> ('b mem \<Rightarrow> 'a \<Rightarrow> 'v option) \<Rightarrow> 'b mem \<Rightarrow> slice \<Rightarrow> 'v list option" where
  "view_slice B view m s = (case s of None \<Rightarrow> Some []
    | Some r \<Rightarrow> Option.bind (elements B m r) (\<lambda>xs. those (map (view m) xs)))"

definition view_ptr :: "('b, 'a) block \<Rightarrow> ('b mem \<Rightarrow> 'a \<Rightarrow> 'v option) \<Rightarrow> 'b mem \<Rightarrow> ptr \<Rightarrow> 'v option option" where
  "view_ptr B view m p = (case p of None \<Rightarrow> Some None
    | Some (a, i) \<Rightarrow> Option.bind (elements B m (a, i, 1)) (\<lambda>xs. map_option Some (view m (hd xs))))"

definition view_pair :: "('b mem \<Rightarrow> 'a \<Rightarrow> 'v option) \<Rightarrow> ('b mem \<Rightarrow> 'c \<Rightarrow> 'w option) \<Rightarrow> 'b mem \<Rightarrow> 'a \<times> 'c \<Rightarrow> ('v \<times> 'w) option" where
  "view_pair view1 view2 m p = Option.bind (view1 m (fst p)) (\<lambda>v. map_option (Pair v) (view2 m (snd p)))"

text \<open>A value without pointers, and a structure some of whose parts have pointers.\<close>

definition view_plain :: "'b mem \<Rightarrow> 'a \<Rightarrow> 'a option" where
  "view_plain m x = Some x"

section \<open>The contract\<close>

definition extends :: "'b heap \<Rightarrow> 'b heap \<Rightarrow> bool" where
  "extends h h' \<longleftrightarrow> wf_heap h' \<and> lim h \<le> lim h' \<and> mem h \<subseteq>\<^sub>m mem h'"

definition new_mem :: "'b heap \<Rightarrow> 'b heap \<Rightarrow> 'b mem" where
  "new_mem h h' = mem h' |` {lim h..<lim h'}"

lemma extends_refl [simp]: "wf_heap h \<Longrightarrow> extends h h"
  by (simp add: extends_def)

lemma extends_trans: "extends h h' \<Longrightarrow> extends h' h'' \<Longrightarrow> extends h h''"
  unfolding extends_def using map_le_trans le_trans by blast

lemma restrict_le: "m \<subseteq>\<^sub>m m' \<Longrightarrow> A \<subseteq> A' \<Longrightarrow> m |` A \<subseteq>\<^sub>m m' |` A'"
  by (auto simp: map_le_def restrict_map_def dom_def split: if_splits)

lemma new_mem_later: "extends h' h'' \<Longrightarrow> new_mem h h' \<subseteq>\<^sub>m new_mem h h''"
  unfolding new_mem_def extends_def by (rule restrict_le) auto

lemma new_mem_earlier: "extends h h' \<Longrightarrow> new_mem h' h'' \<subseteq>\<^sub>m new_mem h h''"
  unfolding new_mem_def extends_def by (rule restrict_le) auto

lemma new_mem_le: "new_mem h h' \<subseteq>\<^sub>m mem h'"
  by (auto simp: new_mem_def map_le_def restrict_map_def dom_def split: if_splits)

text \<open>What a program can do to memory when it writes only to the blocks \<open>A\<close> and to those it allocates.\<close>

inductive mutates :: "nat set \<Rightarrow> 'b heap \<Rightarrow> 'b heap \<Rightarrow> bool" for A h where
  mutates_refl: "mutates A h h"
| mutates_store: "mutates A h h1 \<Longrightarrow> a \<in> A \<or> lim h \<le> a \<Longrightarrow> mutates A h (snd (run (store a b) h1))"
| mutates_alloc: "mutates A h h1 \<Longrightarrow> mutates A h (snd (run (alloc b) h1))"

lemma mutates_keeps: "mutates A h h1 \<Longrightarrow> lim h \<le> lim h1 \<and> (\<forall>a. a \<notin> A \<and> a < lim h \<longrightarrow> mem h1 a = mem h a)"
  by (induction rule: mutates.induct) auto

locale deep_copier =
  fixes view :: "'b mem \<Rightarrow> 'a \<Rightarrow> 'v option" and copy :: "'a \<Rightarrow> ('b heap, 'a) state"
  assumes view_mono: "view m x = Some v \<Longrightarrow> m \<subseteq>\<^sub>m m' \<Longrightarrow> view m' x = Some v"
    and copy_fresh: "view (mem h) x = Some v \<Longrightarrow> wf_heap h \<Longrightarrow> run (copy x) h = (x', h') \<Longrightarrow>
      extends h h' \<and> view (new_mem h h') x' = Some v"
begin

lemma copy_extends: "view (mem h) x = Some v \<Longrightarrow> wf_heap h \<Longrightarrow> run (copy x) h = (x', h') \<Longrightarrow> extends h h'"
  using copy_fresh by blast

lemma copy_view: "view (mem h) x = Some v \<Longrightarrow> wf_heap h \<Longrightarrow> run (copy x) h = (x', h') \<Longrightarrow> view (mem h') x' = Some v"
  using copy_fresh view_mono new_mem_le by blast

lemma original_view: "view (mem h) x = Some v \<Longrightarrow> wf_heap h \<Longrightarrow> run (copy x) h = (x', h') \<Longrightarrow> view (mem h') x = Some v"
  using copy_fresh view_mono unfolding extends_def by blast

text \<open>Whatever is done to the old memory, the copy stands for the value the original had when it was copied.\<close>

lemma copy_isolated:
  assumes "view (mem h) x = Some v" "wf_heap h" "run (copy x) h = (x', h')"
    and "\<And>a. lim h \<le> a \<Longrightarrow> a < lim h' \<Longrightarrow> m a = mem h' a"
  shows "view m x' = Some v"
proof -
  have "new_mem h h' \<subseteq>\<^sub>m m" using assms(4) by (auto simp: new_mem_def map_le_def restrict_map_def dom_def split: if_splits)
  with copy_fresh [OF assms(1-3)] view_mono show ?thesis by blast
qed

text \<open>And whatever is done to the new memory, the original keeps its value.\<close>

lemma original_isolated:
  assumes "view (mem h) x = Some v" "wf_heap h" and "\<And>a. a < lim h \<Longrightarrow> m a = mem h a"
  shows "view m x = Some v"
proof -
  have "mem h \<subseteq>\<^sub>m m" using assms(2,3) by (auto simp: wf_heap_def map_le_def dom_def)
  with view_mono assms(1) show ?thesis by blast
qed

lemma copy_survives:
  assumes "view (mem h) x = Some v" "wf_heap h" "run (copy x) h = (x', h')" and "mutates (- {lim h..<lim h'}) h' h2"
  shows "view (mem h2) x' = Some v"
  using mutates_keeps [OF assms(4)] by (intro copy_isolated [OF assms(1-3)]) auto

lemma original_survives:
  assumes "view (mem h) x = Some v" "wf_heap h" "run (copy x) h = (x', h')" and "mutates {lim h..} h' h2"
  shows "view (mem h2) x = Some v"
proof -
  have e: "lim h \<le> lim h'" "mem h \<subseteq>\<^sub>m mem h'" using copy_extends [OF assms(1-3)] by (auto simp: extends_def)
  have "mem h2 a = mem h a" if a: "a \<in> dom (mem h)" for a
  proof -
    have "a < lim h" using assms(2) a by (auto simp: wf_heap_def)
    then have "mem h2 a = mem h' a" using mutates_keeps [OF assms(4)] e(1) by auto
    with e(2) a show ?thesis by (auto simp: map_le_def)
  qed
  then have "mem h \<subseteq>\<^sub>m mem h2" by (simp add: map_le_def)
  with assms(1) view_mono show ?thesis by blast
qed

end

section \<open>Copies of parts make copies of wholes\<close>

lemma copier_plain: "deep_copier view_plain ret"
  by unfold_locales (auto simp: view_plain_def)

lemma copier_pair:
  assumes "deep_copier view1 copy1" "deep_copier view2 copy2"
  shows "deep_copier (view_pair view1 view2) (copy_pair copy1 copy2)"
proof
  fix m m' x v
  assume v: "view_pair view1 view2 m x = Some v" and m: "m \<subseteq>\<^sub>m m'"
  then show "view_pair view1 view2 m' x = Some v"
    using deep_copier.view_mono [OF assms(1) _ m] deep_copier.view_mono [OF assms(2) _ m]
    by (fastforce simp: view_pair_def Option.bind_eq_Some_conv)
next
  fix h x v x' h'
  assume v: "view_pair view1 view2 (mem h) x = Some v" and wf: "wf_heap h" and r: "run (copy_pair copy1 copy2 x) h = (x', h')"
  obtain v1 v2 where vs: "v = (v1, v2)" "view1 (mem h) (fst x) = Some v1" "view2 (mem h) (snd x) = Some v2"
    using v by (auto simp: view_pair_def Option.bind_eq_Some_conv)
  obtain y h1 where 1: "run (copy1 (fst x)) h = (y, h1)" by (metis surj_pair)
  obtain z h2 where 2: "run (copy2 (snd x)) h1 = (z, h2)" by (metis surj_pair)
  have x': "x' = (y, z)" "h' = h2" using r 1 2 by (simp_all add: copy_pair_def)
  note c1 = deep_copier.copy_fresh [OF assms(1) vs(2) wf 1]
  then have v2: "view2 (mem h1) (snd x) = Some v2" and wf1: "wf_heap h1" and e1: "extends h h1"
    using deep_copier.view_mono [OF assms(2) vs(3)] by (auto simp: extends_def)
  note c2 = deep_copier.copy_fresh [OF assms(2) v2 wf1 2]
  have "view1 (new_mem h h2) y = Some v1" using deep_copier.view_mono [OF assms(1)] c1 c2 new_mem_later by blast
  moreover have "view2 (new_mem h h2) z = Some v2" using deep_copier.view_mono [OF assms(2)] c2 new_mem_earlier [OF e1] by blast
  moreover have "extends h h2" using e1 c2 extends_trans by blast
  ultimately show "extends h h' \<and> view_pair view1 view2 (new_mem h h') x' = Some v"
    using x' vs(1) by (simp add: view_pair_def)
qed

text \<open>A structure: the parts with pointers are got, copied and put back; the view is made from theirs.\<close>

lemma copier_struct:
  assumes c: "deep_copier view copy"
    and run: "\<And>x h. run (copyS x) h = (case run (copy (parts x)) h of (y, h') \<Rightarrow> (put y x, h'))"
    and view: "\<And>m x. viewS m x = map_option (mk x) (view m (parts x))"
    and put: "\<And>x y. parts (put y x) = y" "\<And>x y. mk (put y x) = mk x"
  shows "deep_copier viewS copyS"
proof
  fix m m' x v
  assume v: "viewS m x = Some v" and m: "m \<subseteq>\<^sub>m m'"
  obtain u where u: "view m (parts x) = Some u" "v = mk x u" using v by (auto simp: view)
  from deep_copier.view_mono [OF c u(1) m] u(2) show "viewS m' x = Some v" by (simp add: view)
next
  fix h x v x' h'
  assume v: "viewS (mem h) x = Some v" and wf: "wf_heap h" and r: "run (copyS x) h = (x', h')"
  obtain u where u: "view (mem h) (parts x) = Some u" "v = mk x u" using v by (auto simp: view)
  obtain y h1 where y: "run (copy (parts x)) h = (y, h1)" by (metis surj_pair)
  then have "x' = put y x" "h' = h1" using r by (simp_all add: run)
  with deep_copier.copy_fresh [OF c u(1) wf y] u(2) put show "extends h h' \<and> viewS (new_mem h h') x' = Some v" by (simp add: view)
qed

text \<open>
  While a slice is filled: the elements done can be read from memory other than the block that is being filled, and
  that block is the only one written to.
\<close>

lemma elements_whole: "block_ok B \<Longrightarrow> m a = Some (wrap B xs) \<Longrightarrow> elements B m (a, 0, length xs) = Some xs"
  by (simp add: elements_def block_ok_def)

lemma elements_mono: "elements B m r = Some xs \<Longrightarrow> m \<subseteq>\<^sub>m m' \<Longrightarrow> elements B m' r = Some xs"
  by (cases r) (auto simp: elements_def Option.bind_eq_Some_conv map_le_def dom_def split: if_splits)

lemma those_Cons: "those (x # xs) = Some ys \<longleftrightarrow> (\<exists>y zs. x = Some y \<and> those xs = Some zs \<and> ys = y # zs)"
  by (auto split: option.splits)

lemma those_append: "those xs = Some us \<Longrightarrow> those ys = Some vs \<Longrightarrow> those (xs @ ys) = Some (us @ vs)"
  by (induction xs arbitrary: us) (auto split: option.splits)

lemma those_map_mono:
  assumes "\<And>x v. f x = Some v \<Longrightarrow> g x = Some v"
  shows "those (map f xs) = Some vs \<Longrightarrow> those (map g xs) = Some vs"
  using assms by (induction xs arbitrary: vs) (auto simp del: those.simps(2) simp: those_Cons)

lemma fill_fresh:
  assumes c: "deep_copier view copy" and "run (fill B copy a done xs) h = (u, h')" and "wf_heap h" and "lim h0 \<le> a" "a < lim h"
    and "mem h a = Some (wrap B (done @ replicate (length xs) (zero_value B)))"
    and "those (map (view ((mem h)(a := None))) xs) = Some vs"
    and "those (map (view ((new_mem h0 h)(a := None))) done) = Some ws"
  shows "wf_heap h' \<and> lim h \<le> lim h' \<and> (mem h)(a := None) \<subseteq>\<^sub>m (mem h')(a := None) \<and>
    (\<exists>ys. length ys = length xs \<and> mem h' a = Some (wrap B (done @ ys)) \<and> those (map (view ((new_mem h0 h')(a := None))) (done @ ys)) = Some (ws @ vs))"
  using assms(2-)
proof (induction xs arbitrary: "done" h ws vs)
  case Nil
  then show ?case by (auto intro!: exI [of _ "[]"])
next
  case (Cons x xs)
  let ?z = "zero_value B"
  obtain v vs' where v: "view ((mem h)(a := None)) x = Some v" "those (map (view ((mem h)(a := None))) xs) = Some vs'" "vs = v # vs'"
    using Cons.prems(6) unfolding list.map those_Cons by blast
  have "(mem h)(a := None) \<subseteq>\<^sub>m mem h" by (auto simp: map_le_def)
  then have vx: "view (mem h) x = Some v" using deep_copier.view_mono [OF c v(1)] by blast
  obtain y h1 where y: "run (copy x) h = (y, h1)" by (metis surj_pair)
  note cf = deep_copier.copy_fresh [OF c vx Cons.prems(2) y]
  then have e: "wf_heap h1" "lim h \<le> lim h1" "mem h \<subseteq>\<^sub>m mem h1" by (auto simp: extends_def)
  let ?h2 = "h1\<lparr>mem := (mem h1)(a \<mapsto> wrap B ((done @ [y]) @ replicate (length xs) ?z))\<rparr>"
  have r: "run (fill B copy a (done @ [y]) xs) ?h2 = (u, h')" using Cons.prems(1) y by simp
  have le: "(mem h)(a := None) \<subseteq>\<^sub>m (mem ?h2)(a := None)" using e(3) by (auto simp: map_le_def)
  have new: "(new_mem h0 h)(a := None) \<subseteq>\<^sub>m (new_mem h0 ?h2)(a := None)"
    using e by (auto simp: map_le_def new_mem_def restrict_map_def split: if_splits)
  have newy: "new_mem h h1 \<subseteq>\<^sub>m (new_mem h0 ?h2)(a := None)"
    using Cons.prems(3,4) by (auto simp: map_le_def new_mem_def restrict_map_def split: if_splits)
  have y2: "view ((new_mem h0 ?h2)(a := None)) y = Some v" using deep_copier.view_mono [OF c _ newy] cf by blast
  have done2: "those (map (view ((new_mem h0 ?h2)(a := None))) (done @ [y])) = Some (ws @ [v])"
  proof -
    have "those (map (view ((new_mem h0 ?h2)(a := None))) done) = Some ws"
      using Cons.prems(7) deep_copier.view_mono [OF c _ new] by (rule those_map_mono [rotated])
    with y2 show ?thesis by (simp add: those_append)
  qed
  have todo: "those (map (view ((mem ?h2)(a := None))) xs) = Some vs'"
    using v(2) deep_copier.view_mono [OF c _ le] by (rule those_map_mono [rotated])
  have wf2: "wf_heap ?h2" using e Cons.prems(4) by (auto simp: wf_heap_def)
  have a2: "a < lim ?h2" "mem ?h2 a = Some (wrap B ((done @ [y]) @ replicate (length xs) ?z))" using Cons.prems(4) e(2) by simp_all
  from Cons.IH [OF r wf2 Cons.prems(3) a2 todo done2] obtain ys where
    IH: "wf_heap h'" "lim ?h2 \<le> lim h'" "(mem ?h2)(a := None) \<subseteq>\<^sub>m (mem h')(a := None)"
      "length ys = length xs" "mem h' a = Some (wrap B ((done @ [y]) @ ys))"
      "those (map (view ((new_mem h0 h')(a := None))) ((done @ [y]) @ ys)) = Some ((ws @ [v]) @ vs')" by blast
  have "lim h \<le> lim h'" using e(2) IH(2) by simp
  moreover have "(mem h)(a := None) \<subseteq>\<^sub>m (mem h')(a := None)" using le IH(3) by (rule map_le_trans)
  moreover have "length (y # ys) = length (x # xs)" "mem h' a = Some (wrap B (done @ y # ys))" using IH(4,5) by simp_all
  moreover have "those (map (view ((new_mem h0 h')(a := None))) (done @ y # ys)) = Some (ws @ vs)"
    using IH(6) unfolding v(3) by (simp only: append_assoc append_Cons append_Nil)
  ultimately show ?case using IH(1) by blast
qed

lemma copier_slice:
  assumes c: "deep_copier view copy" and B: "block_ok B"
  shows "deep_copier (view_slice B view) (copy_slice B copy)"
proof
  fix m m' s v
  assume v: "view_slice B view m s = Some v" and m: "m \<subseteq>\<^sub>m m'"
  then show "view_slice B view m' s = Some v"
    using elements_mono [OF _ m] those_map_mono [OF deep_copier.view_mono [OF c _ m]]
    by (fastforce simp: view_slice_def Option.bind_eq_Some_conv split: option.splits)
next
  fix h s vs s' h'
  assume v: "view_slice B view (mem h) s = Some vs" and wf: "wf_heap h" and r: "run (copy_slice B copy s) h = (s', h')"
  show "extends h h' \<and> view_slice B view (new_mem h h') s' = Some vs"
  proof (cases s)
    case None
    then show ?thesis using v wf r by (simp add: copy_slice_def view_slice_def)
  next
    case (Some q)
    obtain xs where xs: "elements B (mem h) q = Some xs" "those (map (view (mem h)) xs) = Some vs"
      using v Some by (auto simp: view_slice_def Option.bind_eq_Some_conv)
    let ?a = "lim h" and ?h1 = "\<lparr>mem = (mem h)(lim h \<mapsto> wrap B (replicate (length xs) (zero_value B))), lim = Suc (lim h)\<rparr>"
    obtain u h2 where f: "run (fill B copy ?a [] xs) ?h1 = (u, h2)" by (metis surj_pair)
    have out: "s' = Some (?a, 0, length xs)" "h' = h2" using r Some xs(1) f by (simp_all add: copy_slice_def)
    have wf1: "wf_heap ?h1" using wf by (auto simp: wf_heap_def less_Suc_eq)
    have old: "(mem ?h1)(?a := None) = mem h" using wf by (auto simp: wf_heap_def fun_eq_iff) (metis less_irrefl option.exhaust)
    from fill_fresh [OF c f wf1, of h vs "[]"] xs(2) old obtain ys where ys: "wf_heap h2" "Suc ?a \<le> lim h2" "mem h \<subseteq>\<^sub>m (mem h2)(?a := None)"
      "length ys = length xs" "mem h2 ?a = Some (wrap B ys)" "those (map (view ((new_mem h h2)(?a := None))) ys) = Some vs" by auto
    have "(new_mem h h2)(?a := None) \<subseteq>\<^sub>m new_mem h h2" "(mem h2)(?a := None) \<subseteq>\<^sub>m mem h2" by (auto simp: map_le_def)
    note below = this
    have "those (map (view (new_mem h h2)) ys) = Some vs"
      using ys(6) deep_copier.view_mono [OF c _ below(1)] by (rule those_map_mono [rotated])
    moreover have "new_mem h h2 ?a = Some (wrap B ys)" using ys(2,5) by (simp add: new_mem_def)
    ultimately have "view_slice B view (new_mem h h2) s' = Some vs"
      using elements_whole [OF B, of "new_mem h h2" ?a ys] ys(4) out(1) by (simp add: view_slice_def)
    moreover have "extends h h2" using ys(1,2) map_le_trans [OF ys(3) below(2)] by (simp add: extends_def)
    ultimately show ?thesis using out(2) by simp
  qed
qed

lemma elements_length: "elements B m (a, off, n) = Some xs \<Longrightarrow> length xs = n"
  by (auto simp: elements_def Option.bind_eq_Some_conv split: if_splits)

text \<open>A pointer is a slice of length 1.\<close>

lemma view_ptr_slice: "view_ptr B view m (Some (a, i)) = Some (Some v) \<longleftrightarrow> view_slice B view m (Some (a, i, 1)) = Some [v]"
proof (cases "elements B m (a, i, 1)")
  case (Some xs)
  then obtain x where "xs = [x]" using elements_length by (metis One_nat_def length_0_conv length_Suc_conv)
  with Some show ?thesis by (auto simp: view_ptr_def view_slice_def split: option.splits)
qed (simp add: view_ptr_def view_slice_def)

lemma view_ptr_cases: "view_ptr B view m p = Some v \<Longrightarrow> (p = None \<and> v = None) \<or> (\<exists>a i u. p = Some (a, i) \<and> v = Some u \<and> view_slice B view m (Some (a, i, 1)) = Some [u])"
proof (cases p)
  case (Some q)
  assume v: "view_ptr B view m p = Some v"
  obtain a i where q: "q = (a, i)" by fastforce
  obtain u where u: "v = Some u" using v Some q by (auto simp: view_ptr_def Option.bind_eq_Some_conv)
  have "view_slice B view m (Some (a, i, 1)) = Some [u]" using v unfolding Some q u view_ptr_slice .
  with Some q u show ?thesis by simp
qed (auto simp: view_ptr_def)

lemma copy_slice_shape: "run (copy_slice B copy (Some (a, i, n))) h = (s, h') \<Longrightarrow> elements B (mem h) (a, i, n) \<noteq> None \<Longrightarrow> \<exists>b j. s = Some (b, j, n)"
  using elements_length by (fastforce simp: copy_slice_def split: prod.splits)

lemma copier_ptr:
  assumes c: "deep_copier view copy" and B: "block_ok B"
  shows "deep_copier (view_ptr B view) (copy_ptr B copy)"
proof
  note cs = copier_slice [OF c B]
  fix m m' p v
  assume v: "view_ptr B view m p = Some v" and m: "m \<subseteq>\<^sub>m m'"
  from view_ptr_cases [OF v] show "view_ptr B view m' p = Some v"
  proof (elim disjE exE conjE)
    assume "p = None" "v = None"
    then show ?thesis by (simp add: view_ptr_def)
  next
    fix a i u
    assume p: "p = Some (a, i)" and u: "v = Some u" and vs: "view_slice B view m (Some (a, i, 1)) = Some [u]"
    from deep_copier.view_mono [OF cs vs m] show ?thesis unfolding p u view_ptr_slice .
  qed
next
  note cs = copier_slice [OF c B]
  fix h p v p' h'
  assume v: "view_ptr B view (mem h) p = Some v" and wf: "wf_heap h" and r: "run (copy_ptr B copy p) h = (p', h')"
  from view_ptr_cases [OF v] show "extends h h' \<and> view_ptr B view (new_mem h h') p' = Some v"
  proof (elim disjE exE conjE)
    assume "p = None" "v = None"
    then show ?thesis using r wf by (simp add: copy_ptr_def copy_slice_def view_ptr_def)
  next
    fix a i u
    assume p: "p = Some (a, i)" and u: "v = Some u" and vs: "view_slice B view (mem h) (Some (a, i, 1)) = Some [u]"
    obtain s h1 where s: "run (copy_slice B copy (Some (a, i, 1))) h = (s, h1)" by (metis surj_pair)
    have "elements B (mem h) (a, i, 1) \<noteq> None" using vs by (auto simp: view_slice_def Option.bind_eq_Some_conv)
    then obtain b j where bj: "s = Some (b, j, 1)" using copy_slice_shape [OF s] by blast
    then have "p' = Some (b, j)" "h' = h1" using r p s by (simp_all add: copy_ptr_def)
    with deep_copier.copy_fresh [OF cs vs wf s] bj u view_ptr_slice show ?thesis by metis
  qed
qed

text \<open>A nil slice stays nil, and no other becomes nil.\<close>

lemma copy_slice_nil: "run (copy_slice B copy s) h = (s', h') \<Longrightarrow> s' = None \<longleftrightarrow> s = None"
  by (auto simp: copy_slice_def split: option.splits prod.splits)

lemma copy_ptr_nil: "run (copy_ptr B copy p) h = (p', h') \<Longrightarrow> p' = None \<longleftrightarrow> p = None"
  using copy_slice_nil by (fastforce simp: copy_ptr_def split: prod.splits)

end
