(* ===== verification/Switch_Api.thy ===== *)
theory Switch_Api
  imports Go_Strconv
begin

text \<open>
  The custom resources of the API group (\<open>api/v1alpha1/switch_types.go\<close> and
  \<open>switchinterface_types.go\<close>). A pointer is an \<open>option\<close>, a string-like type with
  constants is a \<open>string\<close>, a Go \<open>int64\<close> an \<open>int\<close>. Of the Kubernetes object metadata
  the fields the operator reads or writes are kept. The conditions of both status types are never
  read or written by the operator and are left out.
\<close>

text \<open>Metadata: name, namespace, identity, finalizers and the time of deletion (seconds).\<close>

record ObjectMeta =
  m_Name :: string
  m_Namespace :: string
  m_UID :: string
  m_Finalizers :: "string list"
  m_DeletionTimestamp :: "nat option"

definition GroupVersion :: string where
  "GroupVersion = ''sonic.networking.metal.ironcore.dev/v1alpha1''"

definition SwitchFinalizer :: string where
  "SwitchFinalizer = ''sonic.networking.metal.ironcore.dev/sonic-operator''"

section \<open>Switch\<close>

record PortSpec =
  ps_Name :: string

record Management =
  Host :: string
  Port :: string

record ZTPConfigMapReference =
  ref_Namespace :: string
  ref_Name :: string
  ref_Key :: string

record ZTP =
  SourceAddress :: string
  ScriptRef :: "ZTPConfigMapReference option"

record ContainerSecurityContext =
  Privileged :: bool
  RunAsUser :: "int option"
  RunAsGroup :: "int option"

record VolumeMount =
  vm_Name :: string
  MountPath :: string
  ReadOnly :: bool

record HostPathVolumeSource =
  hp_Path :: string
  hp_Type :: "string option"

record Volume =
  v_Name :: string
  HostPath :: "HostPathVolumeSource option"

record Container =
  c_Name :: string
  Image :: string
  Command :: "string list"
  Args :: "string list"
  VolumeMounts :: "VolumeMount list"
  HostPID :: bool
  SecurityContext :: "ContainerSecurityContext option"
  InjectControlKubeconfig :: bool

definition NextBootModeNone :: string where
  "NextBootModeNone = ''None''"

definition NextBootModeInstallOS :: string where
  "NextBootModeInstallOS = ''InstallOS''"

record SwitchSpec =
  Hostname :: string
  s_Management :: Management
  s_ZTP :: "ZTP option"
  Containers :: "Container list"
  Volumes :: "Volume list"
  s_NextBootMode :: string
  s_MacAddress :: string
  s_Ports :: "PortSpec list"

definition SwitchStatePending :: string where
  "SwitchStatePending = ''Pending''"

definition SwitchStateFailed :: string where
  "SwitchStateFailed = ''Failed''"

definition SwitchStateReady :: string where
  "SwitchStateReady = ''Ready''"

record PortStatus =
  pst_Name :: string
  InterfaceRefs :: "string list"

record SwitchStatus =
  sw_State :: string
  sw_Ports :: "PortStatus list"
  MACAddress :: string
  FirmwareVersion :: string
  SKU :: string

record Switch =
  sw_Meta :: ObjectMeta
  sw_Spec :: SwitchSpec
  sw_Status :: SwitchStatus

section \<open>SwitchInterface\<close>

text \<open>The administrative and operational states are the same three strings.\<close>

definition AdminStateUnknown :: string where
  "AdminStateUnknown = ''Unknown''"

definition AdminStateUp :: string where
  "AdminStateUp = ''Up''"

definition AdminStateDown :: string where
  "AdminStateDown = ''Down''"

definition OperationStateUp :: string where
  "OperationStateUp = ''Up''"

definition OperationStateDown :: string where
  "OperationStateDown = ''Down''"

definition OperationStateUnknown :: string where
  "OperationStateUnknown = ''Unknown''"

definition SwitchInterfaceStatePending :: string where
  "SwitchInterfaceStatePending = ''Pending''"

definition SwitchInterfaceStateInitializing :: string where
  "SwitchInterfaceStateInitializing = ''Initializing''"

definition SwitchInterfaceStateReady :: string where
  "SwitchInterfaceStateReady = ''Ready''"

definition SwitchInterfaceStateFailed :: string where
  "SwitchInterfaceStateFailed = ''Failed''"

record SwitchInterfaceSpec =
  si_Handle :: string
  si_NativeName :: string
  SwitchRef :: "string option"
  spec_AdminState :: string

record Neighbor =
  nb_MacAddress :: string
  nb_SystemName :: string
  InterfaceHandle :: string

record SwitchInterfaceStatus =
  st_AdminState :: string
  OperationalState :: string
  si_State :: string
  si_Neighbor :: Neighbor
  si_MacAddress :: string
  si_AliasName :: string

record SwitchInterface =
  si_Meta :: ObjectMeta
  si_Spec :: SwitchInterfaceSpec
  si_Status :: SwitchInterfaceStatus

lemmas si_states = SwitchInterfaceStatePending_def SwitchInterfaceStateInitializing_def SwitchInterfaceStateReady_def SwitchInterfaceStateFailed_def
lemmas admin_states = AdminStateUnknown_def AdminStateUp_def AdminStateDown_def
lemmas oper_states = OperationStateUp_def OperationStateDown_def OperationStateUnknown_def

end
