(* ===== verification/Deep_Copy.thy ===== *)
theory Deep_Copy
  imports Go_Heap Switch_Api
begin

text \<open>
  The deep copies of the custom resources (\<open>api/v1alpha1/zz_generated.deepcopy.go\<close>). The reconcilers take one of the object
  they are about to change and later send the difference between the two to the cluster; that is right only if no
  change of the object shows in the copy.

  The structures are as they are in memory: strings and embedded structures by value, pointers and slices as
  addresses. \<open>view_\<close>\<dots> reads the value of \<open>Switch_Api\<close> that a structure stands for. \<open>T_DeepCopyInto x\<close> is what the
  function writes to \<open>*out\<close> when \<open>*in\<close> is \<open>x\<close>; \<open>T_DeepCopy\<close> is the method with a pointer as receiver. The deep
  copies of the types of Kubernetes (metadata, conditions) are parameters with the same contract.

  Every copy satisfies \<open>deep_copier\<close>. Conditions, which the operator never uses, are part of the views.
\<close>

section \<open>Structures in memory\<close>

record mSecurityContext =
  mPrivileged :: bool
  mRunAsUser :: ptr
  mRunAsGroup :: ptr

record mHostPath =
  mPath :: string
  mType :: ptr

record mVolume =
  mv_Name :: string
  mv_HostPath :: ptr

record mContainer =
  mc_Name :: string
  mc_Image :: string
  mc_Command :: slice
  mc_Args :: slice
  mc_VolumeMounts :: slice
  mc_HostPID :: bool
  mc_SecurityContext :: ptr
  mc_InjectControlKubeconfig :: bool

record mZTP =
  mz_SourceAddress :: string
  mz_ScriptRef :: ptr

record mSwitchSpec =
  ms_Hostname :: string
  ms_Management :: Management
  ms_ZTP :: ptr
  ms_Containers :: slice
  ms_Volumes :: slice
  ms_NextBootMode :: string
  ms_MacAddress :: string
  ms_Ports :: slice

record mPortStatus =
  mp_Name :: string
  mp_InterfaceRefs :: slice

record mSwitchStatus =
  mt_State :: string
  mt_Ports :: slice
  mt_MACAddress :: string
  mt_FirmwareVersion :: string
  mt_SKU :: string
  mt_Conditions :: slice

record mInterfaceSpec =
  mi_Handle :: string
  mi_NativeName :: string
  mi_SwitchRef :: ptr
  mi_AdminState :: string

record mInterfaceStatus =
  mu_AdminState :: string
  mu_OperationalState :: string
  mu_State :: string
  mu_Neighbor :: Neighbor
  mu_MacAddress :: string
  mu_AliasName :: string
  mu_Conditions :: slice

record TypeMeta =
  tm_Kind :: string
  tm_APIVersion :: string

text \<open>\<open>'e\<close> stands for the structures of Kubernetes.\<close>

record 'e mSwitch =
  sw_TypeMeta :: TypeMeta
  sw_ObjectMeta :: 'e
  sw_mSpec :: mSwitchSpec
  sw_mStatus :: mSwitchStatus

record 'e mInterface =
  si_TypeMeta :: TypeMeta
  si_ObjectMeta :: 'e
  si_mSpec :: mInterfaceSpec
  si_mStatus :: mInterfaceStatus

record 'e mList =
  l_TypeMeta :: TypeMeta
  l_ListMeta :: 'e
  l_Items :: slice

section \<open>Blocks\<close>

datatype 'e gcell =
    BStrings "string list"
  | BInts "int list"
  | BRefs "string list"
  | BVolumeMounts "VolumeMount list"
  | BScriptRefs "ZTPConfigMapReference list"
  | BPortSpecs "PortSpec list"
  | BManagements "Management list"
  | BNeighbors "Neighbor list"
  | BSecurityContexts "mSecurityContext list"
  | BHostPaths "mHostPath list"
  | BVolumes "mVolume list"
  | BContainers "mContainer list"
  | BZTPs "mZTP list"
  | BSwitchSpecs "mSwitchSpec list"
  | BPortStatuses "mPortStatus list"
  | BSwitchStatuses "mSwitchStatus list"
  | BInterfaceSpecs "mInterfaceSpec list"
  | BInterfaceStatuses "mInterfaceStatus list"
  | BSwitches "'e mSwitch list"
  | BInterfaces "'e mInterface list"
  | BSwitchLists "'e mList list"
  | BInterfaceLists "'e mList list"
  | BConditions "'e list"
  | BExternal 'e

definition strings :: "('e gcell, string) block" where
  "strings = \<lparr>wrap = BStrings, unwrap = (\<lambda>b. case b of BStrings xs \<Rightarrow> Some xs | _ \<Rightarrow> None),
     zero_value = []\<rparr>"

definition ints :: "('e gcell, int) block" where
  "ints = \<lparr>wrap = BInts, unwrap = (\<lambda>b. case b of BInts xs \<Rightarrow> Some xs | _ \<Rightarrow> None),
     zero_value = 0\<rparr>"

definition refs :: "('e gcell, string) block" where
  "refs = \<lparr>wrap = BRefs, unwrap = (\<lambda>b. case b of BRefs xs \<Rightarrow> Some xs | _ \<Rightarrow> None),
     zero_value = []\<rparr>"

definition volume_mounts :: "('e gcell, VolumeMount) block" where
  "volume_mounts = \<lparr>wrap = BVolumeMounts, unwrap = (\<lambda>b. case b of BVolumeMounts xs \<Rightarrow> Some xs | _ \<Rightarrow> None),
     zero_value = \<lparr>vm_Name = [], MountPath = [], ReadOnly = False\<rparr>\<rparr>"

definition script_refs :: "('e gcell, ZTPConfigMapReference) block" where
  "script_refs = \<lparr>wrap = BScriptRefs, unwrap = (\<lambda>b. case b of BScriptRefs xs \<Rightarrow> Some xs | _ \<Rightarrow> None),
     zero_value = \<lparr>ref_Namespace = [], ref_Name = [], ref_Key = []\<rparr>\<rparr>"

definition port_specs :: "('e gcell, PortSpec) block" where
  "port_specs = \<lparr>wrap = BPortSpecs, unwrap = (\<lambda>b. case b of BPortSpecs xs \<Rightarrow> Some xs | _ \<Rightarrow> None),
     zero_value = \<lparr>ps_Name = []\<rparr>\<rparr>"

definition managements :: "('e gcell, Management) block" where
  "managements = \<lparr>wrap = BManagements, unwrap = (\<lambda>b. case b of BManagements xs \<Rightarrow> Some xs | _ \<Rightarrow> None),
     zero_value = \<lparr>Host = [], Port = []\<rparr>\<rparr>"

definition neighbors :: "('e gcell, Neighbor) block" where
  "neighbors = \<lparr>wrap = BNeighbors, unwrap = (\<lambda>b. case b of BNeighbors xs \<Rightarrow> Some xs | _ \<Rightarrow> None),
     zero_value = \<lparr>nb_MacAddress = [], nb_SystemName = [], InterfaceHandle = []\<rparr>\<rparr>"

definition security_contexts :: "('e gcell, mSecurityContext) block" where
  "security_contexts = \<lparr>wrap = BSecurityContexts, unwrap = (\<lambda>b. case b of BSecurityContexts xs \<Rightarrow> Some xs | _ \<Rightarrow> None),
     zero_value = \<lparr>mPrivileged = False, mRunAsUser = None, mRunAsGroup = None\<rparr>\<rparr>"

definition host_paths :: "('e gcell, mHostPath) block" where
  "host_paths = \<lparr>wrap = BHostPaths, unwrap = (\<lambda>b. case b of BHostPaths xs \<Rightarrow> Some xs | _ \<Rightarrow> None),
     zero_value = \<lparr>mPath = [], mType = None\<rparr>\<rparr>"

definition volumes :: "('e gcell, mVolume) block" where
  "volumes = \<lparr>wrap = BVolumes, unwrap = (\<lambda>b. case b of BVolumes xs \<Rightarrow> Some xs | _ \<Rightarrow> None),
     zero_value = \<lparr>mv_Name = [], mv_HostPath = None\<rparr>\<rparr>"

definition containers :: "('e gcell, mContainer) block" where
  "containers = \<lparr>wrap = BContainers, unwrap = (\<lambda>b. case b of BContainers xs \<Rightarrow> Some xs | _ \<Rightarrow> None),
     zero_value = \<lparr>mc_Name = [], mc_Image = [], mc_Command = None, mc_Args = None, mc_VolumeMounts = None, mc_HostPID = False, mc_SecurityContext = None, mc_InjectControlKubeconfig = False\<rparr>\<rparr>"

definition ztps :: "('e gcell, mZTP) block" where
  "ztps = \<lparr>wrap = BZTPs, unwrap = (\<lambda>b. case b of BZTPs xs \<Rightarrow> Some xs | _ \<Rightarrow> None),
     zero_value = \<lparr>mz_SourceAddress = [], mz_ScriptRef = None\<rparr>\<rparr>"

definition switch_specs :: "('e gcell, mSwitchSpec) block" where
  "switch_specs = \<lparr>wrap = BSwitchSpecs, unwrap = (\<lambda>b. case b of BSwitchSpecs xs \<Rightarrow> Some xs | _ \<Rightarrow> None),
     zero_value = \<lparr>ms_Hostname = [], ms_Management = \<lparr>Host = [], Port = []\<rparr>, ms_ZTP = None, ms_Containers = None, ms_Volumes = None, ms_NextBootMode = [], ms_MacAddress = [], ms_Ports = None\<rparr>\<rparr>"

definition port_statuses :: "('e gcell, mPortStatus) block" where
  "port_statuses = \<lparr>wrap = BPortStatuses, unwrap = (\<lambda>b. case b of BPortStatuses xs \<Rightarrow> Some xs | _ \<Rightarrow> None),
     zero_value = \<lparr>mp_Name = [], mp_InterfaceRefs = None\<rparr>\<rparr>"

definition switch_statuses :: "('e gcell, mSwitchStatus) block" where
  "switch_statuses = \<lparr>wrap = BSwitchStatuses, unwrap = (\<lambda>b. case b of BSwitchStatuses xs \<Rightarrow> Some xs | _ \<Rightarrow> None),
     zero_value = \<lparr>mt_State = [], mt_Ports = None, mt_MACAddress = [], mt_FirmwareVersion = [], mt_SKU = [], mt_Conditions = None\<rparr>\<rparr>"

definition interface_specs :: "('e gcell, mInterfaceSpec) block" where
  "interface_specs = \<lparr>wrap = BInterfaceSpecs, unwrap = (\<lambda>b. case b of BInterfaceSpecs xs \<Rightarrow> Some xs | _ \<Rightarrow> None),
     zero_value = \<lparr>mi_Handle = [], mi_NativeName = [], mi_SwitchRef = None, mi_AdminState = []\<rparr>\<rparr>"

definition interface_statuses :: "('e gcell, mInterfaceStatus) block" where
  "interface_statuses = \<lparr>wrap = BInterfaceStatuses, unwrap = (\<lambda>b. case b of BInterfaceStatuses xs \<Rightarrow> Some xs | _ \<Rightarrow> None),
     zero_value = \<lparr>mu_AdminState = [], mu_OperationalState = [], mu_State = [], mu_Neighbor = \<lparr>nb_MacAddress = [], nb_SystemName = [], InterfaceHandle = []\<rparr>, mu_MacAddress = [], mu_AliasName = [], mu_Conditions = None\<rparr>\<rparr>"

definition switches :: "'e \<Rightarrow> ('e gcell, 'e mSwitch) block" where
  "switches z = \<lparr>wrap = BSwitches, unwrap = (\<lambda>b. case b of BSwitches xs \<Rightarrow> Some xs | _ \<Rightarrow> None),
     zero_value = \<lparr>sw_TypeMeta = \<lparr>tm_Kind = [], tm_APIVersion = []\<rparr>, sw_ObjectMeta = z, sw_mSpec = \<lparr>ms_Hostname = [], ms_Management = \<lparr>Host = [], Port = []\<rparr>, ms_ZTP = None, ms_Containers = None, ms_Volumes = None, ms_NextBootMode = [], ms_MacAddress = [], ms_Ports = None\<rparr>, sw_mStatus = \<lparr>mt_State = [], mt_Ports = None, mt_MACAddress = [], mt_FirmwareVersion = [], mt_SKU = [], mt_Conditions = None\<rparr>\<rparr>\<rparr>"

definition interfaces :: "'e \<Rightarrow> ('e gcell, 'e mInterface) block" where
  "interfaces z = \<lparr>wrap = BInterfaces, unwrap = (\<lambda>b. case b of BInterfaces xs \<Rightarrow> Some xs | _ \<Rightarrow> None),
     zero_value = \<lparr>si_TypeMeta = \<lparr>tm_Kind = [], tm_APIVersion = []\<rparr>, si_ObjectMeta = z, si_mSpec = \<lparr>mi_Handle = [], mi_NativeName = [], mi_SwitchRef = None, mi_AdminState = []\<rparr>, si_mStatus = \<lparr>mu_AdminState = [], mu_OperationalState = [], mu_State = [], mu_Neighbor = \<lparr>nb_MacAddress = [], nb_SystemName = [], InterfaceHandle = []\<rparr>, mu_MacAddress = [], mu_AliasName = [], mu_Conditions = None\<rparr>\<rparr>\<rparr>"

definition switch_lists :: "'e \<Rightarrow> ('e gcell, 'e mList) block" where
  "switch_lists z = \<lparr>wrap = BSwitchLists, unwrap = (\<lambda>b. case b of BSwitchLists xs \<Rightarrow> Some xs | _ \<Rightarrow> None),
     zero_value = \<lparr>l_TypeMeta = \<lparr>tm_Kind = [], tm_APIVersion = []\<rparr>, l_ListMeta = z, l_Items = None\<rparr>\<rparr>"

definition interface_lists :: "'e \<Rightarrow> ('e gcell, 'e mList) block" where
  "interface_lists z = \<lparr>wrap = BInterfaceLists, unwrap = (\<lambda>b. case b of BInterfaceLists xs \<Rightarrow> Some xs | _ \<Rightarrow> None),
     zero_value = \<lparr>l_TypeMeta = \<lparr>tm_Kind = [], tm_APIVersion = []\<rparr>, l_ListMeta = z, l_Items = None\<rparr>\<rparr>"

definition conditions :: "'e \<Rightarrow> ('e gcell, 'e) block" where
  "conditions z = \<lparr>wrap = BConditions, unwrap = (\<lambda>b. case b of BConditions xs \<Rightarrow> Some xs | _ \<Rightarrow> None),
     zero_value = z\<rparr>"

lemma blocks_ok [simp]:
  "block_ok strings" "block_ok ints" "block_ok refs" "block_ok volume_mounts" "block_ok script_refs" "block_ok port_specs" "block_ok managements" "block_ok neighbors" "block_ok security_contexts" "block_ok host_paths" "block_ok volumes" "block_ok containers" "block_ok ztps" "block_ok switch_specs" "block_ok port_statuses" "block_ok switch_statuses" "block_ok interface_specs" "block_ok interface_statuses"
  "block_ok (switches z)" "block_ok (interfaces z)" "block_ok (switch_lists z)" "block_ok (interface_lists z)" "block_ok (conditions z)"
  by (simp_all add: block_ok_def strings_def ints_def refs_def volume_mounts_def script_refs_def port_specs_def managements_def neighbors_def security_contexts_def host_paths_def volumes_def containers_def ztps_def switch_specs_def port_statuses_def switch_statuses_def interface_specs_def interface_statuses_def switches_def interfaces_def switch_lists_def interface_lists_def conditions_def)

section \<open>The deep copies\<close>

text \<open>The deep copies of \<open>ObjectMeta\<close>, \<open>ListMeta\<close> and \<open>Condition\<close>, with the zero value of those types, and their contract.\<close>

record 'e k8s_copies =
  meta_DeepCopyInto :: "'e \<Rightarrow> ('e gcell heap, 'e) state"
  list_meta_DeepCopyInto :: "'e \<Rightarrow> ('e gcell heap, 'e) state"
  condition_DeepCopyInto :: "'e \<Rightarrow> ('e gcell heap, 'e) state"
  zero_ext :: 'e

record ('e, 'c, 'l) k8s_views =
  view_meta :: "'e gcell mem \<Rightarrow> 'e \<Rightarrow> ObjectMeta option"
  view_list_meta :: "'e gcell mem \<Rightarrow> 'e \<Rightarrow> 'l option"
  view_condition :: "'e gcell mem \<Rightarrow> 'e \<Rightarrow> 'c option"

definition k8s_contract :: "'e k8s_copies \<Rightarrow> ('e, 'c, 'l) k8s_views \<Rightarrow> bool" where
  "k8s_contract X V \<longleftrightarrow> deep_copier (view_meta V) (meta_DeepCopyInto X) \<and>
     deep_copier (view_list_meta V) (list_meta_DeepCopyInto X) \<and> deep_copier (view_condition V) (condition_DeepCopyInto X)"

definition ContainerSecurityContext_DeepCopyInto :: "mSecurityContext \<Rightarrow> ('e gcell heap, mSecurityContext) state" where
  "ContainerSecurityContext_DeepCopyInto x =
     State_Monad.bind (copy_ptr ints ret (mRunAsUser x)) (\<lambda>user.
     State_Monad.bind (copy_ptr ints ret (mRunAsGroup x)) (\<lambda>group.
     ret (x\<lparr>mRunAsUser := user, mRunAsGroup := group\<rparr>)))"

definition Container_DeepCopyInto :: "mContainer \<Rightarrow> ('e gcell heap, mContainer) state" where
  "Container_DeepCopyInto x =
     State_Monad.bind (copy_slice strings ret (mc_Command x)) (\<lambda>command.
     State_Monad.bind (copy_slice strings ret (mc_Args x)) (\<lambda>args.
     State_Monad.bind (copy_slice volume_mounts ret (mc_VolumeMounts x)) (\<lambda>mounts.
     State_Monad.bind (copy_ptr security_contexts ContainerSecurityContext_DeepCopyInto (mc_SecurityContext x)) (\<lambda>sc.
     ret (x\<lparr>mc_Command := command, mc_Args := args, mc_VolumeMounts := mounts, mc_SecurityContext := sc\<rparr>)))))"

definition HostPathVolumeSource_DeepCopyInto :: "mHostPath \<Rightarrow> ('e gcell heap, mHostPath) state" where
  "HostPathVolumeSource_DeepCopyInto x =
     State_Monad.bind (copy_ptr strings ret (mType x)) (\<lambda>type.
     ret (x\<lparr>mType := type\<rparr>))"

definition PortStatus_DeepCopyInto :: "mPortStatus \<Rightarrow> ('e gcell heap, mPortStatus) state" where
  "PortStatus_DeepCopyInto x =
     State_Monad.bind (copy_slice refs ret (mp_InterfaceRefs x)) (\<lambda>refs1.
     ret (x\<lparr>mp_InterfaceRefs := refs1\<rparr>))"

definition Volume_DeepCopyInto :: "mVolume \<Rightarrow> ('e gcell heap, mVolume) state" where
  "Volume_DeepCopyInto x =
     State_Monad.bind (copy_ptr host_paths HostPathVolumeSource_DeepCopyInto (mv_HostPath x)) (\<lambda>hp.
     ret (x\<lparr>mv_HostPath := hp\<rparr>))"

definition ZTP_DeepCopyInto :: "mZTP \<Rightarrow> ('e gcell heap, mZTP) state" where
  "ZTP_DeepCopyInto x =
     State_Monad.bind (copy_ptr script_refs ret (mz_ScriptRef x)) (\<lambda>ref.
     ret (x\<lparr>mz_ScriptRef := ref\<rparr>))"

definition SwitchSpec_DeepCopyInto :: "mSwitchSpec \<Rightarrow> ('e gcell heap, mSwitchSpec) state" where
  "SwitchSpec_DeepCopyInto x =
     State_Monad.bind (copy_ptr ztps ZTP_DeepCopyInto (ms_ZTP x)) (\<lambda>ztp.
     State_Monad.bind (copy_slice containers Container_DeepCopyInto (ms_Containers x)) (\<lambda>cs.
     State_Monad.bind (copy_slice volumes Volume_DeepCopyInto (ms_Volumes x)) (\<lambda>vs.
     State_Monad.bind (copy_slice port_specs ret (ms_Ports x)) (\<lambda>ps.
     ret (x\<lparr>ms_ZTP := ztp, ms_Containers := cs, ms_Volumes := vs, ms_Ports := ps\<rparr>)))))"

definition SwitchInterfaceSpec_DeepCopyInto :: "mInterfaceSpec \<Rightarrow> ('e gcell heap, mInterfaceSpec) state" where
  "SwitchInterfaceSpec_DeepCopyInto x =
     State_Monad.bind (copy_ptr refs ret (mi_SwitchRef x)) (\<lambda>ref.
     ret (x\<lparr>mi_SwitchRef := ref\<rparr>))"

definition SwitchStatus_DeepCopyInto :: "'e k8s_copies \<Rightarrow> mSwitchStatus \<Rightarrow> ('e gcell heap, mSwitchStatus) state" where
  "SwitchStatus_DeepCopyInto X x =
     State_Monad.bind (copy_slice port_statuses PortStatus_DeepCopyInto (mt_Ports x)) (\<lambda>ports.
     State_Monad.bind (copy_slice (conditions (zero_ext X)) (condition_DeepCopyInto X) (mt_Conditions x)) (\<lambda>conds.
     ret (x\<lparr>mt_Ports := ports, mt_Conditions := conds\<rparr>)))"

definition SwitchInterfaceStatus_DeepCopyInto :: "'e k8s_copies \<Rightarrow> mInterfaceStatus \<Rightarrow> ('e gcell heap, mInterfaceStatus) state" where
  "SwitchInterfaceStatus_DeepCopyInto X x =
     State_Monad.bind (copy_slice (conditions (zero_ext X)) (condition_DeepCopyInto X) (mu_Conditions x)) (\<lambda>conds.
     ret (x\<lparr>mu_Conditions := conds\<rparr>))"

definition Switch_DeepCopyInto :: "'e k8s_copies \<Rightarrow> 'e mSwitch \<Rightarrow> ('e gcell heap, 'e mSwitch) state" where
  "Switch_DeepCopyInto X x =
     State_Monad.bind (meta_DeepCopyInto X (sw_ObjectMeta x)) (\<lambda>meta.
     State_Monad.bind (SwitchSpec_DeepCopyInto (sw_mSpec x)) (\<lambda>spec.
     State_Monad.bind (SwitchStatus_DeepCopyInto X (sw_mStatus x)) (\<lambda>status.
     ret (x\<lparr>sw_ObjectMeta := meta, sw_mSpec := spec, sw_mStatus := status\<rparr>))))"

definition SwitchInterface_DeepCopyInto :: "'e k8s_copies \<Rightarrow> 'e mInterface \<Rightarrow> ('e gcell heap, 'e mInterface) state" where
  "SwitchInterface_DeepCopyInto X x =
     State_Monad.bind (meta_DeepCopyInto X (si_ObjectMeta x)) (\<lambda>meta.
     State_Monad.bind (SwitchInterfaceSpec_DeepCopyInto (si_mSpec x)) (\<lambda>spec.
     State_Monad.bind (SwitchInterfaceStatus_DeepCopyInto X (si_mStatus x)) (\<lambda>status.
     ret (x\<lparr>si_ObjectMeta := meta, si_mSpec := spec, si_mStatus := status\<rparr>))))"

definition SwitchList_DeepCopyInto :: "'e k8s_copies \<Rightarrow> 'e mList \<Rightarrow> ('e gcell heap, 'e mList) state" where
  "SwitchList_DeepCopyInto X x =
     State_Monad.bind (list_meta_DeepCopyInto X (l_ListMeta x)) (\<lambda>meta.
     State_Monad.bind (copy_slice (switches (zero_ext X)) (Switch_DeepCopyInto X) (l_Items x)) (\<lambda>items.
     ret (x\<lparr>l_ListMeta := meta, l_Items := items\<rparr>)))"

definition SwitchInterfaceList_DeepCopyInto :: "'e k8s_copies \<Rightarrow> 'e mList \<Rightarrow> ('e gcell heap, 'e mList) state" where
  "SwitchInterfaceList_DeepCopyInto X x =
     State_Monad.bind (list_meta_DeepCopyInto X (l_ListMeta x)) (\<lambda>meta.
     State_Monad.bind (copy_slice (interfaces (zero_ext X)) (SwitchInterface_DeepCopyInto X) (l_Items x)) (\<lambda>items.
     ret (x\<lparr>l_ListMeta := meta, l_Items := items\<rparr>)))"

text \<open>The types without pointers.\<close>

definition Management_DeepCopyInto :: "Management \<Rightarrow> ('e gcell heap, Management) state" where
  "Management_DeepCopyInto x = ret x"

definition Neighbor_DeepCopyInto :: "Neighbor \<Rightarrow> ('e gcell heap, Neighbor) state" where
  "Neighbor_DeepCopyInto x = ret x"

definition PortSpec_DeepCopyInto :: "PortSpec \<Rightarrow> ('e gcell heap, PortSpec) state" where
  "PortSpec_DeepCopyInto x = ret x"

definition VolumeMount_DeepCopyInto :: "VolumeMount \<Rightarrow> ('e gcell heap, VolumeMount) state" where
  "VolumeMount_DeepCopyInto x = ret x"

definition ZTPConfigMapReference_DeepCopyInto :: "ZTPConfigMapReference \<Rightarrow> ('e gcell heap, ZTPConfigMapReference) state" where
  "ZTPConfigMapReference_DeepCopyInto x = ret x"

definition Container_DeepCopy :: "ptr \<Rightarrow> ('e gcell heap, ptr) state" where
  "Container_DeepCopy p = copy_ptr containers Container_DeepCopyInto p"

definition ContainerSecurityContext_DeepCopy :: "ptr \<Rightarrow> ('e gcell heap, ptr) state" where
  "ContainerSecurityContext_DeepCopy p = copy_ptr security_contexts ContainerSecurityContext_DeepCopyInto p"

definition HostPathVolumeSource_DeepCopy :: "ptr \<Rightarrow> ('e gcell heap, ptr) state" where
  "HostPathVolumeSource_DeepCopy p = copy_ptr host_paths HostPathVolumeSource_DeepCopyInto p"

definition Management_DeepCopy :: "ptr \<Rightarrow> ('e gcell heap, ptr) state" where
  "Management_DeepCopy p = copy_ptr managements Management_DeepCopyInto p"

definition Neighbor_DeepCopy :: "ptr \<Rightarrow> ('e gcell heap, ptr) state" where
  "Neighbor_DeepCopy p = copy_ptr neighbors Neighbor_DeepCopyInto p"

definition PortSpec_DeepCopy :: "ptr \<Rightarrow> ('e gcell heap, ptr) state" where
  "PortSpec_DeepCopy p = copy_ptr port_specs PortSpec_DeepCopyInto p"

definition PortStatus_DeepCopy :: "ptr \<Rightarrow> ('e gcell heap, ptr) state" where
  "PortStatus_DeepCopy p = copy_ptr port_statuses PortStatus_DeepCopyInto p"

definition Switch_DeepCopy :: "'e k8s_copies \<Rightarrow> ptr \<Rightarrow> ('e gcell heap, ptr) state" where
  "Switch_DeepCopy X p = copy_ptr (switches (zero_ext X)) (Switch_DeepCopyInto X) p"

definition SwitchInterface_DeepCopy :: "'e k8s_copies \<Rightarrow> ptr \<Rightarrow> ('e gcell heap, ptr) state" where
  "SwitchInterface_DeepCopy X p = copy_ptr (interfaces (zero_ext X)) (SwitchInterface_DeepCopyInto X) p"

definition SwitchInterfaceList_DeepCopy :: "'e k8s_copies \<Rightarrow> ptr \<Rightarrow> ('e gcell heap, ptr) state" where
  "SwitchInterfaceList_DeepCopy X p = copy_ptr (interface_lists (zero_ext X)) (SwitchInterfaceList_DeepCopyInto X) p"

definition SwitchInterfaceSpec_DeepCopy :: "ptr \<Rightarrow> ('e gcell heap, ptr) state" where
  "SwitchInterfaceSpec_DeepCopy p = copy_ptr interface_specs SwitchInterfaceSpec_DeepCopyInto p"

definition SwitchInterfaceStatus_DeepCopy :: "'e k8s_copies \<Rightarrow> ptr \<Rightarrow> ('e gcell heap, ptr) state" where
  "SwitchInterfaceStatus_DeepCopy X p = copy_ptr interface_statuses (SwitchInterfaceStatus_DeepCopyInto X) p"

definition SwitchList_DeepCopy :: "'e k8s_copies \<Rightarrow> ptr \<Rightarrow> ('e gcell heap, ptr) state" where
  "SwitchList_DeepCopy X p = copy_ptr (switch_lists (zero_ext X)) (SwitchList_DeepCopyInto X) p"

definition SwitchSpec_DeepCopy :: "ptr \<Rightarrow> ('e gcell heap, ptr) state" where
  "SwitchSpec_DeepCopy p = copy_ptr switch_specs SwitchSpec_DeepCopyInto p"

definition SwitchStatus_DeepCopy :: "'e k8s_copies \<Rightarrow> ptr \<Rightarrow> ('e gcell heap, ptr) state" where
  "SwitchStatus_DeepCopy X p = copy_ptr switch_statuses (SwitchStatus_DeepCopyInto X) p"

definition Volume_DeepCopy :: "ptr \<Rightarrow> ('e gcell heap, ptr) state" where
  "Volume_DeepCopy p = copy_ptr volumes Volume_DeepCopyInto p"

definition VolumeMount_DeepCopy :: "ptr \<Rightarrow> ('e gcell heap, ptr) state" where
  "VolumeMount_DeepCopy p = copy_ptr volume_mounts VolumeMount_DeepCopyInto p"

definition ZTP_DeepCopy :: "ptr \<Rightarrow> ('e gcell heap, ptr) state" where
  "ZTP_DeepCopy p = copy_ptr ztps ZTP_DeepCopyInto p"

definition ZTPConfigMapReference_DeepCopy :: "ptr \<Rightarrow> ('e gcell heap, ptr) state" where
  "ZTPConfigMapReference_DeepCopy p = copy_ptr script_refs ZTPConfigMapReference_DeepCopyInto p"

text \<open>\<open>DeepCopyObject\<close>: the copy as a value of the interface \<open>runtime.Object\<close>, which is nil, and not a nil pointer, for a nil receiver.\<close>

datatype runtime_Object = SwitchObject "nat \<times> nat" | SwitchInterfaceObject "nat \<times> nat" | SwitchListObject "nat \<times> nat" | SwitchInterfaceListObject "nat \<times> nat"

definition Switch_DeepCopyObject :: "'e k8s_copies \<Rightarrow> ptr \<Rightarrow> ('e gcell heap, runtime_Object option) state" where
  "Switch_DeepCopyObject X p = State_Monad.bind (Switch_DeepCopy X p) (\<lambda>c. ret (map_option SwitchObject c))"

definition SwitchInterface_DeepCopyObject :: "'e k8s_copies \<Rightarrow> ptr \<Rightarrow> ('e gcell heap, runtime_Object option) state" where
  "SwitchInterface_DeepCopyObject X p = State_Monad.bind (SwitchInterface_DeepCopy X p) (\<lambda>c. ret (map_option SwitchInterfaceObject c))"

definition SwitchInterfaceList_DeepCopyObject :: "'e k8s_copies \<Rightarrow> ptr \<Rightarrow> ('e gcell heap, runtime_Object option) state" where
  "SwitchInterfaceList_DeepCopyObject X p = State_Monad.bind (SwitchInterfaceList_DeepCopy X p) (\<lambda>c. ret (map_option SwitchInterfaceListObject c))"

definition SwitchList_DeepCopyObject :: "'e k8s_copies \<Rightarrow> ptr \<Rightarrow> ('e gcell heap, runtime_Object option) state" where
  "SwitchList_DeepCopyObject X p = State_Monad.bind (SwitchList_DeepCopy X p) (\<lambda>c. ret (map_option SwitchListObject c))"

section \<open>What the structures stand for\<close>

definition view_ContainerSecurityContext :: "'e gcell mem \<Rightarrow> mSecurityContext \<Rightarrow> (ContainerSecurityContext) option" where
  "view_ContainerSecurityContext m x = map_option (\<lambda>(user, group).
       \<lparr>Privileged = mPrivileged x, RunAsUser = user, RunAsGroup = group\<rparr>)
     (view_pair (view_ptr ints view_plain) (view_ptr ints view_plain) m (mRunAsUser x, mRunAsGroup x))"

definition view_Container :: "'e gcell mem \<Rightarrow> mContainer \<Rightarrow> (Container) option" where
  "view_Container m x = map_option (\<lambda>(command, args, mounts, sc).
       \<lparr>c_Name = mc_Name x, Image = mc_Image x, Command = command, Args = args, VolumeMounts = mounts, HostPID = mc_HostPID x,
       SecurityContext = sc, InjectControlKubeconfig = mc_InjectControlKubeconfig x\<rparr>)
     (view_pair (view_slice strings view_plain) (view_pair (view_slice strings view_plain) (view_pair (view_slice volume_mounts view_plain) (view_ptr security_contexts view_ContainerSecurityContext))) m (mc_Command x, mc_Args x, mc_VolumeMounts x, mc_SecurityContext x))"

definition view_HostPathVolumeSource :: "'e gcell mem \<Rightarrow> mHostPath \<Rightarrow> (HostPathVolumeSource) option" where
  "view_HostPathVolumeSource m x = map_option (\<lambda>type.
       \<lparr>hp_Path = mPath x, hp_Type = type\<rparr>)
     (view_ptr strings view_plain m (mType x))"

definition view_PortStatus :: "'e gcell mem \<Rightarrow> mPortStatus \<Rightarrow> (PortStatus) option" where
  "view_PortStatus m x = map_option (\<lambda>refs1.
       \<lparr>pst_Name = mp_Name x, InterfaceRefs = refs1\<rparr>)
     (view_slice refs view_plain m (mp_InterfaceRefs x))"

definition view_Volume :: "'e gcell mem \<Rightarrow> mVolume \<Rightarrow> (Volume) option" where
  "view_Volume m x = map_option (\<lambda>hp.
       \<lparr>v_Name = mv_Name x, HostPath = hp\<rparr>)
     (view_ptr host_paths view_HostPathVolumeSource m (mv_HostPath x))"

definition view_ZTP :: "'e gcell mem \<Rightarrow> mZTP \<Rightarrow> (ZTP) option" where
  "view_ZTP m x = map_option (\<lambda>ref.
       \<lparr>SourceAddress = mz_SourceAddress x, ScriptRef = ref\<rparr>)
     (view_ptr script_refs view_plain m (mz_ScriptRef x))"

definition view_SwitchSpec :: "'e gcell mem \<Rightarrow> mSwitchSpec \<Rightarrow> (SwitchSpec) option" where
  "view_SwitchSpec m x = map_option (\<lambda>(ztp, cs, vs, ps).
       \<lparr>Hostname = ms_Hostname x, s_Management = ms_Management x, s_ZTP = ztp, Containers = cs, Volumes = vs,
       s_NextBootMode = ms_NextBootMode x, s_MacAddress = ms_MacAddress x, s_Ports = ps\<rparr>)
     (view_pair (view_ptr ztps view_ZTP) (view_pair (view_slice containers view_Container) (view_pair (view_slice volumes view_Volume) (view_slice port_specs view_plain))) m (ms_ZTP x, ms_Containers x, ms_Volumes x, ms_Ports x))"

definition view_SwitchInterfaceSpec :: "'e gcell mem \<Rightarrow> mInterfaceSpec \<Rightarrow> (SwitchInterfaceSpec) option" where
  "view_SwitchInterfaceSpec m x = map_option (\<lambda>ref.
       \<lparr>si_Handle = mi_Handle x, si_NativeName = mi_NativeName x, SwitchRef = ref, spec_AdminState = mi_AdminState x\<rparr>)
     (view_ptr refs view_plain m (mi_SwitchRef x))"

definition view_SwitchStatus :: "'e k8s_copies \<Rightarrow> ('e, 'c, 'l) k8s_views \<Rightarrow> 'e gcell mem \<Rightarrow> mSwitchStatus \<Rightarrow> (SwitchStatus \<times> 'c list) option" where
  "view_SwitchStatus X V m x = map_option (\<lambda>(ports, conds).
       (\<lparr>sw_State = mt_State x, sw_Ports = ports, MACAddress = mt_MACAddress x, FirmwareVersion = mt_FirmwareVersion x, SKU = mt_SKU x\<rparr>, conds))
     (view_pair (view_slice port_statuses view_PortStatus) (view_slice (conditions (zero_ext X)) (view_condition V)) m (mt_Ports x, mt_Conditions x))"

definition view_SwitchInterfaceStatus :: "'e k8s_copies \<Rightarrow> ('e, 'c, 'l) k8s_views \<Rightarrow> 'e gcell mem \<Rightarrow> mInterfaceStatus \<Rightarrow> (SwitchInterfaceStatus \<times> 'c list) option" where
  "view_SwitchInterfaceStatus X V m x = map_option (\<lambda>conds.
       (\<lparr>st_AdminState = mu_AdminState x, OperationalState = mu_OperationalState x, si_State = mu_State x, si_Neighbor = mu_Neighbor x,
       si_MacAddress = mu_MacAddress x, si_AliasName = mu_AliasName x\<rparr>, conds))
     (view_slice (conditions (zero_ext X)) (view_condition V) m (mu_Conditions x))"

definition view_Switch :: "'e k8s_copies \<Rightarrow> ('e, 'c, 'l) k8s_views \<Rightarrow> 'e gcell mem \<Rightarrow> 'e mSwitch \<Rightarrow> (TypeMeta \<times> Switch \<times> 'c list) option" where
  "view_Switch X V m x = map_option (\<lambda>(meta, spec, status).
       (sw_TypeMeta x, \<lparr>sw_Meta = meta, sw_Spec = spec, sw_Status = fst status\<rparr>, snd status))
     (view_pair (view_meta V) (view_pair (view_SwitchSpec) (view_SwitchStatus X V)) m (sw_ObjectMeta x, sw_mSpec x, sw_mStatus x))"

definition view_SwitchInterface :: "'e k8s_copies \<Rightarrow> ('e, 'c, 'l) k8s_views \<Rightarrow> 'e gcell mem \<Rightarrow> 'e mInterface \<Rightarrow> (TypeMeta \<times> SwitchInterface \<times> 'c list) option" where
  "view_SwitchInterface X V m x = map_option (\<lambda>(meta, spec, status).
       (si_TypeMeta x, \<lparr>si_Meta = meta, si_Spec = spec, si_Status = fst status\<rparr>, snd status))
     (view_pair (view_meta V) (view_pair (view_SwitchInterfaceSpec) (view_SwitchInterfaceStatus X V)) m (si_ObjectMeta x, si_mSpec x, si_mStatus x))"

definition view_SwitchList :: "'e k8s_copies \<Rightarrow> ('e, 'c, 'l) k8s_views \<Rightarrow> 'e gcell mem \<Rightarrow> 'e mList \<Rightarrow> (TypeMeta \<times> 'l \<times> (TypeMeta \<times> Switch \<times> 'c list) list) option" where
  "view_SwitchList X V m x = map_option (\<lambda>(meta, items).
       (l_TypeMeta x, meta, items))
     (view_pair (view_list_meta V) (view_slice (switches (zero_ext X)) (view_Switch X V)) m (l_ListMeta x, l_Items x))"

definition view_SwitchInterfaceList :: "'e k8s_copies \<Rightarrow> ('e, 'c, 'l) k8s_views \<Rightarrow> 'e gcell mem \<Rightarrow> 'e mList \<Rightarrow> (TypeMeta \<times> 'l \<times> (TypeMeta \<times> SwitchInterface \<times> 'c list) list) option" where
  "view_SwitchInterfaceList X V m x = map_option (\<lambda>(meta, items).
       (l_TypeMeta x, meta, items))
     (view_pair (view_list_meta V) (view_slice (interfaces (zero_ext X)) (view_SwitchInterface X V)) m (l_ListMeta x, l_Items x))"

section \<open>Every copy is a deep copy\<close>

named_theorems copiers \<open>the contracts of the copies\<close>

lemmas copier_parts = copier_plain copier_pair copier_slice copier_ptr

lemma copier_ContainerSecurityContext [copiers]: "deep_copier (view_ContainerSecurityContext) (ContainerSecurityContext_DeepCopyInto)"
  by (rule copier_struct [where copy = "copy_pair (copy_ptr ints ret) (copy_ptr ints ret)" and view = "view_pair (view_ptr ints view_plain) (view_ptr ints view_plain)"
        and parts = "\<lambda>x. (mRunAsUser x, mRunAsGroup x)" and put = "\<lambda>(user, group) x. x\<lparr>mRunAsUser := user, mRunAsGroup := group\<rparr>"
        and mk = "\<lambda>x (user, group). \<lparr>Privileged = mPrivileged x, RunAsUser = user, RunAsGroup = group\<rparr>"])
    (auto simp: ContainerSecurityContext_DeepCopyInto_def view_ContainerSecurityContext_def copy_pair_def intro!: copier_parts copiers split: prod.split)

lemma copier_Container [copiers]: "deep_copier (view_Container) (Container_DeepCopyInto)"
  by (rule copier_struct [where copy = "copy_pair (copy_slice strings ret) (copy_pair (copy_slice strings ret) (copy_pair (copy_slice volume_mounts ret) (copy_ptr security_contexts ContainerSecurityContext_DeepCopyInto)))" and view = "view_pair (view_slice strings view_plain) (view_pair (view_slice strings view_plain) (view_pair (view_slice volume_mounts view_plain) (view_ptr security_contexts view_ContainerSecurityContext)))"
        and parts = "\<lambda>x. (mc_Command x, mc_Args x, mc_VolumeMounts x, mc_SecurityContext x)" and put = "\<lambda>(command, args, mounts, sc) x. x\<lparr>mc_Command := command, mc_Args := args, mc_VolumeMounts := mounts, mc_SecurityContext := sc\<rparr>"
        and mk = "\<lambda>x (command, args, mounts, sc). \<lparr>c_Name = mc_Name x, Image = mc_Image x, Command = command, Args = args, VolumeMounts = mounts, HostPID = mc_HostPID x,
       SecurityContext = sc, InjectControlKubeconfig = mc_InjectControlKubeconfig x\<rparr>"])
    (auto simp: Container_DeepCopyInto_def view_Container_def copy_pair_def intro!: copier_parts copiers split: prod.split)

lemma copier_HostPathVolumeSource [copiers]: "deep_copier (view_HostPathVolumeSource) (HostPathVolumeSource_DeepCopyInto)"
  by (rule copier_struct [where copy = "copy_ptr strings ret" and view = "view_ptr strings view_plain"
        and parts = "mType" and put = "\<lambda>type x. x\<lparr>mType := type\<rparr>"
        and mk = "\<lambda>x type. \<lparr>hp_Path = mPath x, hp_Type = type\<rparr>"])
    (auto simp: HostPathVolumeSource_DeepCopyInto_def view_HostPathVolumeSource_def copy_pair_def intro!: copier_parts copiers split: prod.split)

lemma copier_PortStatus [copiers]: "deep_copier (view_PortStatus) (PortStatus_DeepCopyInto)"
  by (rule copier_struct [where copy = "copy_slice refs ret" and view = "view_slice refs view_plain"
        and parts = "mp_InterfaceRefs" and put = "\<lambda>refs1 x. x\<lparr>mp_InterfaceRefs := refs1\<rparr>"
        and mk = "\<lambda>x refs1. \<lparr>pst_Name = mp_Name x, InterfaceRefs = refs1\<rparr>"])
    (auto simp: PortStatus_DeepCopyInto_def view_PortStatus_def copy_pair_def intro!: copier_parts copiers split: prod.split)

lemma copier_Volume [copiers]: "deep_copier (view_Volume) (Volume_DeepCopyInto)"
  by (rule copier_struct [where copy = "copy_ptr host_paths HostPathVolumeSource_DeepCopyInto" and view = "view_ptr host_paths view_HostPathVolumeSource"
        and parts = "mv_HostPath" and put = "\<lambda>hp x. x\<lparr>mv_HostPath := hp\<rparr>"
        and mk = "\<lambda>x hp. \<lparr>v_Name = mv_Name x, HostPath = hp\<rparr>"])
    (auto simp: Volume_DeepCopyInto_def view_Volume_def copy_pair_def intro!: copier_parts copiers split: prod.split)

lemma copier_ZTP [copiers]: "deep_copier (view_ZTP) (ZTP_DeepCopyInto)"
  by (rule copier_struct [where copy = "copy_ptr script_refs ret" and view = "view_ptr script_refs view_plain"
        and parts = "mz_ScriptRef" and put = "\<lambda>ref x. x\<lparr>mz_ScriptRef := ref\<rparr>"
        and mk = "\<lambda>x ref. \<lparr>SourceAddress = mz_SourceAddress x, ScriptRef = ref\<rparr>"])
    (auto simp: ZTP_DeepCopyInto_def view_ZTP_def copy_pair_def intro!: copier_parts copiers split: prod.split)

lemma copier_SwitchSpec [copiers]: "deep_copier (view_SwitchSpec) (SwitchSpec_DeepCopyInto)"
  by (rule copier_struct [where copy = "copy_pair (copy_ptr ztps ZTP_DeepCopyInto) (copy_pair (copy_slice containers Container_DeepCopyInto) (copy_pair (copy_slice volumes Volume_DeepCopyInto) (copy_slice port_specs ret)))" and view = "view_pair (view_ptr ztps view_ZTP) (view_pair (view_slice containers view_Container) (view_pair (view_slice volumes view_Volume) (view_slice port_specs view_plain)))"
        and parts = "\<lambda>x. (ms_ZTP x, ms_Containers x, ms_Volumes x, ms_Ports x)" and put = "\<lambda>(ztp, cs, vs, ps) x. x\<lparr>ms_ZTP := ztp, ms_Containers := cs, ms_Volumes := vs, ms_Ports := ps\<rparr>"
        and mk = "\<lambda>x (ztp, cs, vs, ps). \<lparr>Hostname = ms_Hostname x, s_Management = ms_Management x, s_ZTP = ztp, Containers = cs, Volumes = vs,
       s_NextBootMode = ms_NextBootMode x, s_MacAddress = ms_MacAddress x, s_Ports = ps\<rparr>"])
    (auto simp: SwitchSpec_DeepCopyInto_def view_SwitchSpec_def copy_pair_def intro!: copier_parts copiers split: prod.split)

lemma copier_SwitchInterfaceSpec [copiers]: "deep_copier (view_SwitchInterfaceSpec) (SwitchInterfaceSpec_DeepCopyInto)"
  by (rule copier_struct [where copy = "copy_ptr refs ret" and view = "view_ptr refs view_plain"
        and parts = "mi_SwitchRef" and put = "\<lambda>ref x. x\<lparr>mi_SwitchRef := ref\<rparr>"
        and mk = "\<lambda>x ref. \<lparr>si_Handle = mi_Handle x, si_NativeName = mi_NativeName x, SwitchRef = ref, spec_AdminState = mi_AdminState x\<rparr>"])
    (auto simp: SwitchInterfaceSpec_DeepCopyInto_def view_SwitchInterfaceSpec_def copy_pair_def intro!: copier_parts copiers split: prod.split)

lemma copier_SwitchStatus [copiers]: "k8s_contract X V \<Longrightarrow> deep_copier (view_SwitchStatus X V) (SwitchStatus_DeepCopyInto X)"
  by (rule copier_struct [where copy = "copy_pair (copy_slice port_statuses PortStatus_DeepCopyInto) (copy_slice (conditions (zero_ext X)) (condition_DeepCopyInto X))" and view = "view_pair (view_slice port_statuses view_PortStatus) (view_slice (conditions (zero_ext X)) (view_condition V))"
        and parts = "\<lambda>x. (mt_Ports x, mt_Conditions x)" and put = "\<lambda>(ports, conds) x. x\<lparr>mt_Ports := ports, mt_Conditions := conds\<rparr>"
        and mk = "\<lambda>x (ports, conds). (\<lparr>sw_State = mt_State x, sw_Ports = ports, MACAddress = mt_MACAddress x, FirmwareVersion = mt_FirmwareVersion x, SKU = mt_SKU x\<rparr>, conds)"])
    (auto simp: SwitchStatus_DeepCopyInto_def view_SwitchStatus_def copy_pair_def k8s_contract_def intro!: copier_parts copiers split: prod.split)

lemma copier_SwitchInterfaceStatus [copiers]: "k8s_contract X V \<Longrightarrow> deep_copier (view_SwitchInterfaceStatus X V) (SwitchInterfaceStatus_DeepCopyInto X)"
  by (rule copier_struct [where copy = "copy_slice (conditions (zero_ext X)) (condition_DeepCopyInto X)" and view = "view_slice (conditions (zero_ext X)) (view_condition V)"
        and parts = "mu_Conditions" and put = "\<lambda>conds x. x\<lparr>mu_Conditions := conds\<rparr>"
        and mk = "\<lambda>x conds. (\<lparr>st_AdminState = mu_AdminState x, OperationalState = mu_OperationalState x, si_State = mu_State x, si_Neighbor = mu_Neighbor x,
       si_MacAddress = mu_MacAddress x, si_AliasName = mu_AliasName x\<rparr>, conds)"])
    (auto simp: SwitchInterfaceStatus_DeepCopyInto_def view_SwitchInterfaceStatus_def copy_pair_def k8s_contract_def intro!: copier_parts copiers split: prod.split)

lemma copier_Switch [copiers]: "k8s_contract X V \<Longrightarrow> deep_copier (view_Switch X V) (Switch_DeepCopyInto X)"
  by (rule copier_struct [where copy = "copy_pair (meta_DeepCopyInto X) (copy_pair (SwitchSpec_DeepCopyInto) (SwitchStatus_DeepCopyInto X))" and view = "view_pair (view_meta V) (view_pair (view_SwitchSpec) (view_SwitchStatus X V))"
        and parts = "\<lambda>x. (sw_ObjectMeta x, sw_mSpec x, sw_mStatus x)" and put = "\<lambda>(meta, spec, status) x. x\<lparr>sw_ObjectMeta := meta, sw_mSpec := spec, sw_mStatus := status\<rparr>"
        and mk = "\<lambda>x (meta, spec, status). (sw_TypeMeta x, \<lparr>sw_Meta = meta, sw_Spec = spec, sw_Status = fst status\<rparr>, snd status)"])
    (auto simp: Switch_DeepCopyInto_def view_Switch_def copy_pair_def k8s_contract_def intro!: copier_parts copiers split: prod.split)

lemma copier_SwitchInterface [copiers]: "k8s_contract X V \<Longrightarrow> deep_copier (view_SwitchInterface X V) (SwitchInterface_DeepCopyInto X)"
  by (rule copier_struct [where copy = "copy_pair (meta_DeepCopyInto X) (copy_pair (SwitchInterfaceSpec_DeepCopyInto) (SwitchInterfaceStatus_DeepCopyInto X))" and view = "view_pair (view_meta V) (view_pair (view_SwitchInterfaceSpec) (view_SwitchInterfaceStatus X V))"
        and parts = "\<lambda>x. (si_ObjectMeta x, si_mSpec x, si_mStatus x)" and put = "\<lambda>(meta, spec, status) x. x\<lparr>si_ObjectMeta := meta, si_mSpec := spec, si_mStatus := status\<rparr>"
        and mk = "\<lambda>x (meta, spec, status). (si_TypeMeta x, \<lparr>si_Meta = meta, si_Spec = spec, si_Status = fst status\<rparr>, snd status)"])
    (auto simp: SwitchInterface_DeepCopyInto_def view_SwitchInterface_def copy_pair_def k8s_contract_def intro!: copier_parts copiers split: prod.split)

lemma copier_SwitchList [copiers]: "k8s_contract X V \<Longrightarrow> deep_copier (view_SwitchList X V) (SwitchList_DeepCopyInto X)"
  by (rule copier_struct [where copy = "copy_pair (list_meta_DeepCopyInto X) (copy_slice (switches (zero_ext X)) (Switch_DeepCopyInto X))" and view = "view_pair (view_list_meta V) (view_slice (switches (zero_ext X)) (view_Switch X V))"
        and parts = "\<lambda>x. (l_ListMeta x, l_Items x)" and put = "\<lambda>(meta, items) x. x\<lparr>l_ListMeta := meta, l_Items := items\<rparr>"
        and mk = "\<lambda>x (meta, items). (l_TypeMeta x, meta, items)"])
    (auto simp: SwitchList_DeepCopyInto_def view_SwitchList_def copy_pair_def k8s_contract_def intro!: copier_parts copiers split: prod.split)

lemma copier_SwitchInterfaceList [copiers]: "k8s_contract X V \<Longrightarrow> deep_copier (view_SwitchInterfaceList X V) (SwitchInterfaceList_DeepCopyInto X)"
  by (rule copier_struct [where copy = "copy_pair (list_meta_DeepCopyInto X) (copy_slice (interfaces (zero_ext X)) (SwitchInterface_DeepCopyInto X))" and view = "view_pair (view_list_meta V) (view_slice (interfaces (zero_ext X)) (view_SwitchInterface X V))"
        and parts = "\<lambda>x. (l_ListMeta x, l_Items x)" and put = "\<lambda>(meta, items) x. x\<lparr>l_ListMeta := meta, l_Items := items\<rparr>"
        and mk = "\<lambda>x (meta, items). (l_TypeMeta x, meta, items)"])
    (auto simp: SwitchInterfaceList_DeepCopyInto_def view_SwitchInterfaceList_def copy_pair_def k8s_contract_def intro!: copier_parts copiers split: prod.split)

lemma copier_valueless [copiers]:
  "deep_copier view_plain Management_DeepCopyInto" "deep_copier view_plain Neighbor_DeepCopyInto" "deep_copier view_plain PortSpec_DeepCopyInto"
  "deep_copier view_plain VolumeMount_DeepCopyInto" "deep_copier view_plain ZTPConfigMapReference_DeepCopyInto"
  unfolding Management_DeepCopyInto_def [abs_def] Neighbor_DeepCopyInto_def [abs_def] PortSpec_DeepCopyInto_def [abs_def]
    VolumeMount_DeepCopyInto_def [abs_def] ZTPConfigMapReference_DeepCopyInto_def [abs_def]
  by (rule copier_plain)+

interpretation container_copy: deep_copier view_Container Container_DeepCopyInto
  by (rule copier_Container)

interpretation spec_copy: deep_copier view_SwitchSpec SwitchSpec_DeepCopyInto
  by (rule copier_SwitchSpec)

interpretation interface_spec_copy: deep_copier view_SwitchInterfaceSpec SwitchInterfaceSpec_DeepCopyInto
  by (rule copier_SwitchInterfaceSpec)

text \<open>The methods on pointers.\<close>

lemma copier_Switch_ptr:
  "k8s_contract X V \<Longrightarrow> deep_copier (view_ptr (switches (zero_ext X)) (view_Switch X V)) (Switch_DeepCopy X)"
  unfolding Switch_DeepCopy_def [abs_def] by (intro copier_ptr copier_Switch blocks_ok)

lemma copier_SwitchInterface_ptr:
  "k8s_contract X V \<Longrightarrow> deep_copier (view_ptr (interfaces (zero_ext X)) (view_SwitchInterface X V)) (SwitchInterface_DeepCopy X)"
  unfolding SwitchInterface_DeepCopy_def [abs_def] by (intro copier_ptr copier_SwitchInterface blocks_ok)

lemma copier_SwitchList_ptr:
  "k8s_contract X V \<Longrightarrow> deep_copier (view_ptr (switch_lists (zero_ext X)) (view_SwitchList X V)) (SwitchList_DeepCopy X)"
  unfolding SwitchList_DeepCopy_def [abs_def] by (intro copier_ptr copier_SwitchList blocks_ok)

lemma copier_SwitchInterfaceList_ptr:
  "k8s_contract X V \<Longrightarrow> deep_copier (view_ptr (interface_lists (zero_ext X)) (view_SwitchInterfaceList X V)) (SwitchInterfaceList_DeepCopy X)"
  unfolding SwitchInterfaceList_DeepCopy_def [abs_def] by (intro copier_ptr copier_SwitchInterfaceList blocks_ok)

section \<open>Properties\<close>

text \<open>Property C20. A deep copy of a \<open>Switch\<close> is a snapshot: it stands for the value the original had when it was copied, and keeps
  doing so whatever the program then writes to any memory but that of the copy, so that the patch a reconciler computes
  from original and copy is the difference it made; and nothing written to the copy shows in the original.\<close>

theorem Switch_DeepCopy_isolated:
  assumes "k8s_contract X V" and "wf_heap h"
    and "view_ptr (switches (zero_ext X)) (view_Switch X V) (mem h) (Some p) = Some (Some v)"
    and "run (Switch_DeepCopy X (Some p)) h = (q, h')"
  shows "\<exists>r. q = Some r \<and>
    (\<forall>h2. mutates (- {lim h..<lim h'}) h' h2 \<longrightarrow> view_ptr (switches (zero_ext X)) (view_Switch X V) (mem h2) (Some r) = Some (Some v)) \<and>
    (\<forall>h2. mutates {lim h..} h' h2 \<longrightarrow> view_ptr (switches (zero_ext X)) (view_Switch X V) (mem h2) (Some p) = Some (Some v))"
proof -
  note c = copier_Switch_ptr [OF assms(1)]
  obtain r where r: "q = Some r" using copy_ptr_nil assms(4) unfolding Switch_DeepCopy_def by (metis option.exhaust)
  with deep_copier.copy_survives [OF c assms(3,2,4)] deep_copier.original_survives [OF c assms(3,2,4)] show ?thesis by blast
qed

text \<open>The same holds for \<open>SwitchInterface\<close>.\<close>

lemma SwitchInterface_DeepCopy_isolated:
  assumes "k8s_contract X V" and "wf_heap h"
    and "view_ptr (interfaces (zero_ext X)) (view_SwitchInterface X V) (mem h) (Some p) = Some (Some v)"
    and "run (SwitchInterface_DeepCopy X (Some p)) h = (q, h')"
  shows "\<exists>r. q = Some r \<and>
    (\<forall>h2. mutates (- {lim h..<lim h'}) h' h2 \<longrightarrow> view_ptr (interfaces (zero_ext X)) (view_SwitchInterface X V) (mem h2) (Some r) = Some (Some v)) \<and>
    (\<forall>h2. mutates {lim h..} h' h2 \<longrightarrow> view_ptr (interfaces (zero_ext X)) (view_SwitchInterface X V) (mem h2) (Some p) = Some (Some v))"
proof -
  note c = copier_SwitchInterface_ptr [OF assms(1)]
  obtain r where r: "q = Some r" using copy_ptr_nil assms(4) unfolding SwitchInterface_DeepCopy_def by (metis option.exhaust)
  with deep_copier.copy_survives [OF c assms(3,2,4)] deep_copier.original_survives [OF c assms(3,2,4)] show ?thesis by blast
qed

section \<open>An example\<close>

text \<open>A switch with one container, in five blocks; the metadata has no pointers here.\<close>

definition demo_copies :: "ObjectMeta k8s_copies" where
  "demo_copies = \<lparr>meta_DeepCopyInto = ret, list_meta_DeepCopyInto = ret, condition_DeepCopyInto = ret,
     zero_ext = \<lparr>m_Name = [], m_Namespace = [], m_UID = [], m_Finalizers = [], m_DeletionTimestamp = None\<rparr>\<rparr>"

definition demo_views :: "(ObjectMeta, ObjectMeta, ObjectMeta) k8s_views" where
  "demo_views = \<lparr>view_meta = view_plain, view_list_meta = view_plain, view_condition = view_plain\<rparr>"

definition demo_memory :: "ObjectMeta gcell heap" where
  "demo_memory = \<lparr>mem = [
     0 \<mapsto> BSwitches [\<lparr>sw_TypeMeta = \<lparr>tm_Kind = ''Switch'', tm_APIVersion = GroupVersion\<rparr>, sw_ObjectMeta = zero_ext demo_copies,
       sw_mSpec = \<lparr>ms_Hostname = ''leaf1'', ms_Management = \<lparr>Host = [], Port = []\<rparr>, ms_ZTP = None, ms_Containers = Some (1, 0, 1), ms_Volumes = None,
         ms_NextBootMode = [], ms_MacAddress = [], ms_Ports = None\<rparr>,
       sw_mStatus = \<lparr>mt_State = [], mt_Ports = None, mt_MACAddress = [], mt_FirmwareVersion = [], mt_SKU = [], mt_Conditions = None\<rparr>\<rparr>],
     1 \<mapsto> BContainers [\<lparr>mc_Name = ''agent'', mc_Image = ''img'', mc_Command = Some (2, 1, 2), mc_Args = None, mc_VolumeMounts = None,
       mc_HostPID = False, mc_SecurityContext = Some (3, 0), mc_InjectControlKubeconfig = False\<rparr>],
     2 \<mapsto> BStrings [''x'', ''sh'', ''-c''],
     3 \<mapsto> BSecurityContexts [\<lparr>mPrivileged = True, mRunAsUser = Some (4, 0), mRunAsGroup = None\<rparr>],
     4 \<mapsto> BInts [1000]], lim = 5\<rparr>"

definition demo_value :: "TypeMeta \<times> Switch \<times> ObjectMeta list" where
  "demo_value = (\<lparr>tm_Kind = ''Switch'', tm_APIVersion = GroupVersion\<rparr>,
     \<lparr>sw_Meta = zero_ext demo_copies,
       sw_Spec = \<lparr>Hostname = ''leaf1'', s_Management = \<lparr>Host = [], Port = []\<rparr>, s_ZTP = None,
         Containers = [\<lparr>c_Name = ''agent'', Image = ''img'', Command = [''sh'', ''-c''], Args = [], VolumeMounts = [], HostPID = False,
           SecurityContext = Some \<lparr>Privileged = True, RunAsUser = Some 1000, RunAsGroup = None\<rparr>, InjectControlKubeconfig = False\<rparr>],
         Volumes = [], s_NextBootMode = [], s_MacAddress = [], s_Ports = []\<rparr>,
       sw_Status = \<lparr>sw_State = [], sw_Ports = [], MACAddress = [], FirmwareVersion = [], SKU = []\<rparr>\<rparr>, [])"

lemma demo_contract: "k8s_contract demo_copies demo_views"
  by (simp add: k8s_contract_def demo_copies_def demo_views_def copier_plain)

lemmas demo_blocks = switches_def containers_def strings_def security_contexts_def ints_def volume_mounts_def ztps_def volumes_def port_specs_def
  port_statuses_def conditions_def

lemma demo_view: "view_ptr (switches (zero_ext demo_copies)) (view_Switch demo_copies demo_views) (mem demo_memory) (Some (0, 0)) = Some (Some demo_value)"
  by (simp add: demo_memory_def demo_value_def demo_views_def view_ptr_def view_slice_def view_pair_def view_plain_def elements_def demo_blocks
      view_Switch_def view_SwitchSpec_def view_SwitchStatus_def view_Container_def view_ContainerSecurityContext_def)

theorem Switch_DeepCopy_isolated_witness:
  "\<exists>r h'. run (Switch_DeepCopy demo_copies (Some (0, 0))) demo_memory = (Some r, h') \<and>
     view_ptr (switches (zero_ext demo_copies)) (view_Switch demo_copies demo_views)
       (mem (snd (run (store 2 (BStrings [''x'', ''rm'', ''-r''])) h'))) (Some r) = Some (Some demo_value)"
proof -
  obtain q h' where q: "run (Switch_DeepCopy demo_copies (Some (0, 0))) demo_memory = (q, h')" by (metis surj_pair)
  have wf: "wf_heap demo_memory" by (auto simp: wf_heap_def demo_memory_def split: if_splits)
  have "lim demo_memory = 5" by (simp add: demo_memory_def)
  then have "mutates (- {lim demo_memory..<lim h'}) h' (snd (run (store 2 (BStrings [''x'', ''rm'', ''-r''])) h'))"
    by (intro mutates_store mutates_refl) simp
  with Switch_DeepCopy_isolated [OF demo_contract wf demo_view q] q show ?thesis by blast
qed

end
