(* ===== verification/Agent_Types.thy ===== *)
theory Agent_Types
  imports Switch_Api
begin

text \<open>
  The types the agent, its server and its client exchange (\<open>internal/agent/types/agent_types.go\<close>),
  the error codes (\<open>internal/agent/errors/errors.go\<close>) and the conversions
  (\<open>internal/agent/types/conversion_utils.go\<close>): between the agent's and the API's states, and
  between the native name of an interface (\<open>Ethernet5\<close>) and its abstract name
  (\<open>eth1-1\<close>). The lemmas are the round trips of both.
\<close>

section \<open>Status\<close>

record Status =
  Code :: "32 word"
  Message :: string

definition Status_String :: "Status \<Rightarrow> string" where
  "Status_String status =
     (if Code status = 0 then Message status
      else ''Code: '' @ Itoa (uint (Code status)) @ '', Message: '' @ Message status)"

definition NewErrorStatus :: "32 word \<Rightarrow> string \<Rightarrow> Status" where
  "NewErrorStatus code message = \<lparr>Code = code, Message = message\<rparr>"

definition NewCorrectStatus :: Status where
  "NewCorrectStatus = \<lparr>Code = 0, Message = []\<rparr>"

definition CLIENT_ERROR :: "32 word" where "CLIENT_ERROR = 1"
definition SERVER_ERROR :: "32 word" where "SERVER_ERROR = 2"
definition BAD_REQUEST :: "32 word" where "BAD_REQUEST = 101"
definition NOT_FOUND :: "32 word" where "NOT_FOUND = 201"
definition ALREADY_EXISTS :: "32 word" where "ALREADY_EXISTS = 202"
definition REDIS_HSET_FAIL :: "32 word" where "REDIS_HSET_FAIL = 203"
definition REDIS_HGET_FAIL :: "32 word" where "REDIS_HGET_FAIL = 204"
definition REDIS_KEY_CHECK_FAIL :: "32 word" where "REDIS_KEY_CHECK_FAIL = 205"

text \<open>The constructor of \<open>errors.go\<close> is the same as that of \<open>agent_types.go\<close>.\<close>

definition err_NewErrorStatus :: "32 word \<Rightarrow> string \<Rightarrow> Status" where
  "err_NewErrorStatus code message = \<lparr>Code = code, Message = message\<rparr>"

lemmas error_codes = BAD_REQUEST_def NOT_FOUND_def REDIS_HSET_FAIL_def REDIS_KEY_CHECK_FAIL_def

lemma Code_NewErrorStatus [simp]: "Code (NewErrorStatus c m) = c" "Code (err_NewErrorStatus c m) = c"
  by (simp_all add: NewErrorStatus_def err_NewErrorStatus_def)

section \<open>Objects\<close>

definition StatusDown :: string where "StatusDown = ''down''"
definition StatusUp :: string where "StatusUp = ''up''"
definition StatusUnknown :: string where "StatusUnknown = ''unknown''"
definition StatusNotReady :: "32 word" where "StatusNotReady = 0"
definition StatusReady :: "32 word" where "StatusReady = 1"

definition DeviceKind :: string where "DeviceKind = ''SwitchDevice''"
definition InterfaceKind :: string where "InterfaceKind = ''Interface''"
definition InterfaceListKind :: string where "InterfaceListKind = ''InterfaceList''"
definition PortKind :: string where "PortKind = ''Port''"
definition PortListKind :: string where "PortListKind = ''PortList''"
definition InterfaceNeighborKind :: string where "InterfaceNeighborKind = ''InterfaceNeighbor''"

text \<open>The zero value of a status, that of an object whose status is not set.\<close>

definition zero_status :: Status where
  "zero_status = \<lparr>Code = 0, Message = []\<rparr>"

record SwitchDevice =
  d_Kind :: string
  LocalMacAddress :: string
  Hwsku :: string
  SonicOSVersion :: string
  AsicType :: string
  Readiness :: "32 word"
  d_Status :: Status

definition SwitchDevice_GetName :: "SwitchDevice \<Rightarrow> string" where
  "SwitchDevice_GetName d = ''switch-'' @ LocalMacAddress d"

record Interface =
  i_Kind :: string
  i_Name :: string
  NativeName :: string
  AliasName :: string
  i_MacAddress :: string
  OperationStatus :: string
  AdminStatus :: string
  i_Status :: Status

text \<open>The zero value of \<open>agent.Interface\<close>; a composite literal sets some of its fields.\<close>

definition zero_Interface :: Interface where
  "zero_Interface = \<lparr>i_Kind = [], i_Name = [], NativeName = [], AliasName = [], i_MacAddress = [],
     OperationStatus = [], AdminStatus = [], i_Status = zero_status\<rparr>"

record InterfaceList =
  il_Kind :: string
  il_Items :: "Interface list"
  il_Status :: Status

record InterfaceNeighbor =
  n_Kind :: string
  n_Name :: string
  n_MacAddress :: string
  SystemName :: string
  Handle :: string
  n_Status :: Status

definition zero_InterfaceNeighbor :: InterfaceNeighbor where
  "zero_InterfaceNeighbor = \<lparr>n_Kind = [], n_Name = [], n_MacAddress = [], SystemName = [], Handle = [], n_Status = zero_status\<rparr>"

record agent_Port =
  p_Kind :: string
  p_Name :: string
  Alias :: string
  p_Status :: Status

record PortList =
  pl_Kind :: string
  pl_Items :: "agent_Port list"
  pl_Status :: Status

text \<open>The interface \<open>Object\<close>, by the types that implement it, and its methods.\<close>

datatype Object =
    ODevice SwitchDevice
  | OInterface Interface
  | ONeighbor InterfaceNeighbor
  | OPort agent_Port

fun GetKind :: "Object \<Rightarrow> string" where
  "GetKind (ODevice d) = d_Kind d"
| "GetKind (OInterface i) = i_Kind i"
| "GetKind (ONeighbor n) = n_Kind n"
| "GetKind (OPort p) = p_Kind p"

fun GetName :: "Object \<Rightarrow> string" where
  "GetName (ODevice d) = SwitchDevice_GetName d"
| "GetName (OInterface i) = i_Name i"
| "GetName (ONeighbor n) = n_Name n"
| "GetName (OPort p) = p_Name p"

fun GetStatus :: "Object \<Rightarrow> Status" where
  "GetStatus (ODevice d) = d_Status d"
| "GetStatus (OInterface i) = i_Status i"
| "GetStatus (ONeighbor n) = n_Status n"
| "GetStatus (OPort p) = p_Status p"

datatype ObjectList =
    OInterfaceList InterfaceList
  | OPortList PortList

fun GetItems :: "ObjectList \<Rightarrow> Object list" where
  "GetItems (OInterfaceList l) = map OInterface (il_Items l)"
| "GetItems (OPortList l) = map OPort (pl_Items l)"

section \<open>Messages\<close>

text \<open>
  The messages of the service (\<open>pkg/agent/proto/switch_agent.proto\<close>). A message in a message
  is a pointer and may be nil. A getter of a nil message returns the zero value.
\<close>

record pb_Interface =
  pbi_Name :: string
  pbi_NativeName :: string
  pbi_AliasName :: string
  pbi_OperationalStatus :: string
  pbi_AdminStatus :: string
  pbi_MacAddress :: string

definition zero_pb_Interface :: pb_Interface where
  "zero_pb_Interface = \<lparr>pbi_Name = [], pbi_NativeName = [], pbi_AliasName = [], pbi_OperationalStatus = [],
     pbi_AdminStatus = [], pbi_MacAddress = []\<rparr>"

record DeviceInfoResponse =
  di_Status :: "Status option"
  di_Hwsku :: string
  di_LocalMacAddress :: string
  di_SonicOsVersion :: string
  di_AsicType :: string
  di_Readiness :: "32 word"

record pb_Port =
  pbp_Name :: string
  pbp_Alias :: string

record pb_Neighbor =
  pbn_InterfaceName :: string
  pbn_MacAddress :: string
  pbn_SystemName :: string

record NeighborResponse =
  nr_Status :: "Status option"
  nr_Interface :: string
  nr_Neighbor :: "pb_Neighbor option"

definition ProtoStatusToStatus :: "Status option \<Rightarrow> Status" where
  "ProtoStatusToStatus pbStatus = (case pbStatus of
      None \<Rightarrow> \<lparr>Code = 0, Message = []\<rparr>
    | Some s \<Rightarrow> \<lparr>Code = Code s, Message = Message s\<rparr>)"

lemma ProtoStatusToStatus_Some [simp]: "ProtoStatusToStatus (Some s) = s"
  by (simp add: ProtoStatusToStatus_def)

section \<open>Conversions of states\<close>

text \<open>A Go function that returns a value and an error returns a pair.\<close>

definition ValidateDeviceStatusStr :: "string \<Rightarrow> string \<times> goerror option" where
  "ValidateDeviceStatusStr status =
     (if status \<noteq> ''up'' \<and> status \<noteq> ''down''
      then ([], Some (Errorf (''invalid device status: '' @ status @ '', it has to be '' @ [CHR 39] @ ''up'' @ [CHR 39]
             @ '' or '' @ [CHR 39] @ ''down'' @ [CHR 39])))
      else (status, None))"

definition AgentDeviceStatusToAPIAdminState :: "string \<Rightarrow> string \<times> goerror option" where
  "AgentDeviceStatusToAPIAdminState deviceStatus =
     (if deviceStatus = StatusUp then (AdminStateUp, None)
      else if deviceStatus = StatusDown then (AdminStateDown, None)
      else (AdminStateUnknown, Some (Errorf (''unknown device status: '' @ deviceStatus))))"

definition APIAdminStateToAgentDeviceStatus :: "string \<Rightarrow> string \<times> goerror option" where
  "APIAdminStateToAgentDeviceStatus adminState =
     (if adminState = AdminStateUp then (StatusUp, None)
      else if adminState = AdminStateDown then (StatusDown, None)
      else (StatusUnknown, Some (Errorf (''unknown admin state: '' @ adminState))))"

definition AgentDeviceStatusToAPIOperationState :: "string \<Rightarrow> string \<times> goerror option" where
  "AgentDeviceStatusToAPIOperationState deviceStatus =
     (if deviceStatus = StatusUp then (OperationStateUp, None)
      else if deviceStatus = StatusDown then (OperationStateDown, None)
      else (OperationStateUnknown, Some (Errorf (''unknown device status: '' @ deviceStatus))))"

definition APIOperationStateToAgentDeviceStatus :: "string \<Rightarrow> string \<times> goerror option" where
  "APIOperationStateToAgentDeviceStatus opState =
     (if opState = OperationStateUp then (StatusUp, None)
      else if opState = OperationStateDown then (StatusDown, None)
      else (StatusUnknown, Some (Errorf (''unknown operation state: '' @ opState))))"

lemmas dev_states = StatusUp_def StatusDown_def StatusUnknown_def
lemmas state_convs = AgentDeviceStatusToAPIAdminState_def APIAdminStateToAgentDeviceStatus_def
  AgentDeviceStatusToAPIOperationState_def APIOperationStateToAgentDeviceStatus_def

text \<open>The conversions between the agent's and the API's administrative state are inverse on the values
  they accept, in both directions, and so are those of the operational state; every other value is an
  error.\<close>

lemma state_conversions_inverse:
  "(AgentDeviceStatusToAPIAdminState d = (a, None)) = (APIAdminStateToAgentDeviceStatus a = (d, None)) \<and>
   (AgentDeviceStatusToAPIOperationState d = (a, None)) = (APIOperationStateToAgentDeviceStatus a = (d, None)) \<and>
   (snd (AgentDeviceStatusToAPIAdminState d) = None) = (d \<in> {''up'', ''down''}) \<and>
   (snd (APIAdminStateToAgentDeviceStatus a) = None) = (a \<in> {''Up'', ''Down''})"
  by (simp add: state_convs dev_states admin_states oper_states)

section \<open>Names of interfaces\<close>

definition NativeNameToAbstractName :: "string \<Rightarrow> string res" where
  "NativeNameToAbstractName nativeName =
     (if HasPrefix nativeName ''Ethernet''
      then let number = TrimPrefix nativeName ''Ethernet'' in
        (case scan_d number of
           Inl err \<Rightarrow> Inl (Errorf (''failed to parse interface number '' @ Quote number @ '': '' @ error_text err))
         | Inr (port, _) \<Rightarrow> Inr (''eth'' @ Itoa (port sdiv 4) @ ''-'' @ Itoa (port smod 4)))
      else Inl (Errorf (''unknown native interface name: '' @ nativeName)))"

definition scan_abstract :: "string \<Rightarrow> (int \<times> int) res" where
  "scan_abstract s = (case scan_lit ''eth'' s of Inl e \<Rightarrow> Inl e
    | Inr r1 \<Rightarrow> (case scan_d r1 of Inl e \<Rightarrow> Inl e
    | Inr (port, r2) \<Rightarrow> (case scan_lit ''-'' r2 of Inl e \<Rightarrow> Inl e
    | Inr r3 \<Rightarrow> (case scan_d r3 of Inl e \<Rightarrow> Inl e | Inr (vport, _) \<Rightarrow> Inr (port, vport)))))"

definition AbstractNameToNativeName :: "string \<Rightarrow> string res" where
  "AbstractNameToNativeName abstractName =
     (if HasPrefix abstractName ''eth''
      then (case scan_abstract abstractName of
           Inl err \<Rightarrow> Inl (Errorf (''failed to parse abstract interface name '' @ Quote abstractName @ '': '' @ error_text err))
         | Inr (port, vport) \<Rightarrow> Inr (''Ethernet'' @ Itoa (wrap64 (wrap64 (4 * port) + vport))))
      else Inl (Errorf (''unknown abstract interface name: '' @ abstractName)))"

text \<open>The names as functions of a port number, as the code prints them.\<close>

definition native_name :: "int \<Rightarrow> string" where
  "native_name n = ''Ethernet'' @ Itoa n"

definition abstract_name :: "int \<Rightarrow> int \<Rightarrow> string" where
  "abstract_name p v = ''eth'' @ Itoa p @ ''-'' @ Itoa v"

lemma native_name_inj [simp]: "native_name m = native_name n \<longleftrightarrow> m = n"
  by (auto simp: native_name_def dest: Itoa_inj)

text \<open>Text that does not go on with a digit ends a number.\<close>

abbreviation no_digit :: "string \<Rightarrow> bool" where
  "no_digit t \<equiv> t = [] \<or> \<not> is_digit (hd t)"

lemma scan_abstract_name:
  "int64 p \<Longrightarrow> int64 v \<Longrightarrow> no_digit t \<Longrightarrow> scan_abstract (abstract_name p v @ t) = Inr (p, v)"
proof -
  assume p: "int64 p" and v: "int64 v" and t: "no_digit t"
  have "scan_lit ''eth'' (abstract_name p v @ t) = Inr (Itoa p @ ''-'' @ Itoa v @ t)"
    by (simp add: abstract_name_def)
  moreover have "scan_d (Itoa p @ ''-'' @ Itoa v @ t) = Inr (p, ''-'' @ Itoa v @ t)"
    by (rule scan_d_Itoa [OF p]) (simp add: is_digit_def)
  moreover have "scan_d (Itoa v @ t) = Inr (v, t)" by (rule scan_d_Itoa [OF v t])
  ultimately show ?thesis by (simp add: scan_abstract_def)
qed

lemma Native_to_Abstract:
  "int64 n \<Longrightarrow> NativeNameToAbstractName (native_name n) = Inr (abstract_name (n sdiv 4) (n smod 4))"
  using scan_d_Itoa [of n "[]"]
  by (simp add: NativeNameToAbstractName_def native_name_def abstract_name_def)

lemma Abstract_to_Native_text:
  "int64 p \<Longrightarrow> int64 v \<Longrightarrow> no_digit t \<Longrightarrow>
   AbstractNameToNativeName (abstract_name p v @ t) = Inr (native_name (wrap64 (wrap64 (4 * p) + v)))"
  using scan_abstract_name [of p v t]
  by (simp add: AbstractNameToNativeName_def native_name_def) (simp add: abstract_name_def)

lemmas Abstract_to_Native = Abstract_to_Native_text [where t = "[]", simplified]

lemma wrap64_twice: "wrap64 (wrap64 x + y) = wrap64 (x + y)"
proof -
  have "(x + 2 ^ 63) mod 2 ^ 64 - 2 ^ 63 + y + 2 ^ 63 = (x + 2 ^ 63) mod 2 ^ 64 + y" for x y :: int by simp
  then show ?thesis by (simp add: wrap64_def mod_simps add_ac)
qed

lemma wrap64_eq: "wrap64 x = wrap64 y \<longleftrightarrow> x mod 2 ^ 64 = y mod 2 ^ 64"
proof -
  have "(x + 2 ^ 63) mod 2 ^ 64 = (y + 2 ^ 63) mod 2 ^ 64 \<longleftrightarrow> x mod 2 ^ 64 = y mod 2 ^ 64" for x y :: int
    using mod_add_cong [of x "2 ^ 64" y "2 ^ 63" "2 ^ 63"] mod_diff_cong [of "x + 2 ^ 63" "2 ^ 64" "y + 2 ^ 63" "2 ^ 63" "2 ^ 63"] by auto
  then show ?thesis by (simp add: wrap64_def)
qed

lemma port_split:
  fixes n :: int
  assumes "int64 n"
  shows "4 * (n sdiv 4) + n smod 4 = n" and "int64 (n sdiv 4)" and "int64 (n smod 4)" and "int64 (4 * (n sdiv 4))"
proof -
  have eq: "n smod 4 = n - 4 * (n sdiv 4)" using mult_sdiv_smod_eq [of 4 n] by simp
  show "4 * (n sdiv 4) + n smod 4 = n" by (simp add: eq)
  have dv: "n sdiv 4 = (if n < 0 then - ((- n) div 4) else n div 4)"
    by (simp add: signed_divide_int_def sgn_if)
  have d: "4 * (m div 4) = m - m mod 4" "0 \<le> m mod 4" "m mod 4 < 4" for m :: int
    by (simp_all add: minus_mod_eq_mult_div)
  show "int64 (n sdiv 4)" and "int64 (4 * (n sdiv 4))"
    using assms d [of n] d [of "- n"] by (auto simp: dv int64_def split: if_splits)
  have "- 4 < n smod 4 \<and> n smod 4 < 4" using d [of n] d [of "- n"] by (auto simp: eq dv)
  then show "int64 (n smod 4)" by (simp add: int64_def)
qed

text \<open>Property C36. Every native name \<open>Ethernet\<close>$n$ has an abstract name, and the abstract name converts back to
  it, for every 64-bit $n$.\<close>

theorem native_abstract_roundtrip:
  assumes "int64 n"
  shows "\<exists>a. NativeNameToAbstractName (native_name n) = Inr a \<and> AbstractNameToNativeName a = Inr (native_name n)"
  using Native_to_Abstract [OF assms] Abstract_to_Native [OF port_split(2,3) [OF assms]] port_split [OF assms] assms
  by simp

text \<open>The property at \<open>Ethernet5\<close>, whose abstract name is \<open>eth1-1\<close>.\<close>

theorem native_abstract_roundtrip_witness:
  "\<exists>a. NativeNameToAbstractName (native_name 5) = Inr a \<and> AbstractNameToNativeName a = Inr (native_name 5)"
  by (rule native_abstract_roundtrip) (simp add: int64_def)

text \<open>Every abstract name \<open>eth\<close>$p$\<open>-\<close>$v$ with $0 \le v < 4$ whose port number fits has a native name,
  which converts back to it.\<close>

lemma abstract_native_roundtrip:
  assumes "0 \<le> p" and "0 \<le> v" and "v < 4" and "int64 (4 * p + v)"
  shows "\<exists>n. AbstractNameToNativeName (abstract_name p v) = Inr n \<and> NativeNameToAbstractName n = Inr (abstract_name p v)"
proof -
  have "int64 p" "int64 v" "int64 (4 * p)" using assms by (simp_all add: int64_def)
  moreover from this have "wrap64 (wrap64 (4 * p) + v) = 4 * p + v" using assms(4) by simp
  moreover have "(4 * p + v) sdiv 4 = p" "(4 * p + v) smod 4 = v"
    using assms by (simp_all add: signed_divide_int_def signed_modulo_int_def sgn_if)
  ultimately show ?thesis using Abstract_to_Native [of p v] Native_to_Abstract [OF assms(4)] by simp
qed

text \<open>Property C37. The conversion from abstract names accepts every sub-port of 64 bits and any text after the numbers that does not go on
  with a digit, and ignores that text. Two such names stand for the same port if and only if $4p + v$ agrees modulo $2^{64}$. So it is not
  injective: for a port and a sub-port that are not negative, the name with the sub-port $v$ stands for the port that
  the proper name with $p + v \mathbin{\mathrm{div}} 4$ and $v \bmod 4$ stands for.\<close>

theorem abstract_names_not_injective:
  assumes "int64 p" "int64 v" "int64 q" "int64 u" and "no_digit t" "no_digit t'"
  shows "AbstractNameToNativeName (abstract_name p v @ t) = Inr (native_name (wrap64 (4 * p + v))) \<and>
    (AbstractNameToNativeName (abstract_name p v @ t) = AbstractNameToNativeName (abstract_name q u @ t')
       \<longleftrightarrow> (4 * p + v) mod 2 ^ 64 = (4 * q + u) mod 2 ^ 64) \<and>
    (0 \<le> p \<and> 0 \<le> v \<and> int64 (4 * p + v) \<longrightarrow>
       AbstractNameToNativeName (abstract_name p v @ t) = AbstractNameToNativeName (abstract_name (p + v div 4) (v mod 4)))"
proof -
  have native: "AbstractNameToNativeName (abstract_name x y @ z) = Inr (native_name (wrap64 (4 * x + y)))"
    if "int64 x" "int64 y" "no_digit z" for x y z
    using Abstract_to_Native_text [OF that] by (simp add: wrap64_twice)
  have proper: "int64 (p + v div 4)" "int64 (v mod 4)" "4 * (p + v div 4) + v mod 4 = 4 * p + v" if "0 \<le> p" "0 \<le> v" "int64 (4 * p + v)"
    using that by (auto simp: int64_def)
  have "AbstractNameToNativeName (abstract_name (p + v div 4) (v mod 4)) = Inr (native_name (wrap64 (4 * p + v)))"
    if "0 \<le> p" "0 \<le> v" "int64 (4 * p + v)"
    using native [OF proper(1,2) [OF that], of "[]"] unfolding proper(3) [OF that] by simp
  then show ?thesis using native [OF assms(1,2,5)] native [OF assms(3,4,6)] wrap64_eq by simp
qed

text \<open>The property at \<open>eth0-7\<close> and \<open>eth1-3xyz\<close>, which both stand for the port of \<open>eth1-3\<close>.\<close>

theorem abstract_names_not_injective_witness:
  "AbstractNameToNativeName (abstract_name 0 7) = AbstractNameToNativeName (abstract_name 1 3 @ ''xyz'') \<and>
   AbstractNameToNativeName (abstract_name 0 7) = AbstractNameToNativeName (abstract_name 1 3)"
proof -
  have i: "int64 0" "int64 7" "int64 1" "int64 3" and t: "no_digit []" "no_digit ''xyz''" by (simp_all add: int64_def is_digit_def)
  from abstract_names_not_injective [OF i t] i(2) show ?thesis by auto
qed

end
