(* ===== verification/Sonic_Agent.thy ===== *)
theory Sonic_Agent
  imports Agent_Types Redis_Client
begin

text \<open>
  The agent that runs on the switch (\<open>internal/agent/sonic/sonic_agent.go\<close> and
  \<open>utils.go\<close>): its pool of Redis clients and the operations of the interface
  \<open>SwitchAgent\<close>.

  The state of a call is the agent (its address and its pool) and the world. Of the host the agent
  uses the network devices, the D-Bus service that saves the configuration, a file and the clock: a
  record of calls, a parameter as the Redis client is. Each operation returns either a status or a
  value, never both, so its result is a sum. Calls are modelled one at a time; the locks around the
  pool are not modelled.
\<close>

record 'w host =
  LinkByName :: "string \<Rightarrow> ('w, 8 word list option res) state"
  ConnectSystemBus :: "('w, goerror option) state"
  CallSave :: "('w, goerror option) state"
  CloseBus :: "('w, goerror option) state"
  ReadFile :: "string \<Rightarrow> ('w, string res) state"
  Sleep :: "nat \<Rightarrow> ('w, unit) state"

text \<open>No call to the host changes CONFIG\_DB (database 4) or makes a reachable server unreachable.\<close>

definition keeps_config :: "('c, 'w) store_view \<Rightarrow> ('w, 'a) state \<Rightarrow> bool" where
  "keeps_config V m \<longleftrightarrow> (\<forall>w r w'. run m w = (r, w') \<longrightarrow>
     hashes_of V w' 4 = hashes_of V w 4 \<and> (reachable V w \<longrightarrow> reachable V w'))"

definition host_contract :: "'w host \<Rightarrow> ('c, 'w) store_view \<Rightarrow> bool" where
  "host_contract H V \<longleftrightarrow>
     (\<forall>n. keeps_config V (LinkByName H n)) \<and> keeps_config V (ConnectSystemBus H) \<and> keeps_config V (CallSave H) \<and>
     keeps_config V (CloseBus H) \<and> (\<forall>f. keeps_config V (ReadFile H f)) \<and> (\<forall>t. keeps_config V (Sleep H t))"

text \<open>
  Two hosts over the store in memory that satisfy it, for the concrete instances of the properties:
  one on which every call succeeds and one on which saving the configuration fails.
\<close>

definition mem_host :: "bool \<Rightarrow> mem host" where
  "mem_host saves = \<lparr>
     LinkByName = (\<lambda>n. ret (Inr (Some [2, 0, 0, 0, 0, 1]))),
     ConnectSystemBus = ret None,
     CallSave = ret (if saves then None else Some (ExtErr ''no such service'')),
     CloseBus = ret None,
     ReadFile = (\<lambda>f. ret (Inl (ExtErr ''no such file''))),
     Sleep = (\<lambda>t. ret ())\<rparr>"

lemma mem_host_contract: "host_contract (mem_host saves) mem_view"
  by (simp add: host_contract_def keeps_config_def mem_host_def)

section \<open>The agent and its pool of clients\<close>

record 'c SonicAgent =
  redisAddr :: string
  clientPool :: "(string \<times> 'c) list"

type_synonym ('c, 'w, 'a) agentM = "('c SonicAgent \<times> 'w, 'a) state"
type_synonym 'a sres = "Status + 'a"

definition io :: "('w, 'a) state \<Rightarrow> ('s \<times> 'w, 'a) state" where
  "io m = State (\<lambda>(a, w). case run m w of (r, w') \<Rightarrow> (r, (a, w')))"

lemma run_io [simp, io_run]: "run (io m) (a, w) = (case run m w of (r, w') \<Rightarrow> (r, (a, w')))"
  by (simp add: io_def)

definition getRedisDBIDByName :: "string \<Rightarrow> int" where
  "getRedisDBIDByName name =
     (if name = ''APPL_DB'' then 0 else if name = ''ASIC_DB'' then 1 else if name = ''COUNTERS_DB'' then 2
      else if name = ''LOGLEVEL_DB'' then 3 else if name = ''CONFIG_DB'' then 4 else if name = ''PFC_WD_DB'' then 5
      else if name = ''FLEX_COUNTER_DB'' then 5 else if name = ''STATE_DB'' then 6 else if name = ''SNMP_OVERLAY_DB'' then 7
      else if name = ''RESTagent_DB'' then 8 else if name = ''GB_ASIC_DB'' then 9 else if name = ''GB_COUNTERS_DB'' then 10
      else if name = ''GB_FLEX_COUNTER_DB'' then 11 else if name = ''APPL_STATE_DB'' then 14 else -1)"

definition NewSonicRedisAgent :: "('c, 'w) redis \<Rightarrow> string \<Rightarrow> ('w, 'c SonicAgent res) state" where
  "NewSonicRedisAgent R addr =
     State_Monad.bind (NewClient R addr 4) (\<lambda>testClient.
       on_fail (Ping R testClient)
         (\<lambda>err. on_fail (Close R testClient)
            (\<lambda>err2. ret (Inl (ErrorfW (''failed to close Redis client: '' @ error_text err2) err2)))
            (ret (Inl (ErrorfW (''failed to connect to Redis: '' @ error_text err) err))))
         (on_fail (Close R testClient)
            (\<lambda>err. ret (Inl (ErrorfW (''failed to close Redis client: '' @ error_text err) err)))
            (ret (Inr \<lparr>redisAddr = addr, clientPool = []\<rparr>))))"

definition pool_get :: "string \<Rightarrow> ('c, 'w, 'c option) agentM" where
  "pool_get dbName = State (\<lambda>(a, w). (map_of (clientPool a) dbName, (a, w)))"

definition pool_put :: "string \<Rightarrow> 'c \<Rightarrow> ('c, 'w, unit) agentM" where
  "pool_put dbName c = State (\<lambda>(a, w). ((), (a\<lparr>clientPool := AList.update dbName c (clientPool a)\<rparr>, w)))"

definition pool_delete :: "string \<Rightarrow> ('c, 'w, unit) agentM" where
  "pool_delete dbName = State (\<lambda>(a, w). ((), (a\<lparr>clientPool := AList.delete dbName (clientPool a)\<rparr>, w)))"

definition pool_addr :: "('c, 'w, string) agentM" where
  "pool_addr = State (\<lambda>(a, w). (redisAddr a, (a, w)))"

lemma run_pool [simp, io_run]:
  "run (pool_get n) (a, w) = (map_of (clientPool a) n, (a, w))"
  "run (pool_put n c) (a, w) = ((), (a\<lparr>clientPool := AList.update n c (clientPool a)\<rparr>, w))"
  "run (pool_delete n) (a, w) = ((), (a\<lparr>clientPool := AList.delete n (clientPool a)\<rparr>, w))"
  "run pool_addr (a, w) = (redisAddr a, (a, w))"
  by (simp_all add: pool_get_def pool_put_def pool_delete_def pool_addr_def)

definition connect_new :: "('c, 'w) redis \<Rightarrow> string \<Rightarrow> ('c, 'w, 'c res) agentM" where
  "connect_new R dbName =
     (let dbID = getRedisDBIDByName dbName in
      if dbID = -1 then ret (Inl (Errorf (''unknown database name: '' @ dbName)))
      else State_Monad.bind pool_addr (\<lambda>addr.
        State_Monad.bind (io (NewClient R addr dbID)) (\<lambda>client.
          on_fail (io (Ping R client))
            (\<lambda>err. on_fail (io (Close R client))
               (\<lambda>err2. ret (Inl (ErrorfW (''failed to close Redis client: '' @ error_text err2) err2)))
               (ret (Inl (ErrorfW (''failed to connect to Redis database '' @ dbName @ '': '' @ error_text err) err))))
            (State_Monad.bind (pool_put dbName client) (\<lambda>_. ret (Inr client))))))"

text \<open>The part under the write lock: look again, replace a client that does not answer.\<close>

definition connect_locked :: "('c, 'w) redis \<Rightarrow> string \<Rightarrow> ('c, 'w, 'c res) agentM" where
  "connect_locked R dbName = State_Monad.bind (pool_get dbName) (\<lambda>hit. case hit of
      Some client \<Rightarrow>
        on_fail (io (Ping R client))
          (\<lambda>_. on_fail (io (Close R client))
             (\<lambda>err. ret (Inl (ErrorfW (''failed to close Redis client: '' @ error_text err) err)))
             (State_Monad.bind (pool_delete dbName) (\<lambda>_. connect_new R dbName)))
          (ret (Inr client))
    | None \<Rightarrow> connect_new R dbName)"

definition Connect :: "('c, 'w) redis \<Rightarrow> string \<Rightarrow> ('c, 'w, 'c res) agentM" where
  "Connect R dbName = State_Monad.bind (pool_get dbName) (\<lambda>hit. case hit of
      Some client \<Rightarrow> on_fail (io (Ping R client)) (\<lambda>_. connect_locked R dbName) (ret (Inr client))
    | None \<Rightarrow> connect_locked R dbName)"

section \<open>The invariant of the pool\<close>

definition pool_ok :: "('c, 'w) store_view \<Rightarrow> 'c SonicAgent \<Rightarrow> bool" where
  "pool_ok V a \<longleftrightarrow> (\<forall>n c. map_of (clientPool a) n = Some c \<longrightarrow> db_of V c = getRedisDBIDByName n \<and> getRedisDBIDByName n \<noteq> -1)"

text \<open>
  The states in which the pool is right, CONFIG\_DB has a given content, and the server is reachable
  when \<open>up\<close> is set. Every read of the agent keeps them.
\<close>

definition steady :: "('c, 'w) store_view \<Rightarrow> bool \<Rightarrow> (string \<Rightarrow> string \<rightharpoonup> string) \<Rightarrow> 'c SonicAgent \<times> 'w \<Rightarrow> bool" where
  "steady V up cfg s \<longleftrightarrow> pool_ok V (fst s) \<and> hashes_of V (snd s) 4 = cfg \<and> (up \<longrightarrow> reachable V (snd s))"

lemma keeps_io:
  assumes "\<And>w r w'. run m w = (r, w') \<Longrightarrow> hashes_of V w' = hashes_of V w \<and> (reachable V w \<longrightarrow> reachable V w')"
  shows "keeps (steady V up cfg) (io m)"
  using assms by (auto simp: keeps_def valid_def steady_def io_def split: prod.splits)

lemma keeps_io_config: "keeps_config V m \<Longrightarrow> keeps (steady V up cfg) (io m)"
  by (auto simp: keeps_def valid_def steady_def io_def keeps_config_def split: prod.splits)

lemma answers_stays: "answers up m \<Longrightarrow> up w \<Longrightarrow> run m w = (r, w') \<Longrightarrow> up w'"
  by (fastforce simp: answers_def)

lemma accepts_stays: "accepts up m \<Longrightarrow> up w \<Longrightarrow> run m w = (r, w') \<Longrightarrow> up w'"
  by (fastforce simp: accepts_def)

lemma keeps_reads [keeps_rules]:
  assumes c: "redis_contract R V"
  shows "keeps (steady V up cfg) (io (HGet R cl k f))" "keeps (steady V up cfg) (io (HGetAll R cl k))"
    "keeps (steady V up cfg) (io (Exists R cl k))" "keeps (steady V up cfg) (io (Keys R cl p))"
    "keeps (steady V up cfg) (io (Ping R cl))" "keeps (steady V up cfg) (io (Close R cl))"
proof -
  show "keeps (steady V up cfg) (io (HGet R cl k f))"
    by (rule keeps_io) (simp add: HGet_data [OF c] HGet_up [OF c])
  show "keeps (steady V up cfg) (io (HGetAll R cl k))"
    by (rule keeps_io) (use HGetAll_data [OF c] answers_stays [OF answers_up(1) [OF c]] in auto)
  show "keeps (steady V up cfg) (io (Exists R cl k))"
    by (rule keeps_io) (use Exists_data [OF c] answers_stays [OF answers_up(3) [OF c]] in auto)
  show "keeps (steady V up cfg) (io (Keys R cl p))"
    by (rule keeps_io) (use Keys_data [OF c] answers_stays [OF answers_up(4) [OF c]] in auto)
  show "keeps (steady V up cfg) (io (Ping R cl))"
    by (rule keeps_io) (use Ping_data [OF c] accepts_stays [OF accepts_up(4) [OF c]] in auto)
  show "keeps (steady V up cfg) (io (Close R cl))"
    by (rule keeps_io) (use Close_data [OF c] accepts_stays [OF accepts_up(5) [OF c]] in auto)
qed

lemma keeps_host [keeps_rules]:
  assumes "host_contract H V"
  shows "keeps (steady V up cfg) (io (LinkByName H n))" "keeps (steady V up cfg) (io (ConnectSystemBus H))"
    "keeps (steady V up cfg) (io (CallSave H))" "keeps (steady V up cfg) (io (CloseBus H))"
    "keeps (steady V up cfg) (io (ReadFile H f))" "keeps (steady V up cfg) (io (Sleep H t))"
  using assms by (simp_all add: host_contract_def keeps_io_config)

text \<open>A client that \<open>Connect\<close> returns selects the database of the name it was asked for.\<close>

abbreviation connected :: "('c, 'w) store_view \<Rightarrow> bool \<Rightarrow> (string \<Rightarrow> string \<rightharpoonup> string) \<Rightarrow> string \<Rightarrow> 'c res \<Rightarrow> 'c SonicAgent \<times> 'w \<Rightarrow> bool" where
  "connected V up cfg dbName r s \<equiv> steady V up cfg s \<and>
     (\<forall>c. r = Inr c \<longrightarrow> db_of V c = getRedisDBIDByName dbName \<and> getRedisDBIDByName dbName \<noteq> -1) \<and>
     (up \<and> getRedisDBIDByName dbName \<noteq> -1 \<longrightarrow> \<not> isl r)"

lemma valid_Ping:
  assumes "redis_contract R V"
  shows "valid (steady V up cfg) (io (Ping R c)) (\<lambda>r s. steady V up cfg s \<and> (up \<longrightarrow> r = None))"
proof -
  have "r = None" if "up" "steady V up cfg s" "run (io (Ping R c)) s = (r, s')" for r s s'
    using that acceptsD [OF accepts_up(4) [OF assms, of c], of "snd s"]
    by (cases s) (auto simp: steady_def split: prod.splits)
  then show ?thesis using keepsD [OF keeps_reads(5) [OF assms]] unfolding valid_def by blast
qed

lemma valid_NewClient:
  assumes "redis_contract R V"
  shows "valid (steady V up cfg) (io (NewClient R addr d)) (\<lambda>c s. steady V up cfg s \<and> db_of V c = d)"
  using NewClient_ok [OF assms] NewClient_up [OF assms]
  by (fastforce simp: valid_def steady_def io_def split: prod.splits)

lemma pool_ok_delete: "pool_ok V a \<Longrightarrow> pool_ok V (a\<lparr>clientPool := AList.delete n (clientPool a)\<rparr>)"
  by (simp add: pool_ok_def delete_conv')

lemma valid_pool_addr: "valid (steady V up cfg) pool_addr (\<lambda>_. steady V up cfg)"
  by (auto simp: valid_def)

lemma valid_pool_put:
  "db_of V c = getRedisDBIDByName n \<Longrightarrow> getRedisDBIDByName n \<noteq> -1
   \<Longrightarrow> valid (steady V up cfg) (pool_put n c) (\<lambda>_. steady V up cfg)"
  by (auto simp: valid_def steady_def pool_ok_def update_conv')

lemma valid_pool_delete: "valid (steady V up cfg) (pool_delete n) (\<lambda>_. steady V up cfg)"
  by (auto simp: valid_def steady_def pool_ok_delete)

lemma valid_pool_get:
  "valid (steady V up cfg) (pool_get n) (\<lambda>hit s. steady V up cfg s \<and>
     (\<forall>c. hit = Some c \<longrightarrow> db_of V c = getRedisDBIDByName n \<and> getRedisDBIDByName n \<noteq> -1))"
  by (auto simp: valid_def steady_def pool_ok_def)

lemma valid_Close:
  "redis_contract R V \<Longrightarrow> valid (steady V up cfg) (io (Close R c)) (\<lambda>_. steady V up cfg)"
  using keeps_reads(6) by (simp add: keeps_def)

text \<open>A ping followed by a handler of its failure; the server answers when it is reachable.\<close>

lemma valid_ping_then:
  assumes "redis_contract R V"
    and "\<not> up \<Longrightarrow> (\<And>e. valid (steady V up cfg) (h e) Q)" and "valid (steady V up cfg) k Q"
  shows "valid (steady V up cfg) (on_fail (io (Ping R c)) h k) Q"
  by (rule valid_on_fail_pure [OF valid_Ping [OF assms(1)]]) (blast intro: assms(2,3))+

lemma valid_close_then:
  assumes "redis_contract R V" and "\<And>e. valid (steady V up cfg) (h e) Q" and "valid (steady V up cfg) k Q"
  shows "valid (steady V up cfg) (on_fail (io (Close R c)) h k) Q"
  by (rule valid_on_fail [where E = "\<lambda>_. steady V up cfg" and K = "steady V up cfg", OF _ assms(2,3)],
      rule valid_conseq [OF valid_Close [OF assms(1)]]) (auto split: option.split)

lemma connect_new_valid:
  assumes c: "redis_contract R V"
  shows "valid (steady V up cfg) (connect_new R dbName) (connected V up cfg dbName)"
proof (cases "getRedisDBIDByName dbName = -1")
  case True
  then show ?thesis by (simp add: connect_new_def valid_ret)
next
  case False
  show ?thesis
    unfolding connect_new_def Let_def if_not_P [OF False]
    apply (rule valid_bind [OF valid_pool_addr], rule valid_bind [OF valid_NewClient [OF c]], rule valid_pure)
    apply (rule valid_ping_then [OF c])
     apply (rule valid_close_then [OF c])
      apply (rule valid_ret; simp)+
    apply (rule valid_bind [OF valid_pool_put]; (rule valid_ret)?; simp add: False)
    done
qed

lemma connect_locked_valid:
  assumes c: "redis_contract R V"
  shows "valid (steady V up cfg) (connect_locked R dbName) (connected V up cfg dbName)"
  unfolding connect_locked_def
proof (rule valid_bind [OF valid_pool_get], rule valid_pure)
  fix hit :: "'a option"
  assume hit: "\<forall>c. hit = Some c \<longrightarrow> db_of V c = getRedisDBIDByName dbName \<and> getRedisDBIDByName dbName \<noteq> - 1"
  show "valid (steady V up cfg) (case hit of None \<Rightarrow> connect_new R dbName
     | Some client \<Rightarrow> on_fail (io (Ping R client))
          (\<lambda>_. on_fail (io (Close R client))
             (\<lambda>err. ret (Inl (ErrorfW (''failed to close Redis client: '' @ error_text err) err)))
             (State_Monad.bind (pool_delete dbName) (\<lambda>_. connect_new R dbName)))
          (ret (Inr client))) (connected V up cfg dbName)"
  proof (cases hit)
    case (Some client)
    show ?thesis
      unfolding Some option.case
      apply (rule valid_ping_then [OF c])
       apply (rule valid_close_then [OF c])
        apply (rule valid_ret; simp)
       apply (rule valid_bind [OF valid_pool_delete connect_new_valid [OF c]])
      apply (rule valid_ret; simp add: hit Some)
      done
  qed (simp add: connect_new_valid [OF c])
qed

lemma Connect_valid:
  assumes c: "redis_contract R V"
  shows "valid (steady V up cfg) (Connect R dbName) (connected V up cfg dbName)"
  unfolding Connect_def
proof (rule valid_bind [OF valid_pool_get], rule valid_pure)
  fix hit :: "'a option"
  assume hit: "\<forall>c. hit = Some c \<longrightarrow> db_of V c = getRedisDBIDByName dbName \<and> getRedisDBIDByName dbName \<noteq> - 1"
  show "valid (steady V up cfg) (case hit of None \<Rightarrow> connect_locked R dbName
     | Some client \<Rightarrow> on_fail (io (Ping R client)) (\<lambda>_. connect_locked R dbName) (ret (Inr client))) (connected V up cfg dbName)"
  proof (cases hit)
    case (Some client)
    show ?thesis
      unfolding Some option.case
      by (rule valid_ping_then [OF c connect_locked_valid [OF c]], rule valid_ret) (simp add: hit Some)
  qed (simp add: connect_locked_valid [OF c])
qed

lemma keeps_Connect [keeps_rules]: "redis_contract R V \<Longrightarrow> keeps (steady V up cfg) (Connect R dbName)"
  using Connect_valid [of R V up cfg dbName] unfolding keeps_def by (rule valid_conseq) auto

section \<open>Operations\<close>

text \<open>The map that \<open>sonic_version.yml\<close> describes.\<close>

fun version_lines :: "string list \<Rightarrow> gomap \<Rightarrow> gomap" where
  "version_lines [] info = info"
| "version_lines (l # ls) info =
     (let line = TrimSpace l in
      if HasPrefix line ''#'' \<or> HasPrefix line ''---'' \<or> line = [] then version_lines ls info
      else if CHR '':'' \<in> set line
      then let parts = SplitN CHR '':'' 2 line in
        (if length parts = 2
         then version_lines ls (AList.update (TrimSpace (parts ! 0)) (Trim (TrimSpace (parts ! 1)) [CHR 39, CHR 34]) info)
         else version_lines ls info)
      else version_lines ls info)"

definition GetSonicVersionInfo :: "'w host \<Rightarrow> ('w, gomap res) state" where
  "GetSonicVersionInfo H =
     on_err (ReadFile H ''/etc/sonic/sonic_version.yml'')
       (\<lambda>err. ret (Inl (ErrorfW (''failed to read sonic_version.yml: '' @ error_text err) err)))
       (\<lambda>content. ret (Inr (version_lines (Split CHR 0x0A content) [])))"

definition connect_or :: "('c, 'w) redis \<Rightarrow> string \<Rightarrow> string \<Rightarrow> ('c \<Rightarrow> ('c, 'w, 'a sres) agentM) \<Rightarrow> ('c, 'w, 'a sres) agentM" where
  "connect_or R dbName what k =
     on_err (Connect R dbName)
       (\<lambda>err. ret (Inl (err_NewErrorStatus BAD_REQUEST (''failed to connect to '' @ what @ '': '' @ error_text err)))) k"

text \<open>The values missing from the database are looked up in the version file, if it can be read.\<close>

definition fill_version :: "'w host \<Rightarrow> string \<Rightarrow> string \<Rightarrow> string \<Rightarrow> ('w, string \<times> string \<times> string) state" where
  "fill_version H hwsku osv asic =
     (if hwsku = [] \<or> osv = [] \<or> asic = []
      then on_err (GetSonicVersionInfo H) (\<lambda>_. ret (hwsku, osv, asic))
        (\<lambda>info. ret (if hwsku = [] then mget info ''hwsku'' else hwsku,
                     if osv = [] then mget info ''sonic_os_version'' else osv,
                     if asic = [] then mget info ''asic_type'' else asic))
      else ret (hwsku, osv, asic))"

definition GetDeviceInfo :: "('c, 'w) redis \<Rightarrow> 'w host \<Rightarrow> ('c, 'w, SwitchDevice sres) agentM" where
  "GetDeviceInfo R H =
     connect_or R ''CONFIG_DB'' ''Redis'' (\<lambda>rdb.
     on_err (io (HGetAll R rdb ''DEVICE_METADATA|localhost''))
       (\<lambda>err. ret (Inl (err_NewErrorStatus BAD_REQUEST (''failed to get device info: '' @ error_text err))))
       (\<lambda>fields. case map_of fields ''mac'' of
          None \<Rightarrow> ret (Inl (err_NewErrorStatus NOT_FOUND ''missing or invalid MAC address''))
        | Some mac \<Rightarrow>
            State_Monad.bind (io (fill_version H (mget fields ''hwsku'') (mget fields ''sonic_os_version'') (mget fields ''asic_type'')))
              (\<lambda>(hwsku, osv, asic).
                 ret (Inr \<lparr>d_Kind = DeviceKind, LocalMacAddress = mac, Hwsku = hwsku, SonicOSVersion = osv,
                           AsicType = asic, Readiness = StatusReady, d_Status = zero_status\<rparr>))))"

definition up_if :: "string \<Rightarrow> string" where
  "up_if v = (if v = ''up'' then StatusUp else StatusDown)"

fun interfaces_loop :: "('c, 'w) redis \<Rightarrow> 'w host \<Rightarrow> 'c \<Rightarrow> 'c \<Rightarrow> 'c \<Rightarrow> string list \<Rightarrow> Interface list \<Rightarrow> ('w, Interface list sres) state" where
  "interfaces_loop R H configDB stateDB applDB [] ifs = ret (Inr ifs)"
| "interfaces_loop R H configDB stateDB applDB (key # ks) ifs =
     (case (case scan_lit ''PORT|'' key of Inl e \<Rightarrow> Inl e | Inr r \<Rightarrow> scan_s r) of
        Inl err \<Rightarrow> ret (Inl (err_NewErrorStatus BAD_REQUEST (''failed to parse interface name from key '' @ key @ '': '' @ error_text err)))
      | Inr name \<Rightarrow>
         State_Monad.bind (HGetAll R stateDB (''PORT_TABLE|'' @ name)) (\<lambda>sf.
         let stateFields = (case sf of Inl _ \<Rightarrow> [] | Inr m \<Rightarrow> m) in
         on_err (HGetAll R applDB (''PORT_TABLE:'' @ name))
           (\<lambda>err. ret (Inl (err_NewErrorStatus BAD_REQUEST (''failed to get state info for interface '' @ name @ '': '' @ error_text err))))
           (\<lambda>applFields.
         on_err (LinkByName H name)
           (\<lambda>err. ret (Inl (NewErrorStatus NOT_FOUND (''failed to get interface '' @ name @ '': '' @ error_text err))))
           (\<lambda>hw. case hw of
              None \<Rightarrow> ret (Inl (NewErrorStatus NOT_FOUND (''no MAC address found for interface '' @ name)))
            | Some mac \<Rightarrow> (case NativeNameToAbstractName name of
                Inl err \<Rightarrow> ret (Inl (NewErrorStatus BAD_REQUEST (''failed to convert native name to abstract name: '' @ error_text err)))
              | Inr abstractName \<Rightarrow>
                  on_err (HGet R configDB (''PORT|'' @ name) ''alias'')
                    (\<lambda>err. ret (Inl (err_NewErrorStatus REDIS_KEY_CHECK_FAIL (''failed to get alias: '' @ error_text err))))
                    (\<lambda>alias. interfaces_loop R H configDB stateDB applDB ks
                       (ifs @ [\<lparr>i_Kind = InterfaceKind, i_Name = abstractName, NativeName = name, AliasName = alias,
                                i_MacAddress = mac_String mac, OperationStatus = up_if (mget applFields ''oper_status''),
                                AdminStatus = up_if (mget stateFields ''admin_status''), i_Status = zero_status\<rparr>])))))))"

definition ListInterfaces :: "('c, 'w) redis \<Rightarrow> 'w host \<Rightarrow> ('c, 'w, InterfaceList sres) agentM" where
  "ListInterfaces R H =
     connect_or R ''CONFIG_DB'' ''CONFIG_DB'' (\<lambda>configDB.
     connect_or R ''STATE_DB'' ''STATE_DB'' (\<lambda>stateDB.
     connect_or R ''APPL_DB'' ''APPL_DB'' (\<lambda>applDB.
     on_err (io (Keys R configDB ''PORT|*''))
       (\<lambda>err. ret (Inl (err_NewErrorStatus BAD_REQUEST (''failed to obtain iface keys: '' @ error_text err))))
       (\<lambda>keys. on_err (io (interfaces_loop R H configDB stateDB applDB keys []))
          (\<lambda>st. ret (Inl st))
          (\<lambda>ifs. ret (Inr \<lparr>il_Kind = InterfaceListKind, il_Items = ifs, il_Status = \<lparr>Code = 0, Message = ''ok''\<rparr>\<rparr>))))))"

definition SaveConfig :: "'w host \<Rightarrow> ('w, Status option) state" where
  "SaveConfig H =
     on_fail (ConnectSystemBus H)
       (\<lambda>err. ret (Some (err_NewErrorStatus BAD_REQUEST (''failed to connect to D-Bus: '' @ error_text err))))
       (State_Monad.bind (CallSave H) (\<lambda>r.
          State_Monad.bind (CloseBus H) (\<lambda>_. case r of
              Some err \<Rightarrow> ret (Some (err_NewErrorStatus BAD_REQUEST (''failed to save config via D-Bus: '' @ error_text err)))
            | None \<Rightarrow> ret None)))"

text \<open>The validation that the operations on one interface start with, and the native name it gives.\<close>

definition iface_name :: "Interface option \<Rightarrow> string sres" where
  "iface_name iface =
     (case iface of
        None \<Rightarrow> Inl (err_NewErrorStatus BAD_REQUEST ''interface name cannot be empty'')
      | Some i \<Rightarrow>
          if i_Name i = [] then Inl (err_NewErrorStatus BAD_REQUEST ''interface name cannot be empty'')
          else if \<not> HasPrefix (i_Name i) ''Ethernet'' \<and> \<not> HasPrefix (i_Name i) ''eth''
          then Inl (err_NewErrorStatus BAD_REQUEST (''invalid interface name. Must start with '' @ [CHR 39] @ ''Ethernet''
                 @ [CHR 39] @ '' or '' @ [CHR 39] @ ''eth'' @ [CHR 39]))
          else if HasPrefix (i_Name i) ''eth''
          then (case AbstractNameToNativeName (i_Name i) of
                  Inl err \<Rightarrow> Inl (err_NewErrorStatus BAD_REQUEST (''failed to convert abstract name to native name: '' @ error_text err))
                | Inr n \<Rightarrow> Inr n)
          else Inr (i_Name i))"

end
