(* ===== verification/Sonic_Interfaces.thy ===== *)
theory Sonic_Interfaces
  imports Sonic_Agent
begin

text \<open>
  The agent's operations on one interface and on the ports
  (\<open>internal/agent/sonic/sonic_agent.go\<close>), and what they guarantee: the reads do not touch
  CONFIG\_DB; setting the administrative status or the alias writes one field of one port and, when
  saving the configuration fails, restores it.
\<close>

definition name_or :: "Interface option \<Rightarrow> (string \<Rightarrow> ('s, 'a sres) state) \<Rightarrow> ('s, 'a sres) state" where
  "name_or iface k = (case iface_name iface of Inl st \<Rightarrow> ret (Inl st) | Inr ifaceName \<Rightarrow> k ifaceName)"

definition fail :: "32 word \<Rightarrow> string \<Rightarrow> ('s, 'a sres) state" where
  "fail code message = ret (Inl (err_NewErrorStatus code message))"

text \<open>
  \<open>SetInterfaceAdminStatus\<close> in three parts: what it does up to the save of the configuration, the
  roll-back when saving fails, and what it reads back.
\<close>

definition admin_read_back :: "('c, 'w) redis \<Rightarrow> 'w host \<Rightarrow> Interface \<Rightarrow> string \<Rightarrow> 'c \<Rightarrow> string \<Rightarrow> ('c, 'w, Interface sres) agentM" where
  "admin_read_back R H iface ifaceName configDB currentAdminStatus =
     on_err (io (Exists R configDB (''PORT|'' @ ifaceName)))
       (\<lambda>err. fail REDIS_KEY_CHECK_FAIL (''failed to verify interface existence: '' @ error_text err))
       (\<lambda>exists.
     if exists = 0 then fail NOT_FOUND (''interface '' @ ifaceName @ '' not found'')
     else State_Monad.bind (io (Sleep H 1000)) (\<lambda>_.
     connect_or R ''STATE_DB'' ''STATE_DB'' (\<lambda>stateDB.
     on_err (io (HGetAll R stateDB (''PORT_TABLE|'' @ ifaceName)))
       (\<lambda>_. on_fail (io (HSet R configDB (''PORT|'' @ ifaceName) [(''admin_status'', currentAdminStatus)]))
          (\<lambda>err. fail REDIS_HSET_FAIL (''failed to rollback admin status: '' @ error_text err))
          (fail REDIS_KEY_CHECK_FAIL (''failed to get state info: '' @ err_v None)))
       (\<lambda>_.
     connect_or R ''APPL_DB'' ''APPL_DB'' (\<lambda>applDB.
     State_Monad.bind (io (HGetAll R applDB (''PORT_TABLE:'' @ ifaceName))) (\<lambda>af.
     let operStatus = up_if (mget (case af of Inl _ \<Rightarrow> [] | Inr m \<Rightarrow> m) ''oper_status'') in
     on_err (io (HGet R configDB (''PORT|'' @ ifaceName) ''alias''))
       (\<lambda>err. fail REDIS_KEY_CHECK_FAIL (''failed to get alias: '' @ error_text err))
       (\<lambda>alias. ret (Inr \<lparr>i_Kind = InterfaceKind,
            i_Name = (case NativeNameToAbstractName ifaceName of Inl _ \<Rightarrow> [] | Inr a \<Rightarrow> a),
            NativeName = ifaceName, AliasName = alias, i_MacAddress = [], OperationStatus = operStatus,
            AdminStatus = AdminStatus iface, i_Status = \<lparr>Code = 0, Message = ''ok''\<rparr>\<rparr>))))))))"

definition SetInterfaceAdminStatus :: "('c, 'w) redis \<Rightarrow> 'w host \<Rightarrow> Interface option \<Rightarrow> ('c, 'w, Interface sres) agentM" where
  "SetInterfaceAdminStatus R H ifaceP =
     name_or ifaceP (\<lambda>ifaceName.
     let iface = the ifaceP in
     connect_or R ''CONFIG_DB'' ''CONFIG_DB'' (\<lambda>configDB.
     on_err (io (HGetAll R configDB (''PORT|'' @ ifaceName)))
       (\<lambda>err. fail REDIS_KEY_CHECK_FAIL (''failed to get current admin status: '' @ error_text err))
       (\<lambda>fields.
     let currentAdminStatus = mget fields ''admin_status'' in
     on_fail (io (HSet R configDB (''PORT|'' @ ifaceName) [(''admin_status'', AdminStatus iface)]))
       (\<lambda>err. fail REDIS_HSET_FAIL (''failed to set admin status: '' @ error_text err))
       (on_fail (io (SaveConfig H))
          (\<lambda>status. State_Monad.bind (io (HSet R configDB (''PORT|'' @ ifaceName) [(''admin_status'', currentAdminStatus)]))
             (\<lambda>_. ret (Inl status)))
          (admin_read_back R H iface ifaceName configDB currentAdminStatus)))))"

definition GetInterface :: "('c, 'w) redis \<Rightarrow> 'w host \<Rightarrow> Interface option \<Rightarrow> ('c, 'w, Interface sres) agentM" where
  "GetInterface R H ifaceP =
     name_or ifaceP (\<lambda>ifaceName.
     connect_or R ''CONFIG_DB'' ''CONFIG_DB'' (\<lambda>configDB.
     connect_or R ''STATE_DB'' ''STATE_DB'' (\<lambda>stateDB.
     on_err (io (Exists R configDB (''PORT|'' @ ifaceName)))
       (\<lambda>err. fail BAD_REQUEST (''failed to check interface existence: '' @ error_text err))
       (\<lambda>exists.
     if exists = 0 then fail NOT_FOUND (''interface '' @ ifaceName @ '' not found'')
     else State_Monad.bind (io (HGetAll R stateDB (''PORT_TABLE|'' @ ifaceName))) (\<lambda>sf.
     connect_or R ''APPL_DB'' ''APPL_DB'' (\<lambda>applDB.
     State_Monad.bind (io (HGetAll R applDB (''PORT_TABLE:'' @ ifaceName))) (\<lambda>af.
     let operStatus = up_if (mget (case af of Inl _ \<Rightarrow> [] | Inr m \<Rightarrow> m) ''oper_status'');
         adminStatus = up_if (mget (case sf of Inl _ \<Rightarrow> [] | Inr m \<Rightarrow> m) ''admin_status'') in
     on_err (io (LinkByName H ifaceName))
       (\<lambda>err. fail NOT_FOUND (''failed to get interface '' @ ifaceName @ '': '' @ error_text err))
       (\<lambda>hw. case hw of
          None \<Rightarrow> fail NOT_FOUND (''no MAC address found for interface '' @ ifaceName)
        | Some mac \<Rightarrow>
            on_err (io (HGet R configDB (''PORT|'' @ ifaceName) ''alias''))
              (\<lambda>err. fail REDIS_KEY_CHECK_FAIL (''failed to get alias: '' @ error_text err))
              (\<lambda>alias. case NativeNameToAbstractName ifaceName of
                 Inl err \<Rightarrow> fail BAD_REQUEST (''failed to convert native name to abstract name: '' @ error_text err)
               | Inr abstractName \<Rightarrow> ret (Inr \<lparr>i_Kind = InterfaceKind, i_Name = abstractName, NativeName = ifaceName,
                    AliasName = alias, i_MacAddress = mac_String mac, OperationStatus = operStatus,
                    AdminStatus = adminStatus, i_Status = \<lparr>Code = 0, Message = ''ok''\<rparr>\<rparr>))))))))))"

definition lldp_handle :: "gomap \<Rightarrow> string res" where
  "lldp_handle lldpFields =
     (if mget lldpFields ''lldp_rem_port_desc'' = [] then Inr (mget lldpFields ''lldp_rem_port_id'')
      else NativeNameToAbstractName (mget lldpFields ''lldp_rem_port_desc''))"

definition GetInterfaceNeighbor :: "('c, 'w) redis \<Rightarrow> Interface option \<Rightarrow> ('c, 'w, InterfaceNeighbor sres) agentM" where
  "GetInterfaceNeighbor R ifaceP =
     name_or ifaceP (\<lambda>ifaceName.
     connect_or R ''APPL_DB'' ''APPL_DB'' (\<lambda>applDB.
     on_err (io (Exists R applDB (''LLDP_ENTRY_TABLE:'' @ ifaceName)))
       (\<lambda>err. fail BAD_REQUEST (''failed to check LLDP entry existence: '' @ error_text err))
       (\<lambda>exists.
     if exists = 0 then fail NOT_FOUND (''no LLDP neighbor found for interface '' @ ifaceName)
     else on_err (io (HGetAll R applDB (''LLDP_ENTRY_TABLE:'' @ ifaceName)))
       (\<lambda>err. fail BAD_REQUEST (''failed to get LLDP entry: '' @ error_text err))
       (\<lambda>lldpFields.
     let macAddress = mget lldpFields ''lldp_rem_chassis_id''; systemName = mget lldpFields ''lldp_rem_sys_name'' in
     (case lldp_handle lldpFields of
        Inl err \<Rightarrow> fail BAD_REQUEST (''failed to convert native name to abstract name: '' @ error_text err)
      | Inr handle \<Rightarrow>
          if macAddress = [] \<or> systemName = []
          then fail NOT_FOUND (''incomplete LLDP information for interface '' @ ifaceName)
          else ret (Inr \<lparr>n_Kind = InterfaceNeighborKind, n_Name = ifaceName, n_MacAddress = macAddress,
                SystemName = systemName, Handle = handle, n_Status = \<lparr>Code = 0, Message = ''ok''\<rparr>\<rparr>))))))"

fun ports_loop :: "('c, 'w) redis \<Rightarrow> 'c \<Rightarrow> string list \<Rightarrow> agent_Port list \<Rightarrow> ('w, agent_Port list) state" where
  "ports_loop R applDB [] ports = ret ports"
| "ports_loop R applDB (key # ks) ports =
     (case (case scan_lit ''PORT_TABLE:'' key of Inl e \<Rightarrow> Inl e | Inr r \<Rightarrow> scan_s r) of
        Inl _ \<Rightarrow> ports_loop R applDB ks ports
      | Inr portName \<Rightarrow>
          on_err (HGetAll R applDB key)
            (\<lambda>_. ports_loop R applDB ks ports)
            (\<lambda>fields. if map_of fields ''parent_port'' \<noteq> Some portName then ports_loop R applDB ks ports
               else ports_loop R applDB ks (ports @ [\<lparr>p_Kind = PortKind, p_Name = portName,
                      Alias = (if mget fields ''alias'' = [] then portName else mget fields ''alias''),
                      p_Status = \<lparr>Code = 0, Message = ''ok''\<rparr>\<rparr>])))"

definition ListPorts :: "('c, 'w) redis \<Rightarrow> ('c, 'w, PortList sres) agentM" where
  "ListPorts R =
     connect_or R ''APPL_DB'' ''APPL_DB'' (\<lambda>applDB.
     on_err (io (Keys R applDB ''PORT_TABLE:*''))
       (\<lambda>err. fail BAD_REQUEST (''failed to obtain PORT_TABLE keys: '' @ error_text err))
       (\<lambda>keys. State_Monad.bind (io (ports_loop R applDB keys []))
          (\<lambda>ports. ret (Inr \<lparr>pl_Kind = PortListKind, pl_Items = ports, pl_Status = \<lparr>Code = 0, Message = ''ok''\<rparr>\<rparr>))))"

definition alias_read_back :: "('c, 'w) redis \<Rightarrow> Interface \<Rightarrow> string \<Rightarrow> 'c \<Rightarrow> string \<Rightarrow> ('c, 'w, Interface sres) agentM" where
  "alias_read_back R iface ifaceName configDB currentAlias =
     on_err (io (Exists R configDB (''PORT|'' @ ifaceName)))
       (\<lambda>err. fail REDIS_KEY_CHECK_FAIL (''failed to verify interface existence: '' @ error_text err))
       (\<lambda>exists.
     if exists = 0 then fail NOT_FOUND (''interface '' @ i_Name iface @ '' not found'')
     else connect_or R ''APPL_DB'' ''APPL_DB'' (\<lambda>applDB.
     on_err (io (HGetAll R applDB (''PORT_TABLE:'' @ ifaceName)))
       (\<lambda>_. on_fail (io (HSet R configDB (''PORT|'' @ ifaceName) [(''alias'', currentAlias)]))
          (\<lambda>err. fail REDIS_HSET_FAIL (''failed to rollback alias name: '' @ error_text err))
          (fail REDIS_KEY_CHECK_FAIL (''failed to get state info: '' @ err_v None)))
       (\<lambda>applFields. ret (Inr (iface\<lparr>OperationStatus := up_if (mget applFields ''oper_status'')\<rparr>)))))"

definition SetInterfaceAliasName :: "('c, 'w) redis \<Rightarrow> 'w host \<Rightarrow> Interface option \<Rightarrow> ('c, 'w, Interface sres) agentM" where
  "SetInterfaceAliasName R H ifaceP =
     name_or ifaceP (\<lambda>ifaceName.
     let iface = the ifaceP in
     connect_or R ''CONFIG_DB'' ''CONFIG_DB'' (\<lambda>configDB.
     on_err (io (HGetAll R configDB (''PORT|'' @ ifaceName)))
       (\<lambda>err. fail REDIS_KEY_CHECK_FAIL (''failed to get current alias name: '' @ error_text err))
       (\<lambda>fields.
     let currentAlias = mget fields ''alias'';
         futureAlias = (if AliasName iface = [] then i_Name iface else AliasName iface) in
     on_fail (io (HSet R configDB (''PORT|'' @ ifaceName) [(''alias'', futureAlias)]))
       (\<lambda>err. fail REDIS_HSET_FAIL (''failed to set alias name: '' @ error_text err))
       (on_fail (io (SaveConfig H))
          (\<lambda>status. on_fail (io (HSet R configDB (''PORT|'' @ ifaceName) [(''alias'', currentAlias)]))
             (\<lambda>err. fail REDIS_HSET_FAIL (''failed to rollback alias name: '' @ error_text err))
             (ret (Inl status)))
          (alias_read_back R iface ifaceName configDB currentAlias)))))"

section \<open>Reads leave CONFIG\_DB alone\<close>

lemma keeps_fail [keeps_rules]: "keeps I (fail c m)"
  unfolding fail_def by (rule keeps_ret)

lemma keeps_connect_or [keeps_rules]:
  "redis_contract R V \<Longrightarrow> (\<And>c. keeps (steady V up cfg) (k c)) \<Longrightarrow> keeps (steady V up cfg) (connect_or R n what k)"
  unfolding connect_or_def by (intro keeps_rules)

lemma keeps_name_or [keeps_rules]: "(\<And>n. keeps I (k n)) \<Longrightarrow> keeps I (name_or iface k)"
  unfolding name_or_def by (intro keeps_rules)

lemma io_ret [simp]: "io (ret x) = ret x"
  by (simp add: io_def State_Monad.return_def fun_eq_iff)

lemma io_bind: "io (State_Monad.bind m k) = State_Monad.bind (io m) (\<lambda>x. io (k x))"
  by (rule state.expand) (auto simp: fun_eq_iff split: prod.splits)

lemma keeps_io_ret [keeps_rules]: "keeps I (io (ret x))"
  by (simp add: keeps_ret)

lemma keeps_io_bind [keeps_rules]:
  "keeps I (io m) \<Longrightarrow> (\<And>x. keeps I (io (k x))) \<Longrightarrow> keeps I (io (State_Monad.bind m k))"
  unfolding io_bind by (rule keeps_bind)

lemma keeps_io_on_err [keeps_rules]:
  "keeps I (io m) \<Longrightarrow> (\<And>e. keeps I (io (h e))) \<Longrightarrow> (\<And>v. keeps I (io (k v))) \<Longrightarrow> keeps I (io (on_err m h k))"
  unfolding on_err_def by (rule keeps_io_bind, assumption) (simp split: sum.split)

lemma keeps_io_on_fail [keeps_rules]:
  "keeps I (io m) \<Longrightarrow> (\<And>e. keeps I (io (h e))) \<Longrightarrow> keeps I (io k) \<Longrightarrow> keeps I (io (on_fail m h k))"
  unfolding on_fail_def by (rule keeps_io_bind, assumption) (simp split: option.split)

lemma keeps_prod [keeps_rules]: "(\<And>a b. x = (a, b) \<Longrightarrow> keeps I (k a b)) \<Longrightarrow> keeps I (case x of (a, b) \<Rightarrow> k a b)"
  by (simp split: prod.split)

lemma keeps_SaveConfig [keeps_rules]: "host_contract H V \<Longrightarrow> keeps (steady V up cfg) (io (SaveConfig H))"
  unfolding SaveConfig_def
  by (intro keeps_rules) (auto intro: keeps_rules split: option.split)

lemma keeps_fill_version [keeps_rules]: "host_contract H V \<Longrightarrow> keeps (steady V up cfg) (io (fill_version H a b c))"
  by (auto simp: fill_version_def GetSonicVersionInfo_def intro!: keeps_rules)

lemma keeps_ports_loop [keeps_rules]:
  "redis_contract R V \<Longrightarrow> keeps (steady V up cfg) (io (ports_loop R c ks ps))"
proof (induction R c ks ps rule: ports_loop.induct)
  case (2 R c key ks ps)
  then show ?case by (auto intro!: keeps_rules split: sum.splits)
qed (simp add: keeps_ret)

lemma keeps_interfaces_loop [keeps_rules]:
  "redis_contract R V \<Longrightarrow> host_contract H V \<Longrightarrow> keeps (steady V up cfg) (io (interfaces_loop R H c1 c2 c3 ks ifs))"
proof (induction ks arbitrary: ifs)
  case (Cons key ks)
  then show ?case by (auto simp: Let_def intro!: keeps_rules split: sum.splits option.splits)
qed (simp add: keeps_ret)

text \<open>Property C17. The five reading operations of the agent keep the pool of clients right (each client selects the
  database of its name) and never change CONFIG\_DB, whatever they return and whichever calls fail.\<close>

theorem agent_reads_keep_config:
  assumes "redis_contract R V" and "host_contract H V"
  shows "keeps (steady V up cfg) (GetDeviceInfo R H) \<and> keeps (steady V up cfg) (ListInterfaces R H) \<and>
    keeps (steady V up cfg) (GetInterface R H iface) \<and> keeps (steady V up cfg) (GetInterfaceNeighbor R iface) \<and>
    keeps (steady V up cfg) (ListPorts R)"
  unfolding GetDeviceInfo_def ListInterfaces_def GetInterface_def GetInterfaceNeighbor_def ListPorts_def Let_def
  by (intro conjI keeps_rules assms)

text \<open>The property at a switch in memory.\<close>

theorem agent_reads_keep_config_witness:
  "keeps (steady mem_view True (\<lambda>_. Map.empty)) (GetDeviceInfo mem_redis (mem_host True)) \<and>
   keeps (steady mem_view True (\<lambda>_. Map.empty)) (ListInterfaces mem_redis (mem_host True)) \<and>
   keeps (steady mem_view True (\<lambda>_. Map.empty)) (GetInterface mem_redis (mem_host True) None) \<and>
   keeps (steady mem_view True (\<lambda>_. Map.empty)) (GetInterfaceNeighbor mem_redis None) \<and>
   keeps (steady mem_view True (\<lambda>_. Map.empty)) (ListPorts mem_redis)"
  by (rule agent_reads_keep_config [OF mem_redis_contract mem_host_contract])

section \<open>Setting a field of a port\<close>

definition put_field :: "string \<Rightarrow> string \<Rightarrow> string \<Rightarrow> (string \<Rightarrow> string \<rightharpoonup> string) \<Rightarrow> string \<Rightarrow> string \<rightharpoonup> string" where
  "put_field k f v cfg = cfg(k := (cfg k)(f \<mapsto> v))"

lemma put_field_nonempty [simp]: "put_field k f v cfg k \<noteq> Map.empty"
  by (simp add: put_field_def)

lemma put_field_restore: "cfg k f = Some old \<Longrightarrow> put_field k f old (put_field k f v cfg) = cfg"
  by (auto simp: put_field_def fun_eq_iff)

lemma put_field_again: "put_field k f v (put_field k f u cfg) = put_field k f v cfg"
  by (auto simp: put_field_def fun_eq_iff)

text \<open>The calls, with what they return in terms of CONFIG\_DB. Nothing is known after a write that failed.\<close>

lemma valid_HSet:
  assumes "redis_contract R V" and "db_of V c = 4"
  shows "valid (steady V up cfg) (io (HSet R c k [(f, v)]))
     (\<lambda>r s. case r of None \<Rightarrow> steady V up (put_field k f v cfg) s | Some e \<Rightarrow> \<not> up)"
proof -
  have "case r of None \<Rightarrow> steady V up (put_field k f v cfg) (a, w') | Some e \<Rightarrow> \<not> up"
    if s: "steady V up cfg (a, w)" and r: "run (HSet R c k [(f, v)]) w = (r, w')" for a w r w'
  proof (cases r)
    case None
    with HSet_ok [OF assms(1)] r assms(2) have "hashes_of V w' 4 = put_field k f v (hashes_of V w 4)"
      by (auto simp: put_field_def fun_eq_iff)
    moreover have "reachable V w \<Longrightarrow> reachable V w'"
      using accepts_stays [OF accepts_up(1) [OF assms(1), of "[(f, v)]" c k]] r by simp
    ultimately show ?thesis using s None by (auto simp: steady_def)
  next
    case (Some e)
    with acceptsD [OF accepts_up(1) [OF assms(1), of "[(f, v)]" c k], of w] r s show ?thesis
      by (auto simp: steady_def)
  qed
  then show ?thesis by (auto simp: valid_def io_def split: prod.splits)
qed

lemma valid_HGetAll:
  assumes "redis_contract R V"
  shows "valid (steady V up cfg) (io (HGetAll R c k))
     (\<lambda>r s. steady V up cfg s \<and> (up \<longrightarrow> \<not> isl r) \<and> (\<forall>m. r = Inr m \<and> db_of V c = 4 \<longrightarrow> map_of m = cfg k))"
proof -
  have "steady V up cfg s' \<and> (up \<longrightarrow> \<not> isl r) \<and> (\<forall>m. r = Inr m \<and> db_of V c = 4 \<longrightarrow> map_of m = cfg k)"
    if "steady V up cfg s" "run (io (HGetAll R c k)) s = (r, s')" for s r s'
    using that keepsD [OF keeps_reads(2) [OF assms] that] HGetAll_Inr [OF assms, of c k "snd s"]
      answersD [OF answers_up(1) [OF assms, of c k], of "snd s"]
    by (cases s) (auto simp: steady_def split: prod.splits)
  then show ?thesis unfolding valid_def by blast
qed

lemma valid_Exists:
  assumes "redis_contract R V" and "db_of V c = 4" and "cfg k \<noteq> Map.empty"
  shows "valid (steady V up cfg) (io (Exists R c k)) (\<lambda>r s. steady V up cfg s \<and> (up \<longrightarrow> \<not> isl r) \<and> r \<noteq> Inr 0)"
proof -
  have "steady V up cfg s' \<and> (up \<longrightarrow> \<not> isl r) \<and> r \<noteq> Inr 0"
    if "steady V up cfg s" "run (io (Exists R c k)) s = (r, s')" for s r s'
    using that keepsD [OF keeps_reads(3) [OF assms(1)] that] Exists_Inr [OF assms(1), of c k "snd s"] assms(2,3)
      answersD [OF answers_up(3) [OF assms(1), of c k], of "snd s"]
    by (cases s) (auto simp: steady_def split: prod.splits)
  then show ?thesis unfolding valid_def by blast
qed

lemma valid_HGet:
  assumes "redis_contract R V" and "db_of V c = 4"
  shows "valid (steady V up cfg) (io (HGet R c k f))
     (\<lambda>r s. steady V up cfg s \<and> (case r of Inr v \<Rightarrow> cfg k f = Some v | Inl e \<Rightarrow> up \<longrightarrow> cfg k f = None))"
proof -
  have "steady V up cfg s' \<and> (case r of Inr v \<Rightarrow> cfg k f = Some v | Inl e \<Rightarrow> up \<longrightarrow> cfg k f = None)"
    if "steady V up cfg s" "run (io (HGet R c k f)) s = (r, s')" for s r s'
    using that keepsD [OF keeps_reads(1) [OF assms(1)] that] assms(2) HGet_cases [OF assms(1), of c k f "snd s"]
      HGet_up [OF assms(1), of "snd s" c k f]
    by (cases s; cases r) (auto simp: steady_def split: prod.splits)
  then show ?thesis unfolding valid_def by blast
qed

lemma valid_connect_or:
  assumes "redis_contract R V" and "getRedisDBIDByName n \<noteq> -1"
    and "\<And>c. db_of V c = getRedisDBIDByName n \<Longrightarrow> valid (steady V up cfg) (k c) Q"
    and "\<And>st s. \<not> up \<Longrightarrow> Code st = BAD_REQUEST \<Longrightarrow> Q (Inl st) s"
  shows "valid (steady V up cfg) (connect_or R n what k) Q"
  unfolding connect_or_def
  by (rule valid_on_err_pure [OF Connect_valid [OF assms(1)]])
     (auto simp: assms(2) intro!: valid_ret assms(3,4))

lemma db_ids [simp]: "getRedisDBIDByName ''CONFIG_DB'' = 4" "getRedisDBIDByName ''STATE_DB'' = 6" "getRedisDBIDByName ''APPL_DB'' = 0"
  by (simp_all add: getRedisDBIDByName_def)

lemma valid_keeps: "keeps I m \<Longrightarrow> valid I m (\<lambda>r s. I s \<and> True)"
  by (simp add: keeps_def)

text \<open>What a set operation promises once the field is written and the configuration is saved.\<close>

definition read_back :: "('c, 'w) store_view \<Rightarrow> bool \<Rightarrow> (string \<Rightarrow> string \<rightharpoonup> string) \<Rightarrow> (Interface \<Rightarrow> bool) \<Rightarrow> bool \<Rightarrow> Interface sres \<Rightarrow> 'c SonicAgent \<times> 'w \<Rightarrow> bool" where
  "read_back V up cfg P ok r s = (case r of
      Inr i \<Rightarrow> steady V up cfg s \<and> P i
    | Inl st \<Rightarrow> Code st \<notin> {0, NOT_FOUND} \<and> (up \<longrightarrow> steady V up cfg s \<and> \<not> ok))"

lemma read_back_simps [simp]:
  "read_back V up cfg P ok (Inr i) s \<longleftrightarrow> steady V up cfg s \<and> P i"
  "read_back V up cfg P ok (Inl st) s \<longleftrightarrow> Code st \<notin> {0, NOT_FOUND} \<and> (up \<longrightarrow> steady V up cfg s \<and> \<not> ok)"
  by (simp_all add: read_back_def)

lemma valid_fail: "(\<And>s. P s \<Longrightarrow> Q (Inl (err_NewErrorStatus c m)) s) \<Longrightarrow> valid P (fail c m) Q"
  unfolding fail_def by (rule valid_ret)

text \<open>The roll-back that follows a read of another database that failed: only on an unreachable server.\<close>

lemma valid_rollback:
  assumes "redis_contract R V" and "db_of V c = 4" and "\<not> up"
  shows "valid (steady V up cfg) (on_fail (io (HSet R c k [(f, v)])) (\<lambda>err. fail REDIS_HSET_FAIL (m err)) (fail REDIS_KEY_CHECK_FAIL m'))
     (read_back V up cfg' P ok)"
  by (rule valid_on_fail [OF valid_HSet [OF assms(1,2)]]; rule valid_fail) (simp_all add: assms(3) error_codes)

lemma admin_read_back_valid:
  assumes c: "redis_contract R V" and h: "host_contract H V" and db: "db_of V cdb = 4" and ne: "cfg (''PORT|'' @ n) \<noteq> Map.empty"
  shows "valid (steady V up cfg) (admin_read_back R H iface n cdb cur)
    (read_back V up cfg (\<lambda>i. NativeName i = n \<and> AdminStatus i = AdminStatus iface \<and> cfg (''PORT|'' @ n) ''alias'' = Some (AliasName i))
       (cfg (''PORT|'' @ n) ''alias'' \<noteq> None))"
  unfolding admin_read_back_def Let_def
  apply (rule valid_on_err_pure [OF valid_Exists [where cfg = cfg and k = "''PORT|'' @ n", OF c db ne]])
   apply (rule valid_fail, auto simp: error_codes)[1]
  apply (subst if_not_P, simp)
  apply (rule valid_bind_pure [OF valid_keeps [OF keeps_host(6) [OF h]]])
  apply (rule valid_connect_or [OF c], simp)
   apply (rule valid_on_err_pure [OF valid_HGetAll [OF c]])
    apply (rule valid_rollback [OF c db], simp)
   apply (rule valid_connect_or [OF c], simp)
    apply (rule valid_bind_pure [OF valid_HGetAll [OF c]])
    apply (rule valid_on_err_pure [OF valid_HGet [OF c db]])
     apply (rule valid_fail, auto simp: error_codes)[1]
    apply (rule valid_ret, simp)
   apply (simp_all add: error_codes)
  done

lemma alias_read_back_valid:
  assumes c: "redis_contract R V" and db: "db_of V cdb = 4" and ne: "cfg (''PORT|'' @ n) \<noteq> Map.empty"
  shows "valid (steady V up cfg) (alias_read_back R iface n cdb cur)
    (read_back V up cfg (\<lambda>i. \<exists>op. i = iface\<lparr>OperationStatus := op\<rparr>) True)"
  unfolding alias_read_back_def Let_def
  apply (rule valid_on_err_pure [OF valid_Exists [where cfg = cfg and k = "''PORT|'' @ n", OF c db ne]])
   apply (rule valid_fail, auto simp: error_codes)[1]
  apply (subst if_not_P, simp)
  apply (rule valid_connect_or [OF c], simp)
   apply (rule valid_on_err_pure [OF valid_HGetAll [OF c]])
    apply (rule valid_rollback [OF c db], simp)
   apply (rule valid_ret, auto)[1]
  apply (simp add: error_codes)
  done

text \<open>Whether the host can save the configuration.\<close>

definition bus_works :: "'w host \<Rightarrow> bool" where
  "bus_works H \<longleftrightarrow> (\<forall>w. fst (run (ConnectSystemBus H) w) = None \<and> fst (run (CallSave H) w) = None)"

definition bus_fails :: "'w host \<Rightarrow> bool" where
  "bus_fails H \<longleftrightarrow> (\<forall>w. fst (run (CallSave H) w) \<noteq> None)"

lemma SaveConfig_result:
  assumes "run (SaveConfig H) w = (r, w')"
  shows "(\<forall>st. r = Some st \<longrightarrow> Code st = BAD_REQUEST \<and> \<not> bus_works H) \<and> (r = None \<longrightarrow> \<not> bus_fails H)"
proof -
  obtain b w1 where b: "run (ConnectSystemBus H) w = (b, w1)" by fastforce
  obtain d w2 where d: "run (CallSave H) w1 = (d, w2)" by fastforce
  obtain e w3 where e: "run (CloseBus H) w2 = (e, w3)" by fastforce
  have "bus_works H \<Longrightarrow> b = None \<and> d = None" and "bus_fails H \<Longrightarrow> d \<noteq> None"
    using b d unfolding bus_works_def bus_fails_def by (metis fst_conv)+
  then show ?thesis using assms b d e
    by (cases b; cases d) (auto simp: SaveConfig_def)
qed

lemma valid_SaveConfig:
  assumes "host_contract H V"
  shows "valid (steady V up cfg) (io (SaveConfig H)) (\<lambda>r s. steady V up cfg s \<and>
     ((\<forall>st. r = Some st \<longrightarrow> Code st = BAD_REQUEST \<and> \<not> bus_works H) \<and> (r = None \<longrightarrow> \<not> bus_fails H)))"
proof -
  have "(\<forall>st. r = Some st \<longrightarrow> Code st = BAD_REQUEST \<and> \<not> bus_works H) \<and> (r = None \<longrightarrow> \<not> bus_fails H)"
    if "run (io (SaveConfig H)) s = (r, s')" for r s s'
    using that SaveConfig_result [of H "snd s" r] by (cases s) (auto split: prod.splits)
  then show ?thesis using keepsD [OF keeps_SaveConfig [OF assms]] unfolding valid_def by blast
qed

text \<open>
  The contract of both set operations: on success the field has the new value and nothing else has
  changed. An error is never \<open>NOT_FOUND\<close>; on a reachable server it leaves the new value when the
  configuration could be saved and the old one (or the empty string) when it could not.
\<close>

definition old_value :: "(string \<Rightarrow> string \<rightharpoonup> string) \<Rightarrow> string \<Rightarrow> string \<Rightarrow> string" where
  "old_value cfg k f = (case cfg k f of None \<Rightarrow> [] | Some v \<Rightarrow> v)"

definition set_post :: "('c, 'w) store_view \<Rightarrow> 'w host \<Rightarrow> bool \<Rightarrow> (string \<Rightarrow> string \<rightharpoonup> string) \<Rightarrow> string \<Rightarrow> string \<Rightarrow> string \<Rightarrow>
    (Interface \<Rightarrow> bool) \<Rightarrow> bool \<Rightarrow> Interface sres \<Rightarrow> 'c SonicAgent \<times> 'w \<Rightarrow> bool" where
  "set_post V H up cfg k f new P ok r s = (case r of
      Inr i \<Rightarrow> steady V up (put_field k f new cfg) s \<and> P i \<and> \<not> bus_fails H
    | Inl st \<Rightarrow> Code st \<notin> {0, NOT_FOUND} \<and> (up \<longrightarrow>
        (bus_works H \<longrightarrow> steady V up (put_field k f new cfg) s \<and> \<not> ok) \<and>
        (bus_fails H \<longrightarrow> steady V up (put_field k f (old_value cfg k f) (put_field k f new cfg)) s)))"

lemma set_post_simps [simp]:
  "set_post V H up cfg k f new P ok (Inr i) s \<longleftrightarrow> steady V up (put_field k f new cfg) s \<and> P i \<and> \<not> bus_fails H"
  "set_post V H up cfg k f new P ok (Inl st) s \<longleftrightarrow> Code st \<notin> {0, NOT_FOUND} \<and> (up \<longrightarrow>
        (bus_works H \<longrightarrow> steady V up (put_field k f new cfg) s \<and> \<not> ok) \<and>
        (bus_fails H \<longrightarrow> steady V up (put_field k f (old_value cfg k f) (put_field k f new cfg)) s))"
  by (simp_all add: set_post_def)

lemma read_back_set_post:
  "read_back V up (put_field k f new cfg) P ok r s \<Longrightarrow> \<not> bus_fails H \<Longrightarrow> set_post V H up cfg k f new P ok r s"
  by (cases r) auto

lemma mget_old: "map_of m = cfg k \<Longrightarrow> mget m f = old_value cfg k f"
  by (simp add: mget_def old_value_def)

lemma SetInterfaceAdminStatus_valid:
  assumes c: "redis_contract R V" and h: "host_contract H V" and n: "iface_name (Some iface) = Inr n"
  shows "valid (steady V up cfg) (SetInterfaceAdminStatus R H (Some iface))
    (set_post V H up cfg (''PORT|'' @ n) ''admin_status'' (AdminStatus iface)
       (\<lambda>i. NativeName i = n \<and> AdminStatus i = AdminStatus iface \<and> cfg (''PORT|'' @ n) ''alias'' = Some (AliasName i))
       (cfg (''PORT|'' @ n) ''alias'' \<noteq> None))"
  unfolding SetInterfaceAdminStatus_def name_or_def n sum.case Let_def option.sel
  apply (rule valid_connect_or [OF c], simp)
   apply (rule valid_on_err_pure [OF valid_HGetAll [OF c]])
    apply (rule valid_fail, auto simp: error_codes)[1]
   apply (rule valid_on_fail [OF valid_HSet [OF c]], simp)
    apply (rule valid_fail, auto simp: error_codes)[1]
   apply (rule valid_on_fail_pure [OF valid_SaveConfig [OF h]])
    apply (rule valid_bind [OF valid_HSet [OF c]], simp)
    apply (rule valid_ret)
    subgoal by (auto simp: error_codes mget_old split: option.splits)
   subgoal
     apply (rule valid_conseq [OF admin_read_back_valid [where up = up and cfg = "put_field (''PORT|'' @ n) ''admin_status'' (AdminStatus iface) cfg", OF c h]])
        apply simp
       apply (rule put_field_nonempty)
      apply assumption
     apply (rule read_back_set_post)
      apply (simp add: put_field_def)
     apply simp
     done
  apply (simp add: error_codes)
  done

lemma SetInterfaceAliasName_valid:
  assumes c: "redis_contract R V" and h: "host_contract H V" and n: "iface_name (Some iface) = Inr n"
  shows "valid (steady V up cfg) (SetInterfaceAliasName R H (Some iface))
    (set_post V H up cfg (''PORT|'' @ n) ''alias'' (if AliasName iface = [] then i_Name iface else AliasName iface)
       (\<lambda>i. \<exists>op. i = iface\<lparr>OperationStatus := op\<rparr>) True)"
  unfolding SetInterfaceAliasName_def name_or_def n sum.case Let_def option.sel
  apply (rule valid_connect_or [OF c], simp)
   apply (rule valid_on_err_pure [OF valid_HGetAll [OF c]])
    apply (rule valid_fail, auto simp: error_codes)[1]
   apply (rule valid_on_fail [OF valid_HSet [OF c]], simp)
    apply (rule valid_fail, auto simp: error_codes)[1]
   apply (rule valid_on_fail_pure [OF valid_SaveConfig [OF h]])
    apply (rule valid_on_fail [OF valid_HSet [OF c]], simp)
     apply (rule valid_fail, auto simp: error_codes)[1]
    apply (rule valid_ret)
    subgoal by (auto simp: error_codes mget_old)
   subgoal
     apply (rule valid_conseq [OF alias_read_back_valid [where up = up and
           cfg = "put_field (''PORT|'' @ n) ''alias'' (if AliasName iface = [] then i_Name iface else AliasName iface) cfg", OF c]])
        apply simp
       apply (rule put_field_nonempty)
      apply assumption
     apply (rule read_back_set_post)
      apply simp
     apply simp
     done
  apply (simp add: error_codes)
  done

section \<open>Properties of the operations\<close>

lemma steady_now: "pool_ok V a \<Longrightarrow> steady V (reachable V w) (hashes_of V w 4) (a, w)"
  by (simp add: steady_def)

text \<open>Property C18. A client that \<open>Connect\<close> returns selects the database of the name asked for, however the pool was
  used before; no call changes the data of CONFIG\_DB, the pool stays right, and on a reachable server every
  known name gets a client. An unknown name never does.\<close>

theorem Connect_selects_database:
  assumes "redis_contract R V" and "pool_ok V a" and "run (Connect R dbName) (a, w) = (r, (a', w'))"
  shows "pool_ok V a' \<and> hashes_of V w' 4 = hashes_of V w 4 \<and>
    (\<forall>c. r = Inr c \<longrightarrow> db_of V c = getRedisDBIDByName dbName \<and> getRedisDBIDByName dbName \<noteq> -1) \<and>
    (reachable V w \<and> getRedisDBIDByName dbName \<noteq> -1 \<longrightarrow> \<not> isl r)"
  using validD [OF Connect_valid [OF assms(1)] steady_now [OF assms(2)] assms(3)]
  by (auto simp: steady_def)

text \<open>The property at a pool with one client.\<close>

theorem Connect_selects_database_witness:
  "\<not> isl (fst (run (Connect mem_redis ''STATE_DB'') (\<lparr>redisAddr = ''h:1'', clientPool = [(''CONFIG_DB'', 4)]\<rparr>, [])))"
proof -
  let ?a = "\<lparr>redisAddr = ''h:1'', clientPool = [(''CONFIG_DB'', 4)]\<rparr> :: int SonicAgent"
  obtain r a' w' where run: "run (Connect mem_redis ''STATE_DB'') (?a, []) = (r, (a', w'))" by (metis surj_pair)
  have "pool_ok mem_view ?a" by (simp add: pool_ok_def mem_view_def)
  from Connect_selects_database [OF mem_redis_contract this run] show ?thesis
    by (simp add: run mem_view_def)
qed

text \<open>Property C8. When \<open>SetInterfaceAdminStatus\<close> returns an interface, the field \<open>admin_status\<close> of the port in
  CONFIG\_DB has the requested value, nothing else in CONFIG\_DB has changed, and the interface returned is the
  one asked for with that status.\<close>

theorem SetInterfaceAdminStatus_success:
  assumes "redis_contract R V" and "host_contract H V" and "pool_ok V a" and "iface_name (Some iface) = Inr n"
    and "run (SetInterfaceAdminStatus R H (Some iface)) (a, w) = (Inr i, (a', w'))"
  shows "hashes_of V w' 4 = put_field (''PORT|'' @ n) ''admin_status'' (AdminStatus iface) (hashes_of V w 4) \<and>
    NativeName i = n \<and> AdminStatus i = AdminStatus iface \<and> hashes_of V w 4 (''PORT|'' @ n) ''alias'' = Some (AliasName i)"
  using validD [OF SetInterfaceAdminStatus_valid [OF assms(1,2,4)] steady_now [OF assms(3)] assms(5)]
  by (simp add: steady_def)

text \<open>The property at a switch in memory with one port.\<close>

theorem SetInterfaceAdminStatus_success_witness:
  "\<exists>i a' w'. run (SetInterfaceAdminStatus mem_redis (mem_host True) (Some (zero_Interface\<lparr>i_Name := ''Ethernet0'', AdminStatus := ''up''\<rparr>)))
        (\<lparr>redisAddr = ''h:1'', clientPool = []\<rparr>, [((4, ''PORT|Ethernet0''), [(''alias'', ''eth0-0''), (''admin_status'', ''down'')])])
      = (Inr i, (a', w')) \<and>
     hashes_of mem_view w' 4 = put_field (''PORT|'' @ ''Ethernet0'') ''admin_status'' ''up''
        (hashes_of mem_view [((4, ''PORT|Ethernet0''), [(''alias'', ''eth0-0''), (''admin_status'', ''down'')])] 4) \<and> AdminStatus i = ''up''"
proof -
  let ?i = "zero_Interface\<lparr>i_Name := ''Ethernet0'', AdminStatus := ''up''\<rparr>"
  let ?a = "\<lparr>redisAddr = ''h:1'', clientPool = []\<rparr> :: int SonicAgent"
  let ?w = "[((4, ''PORT|Ethernet0''), [(''alias'', ''eth0-0''), (''admin_status'', ''down'')])] :: mem"
  have n: "iface_name (Some ?i) = Inr ''Ethernet0''" by (simp add: iface_name_def)
  have p: "pool_ok mem_view ?a" by (simp add: pool_ok_def)
  obtain i a' w' where run: "run (SetInterfaceAdminStatus mem_redis (mem_host True) (Some ?i)) (?a, ?w) = (Inr i, (a', w'))"
    by (simp add: SetInterfaceAdminStatus_def name_or_def n connect_or_def Connect_def connect_locked_def connect_new_def
        getRedisDBIDByName_def mem_redis_def mem_host_def mem_hash_def SaveConfig_def admin_read_back_def Let_def)
  from SetInterfaceAdminStatus_success [OF mem_redis_contract mem_host_contract p n run] run show ?thesis by auto
qed

text \<open>Property C9. When the configuration cannot be saved, \<open>SetInterfaceAdminStatus\<close> on a reachable server returns an
  error status and writes back what it read before: CONFIG\_DB is as it was if the port had an administrative status. If it had
  none, or there was no such port, CONFIG\_DB is left with an empty administrative status for the port, and is otherwise as it was.\<close>

theorem SetInterfaceAdminStatus_rollback:
  assumes "redis_contract R V" and "host_contract H V" and "pool_ok V a" and "iface_name (Some iface) = Inr n"
    and "reachable V w" and "bus_fails H"
  shows "\<exists>st a' w'. run (SetInterfaceAdminStatus R H (Some iface)) (a, w) = (Inl st, (a', w')) \<and> Code st \<noteq> 0 \<and>
    (case hashes_of V w 4 (''PORT|'' @ n) ''admin_status'' of
       Some old \<Rightarrow> hashes_of V w' 4 = hashes_of V w 4
     | None \<Rightarrow> hashes_of V w' 4 = put_field (''PORT|'' @ n) ''admin_status'' [] (hashes_of V w 4))"
proof -
  let ?cfg = "hashes_of V w 4" and ?k = "''PORT|'' @ n"
  obtain r a' w' where run: "run (SetInterfaceAdminStatus R H (Some iface)) (a, w) = (r, (a', w'))" by (metis surj_pair)
  from validD [OF SetInterfaceAdminStatus_valid [OF assms(1,2,4)] steady_now [OF assms(3)] run] assms(5,6)
  obtain st where r: "r = Inl st" "Code st \<noteq> 0" and h: "hashes_of V w' 4 = put_field ?k ''admin_status''
      (old_value ?cfg ?k ''admin_status'') (put_field ?k ''admin_status'' (AdminStatus iface) ?cfg)"
    by (cases r) (auto simp: steady_def)
  have "case ?cfg ?k ''admin_status'' of Some old \<Rightarrow> hashes_of V w' 4 = ?cfg
      | None \<Rightarrow> hashes_of V w' 4 = put_field ?k ''admin_status'' [] ?cfg"
  proof (cases "?cfg ?k ''admin_status''")
    case None
    then have "old_value ?cfg ?k ''admin_status'' = []" by (simp add: old_value_def)
    with None h show ?thesis by (simp add: put_field_again)
  next
    case (Some old)
    then have "old_value ?cfg ?k ''admin_status'' = old" by (simp add: old_value_def)
    with Some h show ?thesis by (simp add: put_field_restore)
  qed
  with run r show ?thesis by blast
qed

text \<open>The property at a switch whose host cannot save the configuration, for a port that has a status and for one that does not exist.\<close>

theorem SetInterfaceAdminStatus_rollback_witness:
  "(\<exists>st a' w'. run (SetInterfaceAdminStatus mem_redis (mem_host False) (Some (zero_Interface\<lparr>i_Name := ''Ethernet0'', AdminStatus := ''up''\<rparr>)))
        (\<lparr>redisAddr = ''h:1'', clientPool = []\<rparr>, [((4, ''PORT|Ethernet0''), [(''admin_status'', ''down'')])])
      = (Inl st, (a', w')) \<and> Code st \<noteq> 0 \<and>
     hashes_of mem_view w' 4 = hashes_of mem_view [((4, ''PORT|Ethernet0''), [(''admin_status'', ''down'')])] 4) \<and>
   (\<exists>st a' w'. run (SetInterfaceAdminStatus mem_redis (mem_host False) (Some (zero_Interface\<lparr>i_Name := ''Ethernet0'', AdminStatus := ''up''\<rparr>)))
        (\<lparr>redisAddr = ''h:1'', clientPool = []\<rparr>, []) = (Inl st, (a', w')) \<and> Code st \<noteq> 0 \<and>
     hashes_of mem_view w' 4 = put_field (''PORT|'' @ ''Ethernet0'') ''admin_status'' [] (hashes_of mem_view [] 4))"
proof -
  let ?i = "zero_Interface\<lparr>i_Name := ''Ethernet0'', AdminStatus := ''up''\<rparr>"
  let ?a = "\<lparr>redisAddr = ''h:1'', clientPool = []\<rparr> :: int SonicAgent"
  have h: "pool_ok mem_view ?a" "iface_name (Some ?i) = Inr ''Ethernet0''" "\<And>w. reachable mem_view w" "bus_fails (mem_host False)"
    by (simp_all add: pool_ok_def iface_name_def mem_view_def bus_fails_def mem_host_def)
  note roll = SetInterfaceAdminStatus_rollback [OF mem_redis_contract mem_host_contract h]
  have "hashes_of mem_view [((4, ''PORT|Ethernet0''), [(''admin_status'', ''down'')])] 4 (''PORT|'' @ ''Ethernet0'') ''admin_status'' = Some ''down''"
    "hashes_of mem_view [] 4 (''PORT|'' @ ''Ethernet0'') ''admin_status'' = None"
    by (simp_all add: mem_view_def mem_hash_def)
  then show ?thesis
    using roll [of "[((4, ''PORT|Ethernet0''), [(''admin_status'', ''down'')])]"] roll [of "[]"] by (simp del: append.simps)
qed

text \<open>Property C35. The existence of the port is checked only after the write: for a port that CONFIG\_DB does not
  have, \<open>SetInterfaceAdminStatus\<close> on a reachable server that saves its configuration creates the port, and reports
  an error that is not \<open>NOT_FOUND\<close>.\<close>

theorem SetInterfaceAdminStatus_creates_port:
  assumes "redis_contract R V" and "host_contract H V" and "pool_ok V a" and "iface_name (Some iface) = Inr n"
    and "reachable V w" and "bus_works H" and "hashes_of V w 4 (''PORT|'' @ n) = Map.empty"
  shows "\<exists>st a' w'. run (SetInterfaceAdminStatus R H (Some iface)) (a, w) = (Inl st, (a', w')) \<and> Code st \<notin> {0, NOT_FOUND} \<and>
    hashes_of V w' 4 (''PORT|'' @ n) = [''admin_status'' \<mapsto> AdminStatus iface]"
proof -
  obtain r a' w' where run: "run (SetInterfaceAdminStatus R H (Some iface)) (a, w) = (r, (a', w'))" by (metis surj_pair)
  from validD [OF SetInterfaceAdminStatus_valid [OF assms(1,2,4)] steady_now [OF assms(3)] run] assms(5,6,7)
  obtain st where "r = Inl st" "Code st \<notin> {0, NOT_FOUND}"
    and "hashes_of V w' 4 = put_field (''PORT|'' @ n) ''admin_status'' (AdminStatus iface) (hashes_of V w 4)"
    by (cases r) (auto simp: steady_def)
  with run assms(7) show ?thesis by (simp add: put_field_def)
qed

text \<open>The property at an empty CONFIG\_DB.\<close>

theorem SetInterfaceAdminStatus_creates_port_witness:
  "\<exists>st a' w'. run (SetInterfaceAdminStatus mem_redis (mem_host True) (Some (zero_Interface\<lparr>i_Name := ''Ethernet99'', AdminStatus := ''up''\<rparr>)))
        (\<lparr>redisAddr = ''h:1'', clientPool = []\<rparr>, []) = (Inl st, (a', w')) \<and> Code st \<notin> {0, NOT_FOUND} \<and>
     hashes_of mem_view w' 4 (''PORT|'' @ ''Ethernet99'')
       = [''admin_status'' \<mapsto> AdminStatus (zero_Interface\<lparr>i_Name := ''Ethernet99'', AdminStatus := ''up''\<rparr>)]"
  by (rule SetInterfaceAdminStatus_creates_port [OF mem_redis_contract mem_host_contract])
     (simp_all add: pool_ok_def iface_name_def mem_view_def bus_works_def mem_host_def mem_hash_def)

text \<open>On a reachable server that saves its configuration, \<open>SetInterfaceAliasName\<close> succeeds for every valid
  name, and CONFIG\_DB is changed in the alias of that port only: it is the alias asked for, or the name when no alias
  is given.\<close>

lemma SetInterfaceAliasName_succeeds:
  assumes "redis_contract R V" and "host_contract H V" and "pool_ok V a" and "iface_name (Some iface) = Inr n"
    and "reachable V w" and "bus_works H"
  shows "\<exists>i a' w'. run (SetInterfaceAliasName R H (Some iface)) (a, w) = (Inr i, (a', w')) \<and>
    hashes_of V w' 4 = put_field (''PORT|'' @ n) ''alias'' (if AliasName iface = [] then i_Name iface else AliasName iface)
      (hashes_of V w 4)"
proof -
  obtain r a' w' where run: "run (SetInterfaceAliasName R H (Some iface)) (a, w) = (r, (a', w'))" by (metis surj_pair)
  from validD [OF SetInterfaceAliasName_valid [OF assms(1,2,4)] steady_now [OF assms(3)] run] assms(5,6) run
  show ?thesis by (cases r) (auto simp: steady_def)
qed

end
