(* ===== verification/Agent_Server.thy ===== *)
theory Agent_Server
  imports Sonic_Interfaces
begin

text \<open>
  The gRPC server in front of the agent (\<open>internal/agent/agent_server/server.go\<close>) over the
  interface \<open>SwitchAgent\<close> (\<open>internal/agent/interface/agent_interface.go\<close>). The handlers turn
  a status into a response with its code and a value into a response with code 0; none returns a gRPC
  error. So a client can tell success from failure by the code alone, if and only if the agent's error
  statuses have a code other than 0: that is the law of the locale \<open>switch_agent\<close>, and the SONiC
  agent satisfies it.
\<close>

text \<open>The interface, over the state \<open>'s\<close> the agent acts on.\<close>

record 's SwitchAgent =
  ag_GetDeviceInfo :: "('s, SwitchDevice sres) state"
  ag_ListInterfaces :: "('s, InterfaceList sres) state"
  ag_SetInterfaceAdminStatus :: "Interface option \<Rightarrow> ('s, Interface sres) state"
  ag_SetInterfaceAliasName :: "Interface option \<Rightarrow> ('s, Interface sres) state"
  ag_GetInterface :: "Interface option \<Rightarrow> ('s, Interface sres) state"
  ag_GetInterfaceNeighbor :: "Interface option \<Rightarrow> ('s, InterfaceNeighbor sres) state"
  ag_ListPorts :: "('s, PortList sres) state"
  ag_SaveConfig :: "('s, Status option) state"

definition sonic_agent :: "('c, 'w) redis \<Rightarrow> 'w host \<Rightarrow> ('c SonicAgent \<times> 'w) SwitchAgent" where
  "sonic_agent R H = \<lparr>
     ag_GetDeviceInfo = GetDeviceInfo R H,
     ag_ListInterfaces = ListInterfaces R H,
     ag_SetInterfaceAdminStatus = SetInterfaceAdminStatus R H,
     ag_SetInterfaceAliasName = SetInterfaceAliasName R H,
     ag_GetInterface = GetInterface R H,
     ag_GetInterfaceNeighbor = GetInterfaceNeighbor R,
     ag_ListPorts = ListPorts R,
     ag_SaveConfig = io (SaveConfig H)\<rparr>"

section \<open>Handlers\<close>

record ListInterfacesResponse =
  lir_Status :: "Status option"
  lir_Interfaces :: "pb_Interface list"

record InterfaceResponse =
  ir_Status :: "Status option"
  ir_Interface :: "pb_Interface option"

record ListPortsResponse =
  lpr_Status :: "Status option"
  lpr_Ports :: "pb_Port list"

definition success :: "Status option" where
  "success = Some \<lparr>Code = 0, Message = ''Success''\<rparr>"

text \<open>The status of a response to a call that failed; some handlers prefix the message.\<close>

definition failed :: "string \<Rightarrow> Status \<Rightarrow> Status option" where
  "failed what status = Some \<lparr>Code = Code status, Message = what @ Message status\<rparr>"

definition srv_GetDeviceInfo :: "'s SwitchAgent \<Rightarrow> ('s, DeviceInfoResponse) state" where
  "srv_GetDeviceInfo A =
     on_err (ag_GetDeviceInfo A)
       (\<lambda>status. ret \<lparr>di_Status = failed [] status, di_Hwsku = [], di_LocalMacAddress = [], di_SonicOsVersion = [],
            di_AsicType = [], di_Readiness = 0\<rparr>)
       (\<lambda>device. ret \<lparr>di_Status = success, di_Hwsku = Hwsku device, di_LocalMacAddress = LocalMacAddress device,
            di_SonicOsVersion = SonicOSVersion device, di_AsicType = AsicType device, di_Readiness = Readiness device\<rparr>)"

definition pb_of_Interface :: "Interface \<Rightarrow> pb_Interface" where
  "pb_of_Interface iface = \<lparr>pbi_Name = i_Name iface, pbi_NativeName = NativeName iface, pbi_AliasName = AliasName iface,
     pbi_OperationalStatus = OperationStatus iface, pbi_AdminStatus = AdminStatus iface, pbi_MacAddress = i_MacAddress iface\<rparr>"

definition srv_ListInterfaces :: "'s SwitchAgent \<Rightarrow> ('s, ListInterfacesResponse) state" where
  "srv_ListInterfaces A =
     on_err (ag_ListInterfaces A)
       (\<lambda>status. ret \<lparr>lir_Status = failed ''failed to list interfaces: '' status, lir_Interfaces = []\<rparr>)
       (\<lambda>interfaceList. ret \<lparr>lir_Status = success, lir_Interfaces = map pb_of_Interface (il_Items interfaceList)\<rparr>)"

definition srv_SetInterfaceAdminStatus :: "'s SwitchAgent \<Rightarrow> string \<Rightarrow> string \<Rightarrow> ('s, InterfaceResponse) state" where
  "srv_SetInterfaceAdminStatus A interfaceName adminStatus =
     on_err (ag_SetInterfaceAdminStatus A (Some (zero_Interface\<lparr>i_Kind := InterfaceKind, i_Name := interfaceName, AdminStatus := adminStatus\<rparr>)))
       (\<lambda>status. ret \<lparr>ir_Status = failed [] status, ir_Interface = None\<rparr>)
       (\<lambda>iface. ret \<lparr>ir_Status = success, ir_Interface = Some (zero_pb_Interface\<lparr>pbi_Name := i_Name iface,
            pbi_MacAddress := [], pbi_OperationalStatus := OperationStatus iface, pbi_AdminStatus := AdminStatus iface\<rparr>)\<rparr>)"

definition srv_ListPorts :: "'s SwitchAgent \<Rightarrow> ('s, ListPortsResponse) state" where
  "srv_ListPorts A =
     on_err (ag_ListPorts A)
       (\<lambda>status. ret \<lparr>lpr_Status = failed ''failed to list ports: '' status, lpr_Ports = []\<rparr>)
       (\<lambda>portList. ret \<lparr>lpr_Status = success,
            lpr_Ports = map (\<lambda>port. \<lparr>pbp_Name = p_Name port, pbp_Alias = Alias port\<rparr>) (pl_Items portList)\<rparr>)"

definition srv_GetInterface :: "'s SwitchAgent \<Rightarrow> string \<Rightarrow> ('s, InterfaceResponse) state" where
  "srv_GetInterface A interfaceName =
     on_err (ag_GetInterface A (Some (zero_Interface\<lparr>i_Kind := InterfaceKind, i_Name := interfaceName\<rparr>)))
       (\<lambda>status. ret \<lparr>ir_Status = failed ''failed to get interface: '' status, ir_Interface = None\<rparr>)
       (\<lambda>iface. ret \<lparr>ir_Status = success, ir_Interface = Some (pb_of_Interface iface)\<rparr>)"

definition srv_SetInterfaceAliasName :: "'s SwitchAgent \<Rightarrow> string \<Rightarrow> string \<Rightarrow> ('s, InterfaceResponse) state" where
  "srv_SetInterfaceAliasName A interfaceName aliasName =
     on_err (ag_SetInterfaceAliasName A (Some (zero_Interface\<lparr>i_Kind := InterfaceKind, i_Name := interfaceName, AliasName := aliasName\<rparr>)))
       (\<lambda>status. ret \<lparr>ir_Status = failed [] status, ir_Interface = None\<rparr>)
       (\<lambda>iface. ret \<lparr>ir_Status = success, ir_Interface = Some \<lparr>pbi_Name = i_Name iface, pbi_NativeName = NativeName iface,
            pbi_AliasName = AliasName iface, pbi_OperationalStatus = OperationStatus iface, pbi_AdminStatus = AdminStatus iface,
            pbi_MacAddress = []\<rparr>\<rparr>)"

definition srv_GetInterfaceNeighbor :: "'s SwitchAgent \<Rightarrow> string \<Rightarrow> ('s, NeighborResponse) state" where
  "srv_GetInterfaceNeighbor A interfaceName =
     on_err (ag_GetInterfaceNeighbor A (Some (zero_Interface\<lparr>i_Kind := InterfaceKind, i_Name := interfaceName\<rparr>)))
       (\<lambda>status. ret \<lparr>nr_Status = failed ''failed to get interface neighbor: '' status, nr_Interface = [], nr_Neighbor = None\<rparr>)
       (\<lambda>nb. ret \<lparr>nr_Status = success, nr_Interface = interfaceName, nr_Neighbor = Some \<lparr>pbn_InterfaceName = Handle nb,
            pbn_MacAddress = n_MacAddress nb, pbn_SystemName = SystemName nb\<rparr>\<rparr>)"

definition srv_SaveConfig :: "'s SwitchAgent \<Rightarrow> ('s, Status option) state" where
  "srv_SaveConfig A =
     on_fail (ag_SaveConfig A) (\<lambda>status. ret (failed ''failed to save config: '' status)) (ret success)"

section \<open>Error codes\<close>

text \<open>A computation whose error statuses have a code other than 0.\<close>

definition coded :: "('s, 'a sres) state \<Rightarrow> bool" where
  "coded m \<longleftrightarrow> valid (\<lambda>_. True) m (\<lambda>r _. \<forall>st. r = Inl st \<longrightarrow> Code st \<noteq> 0)"

named_theorems coded_rules \<open>rules for \<open>coded\<close>, one per form of a computation\<close>

lemma codedD: "coded m \<Longrightarrow> run m s = (Inl st, s') \<Longrightarrow> Code st \<noteq> 0"
  by (auto simp: coded_def valid_def)

lemma coded_Inr [coded_rules]: "coded (ret (Inr x))"
  by (simp add: coded_def valid_def)

lemma coded_Inl [coded_rules]: "Code st \<noteq> 0 \<Longrightarrow> coded (ret (Inl st))"
  by (simp add: coded_def valid_def)

lemma coded_fail [coded_rules]: "c \<noteq> 0 \<Longrightarrow> coded (fail c m)"
  by (simp add: coded_def valid_def fail_def)

lemma coded_bind [coded_rules]: "(\<And>x. coded (k x)) \<Longrightarrow> coded (State_Monad.bind m k)"
  unfolding coded_def by (rule valid_bind [where B = "\<lambda>_ _. True"]) (simp_all add: valid_def)

lemma coded_on_err [coded_rules]: "(\<And>e. coded (h e)) \<Longrightarrow> (\<And>v. coded (k v)) \<Longrightarrow> coded (on_err m h k)"
  unfolding on_err_def by (rule coded_bind) (simp split: sum.split)

lemma coded_on_fail [coded_rules]: "(\<And>e. coded (h e)) \<Longrightarrow> coded k \<Longrightarrow> coded (on_fail m h k)"
  unfolding on_fail_def by (rule coded_bind) (simp split: option.split)

lemma coded_if [coded_rules]: "(b \<Longrightarrow> coded m) \<Longrightarrow> (\<not> b \<Longrightarrow> coded m') \<Longrightarrow> coded (if b then m else m')"
  by simp

lemma coded_option [coded_rules]: "(x = None \<Longrightarrow> coded m) \<Longrightarrow> (\<And>y. x = Some y \<Longrightarrow> coded (k y)) \<Longrightarrow> coded (case x of None \<Rightarrow> m | Some y \<Rightarrow> k y)"
  by (simp split: option.split)

lemma coded_sum [coded_rules]: "(\<And>e. x = Inl e \<Longrightarrow> coded (h e)) \<Longrightarrow> (\<And>y. x = Inr y \<Longrightarrow> coded (k y)) \<Longrightarrow> coded (case x of Inl e \<Rightarrow> h e | Inr y \<Rightarrow> k y)"
  by (simp split: sum.split)

lemma coded_prod [coded_rules]: "(\<And>a b. x = (a, b) \<Longrightarrow> coded (k a b)) \<Longrightarrow> coded (case x of (a, b) \<Rightarrow> k a b)"
  by (simp split: prod.split)

lemma coded_io: "coded m \<Longrightarrow> coded (io m)"
  by (auto simp: coded_def valid_def io_def split: prod.splits)

text \<open>A computation whose errors are passed on.\<close>

lemma coded_pass: "coded m \<Longrightarrow> (\<And>v. coded (k v)) \<Longrightarrow> coded (on_err m (\<lambda>st. ret (Inl st)) k)"
  unfolding coded_def
  by (rule valid_on_err [where E = "\<lambda>st _. Code st \<noteq> 0" and K = "\<lambda>_ _. True"])
     (auto simp: valid_def split: sum.splits)

lemma error_codes_nonzero [simp]: "BAD_REQUEST \<noteq> 0" "NOT_FOUND \<noteq> 0" "REDIS_HSET_FAIL \<noteq> 0" "REDIS_KEY_CHECK_FAIL \<noteq> 0"
  by (simp_all add: error_codes)

lemma coded_connect_or [coded_rules]: "(\<And>c. coded (k c)) \<Longrightarrow> coded (connect_or R n what k)"
  unfolding connect_or_def by (intro coded_rules) simp_all

lemma coded_name_or [coded_rules]:
  assumes "\<And>n. coded (k n)"
  shows "coded (name_or iface k)"
proof -
  have "iface_name iface = Inl st \<Longrightarrow> Code st \<noteq> 0" for st
    by (auto simp: iface_name_def split: option.splits if_splits sum.splits)
  then show ?thesis using assms unfolding name_or_def by (auto intro: coded_rules split: sum.split)
qed

lemma coded_interfaces_loop: "coded (interfaces_loop R H c1 c2 c3 ks ifs)"
proof (induction ks arbitrary: ifs)
  case (Cons key ks)
  then show ?case by (auto simp: Let_def intro!: coded_rules split: sum.splits option.splits)
qed (simp add: coded_Inr)

lemma coded_on_save:
  assumes "\<And>st. Code st \<noteq> 0 \<Longrightarrow> coded (h st)" and "coded k"
  shows "coded (on_fail (io (SaveConfig H)) h k)"
proof -
  have "valid (\<lambda>_. True) (io (SaveConfig H)) (\<lambda>r s. True \<and> (\<forall>st. r = Some st \<longrightarrow> Code st \<noteq> 0))"
    using SaveConfig_result [of H] by (fastforce simp: valid_def io_def split: prod.splits)
  then show ?thesis using assms unfolding coded_def by (rule valid_on_fail_pure) auto
qed

section \<open>The contract of an agent\<close>

locale switch_agent =
  fixes A :: "'s SwitchAgent"
  assumes device_coded: "coded (ag_GetDeviceInfo A)"
    and interfaces_coded: "coded (ag_ListInterfaces A)"
    and admin_coded: "coded (ag_SetInterfaceAdminStatus A i)"
    and alias_coded: "coded (ag_SetInterfaceAliasName A i)"
    and interface_coded: "coded (ag_GetInterface A i)"
    and neighbor_coded: "coded (ag_GetInterfaceNeighbor A i)"
    and ports_coded: "coded (ag_ListPorts A)"
    and save_coded: "run (ag_SaveConfig A) s = (Some st, s') \<Longrightarrow> Code st \<noteq> 0"
begin

text \<open>The code of a response is 0 exactly when the agent returned a value.\<close>

lemma srv_device_code:
  "run (srv_GetDeviceInfo A) s = (resp, s') \<Longrightarrow>
   \<exists>st. di_Status resp = Some st \<and> (Code st = 0) = (\<exists>d. run (ag_GetDeviceInfo A) s = (Inr d, s'))"
  using codedD [OF device_coded]
  by (auto simp: srv_GetDeviceInfo_def success_def failed_def split: prod.splits sum.splits)

lemma srv_interfaces_code:
  "run (srv_ListInterfaces A) s = (resp, s') \<Longrightarrow>
   \<exists>st. lir_Status resp = Some st \<and> (Code st = 0) = (\<exists>l. run (ag_ListInterfaces A) s = (Inr l, s'))"
  using codedD [OF interfaces_coded]
  by (auto simp: srv_ListInterfaces_def success_def failed_def split: prod.splits sum.splits)

lemma srv_ports_code:
  "run (srv_ListPorts A) s = (resp, s') \<Longrightarrow>
   \<exists>st. lpr_Status resp = Some st \<and> (Code st = 0) = (\<exists>l. run (ag_ListPorts A) s = (Inr l, s'))"
  using codedD [OF ports_coded]
  by (auto simp: srv_ListPorts_def success_def failed_def split: prod.splits sum.splits)

lemma srv_admin_code:
  "run (srv_SetInterfaceAdminStatus A n v) s = (resp, s') \<Longrightarrow>
   \<exists>st. ir_Status resp = Some st \<and> (Code st = 0) =
     (\<exists>i. run (ag_SetInterfaceAdminStatus A (Some (zero_Interface\<lparr>i_Kind := InterfaceKind, i_Name := n, AdminStatus := v\<rparr>))) s = (Inr i, s'))"
  using codedD [OF admin_coded]
  by (auto simp: srv_SetInterfaceAdminStatus_def success_def failed_def split: prod.splits sum.splits)

lemma srv_alias_code:
  "run (srv_SetInterfaceAliasName A n v) s = (resp, s') \<Longrightarrow>
   \<exists>st. ir_Status resp = Some st \<and> (Code st = 0) =
     (\<exists>i. run (ag_SetInterfaceAliasName A (Some (zero_Interface\<lparr>i_Kind := InterfaceKind, i_Name := n, AliasName := v\<rparr>))) s = (Inr i, s'))"
  using codedD [OF alias_coded]
  by (auto simp: srv_SetInterfaceAliasName_def success_def failed_def split: prod.splits sum.splits)

lemma srv_interface_code:
  "run (srv_GetInterface A n) s = (resp, s') \<Longrightarrow>
   \<exists>st. ir_Status resp = Some st \<and> (Code st = 0) =
     (\<exists>i. run (ag_GetInterface A (Some (zero_Interface\<lparr>i_Kind := InterfaceKind, i_Name := n\<rparr>))) s = (Inr i, s') \<and>
          ir_Interface resp = Some (pb_of_Interface i))"
  using codedD [OF interface_coded]
  by (auto simp: srv_GetInterface_def success_def failed_def split: prod.splits sum.splits)

lemma srv_neighbor_code:
  "run (srv_GetInterfaceNeighbor A n) s = (resp, s') \<Longrightarrow>
   \<exists>st. nr_Status resp = Some st \<and> (Code st = 0) =
     (\<exists>i. run (ag_GetInterfaceNeighbor A (Some (zero_Interface\<lparr>i_Kind := InterfaceKind, i_Name := n\<rparr>))) s = (Inr i, s'))"
  using codedD [OF neighbor_coded]
  by (auto simp: srv_GetInterfaceNeighbor_def success_def failed_def split: prod.splits sum.splits)

lemma srv_save_code:
  "run (srv_SaveConfig A) s = (resp, s') \<Longrightarrow>
   \<exists>st. resp = Some st \<and> (Code st = 0) = (run (ag_SaveConfig A) s = (None, s'))"
  using save_coded
  by (auto simp: srv_SaveConfig_def success_def failed_def split: prod.splits option.splits)

end

interpretation sonic: switch_agent "sonic_agent R H" for R H
proof (unfold_locales, goal_cases)
  case 1
  show ?case unfolding sonic_agent_def SwitchAgent.simps GetDeviceInfo_def Let_def by (rule coded_rules | simp)+
next
  case 2
  show ?case unfolding sonic_agent_def SwitchAgent.simps ListInterfaces_def
    by (rule coded_pass [OF coded_io [OF coded_interfaces_loop]] coded_rules | simp)+
next
  case (3 i)
  show ?case unfolding sonic_agent_def SwitchAgent.simps SetInterfaceAdminStatus_def admin_read_back_def Let_def
    by (rule coded_on_save coded_rules | simp)+
next
  case (4 i)
  show ?case unfolding sonic_agent_def SwitchAgent.simps SetInterfaceAliasName_def alias_read_back_def Let_def
    by (rule coded_on_save coded_rules | simp)+
next
  case (5 i)
  show ?case unfolding sonic_agent_def SwitchAgent.simps GetInterface_def Let_def by (rule coded_rules | simp)+
next
  case (6 i)
  show ?case unfolding sonic_agent_def SwitchAgent.simps GetInterfaceNeighbor_def Let_def by (rule coded_rules | simp)+
next
  case 7
  show ?case unfolding sonic_agent_def SwitchAgent.simps ListPorts_def by (rule coded_rules | simp)+
next
  case (8 s st s')
  then show ?case
    using SaveConfig_result [of H "snd s"] by (cases s) (auto simp: sonic_agent_def split: prod.splits)
qed

end
