(* ===== verification/Agent_Client.thy ===== *)
theory Agent_Client
  imports Agent_Server
begin

text \<open>
  The client the controllers and the command line use
  (\<open>internal/agent/agent_client/client/client.go\<close>). The generated gRPC stubs and the transport
  are a parameter, a record of calls; \<open>loopback\<close> is the transport that hands each request to the
  server's handlers. Over it the lemmas follow a call from end to end: client, server, agent.
\<close>

record ('k, 's) rpc =
  grpc_NewClient :: "string \<Rightarrow> ('s, 'k res) state"
  rpc_GetDeviceInfo :: "'k \<Rightarrow> ('s, DeviceInfoResponse res) state"
  rpc_ListInterfaces :: "'k \<Rightarrow> ('s, ListInterfacesResponse res) state"
  rpc_SetInterfaceAdminStatus :: "'k \<Rightarrow> string \<Rightarrow> string \<Rightarrow> ('s, InterfaceResponse res) state"
  rpc_SetInterfaceAliasName :: "'k \<Rightarrow> string \<Rightarrow> string \<Rightarrow> ('s, InterfaceResponse res) state"
  rpc_GetInterface :: "'k \<Rightarrow> string \<Rightarrow> ('s, InterfaceResponse res) state"
  rpc_GetInterfaceNeighbor :: "'k \<Rightarrow> string \<Rightarrow> ('s, NeighborResponse res) state"
  rpc_ListPorts :: "'k \<Rightarrow> ('s, ListPortsResponse res) state"
  rpc_SaveConfig :: "'k \<Rightarrow> ('s, Status option res) state"
  conn_Close :: "'k \<Rightarrow> ('s, goerror option) state"

text \<open>A call that returns a pointer and an error may return both.\<close>

type_synonym 'a ptr_err = "('a option \<times> goerror option) outcome"

record SwitchAgentClient =
  Address :: string
  ConnectTimeout :: int

definition NewDefaultSwitchAgentClient :: "string \<Rightarrow> int \<Rightarrow> SwitchAgentClient" where
  "NewDefaultSwitchAgentClient address connectTimeout =
     \<lparr>Address = (if address = [] then ''localhost:50051'' else address),
      ConnectTimeout = (if connectTimeout = 0 then 4 * 10 ^ 9 else connectTimeout)\<rparr>"

definition dial :: "('k, 's) rpc \<Rightarrow> SwitchAgentClient \<Rightarrow> ('s, 'k res) state" where
  "dial N c = on_err (grpc_NewClient N (Address c))
     (\<lambda>err. ret (Inl (ErrorfW (''failed to connect to switch proxy: '' @ error_text err) err)))
     (\<lambda>conn. ret (Inr conn))"

text \<open>Dial, run the body, and close the connection when the body is left.\<close>

definition with_conn :: "('k, 's) rpc \<Rightarrow> SwitchAgentClient \<Rightarrow> (goerror \<Rightarrow> 'r) \<Rightarrow> ('k \<Rightarrow> ('s, 'r) state) \<Rightarrow> ('s, 'r) state" where
  "with_conn N c h body = on_err (dial N c) (\<lambda>err. ret (h err))
     (\<lambda>conn. State_Monad.bind (body conn) (\<lambda>r. State_Monad.bind (conn_Close N conn) (\<lambda>_. ret r)))"

abbreviation nil_err :: "goerror \<Rightarrow> 'a ptr_err" where
  "nil_err err \<equiv> Returned (None, Some err)"

definition cli_GetDeviceInfo :: "('k, 's) rpc \<Rightarrow> SwitchAgentClient \<Rightarrow> ('s, SwitchDevice res) state" where
  "cli_GetDeviceInfo N c = with_conn N c Inl (\<lambda>conn.
     on_err (rpc_GetDeviceInfo N conn) (\<lambda>err. ret (Inl err))
       (\<lambda>resp. ret (Inr \<lparr>d_Kind = DeviceKind, LocalMacAddress = di_LocalMacAddress resp, Hwsku = di_Hwsku resp,
            SonicOSVersion = di_SonicOsVersion resp, AsicType = di_AsicType resp, Readiness = di_Readiness resp,
            d_Status = ProtoStatusToStatus (di_Status resp)\<rparr>)))"

definition Interface_of_pb :: "pb_Interface \<Rightarrow> Interface" where
  "Interface_of_pb iface = \<lparr>i_Kind = InterfaceKind, i_Name = pbi_Name iface, NativeName = pbi_NativeName iface,
     AliasName = pbi_AliasName iface, i_MacAddress = pbi_MacAddress iface, OperationStatus = pbi_OperationalStatus iface,
     AdminStatus = pbi_AdminStatus iface, i_Status = zero_status\<rparr>"

definition cli_ListInterfaces :: "('k, 's) rpc \<Rightarrow> SwitchAgentClient \<Rightarrow> ('s, InterfaceList res) state" where
  "cli_ListInterfaces N c = with_conn N c Inl (\<lambda>conn.
     on_err (rpc_ListInterfaces N conn) (\<lambda>err. ret (Inl err))
       (\<lambda>resp. ret (Inr \<lparr>il_Kind = InterfaceListKind, il_Items = map Interface_of_pb (lir_Interfaces resp),
            il_Status = ProtoStatusToStatus (lir_Status resp)\<rparr>)))"

text \<open>The zero message stands for a nil message, as the getters treat it.\<close>

definition get_pb :: "pb_Interface option \<Rightarrow> pb_Interface" where
  "get_pb p = (case p of None \<Rightarrow> zero_pb_Interface | Some i \<Rightarrow> i)"

definition cli_SetInterfaceAdminStatus :: "('k, 's) rpc \<Rightarrow> SwitchAgentClient \<Rightarrow> Interface \<Rightarrow> ('s, Interface ptr_err) state" where
  "cli_SetInterfaceAdminStatus N c iface = with_conn N c nil_err (\<lambda>conn.
     on_err (rpc_SetInterfaceAdminStatus N conn (i_Name iface) (AdminStatus iface)) (\<lambda>err. ret (nil_err err))
       (\<lambda>resp. ret (case ir_Status resp of
            None \<Rightarrow> Panicked
          | Some st \<Rightarrow>
              if Code st \<noteq> 0
              then Returned (Some (zero_Interface\<lparr>i_Status := ProtoStatusToStatus (ir_Status resp)\<rparr>),
                     Some (Errorf (''failed to set interface admin status: '' @ Message st)))
              else let pb = get_pb (ir_Interface resp) in
                Returned (Some (iface\<lparr>i_Name := pbi_Name pb, AliasName := pbi_AliasName pb, NativeName := pbi_NativeName pb,
                    i_MacAddress := pbi_MacAddress pb, AdminStatus := pbi_AdminStatus pb, OperationStatus := pbi_OperationalStatus pb,
                    i_Status := ProtoStatusToStatus (ir_Status resp)\<rparr>), None))))"

definition cli_GetInterfaceByAbstractName :: "('k, 's) rpc \<Rightarrow> SwitchAgentClient \<Rightarrow> Interface \<Rightarrow> ('s, Interface ptr_err) state" where
  "cli_GetInterfaceByAbstractName N c iface = with_conn N c nil_err (\<lambda>conn.
     case AbstractNameToNativeName (i_Name iface) of
       Inl err \<Rightarrow> ret (nil_err err)
     | Inr nativeName \<Rightarrow>
         on_err (rpc_GetInterface N conn nativeName) (\<lambda>err. ret (nil_err err))
           (\<lambda>resp. ret (case ir_Status resp of
                None \<Rightarrow> Panicked
              | Some st \<Rightarrow>
                  if Code st \<noteq> 0
                  then Returned (Some (zero_Interface\<lparr>i_Status := ProtoStatusToStatus (ir_Status resp)\<rparr>),
                         Some (Errorf (''failed to get interface: '' @ Message st)))
                  else (case ir_Interface resp of
                      None \<Rightarrow> Panicked
                    | Some pb \<Rightarrow> Returned (Some ((Interface_of_pb pb)\<lparr>i_Status := ProtoStatusToStatus (ir_Status resp)\<rparr>), None)))))"

definition cli_GetInterfaceNeighbor :: "('k, 's) rpc \<Rightarrow> SwitchAgentClient \<Rightarrow> Interface \<Rightarrow> ('s, InterfaceNeighbor ptr_err) state" where
  "cli_GetInterfaceNeighbor N c iface = with_conn N c nil_err (\<lambda>conn.
     on_err (rpc_GetInterfaceNeighbor N conn (i_Name iface)) (\<lambda>err. ret (nil_err err))
       (\<lambda>resp. ret (case nr_Status resp of
            None \<Rightarrow> Panicked
          | Some st \<Rightarrow>
              if Code st \<noteq> 0
              then Returned (Some (zero_InterfaceNeighbor\<lparr>n_Status := ProtoStatusToStatus (nr_Status resp)\<rparr>),
                     Some (Errorf (''failed to get interface neighbor: '' @ Message st)))
              else Returned (Some \<lparr>n_Kind = InterfaceNeighborKind, n_Name = nr_Interface resp,
                  n_MacAddress = (case nr_Neighbor resp of None \<Rightarrow> [] | Some n \<Rightarrow> pbn_MacAddress n),
                  SystemName = (case nr_Neighbor resp of None \<Rightarrow> [] | Some n \<Rightarrow> pbn_SystemName n),
                  Handle = (case nr_Neighbor resp of None \<Rightarrow> [] | Some n \<Rightarrow> pbn_InterfaceName n),
                  n_Status = ProtoStatusToStatus (nr_Status resp)\<rparr>, None))))"

definition cli_ListPorts :: "('k, 's) rpc \<Rightarrow> SwitchAgentClient \<Rightarrow> ('s, PortList res) state" where
  "cli_ListPorts N c = with_conn N c Inl (\<lambda>conn.
     on_err (rpc_ListPorts N conn) (\<lambda>err. ret (Inl err))
       (\<lambda>resp. ret (Inr \<lparr>pl_Kind = PortListKind,
            pl_Items = map (\<lambda>port. \<lparr>p_Kind = PortKind, p_Name = pbp_Name port, Alias = pbp_Alias port, p_Status = zero_status\<rparr>) (lpr_Ports resp),
            pl_Status = ProtoStatusToStatus (lpr_Status resp)\<rparr>)))"

definition cli_SetInterfaceAliasName :: "('k, 's) rpc \<Rightarrow> SwitchAgentClient \<Rightarrow> Interface \<Rightarrow> ('s, Interface ptr_err) state" where
  "cli_SetInterfaceAliasName N c iface = with_conn N c nil_err (\<lambda>conn.
     on_err (rpc_SetInterfaceAliasName N conn (i_Name iface) (AliasName iface)) (\<lambda>err. ret (nil_err err))
       (\<lambda>resp. ret (case ir_Status resp of
            None \<Rightarrow> Panicked
          | Some st \<Rightarrow>
              if Code st \<noteq> 0
              then Returned (Some (zero_Interface\<lparr>i_Status := ProtoStatusToStatus (ir_Status resp)\<rparr>),
                     Some (Errorf (''failed to set interface alias name: '' @ Message st)))
              else let pb = get_pb (ir_Interface resp) in
                Returned (Some (iface\<lparr>AdminStatus := pbi_AdminStatus pb, OperationStatus := pbi_OperationalStatus pb,
                    i_Status := ProtoStatusToStatus (ir_Status resp)\<rparr>), None))))"

definition cli_SaveConfig :: "('k, 's) rpc \<Rightarrow> SwitchAgentClient \<Rightarrow> ('s, goerror option outcome) state" where
  "cli_SaveConfig N c = with_conn N c (\<lambda>err. Returned (Some err)) (\<lambda>conn.
     on_err (rpc_SaveConfig N conn) (\<lambda>err. ret (Returned (Some err)))
       (\<lambda>resp. ret (case resp of
            None \<Rightarrow> Panicked
          | Some st \<Rightarrow> if Code st \<noteq> 0 then Returned (Some (Errorf (''failed to save config: '' @ Message st)))
              else Returned None)))"

section \<open>From end to end\<close>

text \<open>The transport that hands each request to the handlers of the server and never fails.\<close>

definition loopback :: "'s SwitchAgent \<Rightarrow> (unit, 's) rpc" where
  "loopback A = \<lparr>
     grpc_NewClient = (\<lambda>_. ret (Inr ())),
     rpc_GetDeviceInfo = (\<lambda>_. State_Monad.bind (srv_GetDeviceInfo A) (\<lambda>r. ret (Inr r))),
     rpc_ListInterfaces = (\<lambda>_. State_Monad.bind (srv_ListInterfaces A) (\<lambda>r. ret (Inr r))),
     rpc_SetInterfaceAdminStatus = (\<lambda>_ n v. State_Monad.bind (srv_SetInterfaceAdminStatus A n v) (\<lambda>r. ret (Inr r))),
     rpc_SetInterfaceAliasName = (\<lambda>_ n v. State_Monad.bind (srv_SetInterfaceAliasName A n v) (\<lambda>r. ret (Inr r))),
     rpc_GetInterface = (\<lambda>_ n. State_Monad.bind (srv_GetInterface A n) (\<lambda>r. ret (Inr r))),
     rpc_GetInterfaceNeighbor = (\<lambda>_ n. State_Monad.bind (srv_GetInterfaceNeighbor A n) (\<lambda>r. ret (Inr r))),
     rpc_ListPorts = (\<lambda>_. State_Monad.bind (srv_ListPorts A) (\<lambda>r. ret (Inr r))),
     rpc_SaveConfig = (\<lambda>_. State_Monad.bind (srv_SaveConfig A) (\<lambda>r. ret (Inr r))),
     conn_Close = (\<lambda>_. ret None)\<rparr>"

lemma loopback_conn: "run (with_conn (loopback A) c h body) s = run (body ()) s"
  by (simp add: with_conn_def dial_def loopback_def split: prod.split)

lemma run_Inr [simp]: "run (State_Monad.bind m (\<lambda>r. ret (Inr r))) s = (case run m s of (r, s') \<Rightarrow> (Inr r, s'))"
  by simp

lemmas cli_defs = cli_SetInterfaceAdminStatus_def cli_SetInterfaceAliasName_def cli_GetInterfaceByAbstractName_def
  cli_GetInterfaceNeighbor_def cli_SaveConfig_def

lemma loopback_calls [simp]:
  "rpc_GetDeviceInfo (loopback A) k = State_Monad.bind (srv_GetDeviceInfo A) (\<lambda>r. ret (Inr r))"
  "rpc_ListInterfaces (loopback A) k = State_Monad.bind (srv_ListInterfaces A) (\<lambda>r. ret (Inr r))"
  "rpc_SetInterfaceAdminStatus (loopback A) k n v = State_Monad.bind (srv_SetInterfaceAdminStatus A n v) (\<lambda>r. ret (Inr r))"
  "rpc_SetInterfaceAliasName (loopback A) k n v = State_Monad.bind (srv_SetInterfaceAliasName A n v) (\<lambda>r. ret (Inr r))"
  "rpc_GetInterface (loopback A) k n = State_Monad.bind (srv_GetInterface A n) (\<lambda>r. ret (Inr r))"
  "rpc_GetInterfaceNeighbor (loopback A) k n = State_Monad.bind (srv_GetInterfaceNeighbor A n) (\<lambda>r. ret (Inr r))"
  "rpc_ListPorts (loopback A) k = State_Monad.bind (srv_ListPorts A) (\<lambda>r. ret (Inr r))"
  "rpc_SaveConfig (loopback A) k = State_Monad.bind (srv_SaveConfig A) (\<lambda>r. ret (Inr r))"
  by (simp_all add: loopback_def)

context switch_agent
begin

lemma get_interface_end_to_end:
  assumes "AbstractNameToNativeName (i_Name iface) = Inr n"
    and "run (ag_GetInterface A (Some (zero_Interface\<lparr>i_Kind := InterfaceKind, i_Name := n\<rparr>))) s = (r, s')"
  shows "run (cli_GetInterfaceByAbstractName (loopback A) c iface) s = (case r of
      Inl st \<Rightarrow> (Returned (Some (zero_Interface\<lparr>i_Status := the (failed ''failed to get interface: '' st)\<rparr>),
                   Some (Errorf (''failed to get interface: failed to get interface: '' @ Message st))), s')
    | Inr i \<Rightarrow> (Returned (Some (i\<lparr>i_Kind := InterfaceKind, i_Status := the success\<rparr>), None), s'))"
  using assms(2) codedD [OF interface_coded]
  by (auto simp: cli_defs loopback_conn assms(1) srv_GetInterface_def success_def failed_def
      pb_of_Interface_def Interface_of_pb_def split: sum.split)

lemma set_admin_end_to_end:
  assumes "run (ag_SetInterfaceAdminStatus A (Some (zero_Interface\<lparr>i_Kind := InterfaceKind, i_Name := i_Name iface,
      AdminStatus := AdminStatus iface\<rparr>))) s = (r, s')"
  shows "\<exists>i err. run (cli_SetInterfaceAdminStatus (loopback A) c iface) s = (Returned (Some i, err), s') \<and>
     (err = None \<longleftrightarrow> \<not> isl r) \<and>
     (\<forall>i0. r = Inr i0 \<longrightarrow> i_Name i = i_Name i0 \<and> AdminStatus i = AdminStatus i0 \<and> OperationStatus i = OperationStatus i0)"
  using assms codedD [OF admin_coded]
  by (cases r) (auto simp: cli_defs loopback_conn srv_SetInterfaceAdminStatus_def success_def failed_def get_pb_def Let_def)

lemma client_no_panic:
  "fst (run (cli_SetInterfaceAdminStatus (loopback A) c iface) s) \<noteq> Panicked"
  "fst (run (cli_SetInterfaceAliasName (loopback A) c iface) s) \<noteq> Panicked"
  "fst (run (cli_GetInterfaceByAbstractName (loopback A) c iface) s) \<noteq> Panicked"
  "fst (run (cli_GetInterfaceNeighbor (loopback A) c iface) s) \<noteq> Panicked"
  "fst (run (cli_SaveConfig (loopback A) c) s) \<noteq> Panicked"
proof -
  show "fst (run (cli_SetInterfaceAdminStatus (loopback A) c iface) s) \<noteq> Panicked"
    by (auto simp: cli_defs loopback_conn srv_SetInterfaceAdminStatus_def success_def failed_def Let_def split: prod.split sum.split)
  show "fst (run (cli_SetInterfaceAliasName (loopback A) c iface) s) \<noteq> Panicked"
    by (auto simp: cli_defs loopback_conn srv_SetInterfaceAliasName_def success_def failed_def Let_def split: prod.split sum.split)
  show "fst (run (cli_GetInterfaceByAbstractName (loopback A) c iface) s) \<noteq> Panicked"
    using codedD [OF interface_coded]
    by (auto simp: cli_defs loopback_conn srv_GetInterface_def success_def failed_def split: prod.split sum.split)
  show "fst (run (cli_GetInterfaceNeighbor (loopback A) c iface) s) \<noteq> Panicked"
    by (auto simp: cli_defs loopback_conn srv_GetInterfaceNeighbor_def success_def failed_def split: prod.split sum.split)
  show "fst (run (cli_SaveConfig (loopback A) c) s) \<noteq> Panicked"
    by (auto simp: cli_defs loopback_conn srv_SaveConfig_def success_def failed_def split: prod.split option.split)
qed

end

text \<open>Over a transport that delivers, a call of the client to read an interface gives what the agent on
  the switch gives: the agent's interface with a status of success, or, when the agent reports a status, an error
  and an interface that carries that status.\<close>

lemma client_get_interface_end_to_end:
  assumes "AbstractNameToNativeName (i_Name iface) = Inr n"
    and "run (GetInterface R H (Some (zero_Interface\<lparr>i_Kind := InterfaceKind, i_Name := n\<rparr>))) s = (r, s')"
  shows "run (cli_GetInterfaceByAbstractName (loopback (sonic_agent R H)) c iface) s = (case r of
      Inl st \<Rightarrow> (Returned (Some (zero_Interface\<lparr>i_Status := the (failed ''failed to get interface: '' st)\<rparr>),
                   Some (Errorf (''failed to get interface: failed to get interface: '' @ Message st))), s')
    | Inr i \<Rightarrow> (Returned (Some (i\<lparr>i_Kind := InterfaceKind, i_Status := the success\<rparr>), None), s'))"
  by (rule sonic.get_interface_end_to_end [OF assms(1)]) (simp add: sonic_agent_def assms(2))

text \<open>Over a transport that delivers, setting the administrative status through the client succeeds exactly
  when the agent succeeds, and the statuses the client returns are the agent's.\<close>

lemma client_set_admin_end_to_end:
  assumes "run (SetInterfaceAdminStatus R H (Some (zero_Interface\<lparr>i_Kind := InterfaceKind, i_Name := i_Name iface,
      AdminStatus := AdminStatus iface\<rparr>))) s = (r, s')"
  shows "\<exists>i err. run (cli_SetInterfaceAdminStatus (loopback (sonic_agent R H)) c iface) s = (Returned (Some i, err), s') \<and>
     (err = None) = (\<not> isl r) \<and>
     (\<forall>i0. r = Inr i0 \<longrightarrow> i_Name i = i_Name i0 \<and> AdminStatus i = AdminStatus i0 \<and> OperationStatus i = OperationStatus i0)"
  using sonic.set_admin_end_to_end [of R H iface s r s' c] assms by (simp add: sonic_agent_def)

text \<open>Over a transport that delivers, no call of the client to the SONiC agent dereferences a nil pointer.\<close>

lemma client_does_not_panic:
  "Panicked \<noteq> fst (run (cli_SetInterfaceAdminStatus (loopback (sonic_agent R H)) c iface) s) \<and>
   Panicked \<noteq> fst (run (cli_SetInterfaceAliasName (loopback (sonic_agent R H)) c iface) s) \<and>
   Panicked \<noteq> fst (run (cli_GetInterfaceByAbstractName (loopback (sonic_agent R H)) c iface) s) \<and>
   Panicked \<noteq> fst (run (cli_GetInterfaceNeighbor (loopback (sonic_agent R H)) c iface) s) \<and>
   Panicked \<noteq> fst (run (cli_SaveConfig (loopback (sonic_agent R H)) c) s)"
  by (intro conjI; rule not_sym) (rule sonic.client_no_panic)+

text \<open>Property C31. The client does not look at the status of the response to \<open>GetDeviceInfo\<close>, \<open>ListInterfaces\<close> and
  \<open>ListPorts\<close>: when the agent reports an error, the client returns an empty device or an empty list, and no error.\<close>

theorem client_hides_errors:
  assumes "run (ag_GetDeviceInfo A) s = (Inl st, s1)" and "run (ag_ListInterfaces A) s = (Inl st2, s2)"
    and "run (ag_ListPorts A) s = (Inl st3, s3)"
  shows "(\<exists>d. run (cli_GetDeviceInfo (loopback A) c) s = (Inr d, s1) \<and> LocalMacAddress d = [] \<and> Hwsku d = [] \<and> SonicOSVersion d = []) \<and>
    (\<exists>l. run (cli_ListInterfaces (loopback A) c) s = (Inr l, s2) \<and> il_Items l = []) \<and>
    (\<exists>l. run (cli_ListPorts (loopback A) c) s = (Inr l, s3) \<and> pl_Items l = [])"
  using assms
  by (simp add: cli_GetDeviceInfo_def cli_ListInterfaces_def cli_ListPorts_def loopback_conn srv_GetDeviceInfo_def
      srv_ListInterfaces_def srv_ListPorts_def)

text \<open>The property at a switch whose database does not answer.\<close>

theorem client_hides_errors_witness:
  "\<exists>d s'. run (cli_GetDeviceInfo (loopback (sonic_agent (mem_redis\<lparr>Ping := \<lambda>_. ret (Some (ExtErr ''refused''))\<rparr>) (mem_host True)))
      (NewDefaultSwitchAgentClient [] 0)) (\<lparr>redisAddr = ''h:1'', clientPool = []\<rparr>, []) = (Inr d, s') \<and> LocalMacAddress d = []"
proof -
  let ?A = "sonic_agent (mem_redis\<lparr>Ping := \<lambda>_. ret (Some (ExtErr ''refused''))\<rparr>) (mem_host True)"
  let ?s = "(\<lparr>redisAddr = ''h:1'', clientPool = []\<rparr>, []) :: int SonicAgent \<times> mem"
  obtain st s1 where 1: "run (ag_GetDeviceInfo ?A) ?s = (Inl st, s1)"
    by (simp add: sonic_agent_def GetDeviceInfo_def connect_or_def Connect_def connect_locked_def connect_new_def
        getRedisDBIDByName_def mem_redis_def Let_def)
  obtain st2 s2 where 2: "run (ag_ListInterfaces ?A) ?s = (Inl st2, s2)"
    by (simp add: sonic_agent_def ListInterfaces_def connect_or_def Connect_def connect_locked_def connect_new_def
        getRedisDBIDByName_def mem_redis_def Let_def)
  obtain st3 s3 where 3: "run (ag_ListPorts ?A) ?s = (Inl st3, s3)"
    by (simp add: sonic_agent_def ListPorts_def connect_or_def Connect_def connect_locked_def connect_new_def
        getRedisDBIDByName_def mem_redis_def Let_def)
  from client_hides_errors [OF 1 2 3, of "NewDefaultSwitchAgentClient [] 0"] show ?thesis by auto
qed

end
