(* ===== verification/Apply_Config.thy ===== *)
theory Apply_Config
  imports Switch_Api "HOL-Library.AList"
begin

text \<open>
  The declarative configurations of \<open>SwitchInterface\<close> objects (\<open>api/v1alpha1/applyconfiguration\<close>), with which a controller
  tells the API server the fields it wants to own. Every field is a pointer, nil for a field that the configuration says
  nothing about. The \<open>With\<close>\<dots> methods change the receiver and return it; here they map it. The fields of the metadata are those
  that have such a method, those of owner references and conditions are the ones of the schema in
  \<open>applyconfiguration/internal\<close>. A time is its text.
\<close>

section \<open>Owner references, conditions, metadata\<close>

record OwnerReferenceAC =
  or_APIVersion :: "string option"
  or_Kind :: "string option"
  or_Name :: "string option"
  or_UID :: "string option"
  or_Controller :: "bool option"
  or_BlockOwnerDeletion :: "bool option"

record ConditionAC =
  co_Type :: "string option"
  co_Status :: "string option"
  co_ObservedGeneration :: "int option"
  co_LastTransitionTime :: "string option"
  co_Reason :: "string option"
  co_Message :: "string option"

record ObjectMetaAC =
  om_Name :: "string option"
  om_GenerateName :: "string option"
  om_Namespace :: "string option"
  om_UID :: "string option"
  om_ResourceVersion :: "string option"
  om_Generation :: "int option"
  om_CreationTimestamp :: "string option"
  om_DeletionTimestamp :: "string option"
  om_DeletionGracePeriodSeconds :: "int option"
  om_Labels :: "gomap option"
  om_Annotations :: "gomap option"
  om_OwnerReferences :: "OwnerReferenceAC list"
  om_Finalizers :: "string list"

definition empty_ObjectMetaAC :: ObjectMetaAC where
  "empty_ObjectMetaAC = \<lparr>om_Name = None, om_GenerateName = None, om_Namespace = None, om_UID = None, om_ResourceVersion = None,
     om_Generation = None, om_CreationTimestamp = None, om_DeletionTimestamp = None, om_DeletionGracePeriodSeconds = None,
     om_Labels = None, om_Annotations = None, om_OwnerReferences = [], om_Finalizers = []\<rparr>"

section \<open>Neighbor, specification, status\<close>

record NeighborApplyConfiguration =
  nac_MacAddress :: "string option"
  nac_SystemName :: "string option"
  nac_InterfaceHandle :: "string option"

definition ac_Neighbor :: NeighborApplyConfiguration where
  "ac_Neighbor = \<lparr>nac_MacAddress = None, nac_SystemName = None, nac_InterfaceHandle = None\<rparr>"

definition nac_WithMacAddress :: "string \<Rightarrow> NeighborApplyConfiguration \<Rightarrow> NeighborApplyConfiguration" where
  "nac_WithMacAddress value b = b\<lparr>nac_MacAddress := Some value\<rparr>"

definition nac_WithSystemName :: "string \<Rightarrow> NeighborApplyConfiguration \<Rightarrow> NeighborApplyConfiguration" where
  "nac_WithSystemName value b = b\<lparr>nac_SystemName := Some value\<rparr>"

definition nac_WithInterfaceHandle :: "string \<Rightarrow> NeighborApplyConfiguration \<Rightarrow> NeighborApplyConfiguration" where
  "nac_WithInterfaceHandle value b = b\<lparr>nac_InterfaceHandle := Some value\<rparr>"

record SwitchInterfaceSpecApplyConfiguration =
  sac_Handle :: "string option"
  sac_NativeName :: "string option"
  sac_SwitchRef :: "string option"
  sac_AdminState :: "string option"

definition ac_SwitchInterfaceSpec :: SwitchInterfaceSpecApplyConfiguration where
  "ac_SwitchInterfaceSpec = \<lparr>sac_Handle = None, sac_NativeName = None, sac_SwitchRef = None, sac_AdminState = None\<rparr>"

definition sac_WithHandle :: "string \<Rightarrow> SwitchInterfaceSpecApplyConfiguration \<Rightarrow> SwitchInterfaceSpecApplyConfiguration" where
  "sac_WithHandle value b = b\<lparr>sac_Handle := Some value\<rparr>"

definition sac_WithNativeName :: "string \<Rightarrow> SwitchInterfaceSpecApplyConfiguration \<Rightarrow> SwitchInterfaceSpecApplyConfiguration" where
  "sac_WithNativeName value b = b\<lparr>sac_NativeName := Some value\<rparr>"

definition sac_WithSwitchRef :: "string \<Rightarrow> SwitchInterfaceSpecApplyConfiguration \<Rightarrow> SwitchInterfaceSpecApplyConfiguration" where
  "sac_WithSwitchRef value b = b\<lparr>sac_SwitchRef := Some value\<rparr>"

definition sac_WithAdminState :: "string \<Rightarrow> SwitchInterfaceSpecApplyConfiguration \<Rightarrow> SwitchInterfaceSpecApplyConfiguration" where
  "sac_WithAdminState value b = b\<lparr>sac_AdminState := Some value\<rparr>"

record SwitchInterfaceStatusApplyConfiguration =
  tac_AdminState :: "string option"
  tac_OperationalState :: "string option"
  tac_State :: "string option"
  tac_Neighbor :: "NeighborApplyConfiguration option"
  tac_MacAddress :: "string option"
  tac_AliasName :: "string option"
  tac_Conditions :: "ConditionAC list"

definition ac_SwitchInterfaceStatus :: SwitchInterfaceStatusApplyConfiguration where
  "ac_SwitchInterfaceStatus = \<lparr>tac_AdminState = None, tac_OperationalState = None, tac_State = None, tac_Neighbor = None,
     tac_MacAddress = None, tac_AliasName = None, tac_Conditions = []\<rparr>"

definition tac_WithAdminState :: "string \<Rightarrow> SwitchInterfaceStatusApplyConfiguration \<Rightarrow> SwitchInterfaceStatusApplyConfiguration" where
  "tac_WithAdminState value b = b\<lparr>tac_AdminState := Some value\<rparr>"

definition tac_WithOperationalState :: "string \<Rightarrow> SwitchInterfaceStatusApplyConfiguration \<Rightarrow> SwitchInterfaceStatusApplyConfiguration" where
  "tac_WithOperationalState value b = b\<lparr>tac_OperationalState := Some value\<rparr>"

definition tac_WithState :: "string \<Rightarrow> SwitchInterfaceStatusApplyConfiguration \<Rightarrow> SwitchInterfaceStatusApplyConfiguration" where
  "tac_WithState value b = b\<lparr>tac_State := Some value\<rparr>"

text \<open>The configuration of the neighbor is passed as a pointer, which may be nil.\<close>

definition tac_WithNeighbor :: "NeighborApplyConfiguration option \<Rightarrow> SwitchInterfaceStatusApplyConfiguration \<Rightarrow> SwitchInterfaceStatusApplyConfiguration" where
  "tac_WithNeighbor value b = b\<lparr>tac_Neighbor := value\<rparr>"

definition tac_WithMacAddress :: "string \<Rightarrow> SwitchInterfaceStatusApplyConfiguration \<Rightarrow> SwitchInterfaceStatusApplyConfiguration" where
  "tac_WithMacAddress value b = b\<lparr>tac_MacAddress := Some value\<rparr>"

definition tac_WithAliasName :: "string \<Rightarrow> SwitchInterfaceStatusApplyConfiguration \<Rightarrow> SwitchInterfaceStatusApplyConfiguration" where
  "tac_WithAliasName value b = b\<lparr>tac_AliasName := Some value\<rparr>"

text \<open>The loop over the arguments panics at the first nil pointer.\<close>

fun append_all :: "('a \<Rightarrow> 'b \<Rightarrow> 'b) \<Rightarrow> 'a option list \<Rightarrow> 'b \<Rightarrow> 'b outcome" where
  "append_all add [] b = Returned b"
| "append_all add (None # vs) b = Panicked"
| "append_all add (Some v # vs) b = append_all add vs (add v b)"

definition tac_WithConditions :: "ConditionAC option list \<Rightarrow> SwitchInterfaceStatusApplyConfiguration \<Rightarrow> SwitchInterfaceStatusApplyConfiguration outcome" where
  "tac_WithConditions values b = append_all (\<lambda>v b. b\<lparr>tac_Conditions := tac_Conditions b @ [v]\<rparr>) values b"

section \<open>SwitchInterface\<close>

record SwitchInterfaceApplyConfiguration =
  ac_Kind :: "string option"
  ac_APIVersion :: "string option"
  ac_ObjectMeta :: "ObjectMetaAC option"
  ac_Spec :: "SwitchInterfaceSpecApplyConfiguration option"
  ac_Status :: "SwitchInterfaceStatusApplyConfiguration option"

definition ac_WithKind :: "string \<Rightarrow> SwitchInterfaceApplyConfiguration \<Rightarrow> SwitchInterfaceApplyConfiguration" where
  "ac_WithKind value b = b\<lparr>ac_Kind := Some value\<rparr>"

definition ac_WithAPIVersion :: "string \<Rightarrow> SwitchInterfaceApplyConfiguration \<Rightarrow> SwitchInterfaceApplyConfiguration" where
  "ac_WithAPIVersion value b = b\<lparr>ac_APIVersion := Some value\<rparr>"

definition ensureObjectMetaApplyConfigurationExists :: "SwitchInterfaceApplyConfiguration \<Rightarrow> SwitchInterfaceApplyConfiguration" where
  "ensureObjectMetaApplyConfigurationExists b =
     (if ac_ObjectMeta b = None then b\<lparr>ac_ObjectMeta := Some empty_ObjectMetaAC\<rparr> else b)"

text \<open>Ensure that there is metadata, then change it.\<close>

definition upd_meta :: "(ObjectMetaAC \<Rightarrow> ObjectMetaAC) \<Rightarrow> SwitchInterfaceApplyConfiguration \<Rightarrow> SwitchInterfaceApplyConfiguration" where
  "upd_meta f b = (let b1 = ensureObjectMetaApplyConfigurationExists b in b1\<lparr>ac_ObjectMeta := map_option f (ac_ObjectMeta b1)\<rparr>)"

definition ac_WithName :: "string \<Rightarrow> SwitchInterfaceApplyConfiguration \<Rightarrow> SwitchInterfaceApplyConfiguration" where
  "ac_WithName value b = upd_meta (\<lambda>m. m\<lparr>om_Name := Some value\<rparr>) b"

definition ac_WithGenerateName :: "string \<Rightarrow> SwitchInterfaceApplyConfiguration \<Rightarrow> SwitchInterfaceApplyConfiguration" where
  "ac_WithGenerateName value b = upd_meta (\<lambda>m. m\<lparr>om_GenerateName := Some value\<rparr>) b"

definition ac_WithNamespace :: "string \<Rightarrow> SwitchInterfaceApplyConfiguration \<Rightarrow> SwitchInterfaceApplyConfiguration" where
  "ac_WithNamespace value b = upd_meta (\<lambda>m. m\<lparr>om_Namespace := Some value\<rparr>) b"

definition ac_WithUID :: "string \<Rightarrow> SwitchInterfaceApplyConfiguration \<Rightarrow> SwitchInterfaceApplyConfiguration" where
  "ac_WithUID value b = upd_meta (\<lambda>m. m\<lparr>om_UID := Some value\<rparr>) b"

definition ac_WithResourceVersion :: "string \<Rightarrow> SwitchInterfaceApplyConfiguration \<Rightarrow> SwitchInterfaceApplyConfiguration" where
  "ac_WithResourceVersion value b = upd_meta (\<lambda>m. m\<lparr>om_ResourceVersion := Some value\<rparr>) b"

definition ac_WithGeneration :: "int \<Rightarrow> SwitchInterfaceApplyConfiguration \<Rightarrow> SwitchInterfaceApplyConfiguration" where
  "ac_WithGeneration value b = upd_meta (\<lambda>m. m\<lparr>om_Generation := Some value\<rparr>) b"

definition ac_WithCreationTimestamp :: "string \<Rightarrow> SwitchInterfaceApplyConfiguration \<Rightarrow> SwitchInterfaceApplyConfiguration" where
  "ac_WithCreationTimestamp value b = upd_meta (\<lambda>m. m\<lparr>om_CreationTimestamp := Some value\<rparr>) b"

definition ac_WithDeletionTimestamp :: "string \<Rightarrow> SwitchInterfaceApplyConfiguration \<Rightarrow> SwitchInterfaceApplyConfiguration" where
  "ac_WithDeletionTimestamp value b = upd_meta (\<lambda>m. m\<lparr>om_DeletionTimestamp := Some value\<rparr>) b"

definition ac_WithDeletionGracePeriodSeconds :: "int \<Rightarrow> SwitchInterfaceApplyConfiguration \<Rightarrow> SwitchInterfaceApplyConfiguration" where
  "ac_WithDeletionGracePeriodSeconds value b = upd_meta (\<lambda>m. m\<lparr>om_DeletionGracePeriodSeconds := Some value\<rparr>) b"

text \<open>A nil map is made when there are entries; then they are put one by one.\<close>

definition put_entries :: "gomap \<Rightarrow> gomap option \<Rightarrow> gomap option" where
  "put_entries entries old =
     (case old of
        None \<Rightarrow> if entries \<noteq> [] then Some (fold (\<lambda>(k, v) m. AList.update k v m) entries []) else None
      | Some m \<Rightarrow> Some (fold (\<lambda>(k, v) m. AList.update k v m) entries m))"

definition ac_WithLabels :: "gomap \<Rightarrow> SwitchInterfaceApplyConfiguration \<Rightarrow> SwitchInterfaceApplyConfiguration" where
  "ac_WithLabels entries b = upd_meta (\<lambda>m. m\<lparr>om_Labels := put_entries entries (om_Labels m)\<rparr>) b"

definition ac_WithAnnotations :: "gomap \<Rightarrow> SwitchInterfaceApplyConfiguration \<Rightarrow> SwitchInterfaceApplyConfiguration" where
  "ac_WithAnnotations entries b = upd_meta (\<lambda>m. m\<lparr>om_Annotations := put_entries entries (om_Annotations m)\<rparr>) b"

definition ac_WithOwnerReferences :: "OwnerReferenceAC option list \<Rightarrow> SwitchInterfaceApplyConfiguration \<Rightarrow> SwitchInterfaceApplyConfiguration outcome" where
  "ac_WithOwnerReferences values b =
     append_all (\<lambda>v. upd_meta (\<lambda>m. m\<lparr>om_OwnerReferences := om_OwnerReferences m @ [v]\<rparr>)) values (ensureObjectMetaApplyConfigurationExists b)"

definition ac_WithFinalizers :: "string list \<Rightarrow> SwitchInterfaceApplyConfiguration \<Rightarrow> SwitchInterfaceApplyConfiguration" where
  "ac_WithFinalizers values b = upd_meta (\<lambda>m. m\<lparr>om_Finalizers := om_Finalizers m @ values\<rparr>) b"

definition ac_WithSpec :: "SwitchInterfaceSpecApplyConfiguration option \<Rightarrow> SwitchInterfaceApplyConfiguration \<Rightarrow> SwitchInterfaceApplyConfiguration" where
  "ac_WithSpec value b = b\<lparr>ac_Spec := value\<rparr>"

definition ac_WithStatus :: "SwitchInterfaceStatusApplyConfiguration option \<Rightarrow> SwitchInterfaceApplyConfiguration \<Rightarrow> SwitchInterfaceApplyConfiguration" where
  "ac_WithStatus value b = b\<lparr>ac_Status := value\<rparr>"

text \<open>The getters. Those of the metadata create it, so they return the receiver too.\<close>

definition ac_GetKind :: "SwitchInterfaceApplyConfiguration \<Rightarrow> string option" where
  "ac_GetKind b = ac_Kind b"

definition ac_GetAPIVersion :: "SwitchInterfaceApplyConfiguration \<Rightarrow> string option" where
  "ac_GetAPIVersion b = ac_APIVersion b"

definition ac_GetName :: "SwitchInterfaceApplyConfiguration \<Rightarrow> string option \<times> SwitchInterfaceApplyConfiguration" where
  "ac_GetName b = (let b1 = ensureObjectMetaApplyConfigurationExists b in (Option.bind (ac_ObjectMeta b1) om_Name, b1))"

definition ac_GetNamespace :: "SwitchInterfaceApplyConfiguration \<Rightarrow> string option \<times> SwitchInterfaceApplyConfiguration" where
  "ac_GetNamespace b = (let b1 = ensureObjectMetaApplyConfigurationExists b in (Option.bind (ac_ObjectMeta b1) om_Namespace, b1))"

definition empty_AC :: SwitchInterfaceApplyConfiguration where
  "empty_AC = \<lparr>ac_Kind = None, ac_APIVersion = None, ac_ObjectMeta = None, ac_Spec = None, ac_Status = None\<rparr>"

text \<open>The name, kind and version that every configuration starts with.\<close>

definition identify :: "string \<Rightarrow> SwitchInterfaceApplyConfiguration \<Rightarrow> SwitchInterfaceApplyConfiguration" where
  "identify name b = ac_WithAPIVersion ''sonic.networking.metal.ironcore.dev/v1alpha1'' (ac_WithKind ''SwitchInterface'' (ac_WithName name b))"

definition ac_SwitchInterface :: "string \<Rightarrow> SwitchInterfaceApplyConfiguration" where
  "ac_SwitchInterface name = identify name empty_AC"

text \<open>
  Extracting what a manager of fields has applied is done by \<open>managedfields.ExtractInto\<close>, a parameter: it gets the object, the
  type in the schema, the manager and the subresource.
\<close>

definition ExtractSwitchInterfaceFrom :: "(SwitchInterface \<Rightarrow> string \<Rightarrow> string \<Rightarrow> string \<Rightarrow> SwitchInterfaceApplyConfiguration res) \<Rightarrow>
    SwitchInterface \<Rightarrow> string \<Rightarrow> string \<Rightarrow> SwitchInterfaceApplyConfiguration res" where
  "ExtractSwitchInterfaceFrom extractInto switchInterface fieldManager subresource =
     (case extractInto switchInterface ''com.github.ironcore-dev.sonic-operator.api.v1alpha1.SwitchInterface'' fieldManager subresource of
        Inl err \<Rightarrow> Inl err | Inr b \<Rightarrow> Inr (identify (m_Name (si_Meta switchInterface)) b))"

definition ExtractSwitchInterface :: "(SwitchInterface \<Rightarrow> string \<Rightarrow> string \<Rightarrow> string \<Rightarrow> SwitchInterfaceApplyConfiguration res) \<Rightarrow>
    SwitchInterface \<Rightarrow> string \<Rightarrow> SwitchInterfaceApplyConfiguration res" where
  "ExtractSwitchInterface extractInto switchInterface fieldManager = ExtractSwitchInterfaceFrom extractInto switchInterface fieldManager []"

definition ExtractSwitchInterfaceStatus :: "(SwitchInterface \<Rightarrow> string \<Rightarrow> string \<Rightarrow> string \<Rightarrow> SwitchInterfaceApplyConfiguration res) \<Rightarrow>
    SwitchInterface \<Rightarrow> string \<Rightarrow> SwitchInterfaceApplyConfiguration res" where
  "ExtractSwitchInterfaceStatus extractInto switchInterface fieldManager = ExtractSwitchInterfaceFrom extractInto switchInterface fieldManager ''status''"

text \<open>\<open>ForKind\<close>: an empty configuration for a group, version and kind.\<close>

datatype any_configuration = AnyNeighbor NeighborApplyConfiguration | AnySwitchInterface SwitchInterfaceApplyConfiguration
  | AnySpec SwitchInterfaceSpecApplyConfiguration | AnyStatus SwitchInterfaceStatusApplyConfiguration

definition ForKind :: "string \<Rightarrow> string \<Rightarrow> any_configuration option" where
  "ForKind groupVersion kind =
     (if groupVersion \<noteq> GroupVersion then None
      else if kind = ''Neighbor'' then Some (AnyNeighbor ac_Neighbor)
      else if kind = ''SwitchInterface'' then Some (AnySwitchInterface empty_AC)
      else if kind = ''SwitchInterfaceSpec'' then Some (AnySpec ac_SwitchInterfaceSpec)
      else if kind = ''SwitchInterfaceStatus'' then Some (AnyStatus ac_SwitchInterfaceStatus)
      else None)"

section \<open>Lemmas\<close>

lemma append_all_Some: "append_all add (map Some vs) b = Returned (fold add vs b)"
  by (induction vs arbitrary: b) auto

lemma append_all_Panicked: "append_all add vs b = Panicked \<longleftrightarrow> None \<in> set vs"
  by (induction add vs b rule: append_all.induct) auto

text \<open>Entries of a later call win over those of an earlier one, whatever the order in which the map is traversed.\<close>

lemma put_entries_map_of:
  assumes "distinct (map fst entries)"
  shows "map_of (case put_entries entries old of None \<Rightarrow> [] | Some m \<Rightarrow> m) = (map_of (case old of None \<Rightarrow> [] | Some m \<Rightarrow> m)) ++ map_of entries"
proof -
  have "map_of (fold (\<lambda>(k, v) m. AList.update k v m) es m) = map_of m ++ map_of es" if "distinct (map fst es)" for es :: gomap and m
    using that
  proof (induction es arbitrary: m)
    case (Cons e es)
    obtain k v where e: "e = (k, v)" by fastforce
    have k: "k \<notin> dom (map_of es)" using Cons.prems e by (simp add: dom_map_of_conv_image_fst)
    have "distinct (map fst es)" using Cons.prems by simp
    from Cons.IH [OF this, of "AList.update k v m"] have "map_of (fold (\<lambda>(k, v) m. AList.update k v m) (e # es) m) = (map_of m)(k \<mapsto> v) ++ map_of es"
      unfolding e update_conv' by (simp only: fold_simps(2) prod.case)
    also have "\<dots> = (map_of m ++ map_of es)(k \<mapsto> v)" by (rule map_add_upd_left [OF k])
    also have "\<dots> = map_of m ++ map_of (e # es)" unfolding e by (simp only: map_of.simps fst_conv snd_conv map_add_upd)
    finally show ?case .
  qed simp
  from this [OF assms] show ?thesis by (auto simp: put_entries_def split: option.split)
qed

end
