(* ===== verification/Switch_Controller.thy ===== *)
theory Switch_Controller
  imports Agent_Client Apply_Config
begin

text \<open>
  The controller of \<open>Switch\<close> objects (\<open>internal/controller/switch_controller.go\<close>) and the
  construction of agent clients (\<open>internal/switch_util/switch_util.go\<close>).

  The Kubernetes client and the finalizer helpers of \<open>controller-utils\<close> are not part of the
  repository: they are a parameter, a record of calls. A call that modifies the object it is given
  returns it. The status patch that is deferred runs when the body is left, with the object as the
  body left it; its error is only logged.
\<close>

record 's kube =
  IsNotFound :: "goerror \<Rightarrow> bool"
  GetSwitch :: "string \<Rightarrow> string \<Rightarrow> ('s, Switch res) state"
  GetSwitchInterface :: "string \<Rightarrow> string \<Rightarrow> ('s, SwitchInterface res) state"
  EnsureFinalizer_sw :: "Switch \<Rightarrow> string \<Rightarrow> ('s, (bool \<times> Switch) res) state"
  EnsureNoFinalizer_sw :: "Switch \<Rightarrow> string \<Rightarrow> ('s, (bool \<times> Switch) res) state"
  EnsureFinalizer_si :: "SwitchInterface \<Rightarrow> string \<Rightarrow> ('s, (bool \<times> SwitchInterface) res) state"
  EnsureNoFinalizer_si :: "SwitchInterface \<Rightarrow> string \<Rightarrow> ('s, (bool \<times> SwitchInterface) res) state"
  StatusPatch_sw :: "Switch \<Rightarrow> Switch \<Rightarrow> ('s, goerror option) state"
  StatusPatch_si :: "SwitchInterface \<Rightarrow> SwitchInterface \<Rightarrow> ('s, goerror option) state"
  Apply :: "SwitchInterfaceApplyConfiguration \<Rightarrow> ('s, goerror option) state"

text \<open>What \<open>Reconcile\<close> returns: the time after which to reconcile again (seconds), and an error.\<close>

type_synonym result = "nat \<times> goerror option"

definition agentRetryAfter :: nat where
  "agentRetryAfter = 60"

definition IgnoreNotFound :: "'s kube \<Rightarrow> goerror \<Rightarrow> goerror option" where
  "IgnoreNotFound K err = (if IsNotFound K err then None else Some err)"

section \<open>Agent clients\<close>

definition NewAgentClientForSwitch :: "Switch \<Rightarrow> SwitchAgentClient res" where
  "NewAgentClientForSwitch s =
     (let m = s_Management (sw_Spec s) in
      if Host m = [] \<and> Port m = [] then Inr (NewDefaultSwitchAgentClient [] 0)
      else Inr (NewDefaultSwitchAgentClient (Host m @ '':'' @ Port m) 0))"

text \<open>A nil reference gives a nil client and no error.\<close>

definition NewAgentClientFromSwitchRef :: "'s kube \<Rightarrow> string option \<Rightarrow> string \<Rightarrow> ('s, SwitchAgentClient option res) state" where
  "NewAgentClientFromSwitchRef K ref nameSpace = (case ref of
      None \<Rightarrow> ret (Inr None)
    | Some name \<Rightarrow> on_err (GetSwitch K name nameSpace) (\<lambda>err. ret (Inl err))
        (\<lambda>ownerSwitch. case NewAgentClientForSwitch ownerSwitch of
            Inl err \<Rightarrow> ret (Inl err) | Inr agentcli \<Rightarrow> ret (Inr (Some agentcli))))"

section \<open>Reconciliation\<close>

definition owner_reference :: "Switch \<Rightarrow> OwnerReferenceAC" where
  "owner_reference s = \<lparr>or_APIVersion = Some GroupVersion, or_Kind = Some ''Switch'', or_Name = Some (m_Name (sw_Meta s)),
     or_UID = Some (m_UID (sw_Meta s)), or_Controller = Some True, or_BlockOwnerDeletion = Some True\<rparr>"

text \<open>The configuration that \<open>EnsureInterface\<close> applies, built as there by a chain of calls.\<close>

definition interface_apply :: "Switch \<Rightarrow> Interface \<Rightarrow> string \<Rightarrow> SwitchInterfaceApplyConfiguration outcome" where
  "interface_apply s iface adminState =
     (case ac_WithOwnerReferences [Some (owner_reference s)] (ac_SwitchInterface (ToLower (m_Name (sw_Meta s) @ ''-'' @ i_Name iface))) of
        Panicked \<Rightarrow> Panicked
      | Returned b \<Rightarrow> Returned (ac_WithSpec (Some
          (sac_WithAdminState adminState (sac_WithSwitchRef (m_Name (sw_Meta s)) (sac_WithNativeName (NativeName iface)
            (sac_WithHandle (i_Name iface) ac_SwitchInterfaceSpec))))) b))"

text \<open>The branch of a panic is never taken, as \<open>interface_apply_returns\<close> shows.\<close>

definition EnsureInterface :: "'s kube \<Rightarrow> Switch \<Rightarrow> Interface \<Rightarrow> ('s, goerror option) state" where
  "EnsureInterface K s iface = (case AgentDeviceStatusToAPIAdminState (AdminStatus iface) of
      (_, Some err) \<Rightarrow> ret (Some err)
    | (adminState, None) \<Rightarrow> (case interface_apply s iface adminState of
          Returned ac \<Rightarrow> on_fail (Apply K ac) (\<lambda>err. ret (Some err)) (ret None)
        | Panicked \<Rightarrow> ret (Some (Errorf ''nil value passed to WithOwnerReferences''))))"

text \<open>The loop over the interfaces, which ends at the first error.\<close>

fun ensure_all :: "'s kube \<Rightarrow> Switch \<Rightarrow> Interface list \<Rightarrow> ('s, goerror option) state" where
  "ensure_all K s [] = ret None"
| "ensure_all K s (iface # ifs) = on_fail (EnsureInterface K s iface) (\<lambda>err. ret (Some err)) (ensure_all K s ifs)"

definition sw_delete :: "'s kube \<Rightarrow> Switch \<Rightarrow> ('s, result) state" where
  "sw_delete K s = on_err (EnsureNoFinalizer_sw K s SwitchFinalizer) (\<lambda>err. ret (0, Some err)) (\<lambda>_. ret (0, None))"

definition unavailable :: "Switch \<Rightarrow> ('s, Switch \<times> result) state" where
  "unavailable s = ret (s, (agentRetryAfter, None))"

definition with_device :: "SwitchDevice \<Rightarrow> Switch \<Rightarrow> Switch" where
  "with_device d s = s\<lparr>sw_Status := (sw_Status s)\<lparr>MACAddress := LocalMacAddress d, FirmwareVersion := SonicOSVersion d, SKU := Hwsku d\<rparr>\<rparr>"

definition with_ports :: "agent_Port list \<Rightarrow> Switch \<Rightarrow> Switch" where
  "with_ports items s = s\<lparr>sw_Status := (sw_Status s)\<lparr>sw_Ports :=
     (if items \<noteq> [] then [] else sw_Ports (sw_Status s)) @ map (\<lambda>p. \<lparr>pst_Name = p_Name p, InterfaceRefs = []\<rparr>) items\<rparr>\<rparr>"

definition with_state :: "string \<Rightarrow> Switch \<Rightarrow> Switch" where
  "with_state st s = s\<lparr>sw_Status := (sw_Status s)\<lparr>sw_State := st\<rparr>\<rparr>"

text \<open>The body of \<open>reconcile\<close> between the finalizer and the deferred patch: the object it leaves and what it returns.\<close>

definition sw_body :: "'s kube \<Rightarrow> ('k, 's) rpc \<Rightarrow> Switch \<Rightarrow> ('s, Switch \<times> result) state" where
  "sw_body K N s =
     (if sw_State (sw_Status s) \<noteq> SwitchStateReady then ret (with_state SwitchStateReady s, (0, None))
      else (case NewAgentClientForSwitch s of
          Inl err \<Rightarrow> unavailable s
        | Inr cli \<Rightarrow>
            on_err (cli_GetDeviceInfo N cli) (\<lambda>_. unavailable s)
              (\<lambda>switchDevice.
            let s1 = with_device switchDevice s in
            on_err (cli_ListInterfaces N cli) (\<lambda>_. unavailable s1)
              (\<lambda>interfaceList.
            on_fail (ensure_all K s1 (il_Items interfaceList)) (\<lambda>err. ret (s1, (0, Some err)))
              (on_err (cli_ListPorts N cli) (\<lambda>_. unavailable s1)
                 (\<lambda>portList. ret (with_state SwitchStateReady (with_ports (pl_Items portList) s1), (0, None))))))))"

definition sw_reconcile :: "'s kube \<Rightarrow> ('k, 's) rpc \<Rightarrow> Switch \<Rightarrow> ('s, result) state" where
  "sw_reconcile K N s =
     on_err (EnsureFinalizer_sw K s SwitchFinalizer) (\<lambda>err. ret (0, Some err))
       (\<lambda>(modified, s1). if modified then ret (0, None)
          else State_Monad.bind (sw_body K N s1) (\<lambda>(s2, res).
            State_Monad.bind (StatusPatch_sw K s1 s2) (\<lambda>_. ret res)))"

definition sw_reconileExists :: "'s kube \<Rightarrow> ('k, 's) rpc \<Rightarrow> Switch \<Rightarrow> ('s, result) state" where
  "sw_reconileExists K N s =
     (if m_DeletionTimestamp (sw_Meta s) \<noteq> None then sw_delete K s else sw_reconcile K N s)"

definition sw_Reconcile :: "'s kube \<Rightarrow> ('k, 's) rpc \<Rightarrow> string \<Rightarrow> string \<Rightarrow> ('s, result) state" where
  "sw_Reconcile K N name namespace =
     on_err (GetSwitch K name namespace) (\<lambda>err. ret (0, IgnoreNotFound K err)) (sw_reconileExists K N)"

section \<open>Properties\<close>

lemma interface_apply_returns:
  "interface_apply s iface adminState = Returned \<lparr>ac_Kind = Some ''SwitchInterface'', ac_APIVersion = Some ''sonic.networking.metal.ironcore.dev/v1alpha1'',
     ac_ObjectMeta = Some (empty_ObjectMetaAC\<lparr>om_Name := Some (ToLower (m_Name (sw_Meta s) @ ''-'' @ i_Name iface)), om_OwnerReferences := [owner_reference s]\<rparr>),
     ac_Spec = Some \<lparr>sac_Handle = Some (i_Name iface), sac_NativeName = Some (NativeName iface), sac_SwitchRef = Some (m_Name (sw_Meta s)),
       sac_AdminState = Some adminState\<rparr>, ac_Status = None\<rparr>"
  by (simp add: interface_apply_def ac_WithOwnerReferences_def ac_SwitchInterface_def identify_def ac_WithName_def ac_WithKind_def ac_WithAPIVersion_def
      upd_meta_def ensureObjectMetaApplyConfigurationExists_def empty_AC_def empty_ObjectMetaAC_def ac_WithSpec_def sac_WithAdminState_def
      sac_WithSwitchRef_def sac_WithNativeName_def sac_WithHandle_def ac_SwitchInterfaceSpec_def Let_def)

lemma with_simps [simp]:
  "sw_State (sw_Status (with_state st s)) = st" "sw_Spec (with_state st s) = sw_Spec s" "sw_Meta (with_state st s) = sw_Meta s"
  "sw_State (sw_Status (with_device d s)) = sw_State (sw_Status s)" "sw_Spec (with_device d s) = sw_Spec s" "sw_Meta (with_device d s) = sw_Meta s"
  "sw_Spec (with_ports ps s) = sw_Spec s" "sw_Meta (with_ports ps s) = sw_Meta s"
  by (simp_all add: with_state_def with_device_def with_ports_def)

lemma isl_fst: "isl (fst x) \<Longrightarrow> \<exists>e y. x = (Inl e, y)"
  by (cases x) (auto simp: isl_def)

lemma client_for_switch: "\<exists>cli. NewAgentClientForSwitch s = Inr cli"
  by (simp add: NewAgentClientForSwitch_def Let_def)

lemma sw_body_ready:
  assumes "run (sw_body K N s) w = ((s', res), w')"
  shows "sw_State (sw_Status s') = SwitchStateReady \<and> sw_Spec s' = sw_Spec s \<and> sw_Meta s' = sw_Meta s \<and>
    (sw_State (sw_Status s) \<noteq> SwitchStateReady \<longrightarrow> s' = with_state SwitchStateReady s \<and> w' = w \<and> res = (0, None))"
  using assms
  by (auto simp: sw_body_def unavailable_def Let_def NewAgentClientForSwitch_def split: if_splits prod.splits sum.splits option.splits)

text \<open>Property C29. The whole reconciliation of a \<open>Switch\<close>. If the finalizer cannot be added, its error is returned, and if it was added,
  no error; in both cases nothing else is done. If the \<open>Switch\<close> had the finalizer, then whatever the agent and the cluster answer, the last
  thing done is one patch of the status, to state \<open>Ready\<close>, with specification and metadata as the step of the finalizer left them. A switch
  that was not ready becomes so before the agent is contacted, and nothing else about it changes.\<close>

theorem switch_patched_ready:
  assumes "run (sw_reconcile K N s) w = (res, w')"
  shows "case run (EnsureFinalizer_sw K s SwitchFinalizer) w of
      (Inl err, w1) \<Rightarrow> res = (0, Some err) \<and> w' = w1
    | (Inr (True, s1), w1) \<Rightarrow> res = (0, None) \<and> w' = w1
    | (Inr (False, s1), w1) \<Rightarrow> (\<exists>s2 w2. run (sw_body K N s1) w1 = ((s2, res), w2) \<and> w' = snd (run (StatusPatch_sw K s1 s2) w2) \<and>
        sw_State (sw_Status s2) = SwitchStateReady \<and> sw_Spec s2 = sw_Spec s1 \<and> sw_Meta s2 = sw_Meta s1 \<and>
        (sw_State (sw_Status s1) \<noteq> SwitchStateReady \<longrightarrow> s2 = with_state SwitchStateReady s1 \<and> w2 = w1 \<and> res = (0, None)))"
proof -
  obtain r w1 where fin: "run (EnsureFinalizer_sw K s SwitchFinalizer) w = (r, w1)" by (metis surj_pair)
  show ?thesis
  proof (cases r)
    case (Inl err)
    then show ?thesis using assms fin by (simp add: sw_reconcile_def)
  next
    case (Inr x)
    then obtain modified s1 where r: "r = Inr (modified, s1)" by (metis surj_pair)
    obtain s2 res2 w2 where body: "run (sw_body K N s1) w1 = ((s2, res2), w2)" by (metis surj_pair)
    show ?thesis using assms fin r body sw_body_ready [OF body]
      by (cases modified) (auto simp: sw_reconcile_def split: prod.splits)
  qed
qed

text \<open>A switch in memory for the concrete instances.\<close>

definition demo_switch :: "string \<Rightarrow> Switch" where
  "demo_switch st = \<lparr>
     sw_Meta = \<lparr>m_Name = ''leaf-1'', m_Namespace = [], m_UID = ''u1'', m_Finalizers = [SwitchFinalizer], m_DeletionTimestamp = None\<rparr>,
     sw_Spec = \<lparr>Hostname = [], s_Management = \<lparr>Host = ''10.0.0.9'', Port = ''50051''\<rparr>, s_ZTP = None, Containers = [], Volumes = [],
        s_NextBootMode = [], s_MacAddress = ''02:00:00:00:00:01'', s_Ports = []\<rparr>,
     sw_Status = \<lparr>sw_State = st, sw_Ports = [], MACAddress = ''02:00:00:00:00:01'', FirmwareVersion = ''4.1'', SKU = ''x''\<rparr>\<rparr>"

text \<open>A cluster in which every call succeeds and nothing is stored.\<close>

definition demo_kube :: "'s kube" where
  "demo_kube = \<lparr>IsNotFound = (\<lambda>_. False), GetSwitch = (\<lambda>n ns. ret (Inr (demo_switch ''Ready''))),
     GetSwitchInterface = (\<lambda>n ns. ret (Inl (ExtErr ''not found''))),
     EnsureFinalizer_sw = (\<lambda>s f. ret (Inr (False, s))), EnsureNoFinalizer_sw = (\<lambda>s f. ret (Inr (True, s))),
     EnsureFinalizer_si = (\<lambda>s f. ret (Inr (False, s))), EnsureNoFinalizer_si = (\<lambda>s f. ret (Inr (True, s))),
     StatusPatch_sw = (\<lambda>o' n. ret None), StatusPatch_si = (\<lambda>o' n. ret None), Apply = (\<lambda>a. ret None)\<rparr>"

text \<open>The property at a switch that has the finalizer and no state yet.\<close>

theorem switch_patched_ready_witness:
  "run (sw_reconcile demo_kube (loopback (sonic_agent mem_redis (mem_host True))) (demo_switch []))
       (\<lparr>redisAddr = ''h:1'', clientPool = []\<rparr>, []) = ((0, None), (\<lparr>redisAddr = ''h:1'', clientPool = []\<rparr>, [])) \<and>
   (\<exists>s2 w2. run (sw_body demo_kube (loopback (sonic_agent mem_redis (mem_host True))) (demo_switch []))
       (\<lparr>redisAddr = ''h:1'', clientPool = []\<rparr>, []) = ((s2, (0, None)), w2) \<and>
     sw_State (sw_Status s2) = SwitchStateReady \<and> s2 = with_state SwitchStateReady (demo_switch []))"
proof -
  let ?s = "(\<lparr>redisAddr = ''h:1'', clientPool = []\<rparr>, []) :: int SonicAgent \<times> mem"
  let ?N = "loopback (sonic_agent mem_redis (mem_host True))"
  have new: "sw_State (sw_Status (demo_switch [])) \<noteq> SwitchStateReady" by (simp add: demo_switch_def SwitchStateReady_def)
  have run: "run (sw_reconcile demo_kube ?N (demo_switch [])) ?s = ((0, None), ?s)"
    by (simp add: sw_reconcile_def sw_body_def new demo_kube_def)
  have fin: "run (EnsureFinalizer_sw demo_kube (demo_switch []) SwitchFinalizer) ?s = (Inr (False, demo_switch []), ?s)"
    by (simp add: demo_kube_def)
  from switch_patched_ready [OF run, unfolded fin] new run show ?thesis by auto
qed

text \<open>When the agent cannot be reached, the reconciliation reports no error, asks to be repeated after a
  minute and leaves the status as it was.\<close>

lemma switch_survives_outage:
  assumes "\<And>conn w. isl (fst (run (rpc_GetDeviceInfo N conn) w))" and "sw_State (sw_Status s) = SwitchStateReady"
  shows "\<exists>w'. run (sw_body K N s) w = ((s, (agentRetryAfter, None)), w')"
proof -
  obtain cli where cli: "NewAgentClientForSwitch s = Inr cli" using client_for_switch by blast
  obtain r w' where r: "run (cli_GetDeviceInfo N cli) w = (r, w')" by fastforce
  have "isl r"
  proof (cases "fst (run (dial N cli) w)")
    case (Inl e)
    with r show ?thesis by (auto simp: cli_GetDeviceInfo_def with_conn_def split: prod.splits)
  next
    case (Inr conn)
    then obtain w1 where w1: "run (dial N cli) w = (Inr conn, w1)" by (metis prod.collapse)
    obtain e w2 where "run (rpc_GetDeviceInfo N conn) w1 = (Inl e, w2)"
      using isl_fst [OF assms(1) [of conn w1]] by blast
    with w1 r show ?thesis by (auto simp: cli_GetDeviceInfo_def with_conn_def split: prod.splits)
  qed
  then show ?thesis using r cli assms(2) by (auto simp: sw_body_def unavailable_def isl_def)
qed

text \<open>Property C34. When the agent is reachable but reports errors (its database does not answer, say), the body of the
  reconciliation of a ready switch, after the step of the finalizer, replaces the MAC address, the firmware version and the SKU in the status of the switch by empty strings, and
  reports success.\<close>

theorem switch_status_wiped_on_agent_error:
  assumes "sw_State (sw_Status s) = SwitchStateReady"
    and "\<And>w. isl (fst (run (ag_GetDeviceInfo A) w))" and "\<And>w. isl (fst (run (ag_ListInterfaces A) w))"
    and "\<And>w. isl (fst (run (ag_ListPorts A) w))"
  shows "\<exists>s' w'. run (sw_body K (loopback A) s) w = ((s', (0, None)), w') \<and>
    MACAddress (sw_Status s') = [] \<and> FirmwareVersion (sw_Status s') = [] \<and> SKU (sw_Status s') = []"
proof -
  obtain cli where cli: "NewAgentClientForSwitch s = Inr cli" using client_for_switch by blast
  obtain st1 w1 where 1: "run (ag_GetDeviceInfo A) w = (Inl st1, w1)" using isl_fst [OF assms(2)] by blast
  obtain st2 w2 where 2: "run (ag_ListInterfaces A) w1 = (Inl st2, w2)" using isl_fst [OF assms(3)] by blast
  obtain st3 w3 where 3: "run (ag_ListPorts A) w2 = (Inl st3, w3)" using isl_fst [OF assms(4)] by blast
  show ?thesis using 1 2 3
    by (simp add: sw_body_def assms(1) cli cli_GetDeviceInfo_def cli_ListInterfaces_def cli_ListPorts_def loopback_conn
        srv_GetDeviceInfo_def srv_ListInterfaces_def srv_ListPorts_def with_device_def with_ports_def with_state_def Let_def)
qed

text \<open>The property at a switch whose database does not answer.\<close>

theorem switch_status_wiped_on_agent_error_witness:
  "\<exists>s' w'. run (sw_body demo_kube (loopback (sonic_agent (mem_redis\<lparr>Ping := \<lambda>_. ret (Some (ExtErr ''refused'')), NewClient := \<lambda>_ d. ret d,
        Close := \<lambda>_. ret None\<rparr>) (mem_host True))) (demo_switch ''Ready'')) (\<lparr>redisAddr = ''h:1'', clientPool = []\<rparr>, [])
     = ((s', (0, None)), w') \<and>
    MACAddress (sw_Status s') = [] \<and> FirmwareVersion (sw_Status s') = [] \<and> SKU (sw_Status s') = []"
proof -
  let ?R = "mem_redis\<lparr>Ping := \<lambda>_. ret (Some (ExtErr ''refused'')), NewClient := \<lambda>_ d. ret d, Close := \<lambda>_. ret None\<rparr>"
  have new: "isl (fst (run (connect_new ?R n) w))" for n and w :: "int SonicAgent \<times> mem"
    by (cases w) (simp add: connect_new_def Let_def)
  then have c: "isl (fst (run (connect_locked ?R n) w))" for n and w :: "int SonicAgent \<times> mem"
    by (cases w) (simp add: connect_locked_def split: option.split)
  then have "isl (fst (run (Connect ?R n) w))" for n and w :: "int SonicAgent \<times> mem"
    by (cases w) (simp add: Connect_def split: option.split)
  then have or: "isl (fst (run (connect_or ?R n what k) w))" for n what k and w :: "int SonicAgent \<times> mem"
    using isl_fst [of "run (Connect ?R n) w"] by (auto simp: connect_or_def)
  show ?thesis
    by (rule switch_status_wiped_on_agent_error)
       (simp_all add: demo_switch_def SwitchStateReady_def sonic_agent_def GetDeviceInfo_def ListInterfaces_def ListPorts_def or)
qed

end
