(* ===== verification/Apply_Schema.thy ===== *)
theory Apply_Schema
  imports Switch_Controller
begin

text \<open>
  What the API server makes of a configuration: its JSON, checked against the schema that the repository ships in
  \<open>applyconfiguration/internal/internal.go\<close>. \<open>schemaYAML\<close> is that schema; \<open>json_of\<close> is \<open>encoding/json\<close> over the tags of the
  configurations, where a nil pointer and an empty list are left out; \<open>conforms\<close> is the check of
  \<open>structured-merge-diff\<close> as its documentation describes it: scalars of the right kind, no field that the schema does not have,
  and the elements of an associative list told apart by their keys.

  The properties: every configuration the builders can make conforms to the schema if its lists have keys; and what
  \<open>EnsureInterface\<close> applies, field by field.
\<close>

section \<open>JSON\<close>

datatype json = JNull | JBool bool | JNumber int | JString string | JList "json list" | JObject "(string \<times> json) list"

definition opt_field :: "string \<Rightarrow> ('a \<Rightarrow> json) \<Rightarrow> 'a option \<Rightarrow> (string \<times> json) list" where
  "opt_field k f v = (case v of None \<Rightarrow> [] | Some x \<Rightarrow> [(k, f x)])"

definition list_field :: "string \<Rightarrow> ('a \<Rightarrow> json) \<Rightarrow> 'a list \<Rightarrow> (string \<times> json) list" where
  "list_field k f xs = (if xs = [] then [] else [(k, JList (map f xs))])"

definition map_field :: "string \<Rightarrow> gomap option \<Rightarrow> (string \<times> json) list" where
  "map_field k m = (case m of None \<Rightarrow> [] | Some [] \<Rightarrow> [] | Some es \<Rightarrow> [(k, JObject (map (\<lambda>(k, v). (k, JString v)) es))])"

definition json_owner :: "OwnerReferenceAC \<Rightarrow> json" where
  "json_owner r = JObject (opt_field ''apiVersion'' JString (or_APIVersion r) @ opt_field ''kind'' JString (or_Kind r) @
     opt_field ''name'' JString (or_Name r) @ opt_field ''uid'' JString (or_UID r) @
     opt_field ''controller'' JBool (or_Controller r) @ opt_field ''blockOwnerDeletion'' JBool (or_BlockOwnerDeletion r))"

definition json_condition :: "ConditionAC \<Rightarrow> json" where
  "json_condition c = JObject (opt_field ''type'' JString (co_Type c) @ opt_field ''status'' JString (co_Status c) @
     opt_field ''observedGeneration'' JNumber (co_ObservedGeneration c) @ opt_field ''lastTransitionTime'' JString (co_LastTransitionTime c) @
     opt_field ''reason'' JString (co_Reason c) @ opt_field ''message'' JString (co_Message c))"

definition json_meta :: "ObjectMetaAC \<Rightarrow> json" where
  "json_meta m = JObject (opt_field ''name'' JString (om_Name m) @ opt_field ''generateName'' JString (om_GenerateName m) @
     opt_field ''namespace'' JString (om_Namespace m) @ opt_field ''uid'' JString (om_UID m) @
     opt_field ''resourceVersion'' JString (om_ResourceVersion m) @ opt_field ''generation'' JNumber (om_Generation m) @
     opt_field ''creationTimestamp'' JString (om_CreationTimestamp m) @ opt_field ''deletionTimestamp'' JString (om_DeletionTimestamp m) @
     opt_field ''deletionGracePeriodSeconds'' JNumber (om_DeletionGracePeriodSeconds m) @
     map_field ''labels'' (om_Labels m) @ map_field ''annotations'' (om_Annotations m) @
     list_field ''ownerReferences'' json_owner (om_OwnerReferences m) @ list_field ''finalizers'' JString (om_Finalizers m))"

definition json_neighbor :: "NeighborApplyConfiguration \<Rightarrow> json" where
  "json_neighbor n = JObject (opt_field ''macAddress'' JString (nac_MacAddress n) @ opt_field ''systemName'' JString (nac_SystemName n) @
     opt_field ''interfaceHandle'' JString (nac_InterfaceHandle n))"

definition json_spec :: "SwitchInterfaceSpecApplyConfiguration \<Rightarrow> json" where
  "json_spec s = JObject (opt_field ''handle'' JString (sac_Handle s) @ opt_field ''nativeName'' JString (sac_NativeName s) @
     opt_field ''switchRef'' (\<lambda>name. JObject (if name = [] then [] else [(''name'', JString name)])) (sac_SwitchRef s) @
     opt_field ''adminState'' JString (sac_AdminState s))"

definition json_status :: "SwitchInterfaceStatusApplyConfiguration \<Rightarrow> json" where
  "json_status t = JObject (opt_field ''adminState'' JString (tac_AdminState t) @ opt_field ''operationalState'' JString (tac_OperationalState t) @
     opt_field ''state'' JString (tac_State t) @ opt_field ''neighbor'' json_neighbor (tac_Neighbor t) @
     opt_field ''macAddress'' JString (tac_MacAddress t) @ opt_field ''aliasName'' JString (tac_AliasName t) @
     list_field ''conditions'' json_condition (tac_Conditions t))"

definition json_of :: "SwitchInterfaceApplyConfiguration \<Rightarrow> json" where
  "json_of b = JObject (opt_field ''kind'' JString (ac_Kind b) @ opt_field ''apiVersion'' JString (ac_APIVersion b) @
     opt_field ''metadata'' json_meta (ac_ObjectMeta b) @ opt_field ''spec'' json_spec (ac_Spec b) @ opt_field ''status'' json_status (ac_Status b))"

section \<open>Schemas\<close>

datatype scalar = ScString | ScNumeric | ScBoolean | ScUntyped

datatype relationship = Associative | Atomic | Separable

text \<open>A type is a name or given in place. It allows scalars, lists, maps or several of these. A map has fields, defaults of some
  of them, a type of other elements and a relationship.\<close>

datatype type_ref = Named string | Inlined atom
  and atom = Atom "scalar option" "list_type option" "map_type option"
  and list_type = ListType type_ref relationship "string list"
  and map_type = MapType "(string \<times> type_ref) list" "(string \<times> json) list" "type_ref option" "relationship option"

type_synonym schema = "(string \<times> atom) list"

definition op :: "string \<Rightarrow> string" where
  "op n = ''com.github.ironcore-dev.sonic-operator.api.v1alpha1.'' @ n"

definition mv :: "string \<Rightarrow> string" where
  "mv n = ''io.k8s.apimachinery.pkg.apis.meta.v1.'' @ n"

definition sc :: "scalar \<Rightarrow> atom" where
  "sc s = Atom (Some s) None None"

definition struct :: "(string \<times> type_ref) list \<Rightarrow> atom" where
  "struct fs = Atom None None (Some (MapType fs [] None None))"

definition str :: type_ref where
  "str = Inlined (sc ScString)"

definition num :: type_ref where
  "num = Inlined (sc ScNumeric)"

definition string_map :: type_ref where
  "string_map = Inlined (Atom None None (Some (MapType [] [] (Some str) None)))"

definition list_of :: "type_ref \<Rightarrow> relationship \<Rightarrow> string list \<Rightarrow> type_ref" where
  "list_of t r ks = Inlined (Atom None (Some (ListType t r ks)) None)"

text \<open>The types that the schema uses for values of any form.\<close>

definition untyped :: "string \<Rightarrow> relationship \<Rightarrow> atom" where
  "untyped n r = Atom (Some ScUntyped) (Some (ListType (Named ''__untyped_atomic_'') Atomic [])) (Some (MapType [] [] (Some (Named n)) (Some r)))"

text \<open>The schema: the types of the operator, the types of Kubernetes they use, and the rest.\<close>

definition operator_types :: schema where
  "operator_types = [
     (op ''AdminState'', sc ScString),
     (op ''Neighbor'', struct [(''interfaceHandle'', str), (''macAddress'', str), (''systemName'', str)]),
     (op ''OperationState'', sc ScString),
     (op ''SwitchInterface'', struct [(''apiVersion'', str), (''kind'', str), (''metadata'', Named (mv ''ObjectMeta'')),
        (''spec'', Named (op ''SwitchInterfaceSpec'')), (''status'', Named (op ''SwitchInterfaceStatus''))]),
     (op ''SwitchInterfaceSpec'', struct [(''adminState'', Named (op ''AdminState'')), (''handle'', str), (''nativeName'', str),
        (''switchRef'', Named ''io.k8s.api.core.v1.LocalObjectReference'')]),
     (op ''SwitchInterfaceState'', sc ScString),
     (op ''SwitchInterfaceStatus'', struct [(''adminState'', Named (op ''AdminState'')), (''aliasName'', str),
        (''conditions'', list_of (Named (mv ''Condition'')) Associative [''type'']), (''macAddress'', str),
        (''neighbor'', Named (op ''Neighbor'')), (''operationalState'', Named (op ''OperationState'')), (''state'', Named (op ''SwitchInterfaceState''))])]"

definition meta_types :: schema where
  "meta_types = [
     (''io.k8s.api.core.v1.LocalObjectReference'', Atom None None (Some (MapType [(''name'', str)] [(''name'', JString [])] None (Some Atomic)))),
     (mv ''Condition'', struct [(''lastTransitionTime'', Named (mv ''Time'')), (''message'', str), (''observedGeneration'', num), (''reason'', str),
        (''status'', Named (mv ''ConditionStatus'')), (''type'', str)]),
     (mv ''ConditionStatus'', sc ScString),
     (mv ''FieldsV1'', Atom None None (Some (MapType [] [] (Some (Inlined (untyped ''__untyped_deduced_'' Separable))) None))),
     (mv ''ManagedFieldsEntry'', struct [(''apiVersion'', str), (''fieldsType'', str), (''fieldsV1'', Named (mv ''FieldsV1'')), (''manager'', str),
        (''operation'', Named (mv ''ManagedFieldsOperationType'')), (''subresource'', str), (''time'', Named (mv ''Time''))]),
     (mv ''ManagedFieldsOperationType'', sc ScString),
     (mv ''ObjectMeta'', struct [(''annotations'', string_map), (''creationTimestamp'', Named (mv ''Time'')), (''deletionGracePeriodSeconds'', num),
        (''deletionTimestamp'', Named (mv ''Time'')), (''finalizers'', list_of str Associative []), (''generateName'', str), (''generation'', num),
        (''labels'', string_map), (''managedFields'', list_of (Named (mv ''ManagedFieldsEntry'')) Atomic []), (''name'', str), (''namespace'', str),
        (''ownerReferences'', list_of (Named (mv ''OwnerReference'')) Associative [''uid'']), (''resourceVersion'', str), (''selfLink'', str),
        (''uid'', Named ''io.k8s.apimachinery.pkg.types.UID'')])]"

definition other_types :: schema where
  "other_types = [
     (mv ''OwnerReference'', Atom None None (Some (MapType [(''apiVersion'', str), (''blockOwnerDeletion'', Inlined (sc ScBoolean)),
        (''controller'', Inlined (sc ScBoolean)), (''kind'', str), (''name'', str), (''uid'', Named ''io.k8s.apimachinery.pkg.types.UID'')] [] None (Some Atomic)))),
     (mv ''Time'', sc ScUntyped),
     (''io.k8s.apimachinery.pkg.types.UID'', sc ScString),
     (''__untyped_atomic_'', untyped ''__untyped_atomic_'' Atomic),
     (''__untyped_deduced_'', untyped ''__untyped_deduced_'' Separable)]"

definition schemaYAML :: schema where
  "schemaYAML = operator_types @ meta_types @ other_types"

lemmas schema_defs = schemaYAML_def operator_types_def meta_types_def other_types_def op_def mv_def

text \<open>\<open>Parser\<close> with the variables of its package: whether \<open>parserOnce\<close> has been used, and \<open>parser\<close>, at first nil. The once
  counts as used even when its function panics. The parser of the library is a parameter.\<close>

record 'p package =
  parserOnce :: bool
  parser :: "'p option"

definition Parser :: "(schema \<Rightarrow> 'p option \<times> goerror option) \<Rightarrow> ('p package, 'p option outcome) state" where
  "Parser NewParser = State_Monad.bind State_Monad.get (\<lambda>g.
     if parserOnce g then ret (Returned (parser g))
     else (case NewParser schemaYAML of (p, err) \<Rightarrow>
       State_Monad.bind (State_Monad.set \<lparr>parserOnce = True, parser = p\<rparr>) (\<lambda>_.
       ret (if err = None then Returned p else Panicked))))"

definition NewTypeConverter ::
  "(schema \<Rightarrow> 'p option \<times> goerror option) \<Rightarrow> ('s \<Rightarrow> 'p option \<Rightarrow> 'c) \<Rightarrow> 's \<Rightarrow> ('p package, 'c outcome) state" where
  "NewTypeConverter NewParser NewSchemeTypeConverter scheme = State_Monad.bind (Parser NewParser) (\<lambda>r. ret (case r of
      Returned p \<Rightarrow> Returned (NewSchemeTypeConverter scheme p)
    | Panicked \<Rightarrow> Panicked))"

text \<open>The schema is parsed once: later calls return what the first has stored and change nothing.\<close>

lemma Parser_once: "run (Parser NewParser) g = (r, g') \<Longrightarrow> run (Parser other) g' = (Returned (parser g'), g')"
  by (auto simp: Parser_def split: if_splits prod.splits)

section \<open>Conformance\<close>

definition resolve :: "schema \<Rightarrow> type_ref \<Rightarrow> atom option" where
  "resolve S r = (case r of Named n \<Rightarrow> map_of S n | Inlined a \<Rightarrow> Some a)"

definition allows :: "schema \<Rightarrow> type_ref \<Rightarrow> scalar \<Rightarrow> bool" where
  "allows S r s = (case resolve S r of Some (Atom (Some t) _ _) \<Rightarrow> t = s \<or> t = ScUntyped | _ \<Rightarrow> False)"

definition list_type_of :: "schema \<Rightarrow> type_ref \<Rightarrow> list_type option" where
  "list_type_of S r = (case resolve S r of Some (Atom _ l _) \<Rightarrow> l | None \<Rightarrow> None)"

definition map_type_of :: "schema \<Rightarrow> type_ref \<Rightarrow> map_type option" where
  "map_type_of S r = (case resolve S r of Some (Atom _ _ m) \<Rightarrow> m | None \<Rightarrow> None)"

definition field_type :: "map_type \<Rightarrow> string \<Rightarrow> type_ref option" where
  "field_type t k = (case t of MapType fs _ e _ \<Rightarrow> (case map_of fs k of Some r \<Rightarrow> Some r | None \<Rightarrow> e))"

definition default_of :: "schema \<Rightarrow> type_ref \<Rightarrow> string \<Rightarrow> json option" where
  "default_of S r k = (case map_type_of S r of Some (MapType _ ds _ _) \<Rightarrow> map_of ds k | None \<Rightarrow> None)"

definition key_of :: "schema \<Rightarrow> type_ref \<Rightarrow> string list \<Rightarrow> json \<Rightarrow> json option list" where
  "key_of S r ks j = map (\<lambda>k. case j of
      JObject fs \<Rightarrow> (case map_of fs k of None \<Rightarrow> default_of S r k | Some v \<Rightarrow> Some v)
    | _ \<Rightarrow> None) ks"

definition is_scalar :: "json \<Rightarrow> bool" where
  "is_scalar j = (case j of JBool _ \<Rightarrow> True | JNumber _ \<Rightarrow> True | JString _ \<Rightarrow> True | _ \<Rightarrow> False)"

text \<open>The elements of an associative list are told apart by their keys, or are different scalars if there are no keys.\<close>

definition keyed :: "schema \<Rightarrow> list_type \<Rightarrow> json list \<Rightarrow> bool" where
  "keyed S t js = (case t of ListType r rel ks \<Rightarrow> rel \<noteq> Associative \<or>
     (if ks = [] then (\<forall>j\<in>set js. is_scalar j) \<and> distinct js
      else (\<forall>j\<in>set js. None \<notin> set (key_of S r ks j)) \<and> distinct (map (key_of S r ks) js)))"

fun conforms :: "schema \<Rightarrow> type_ref \<Rightarrow> json \<Rightarrow> bool" where
  "conforms S r JNull = (resolve S r \<noteq> None)"
| "conforms S r (JBool b) = allows S r ScBoolean"
| "conforms S r (JNumber i) = allows S r ScNumeric"
| "conforms S r (JString s) = allows S r ScString"
| "conforms S r (JList js) = (case list_type_of S r of None \<Rightarrow> False
    | Some (ListType e rel ks) \<Rightarrow> (\<forall>j\<in>set js. conforms S e j) \<and> keyed S (ListType e rel ks) js)"
| "conforms S r (JObject fs) = (case map_type_of S r of None \<Rightarrow> False
    | Some t \<Rightarrow> (\<forall>f\<in>set fs. case field_type t (fst f) of None \<Rightarrow> False | Some e \<Rightarrow> conforms S e (snd f)))"

text \<open>The fields of an object, one by one.\<close>

definition fits :: "schema \<Rightarrow> map_type \<Rightarrow> (string \<times> json) list \<Rightarrow> bool" where
  "fits S t fs \<longleftrightarrow> (\<forall>f\<in>set fs. case field_type t (fst f) of None \<Rightarrow> False | Some e \<Rightarrow> conforms S e (snd f))"

lemma fits_simps [simp]:
  "fits S t []" "fits S t (fs @ gs) \<longleftrightarrow> fits S t fs \<and> fits S t gs"
  "fits S t (f # fs) \<longleftrightarrow> (case field_type t (fst f) of None \<Rightarrow> False | Some e \<Rightarrow> conforms S e (snd f)) \<and> fits S t fs"
  by (auto simp: fits_def)

lemma fits_fields [simp]:
  "fits S t (opt_field k f v) \<longleftrightarrow> (\<forall>x. v = Some x \<longrightarrow> (\<exists>e. field_type t k = Some e \<and> conforms S e (f x)))"
  "fits S t (list_field k f xs) \<longleftrightarrow> xs = [] \<or> (\<exists>e. field_type t k = Some e \<and> conforms S e (JList (map f xs)))"
  by (auto simp: opt_field_def list_field_def split: option.splits)

lemma fits_map_field [simp]: "field_type t k = Some string_map \<Longrightarrow> fits S t (map_field k m)"
  by (auto simp: map_field_def string_map_def map_type_of_def resolve_def field_type_def str_def sc_def allows_def split: option.split list.split)

lemma conforms_object: "conforms S r (JObject fs) \<longleftrightarrow> (\<exists>t. map_type_of S r = Some t \<and> fits S t fs)"
  by (simp add: fits_def split: option.split)

declare conforms.simps(6) [simp del]

lemma allows_in_place [simp]:
  "allows S str ScString" "allows S num ScNumeric" "allows S (Inlined (sc ScBoolean)) ScBoolean"
  by (simp_all add: str_def num_def sc_def allows_def resolve_def)

lemma lookups:
  "map_of schemaYAML (op ''AdminState'') = Some (sc ScString)"
  "map_of schemaYAML (op ''OperationState'') = Some (sc ScString)"
  "map_of schemaYAML (op ''SwitchInterfaceState'') = Some (sc ScString)"
  "map_of schemaYAML (mv ''ConditionStatus'') = Some (sc ScString)"
  "map_of schemaYAML ''io.k8s.apimachinery.pkg.types.UID'' = Some (sc ScString)"
  "map_of schemaYAML (mv ''Time'') = Some (sc ScUntyped)"
  by (simp_all add: schema_defs)

lemma structs:
  "map_type_of schemaYAML (Named (op ''Neighbor'')) = Some (MapType [(''interfaceHandle'', str), (''macAddress'', str), (''systemName'', str)] [] None None)"
  "map_type_of schemaYAML (Named (op ''SwitchInterface'')) = Some (MapType [(''apiVersion'', str), (''kind'', str), (''metadata'', Named (mv ''ObjectMeta'')),
     (''spec'', Named (op ''SwitchInterfaceSpec'')), (''status'', Named (op ''SwitchInterfaceStatus''))] [] None None)"
  "map_type_of schemaYAML (Named (op ''SwitchInterfaceSpec'')) = Some (MapType [(''adminState'', Named (op ''AdminState'')), (''handle'', str), (''nativeName'', str),
     (''switchRef'', Named ''io.k8s.api.core.v1.LocalObjectReference'')] [] None None)"
  "map_type_of schemaYAML (Named (op ''SwitchInterfaceStatus'')) = Some (MapType [(''adminState'', Named (op ''AdminState'')), (''aliasName'', str),
     (''conditions'', list_of (Named (mv ''Condition'')) Associative [''type'']), (''macAddress'', str),
     (''neighbor'', Named (op ''Neighbor'')), (''operationalState'', Named (op ''OperationState'')), (''state'', Named (op ''SwitchInterfaceState''))] [] None None)"
  "map_type_of schemaYAML (Named ''io.k8s.api.core.v1.LocalObjectReference'') = Some (MapType [(''name'', str)] [(''name'', JString [])] None (Some Atomic))"
  "map_type_of schemaYAML (Named (mv ''Condition'')) = Some (MapType [(''lastTransitionTime'', Named (mv ''Time'')), (''message'', str), (''observedGeneration'', num),
     (''reason'', str), (''status'', Named (mv ''ConditionStatus'')), (''type'', str)] [] None None)"
  "map_type_of schemaYAML (Named (mv ''OwnerReference'')) = Some (MapType [(''apiVersion'', str), (''blockOwnerDeletion'', Inlined (sc ScBoolean)),
     (''controller'', Inlined (sc ScBoolean)), (''kind'', str), (''name'', str), (''uid'', Named ''io.k8s.apimachinery.pkg.types.UID'')] [] None (Some Atomic))"
  by (simp_all add: schema_defs map_type_of_def resolve_def struct_def)

lemma struct_ObjectMeta:
  "map_type_of schemaYAML (Named (mv ''ObjectMeta'')) = Some (MapType [(''annotations'', string_map), (''creationTimestamp'', Named (mv ''Time'')),
     (''deletionGracePeriodSeconds'', num), (''deletionTimestamp'', Named (mv ''Time'')), (''finalizers'', list_of str Associative []),
     (''generateName'', str), (''generation'', num), (''labels'', string_map), (''managedFields'', list_of (Named (mv ''ManagedFieldsEntry'')) Atomic []),
     (''name'', str), (''namespace'', str), (''ownerReferences'', list_of (Named (mv ''OwnerReference'')) Associative [''uid'']),
     (''resourceVersion'', str), (''selfLink'', str), (''uid'', Named ''io.k8s.apimachinery.pkg.types.UID'')] [] None None)"
  by (simp add: schema_defs map_type_of_def resolve_def struct_def)

lemma allows_named [simp]:
  "allows schemaYAML (Named (op ''AdminState'')) ScString" "allows schemaYAML (Named (op ''OperationState'')) ScString"
  "allows schemaYAML (Named (op ''SwitchInterfaceState'')) ScString" "allows schemaYAML (Named (mv ''ConditionStatus'')) ScString"
  "allows schemaYAML (Named ''io.k8s.apimachinery.pkg.types.UID'') ScString" "allows schemaYAML (Named (mv ''Time'')) ScString"
  by (simp_all add: allows_def resolve_def lookups sc_def)

lemma conforms_list_of: "conforms S (list_of t r ks) (JList js) \<longleftrightarrow> (\<forall>j\<in>set js. conforms S t j) \<and> keyed S (ListType t r ks) js"
  by (simp add: list_of_def list_type_of_def resolve_def)

declare conforms.simps(5) [simp del]

lemma json_parts_conform:
  "conforms schemaYAML (Named (op ''Neighbor'')) (json_neighbor n)"
  "conforms schemaYAML (Named (op ''SwitchInterfaceSpec'')) (json_spec sp)"
  "conforms schemaYAML (Named (mv ''OwnerReference'')) (json_owner r)"
  "conforms schemaYAML (Named (mv ''Condition'')) (json_condition c)"
  by (simp_all add: json_neighbor_def json_spec_def json_owner_def json_condition_def conforms_object structs field_type_def)

text \<open>The keys of the associative lists.\<close>

lemma map_of_opt_field [simp]: "map_of (opt_field k f v) k' = (if k' = k then map_option f v else None)"
  by (simp add: opt_field_def split: option.split)

lemma no_defaults [simp]:
  "default_of schemaYAML (Named (mv ''OwnerReference'')) k = None" "default_of schemaYAML (Named (mv ''Condition'')) k = None"
  by (simp_all add: default_of_def structs)

lemma keys [simp]:
  "key_of schemaYAML (Named (mv ''OwnerReference'')) [''uid''] (json_owner r) = [map_option JString (or_UID r)]"
  "key_of schemaYAML (Named (mv ''Condition'')) [''type''] (json_condition c) = [map_option JString (co_Type c)]"
  by (auto simp: key_of_def json_owner_def json_condition_def map_add_def split: option.split)

lemma keyed_by:
  assumes "\<And>x. key_of S t [k] (f x) = [map_option JString (g x)]"
  shows "keyed S (ListType t Associative [k]) (map f xs) \<longleftrightarrow> (\<forall>x\<in>set xs. g x \<noteq> None) \<and> distinct (map g xs)"
proof -
  have "inj (\<lambda>v. [map_option JString v])" by (rule injI) (metis json.inject(3) list.inject option.inj_map_strong)
  then have "distinct (map (\<lambda>v. [map_option JString v]) (map g xs)) \<longleftrightarrow> distinct (map g xs)" by (metis distinct_map inj_on_subset subset_UNIV)
  then show ?thesis by (simp add: keyed_def assms comp_def)
qed

lemma keyed_values: "keyed S (ListType t Associative []) (map JString xs) \<longleftrightarrow> distinct xs"
  by (simp add: keyed_def is_scalar_def distinct_map inj_on_def)

lemma conforms_meta:
  "conforms schemaYAML (Named (mv ''ObjectMeta'')) (json_meta m) \<longleftrightarrow> distinct (om_Finalizers m) \<and>
     (\<forall>r\<in>set (om_OwnerReferences m). or_UID r \<noteq> None) \<and> distinct (map or_UID (om_OwnerReferences m))"
  by (simp add: json_meta_def conforms_object struct_ObjectMeta field_type_def conforms_list_of json_parts_conform keyed_by keyed_values) auto

lemma conforms_status:
  "conforms schemaYAML (Named (op ''SwitchInterfaceStatus'')) (json_status t) \<longleftrightarrow>
     (\<forall>c\<in>set (tac_Conditions t). co_Type c \<noteq> None) \<and> distinct (map co_Type (tac_Conditions t))"
  by (simp add: json_status_def conforms_object structs field_type_def conforms_list_of json_parts_conform keyed_by) auto

lemma conforms_configuration:
  "conforms schemaYAML (Named (op ''SwitchInterface'')) (json_of b) \<longleftrightarrow>
     (\<forall>m. ac_ObjectMeta b = Some m \<longrightarrow> conforms schemaYAML (Named (mv ''ObjectMeta'')) (json_meta m)) \<and>
     (\<forall>t. ac_Status b = Some t \<longrightarrow> conforms schemaYAML (Named (op ''SwitchInterfaceStatus'')) (json_status t))"
  by (simp add: json_of_def conforms_object structs field_type_def json_parts_conform)

text \<open>Property C21. A configuration of a \<open>SwitchInterface\<close>, whichever of its fields were set with whatever values, conforms to the schema
  if and only if the elements of its associative lists can be told apart: no finalizer is given twice, owner references have
  different UIDs and conditions have different types.\<close>

theorem configuration_conforms:
  "conforms schemaYAML (Named (op ''SwitchInterface'')) (json_of b) \<longleftrightarrow>
    (\<forall>m. ac_ObjectMeta b = Some m \<longrightarrow> distinct (om_Finalizers m) \<and>
       (\<forall>r\<in>set (om_OwnerReferences m). or_UID r \<noteq> None) \<and> distinct (map or_UID (om_OwnerReferences m))) \<and>
    (\<forall>t. ac_Status b = Some t \<longrightarrow> (\<forall>c\<in>set (tac_Conditions t). co_Type c \<noteq> None) \<and> distinct (map co_Type (tac_Conditions t)))"
  by (simp only: conforms_configuration conforms_meta conforms_status)

text \<open>The property at a configuration with different finalizers, and at one with the same finalizer twice.\<close>

theorem configuration_conforms_witness:
  "conforms schemaYAML (Named (op ''SwitchInterface'')) (json_of (ac_WithFinalizers [''a'', ''b''] (ac_SwitchInterface ''leaf-1-eth0-0''))) \<and>
   \<not> conforms schemaYAML (Named (op ''SwitchInterface'')) (json_of (ac_WithFinalizers [''a'', ''a''] (ac_SwitchInterface ''leaf-1-eth0-0'')))"
  unfolding configuration_conforms
  by (simp add: ac_WithFinalizers_def ac_SwitchInterface_def identify_def upd_meta_def ensureObjectMetaApplyConfigurationExists_def
      empty_AC_def empty_ObjectMetaAC_def ac_WithName_def ac_WithKind_def ac_WithAPIVersion_def)

text \<open>Property C22. What \<open>EnsureInterface\<close> applies with force, and so takes ownership of: name and owner reference of the object and the four
  fields of its specification, nothing of its status; and it conforms to the schema.\<close>

theorem EnsureInterface_applies:
  assumes "m_Name (sw_Meta s) \<noteq> []"
  shows "\<exists>ac. interface_apply s iface adminState = Returned ac \<and> conforms schemaYAML (Named (op ''SwitchInterface'')) (json_of ac) \<and>
    json_of ac = JObject [(''kind'', JString ''SwitchInterface''), (''apiVersion'', JString GroupVersion),
      (''metadata'', JObject [(''name'', JString (ToLower (m_Name (sw_Meta s) @ ''-'' @ i_Name iface))),
        (''ownerReferences'', JList [JObject [(''apiVersion'', JString GroupVersion), (''kind'', JString ''Switch''),
          (''name'', JString (m_Name (sw_Meta s))), (''uid'', JString (m_UID (sw_Meta s))), (''controller'', JBool True), (''blockOwnerDeletion'', JBool True)]])]),
      (''spec'', JObject [(''handle'', JString (i_Name iface)), (''nativeName'', JString (NativeName iface)),
        (''switchRef'', JObject [(''name'', JString (m_Name (sw_Meta s)))]), (''adminState'', JString adminState)])]"
proof -
  let ?ac = "\<lparr>ac_Kind = Some ''SwitchInterface'', ac_APIVersion = Some ''sonic.networking.metal.ironcore.dev/v1alpha1'',
     ac_ObjectMeta = Some (empty_ObjectMetaAC\<lparr>om_Name := Some (ToLower (m_Name (sw_Meta s) @ ''-'' @ i_Name iface)), om_OwnerReferences := [owner_reference s]\<rparr>),
     ac_Spec = Some \<lparr>sac_Handle = Some (i_Name iface), sac_NativeName = Some (NativeName iface), sac_SwitchRef = Some (m_Name (sw_Meta s)),
       sac_AdminState = Some adminState\<rparr>, ac_Status = None\<rparr>"
  have "conforms schemaYAML (Named (op ''SwitchInterface'')) (json_of ?ac)"
    by (simp add: conforms_configuration conforms_meta empty_ObjectMetaAC_def owner_reference_def)
  with assms interface_apply_returns [of s iface adminState] show ?thesis
    by (simp add: json_of_def json_meta_def json_owner_def json_spec_def opt_field_def list_field_def map_field_def
        empty_ObjectMetaAC_def owner_reference_def GroupVersion_def)
qed

text \<open>A switch as the API server stores it.\<close>

definition named_switch :: Switch where
  "named_switch = \<lparr>sw_Meta = \<lparr>m_Name = ''leaf1'', m_Namespace = [], m_UID = ''42'', m_Finalizers = [], m_DeletionTimestamp = None\<rparr>,
     sw_Spec = \<lparr>Hostname = [], s_Management = \<lparr>Host = [], Port = []\<rparr>, s_ZTP = None, Containers = [], Volumes = [],
       s_NextBootMode = [], s_MacAddress = [], s_Ports = []\<rparr>,
     sw_Status = \<lparr>sw_State = SwitchStateReady, sw_Ports = [], MACAddress = [], FirmwareVersion = [], SKU = []\<rparr>\<rparr>"

theorem EnsureInterface_applies_witness:
  "\<exists>ac. interface_apply named_switch \<lparr>i_Kind = InterfaceKind, i_Name = ''eth0-0'', NativeName = ''Ethernet0'', AliasName = [], i_MacAddress = [],
       OperationStatus = StatusUp, AdminStatus = StatusUp, i_Status = \<lparr>Code = 0, Message = ''ok''\<rparr>\<rparr> AdminStateUp = Returned ac \<and>
     conforms schemaYAML (Named (op ''SwitchInterface'')) (json_of ac)"
  using EnsureInterface_applies [of named_switch] by (fastforce simp: named_switch_def)

end
