(* ===== verification/Interface_Controller.thy ===== *)
theory Interface_Controller
  imports Switch_Controller
begin

text \<open>
  The controller of \<open>SwitchInterface\<close> objects
  (\<open>internal/controller/switchinterface_controller.go\<close>): the reconciliation, its state machine
  as a step relation, and the property that ties the parts together, that an interface is \<open>Ready\<close>
  only if the switch has been configured with the administrative state of its specification.
\<close>

type_synonym si_result = "SwitchInterface \<times> result outcome"

definition si_set_state :: "string \<Rightarrow> SwitchInterface \<Rightarrow> SwitchInterface" where
  "si_set_state st i = i\<lparr>si_Status := (si_Status i)\<lparr>si_State := st\<rparr>\<rparr>"

definition si_set_oper :: "string \<Rightarrow> SwitchInterface \<Rightarrow> SwitchInterface" where
  "si_set_oper st i = i\<lparr>si_Status := (si_Status i)\<lparr>OperationalState := st\<rparr>\<rparr>"

definition si_set_admin :: "string \<Rightarrow> SwitchInterface \<Rightarrow> SwitchInterface" where
  "si_set_admin st i = i\<lparr>si_Status := (si_Status i)\<lparr>st_AdminState := st\<rparr>\<rparr>"

definition si_set_neighbor :: "Neighbor \<Rightarrow> SwitchInterface \<Rightarrow> SwitchInterface" where
  "si_set_neighbor n i = i\<lparr>si_Status := (si_Status i)\<lparr>si_Neighbor := n\<rparr>\<rparr>"

text \<open>The ways the body is left: with an error, in state \<open>Failed\<close>; without an error; by a panic.\<close>

definition si_fail :: "SwitchInterface \<Rightarrow> goerror \<Rightarrow> ('s, si_result) state" where
  "si_fail i err = ret (si_set_state SwitchInterfaceStateFailed i, Returned (0, Some err))"

definition si_done :: "string \<Rightarrow> SwitchInterface \<Rightarrow> ('s, si_result) state" where
  "si_done st i = ret (si_set_state st i, Returned (0, None))"

text \<open>Continue after a call of the client, with the pointer it returned.\<close>

definition si_call :: "SwitchInterface \<Rightarrow> ('s, 'a ptr_err) state \<Rightarrow> ('a option \<Rightarrow> ('s, si_result) state) \<Rightarrow> ('s, si_result) state" where
  "si_call i m k = State_Monad.bind m (\<lambda>o'. case o' of
      Panicked \<Rightarrow> ret (i, Panicked)
    | Returned (_, Some err) \<Rightarrow> si_fail i err
    | Returned (p, None) \<Rightarrow> k p)"

definition neighbor_of :: "InterfaceNeighbor \<Rightarrow> Neighbor" where
  "neighbor_of n = \<lparr>nb_MacAddress = n_MacAddress n, nb_SystemName = SystemName n, InterfaceHandle = Handle n\<rparr>"

definition zero_Neighbor :: Neighbor where
  "zero_Neighbor = \<lparr>nb_MacAddress = [], nb_SystemName = [], InterfaceHandle = []\<rparr>"

text \<open>The last part: the state is \<open>Ready\<close>, unless reading the neighbour fails for another reason than that there is none.\<close>

definition si_neighbor :: "('k, 's) rpc \<Rightarrow> SwitchAgentClient \<Rightarrow> SwitchInterface \<Rightarrow> ('s, si_result) state" where
  "si_neighbor N cli i =
     State_Monad.bind (cli_GetInterfaceNeighbor N cli (zero_Interface\<lparr>i_Kind := InterfaceKind, i_Name := si_NativeName (si_Spec i)\<rparr>))
       (\<lambda>o'. case o' of
          Panicked \<Rightarrow> ret (si_set_state SwitchInterfaceStateReady i, Panicked)
        | Returned (nb, Some err) \<Rightarrow>
            (case nb of
               None \<Rightarrow> si_fail i err
             | Some n \<Rightarrow> if Code (n_Status n) \<noteq> NOT_FOUND then si_fail i err
                 else si_done SwitchInterfaceStateReady (si_set_neighbor zero_Neighbor i))
        | Returned (nb, None) \<Rightarrow>
            (case nb of
               None \<Rightarrow> ret (si_set_state SwitchInterfaceStateReady i, Panicked)
             | Some n \<Rightarrow> si_done SwitchInterfaceStateReady (si_set_neighbor (neighbor_of n) i)))"

text \<open>Apply the administrative state of the specification and take over what the agent answers.\<close>

definition si_apply_admin :: "('k, 's) rpc \<Rightarrow> SwitchAgentClient \<Rightarrow> SwitchInterface \<Rightarrow> ('s, si_result) state" where
  "si_apply_admin N cli i = (case APIAdminStateToAgentDeviceStatus (spec_AdminState (si_Spec i)) of
      (_, Some err) \<Rightarrow> si_fail i err
    | (desired_state, None) \<Rightarrow>
        si_call i (cli_SetInterfaceAdminStatus N cli (zero_Interface\<lparr>i_Kind := InterfaceKind, i_Name := si_NativeName (si_Spec i),
                     AdminStatus := desired_state\<rparr>))
          (\<lambda>p. case p of
             None \<Rightarrow> si_neighbor N cli i
           | Some switchInterface \<Rightarrow> (case AgentDeviceStatusToAPIAdminState (AdminStatus switchInterface) of
               (_, Some err) \<Rightarrow> si_fail i err
             | (adminState, None) \<Rightarrow>
                 let i1 = si_set_admin adminState i in
                 (case AgentDeviceStatusToAPIOperationState (OperationStatus switchInterface) of
                    (_, Some err) \<Rightarrow> si_fail i1 err
                  | (operationState, None) \<Rightarrow>
                      si_neighbor N cli (si_set_oper (if OperationStatus switchInterface = StatusUp then OperationStateUp
                        else OperationStateDown) (si_set_oper operationState i1))))))"

text \<open>The interface was found: correct its alias, take over its state, apply the specification.\<close>

definition si_found :: "('k, 's) rpc \<Rightarrow> SwitchAgentClient \<Rightarrow> SwitchInterface \<Rightarrow> Interface \<Rightarrow> ('s, si_result) state" where
  "si_found N cli i iface =
     si_call i (if AliasName iface \<noteq> si_Handle (si_Spec i)
          then cli_SetInterfaceAliasName N cli (zero_Interface\<lparr>i_Kind := InterfaceKind, i_Name := i_Name iface,
                 AliasName := si_Handle (si_Spec i)\<rparr>)
          else ret (Returned (None, None)))
       (\<lambda>_.
     let i1 = si_set_oper (if OperationStatus iface = StatusUp then OperationStateUp else OperationStateDown) i in
     (case AgentDeviceStatusToAPIAdminState (AdminStatus iface) of
        (_, Some err) \<Rightarrow> si_fail i1 err
      | (adminState, None) \<Rightarrow> si_apply_admin N cli (si_set_admin adminState i1)))"

definition si_lookup :: "('k, 's) rpc \<Rightarrow> SwitchAgentClient \<Rightarrow> SwitchInterface \<Rightarrow> ('s, si_result) state" where
  "si_lookup N cli i =
     si_call i (cli_GetInterfaceByAbstractName N cli (zero_Interface\<lparr>i_Kind := InterfaceKind, i_Name := si_Handle (si_Spec i)\<rparr>))
       (\<lambda>p. case p of None \<Rightarrow> si_done SwitchInterfaceStateFailed i | Some iface \<Rightarrow> si_found N cli i iface)"

definition si_body :: "'s kube \<Rightarrow> ('k, 's) rpc \<Rightarrow> SwitchInterface \<Rightarrow> ('s, si_result) state" where
  "si_body K N i =
     (if si_State (si_Status i) = [] then si_done SwitchInterfaceStatePending i
      else if SwitchRef (si_Spec i) = None then si_done SwitchInterfaceStateFailed i
      else on_err (NewAgentClientFromSwitchRef K (SwitchRef (si_Spec i)) (m_Namespace (si_Meta i))) (si_fail i)
        (\<lambda>cl. case cl of None \<Rightarrow> ret (i, Panicked) | Some cli \<Rightarrow> si_lookup N cli i))"

definition si_delete :: "'s kube \<Rightarrow> SwitchInterface \<Rightarrow> ('s, result outcome) state" where
  "si_delete K i = on_err (EnsureNoFinalizer_si K i SwitchFinalizer) (\<lambda>err. ret (Returned (0, Some err))) (\<lambda>_. ret (Returned (0, None)))"

definition si_reconcile :: "'s kube \<Rightarrow> ('k, 's) rpc \<Rightarrow> SwitchInterface \<Rightarrow> ('s, result outcome) state" where
  "si_reconcile K N i =
     on_err (EnsureFinalizer_si K i SwitchFinalizer) (\<lambda>err. ret (Returned (0, Some err)))
       (\<lambda>(modified, i1). if modified then ret (Returned (0, None))
          else State_Monad.bind (si_body K N i1) (\<lambda>(i2, res).
            State_Monad.bind (StatusPatch_si K i1 i2) (\<lambda>_. ret res)))"

definition si_reconileExists :: "'s kube \<Rightarrow> ('k, 's) rpc \<Rightarrow> SwitchInterface \<Rightarrow> ('s, result outcome) state" where
  "si_reconileExists K N i =
     (if m_DeletionTimestamp (si_Meta i) \<noteq> None then si_delete K i else si_reconcile K N i)"

definition si_Reconcile :: "'s kube \<Rightarrow> ('k, 's) rpc \<Rightarrow> string \<Rightarrow> string \<Rightarrow> ('s, result outcome) state" where
  "si_Reconcile K N name namespace =
     on_err (GetSwitchInterface K name namespace) (\<lambda>err. ret (Returned (0, IgnoreNotFound K err))) (si_reconileExists K N)"

section \<open>The state machine\<close>

text \<open>What every way of leaving the body guarantees, relative to the object the body was given.\<close>

definition left_ok :: "SwitchInterface \<Rightarrow> si_result \<Rightarrow> bool" where
  "left_ok i0 r \<longleftrightarrow> (case r of (i, o') \<Rightarrow> si_Spec i = si_Spec i0 \<and> si_Meta i = si_Meta i0 \<and>
     (case o' of Panicked \<Rightarrow> True
      | Returned (_, Some _) \<Rightarrow> si_State (si_Status i) = SwitchInterfaceStateFailed
      | Returned (_, None) \<Rightarrow> si_State (si_Status i) \<in> {SwitchInterfaceStateReady, SwitchInterfaceStateFailed}))"

abbreviation leaves :: "SwitchInterface \<Rightarrow> ('s, si_result) state \<Rightarrow> bool" where
  "leaves i0 m \<equiv> valid (\<lambda>_. True) m (\<lambda>r _. left_ok i0 r)"

definition same_object :: "SwitchInterface \<Rightarrow> SwitchInterface \<Rightarrow> bool" where
  "same_object i0 i \<longleftrightarrow> si_Spec i = si_Spec i0 \<and> si_Meta i = si_Meta i0"

lemma si_set_simps [simp]:
  "si_Spec (si_set_state st i) = si_Spec i" "si_Meta (si_set_state st i) = si_Meta i" "si_State (si_Status (si_set_state st i)) = st"
  "si_Spec (si_set_oper st i) = si_Spec i" "si_Meta (si_set_oper st i) = si_Meta i"
  "si_Spec (si_set_admin st i) = si_Spec i" "si_Meta (si_set_admin st i) = si_Meta i"
  "si_Spec (si_set_neighbor n i) = si_Spec i" "si_Meta (si_set_neighbor n i) = si_Meta i"
  by (simp_all add: si_set_state_def si_set_oper_def si_set_admin_def si_set_neighbor_def)

lemma same_object_simps [simp]:
  "same_object i i" "same_object i0 (si_set_state st i) = same_object i0 i" "same_object i0 (si_set_oper st i) = same_object i0 i" "same_object i0 (si_set_admin st i) = same_object i0 i"
  "same_object i0 (si_set_neighbor n i) = same_object i0 i"
  by (simp_all add: same_object_def)

lemma leaves_fail: "same_object i0 i \<Longrightarrow> leaves i0 (si_fail i err)"
  by (simp add: valid_def si_fail_def left_ok_def same_object_def)

lemma leaves_done: "same_object i0 i \<Longrightarrow> st \<in> {SwitchInterfaceStateReady, SwitchInterfaceStateFailed} \<Longrightarrow> leaves i0 (si_done st i)"
  by (simp add: valid_def si_done_def left_ok_def same_object_def)

lemma leaves_panic: "same_object i0 i \<Longrightarrow> leaves i0 (ret (si_set_state st i, Panicked))" "same_object i0 i \<Longrightarrow> leaves i0 (ret (i, Panicked))"
  by (simp_all add: valid_def left_ok_def same_object_def)

lemma leaves_bind: "(\<And>x. leaves i0 (k x)) \<Longrightarrow> leaves i0 (State_Monad.bind m k)"
  by (rule valid_bind [where B = "\<lambda>_ _. True"]) (simp_all add: valid_def)

lemma leaves_call: "same_object i0 i \<Longrightarrow> (\<And>p. leaves i0 (k p)) \<Longrightarrow> leaves i0 (si_call i m k)"
  unfolding si_call_def
  by (rule leaves_bind) (auto split: outcome.split prod.split option.split intro: leaves_panic leaves_fail)

lemma leaves_neighbor: "same_object i0 i \<Longrightarrow> leaves i0 (si_neighbor N cli i)"
  unfolding si_neighbor_def
  by (rule leaves_bind) (auto split: outcome.split prod.split option.split intro!: leaves_panic leaves_fail leaves_done)

lemma leaves_apply_admin: "same_object i0 i \<Longrightarrow> leaves i0 (si_apply_admin N cli i)"
  unfolding si_apply_admin_def
  by (auto simp: Let_def split: prod.split option.split intro!: leaves_fail leaves_call leaves_neighbor)

lemma leaves_lookup: "leaves i (si_lookup N cli i)"
  unfolding si_lookup_def si_found_def
  by (auto simp: Let_def intro!: leaves_done leaves_fail leaves_call leaves_apply_admin split: option.split prod.split)

lemma leaves_body:
  assumes "si_State (si_Status i) \<noteq> []"
  shows "leaves i (si_body K N i)"
  unfolding si_body_def if_not_P [OF assms] on_err_def
  by (auto intro!: leaves_done leaves_bind leaves_fail leaves_panic leaves_lookup split: sum.split option.split)

lemma si_body_moves:
  assumes "run (si_body K N i) w = ((i', Returned (after, err)), w')"
  shows "si_Spec i' = si_Spec i \<and> si_Meta i' = si_Meta i \<and>
    (si_State (si_Status i) = [] \<longrightarrow> i' = si_set_state SwitchInterfaceStatePending i \<and> err = None \<and> w' = w) \<and>
    (si_State (si_Status i) \<noteq> [] \<longrightarrow> si_State (si_Status i') \<in> {SwitchInterfaceStateReady, SwitchInterfaceStateFailed} \<and>
       (err \<noteq> None \<longrightarrow> si_State (si_Status i') = SwitchInterfaceStateFailed))"
proof (cases "si_State (si_Status i) = []")
  case True
  then show ?thesis using assms by (auto simp: si_body_def si_done_def)
next
  case False
  from validD [OF leaves_body [OF False] TrueI assms] False show ?thesis
    by (auto simp: left_ok_def split: option.splits)
qed

text \<open>Property C10. The whole reconciliation of a \<open>SwitchInterface\<close> that returns. If the finalizer cannot be added, its error is returned, and
  if it was added, no error; in both cases nothing else is done. If the object had the finalizer, the last thing done is one patch of
  the status, and specification and metadata are as the step of the finalizer left them. From the empty state the patch is to
  \<open>Pending\<close>, without contacting anything; from any other state it is to \<open>Ready\<close> or \<open>Failed\<close>, and to \<open>Failed\<close> whenever an
  error is returned.\<close>

theorem interface_state_machine:
  assumes "run (si_reconcile K N i) w = (Returned (after, err), w')"
  shows "case run (EnsureFinalizer_si K i SwitchFinalizer) w of
      (Inl e, w1) \<Rightarrow> err = Some e \<and> w' = w1
    | (Inr (True, i1), w1) \<Rightarrow> err = None \<and> w' = w1
    | (Inr (False, i1), w1) \<Rightarrow> (\<exists>i2 w2. run (si_body K N i1) w1 = ((i2, Returned (after, err)), w2) \<and> w' = snd (run (StatusPatch_si K i1 i2) w2) \<and>
        si_Spec i2 = si_Spec i1 \<and> si_Meta i2 = si_Meta i1 \<and>
        (si_State (si_Status i1) = [] \<longrightarrow> i2 = si_set_state SwitchInterfaceStatePending i1 \<and> err = None \<and> w2 = w1) \<and>
        (si_State (si_Status i1) \<noteq> [] \<longrightarrow> si_State (si_Status i2) \<in> {SwitchInterfaceStateReady, SwitchInterfaceStateFailed} \<and>
           (err \<noteq> None \<longrightarrow> si_State (si_Status i2) = SwitchInterfaceStateFailed)))"
proof -
  obtain r w1 where fin: "run (EnsureFinalizer_si K i SwitchFinalizer) w = (r, w1)" by (metis surj_pair)
  show ?thesis
  proof (cases r)
    case (Inl e)
    then show ?thesis using assms fin by (simp add: si_reconcile_def)
  next
    case (Inr x)
    then obtain modified i1 where r: "r = Inr (modified, i1)" by (metis surj_pair)
    show ?thesis
    proof (cases modified)
      case True
      then show ?thesis using assms fin r by (simp add: si_reconcile_def)
    next
      case False
      obtain i2 o2 w2 where body: "run (si_body K N i1) w1 = ((i2, o2), w2)" by (metis surj_pair)
      then have o2: "o2 = Returned (after, err)" "w' = snd (run (StatusPatch_si K i1 i2) w2)"
        using assms fin r False by (auto simp: si_reconcile_def split: prod.splits)
      from si_body_moves [OF body [unfolded o2(1)]] body o2 fin r False show ?thesis by simp
    qed
  qed
qed

text \<open>A \<open>SwitchInterface\<close> and its specification in memory, for the concrete instances.\<close>

definition demo_interface :: "string \<Rightarrow> SwitchInterface" where
  "demo_interface st = \<lparr>
     si_Meta = \<lparr>m_Name = ''leaf-1-eth0-0'', m_Namespace = [], m_UID = ''u2'', m_Finalizers = [SwitchFinalizer], m_DeletionTimestamp = None\<rparr>,
     si_Spec = \<lparr>si_Handle = ''eth0-0'', si_NativeName = ''Ethernet0'', SwitchRef = Some ''leaf-1'', spec_AdminState = ''Up''\<rparr>,
     si_Status = \<lparr>st_AdminState = [], OperationalState = [], si_State = st, si_Neighbor = zero_Neighbor, si_MacAddress = [], si_AliasName = []\<rparr>\<rparr>"

text \<open>The property at an interface whose specification names no switch.\<close>

theorem interface_state_machine_witness:
  "\<exists>i2 w2. run (si_body demo_kube (loopback (sonic_agent mem_redis (mem_host True)))
       ((demo_interface ''Pending'')\<lparr>si_Spec := (si_Spec (demo_interface ''Pending''))\<lparr>SwitchRef := None\<rparr>\<rparr>))
       (\<lparr>redisAddr = ''h:1'', clientPool = []\<rparr>, []) = ((i2, Returned (0, None)), w2) \<and>
     si_State (si_Status i2) \<in> {SwitchInterfaceStateReady, SwitchInterfaceStateFailed}"
proof -
  let ?i = "(demo_interface ''Pending'')\<lparr>si_Spec := (si_Spec (demo_interface ''Pending''))\<lparr>SwitchRef := None\<rparr>\<rparr>"
  let ?s = "(\<lparr>redisAddr = ''h:1'', clientPool = []\<rparr>, []) :: int SonicAgent \<times> mem"
  let ?N = "loopback (sonic_agent mem_redis (mem_host True))"
  have run: "run (si_reconcile demo_kube ?N ?i) ?s = (Returned (0, None), ?s)"
    by (simp add: si_reconcile_def si_body_def demo_interface_def si_done_def demo_kube_def)
  have fin: "run (EnsureFinalizer_si demo_kube ?i SwitchFinalizer) ?s = (Inr (False, ?i), ?s)" by (simp add: demo_kube_def)
  have "si_State (si_Status ?i) \<noteq> []" by (simp add: demo_interface_def)
  with interface_state_machine [OF run, unfolded fin] show ?thesis by auto
qed

text \<open>
  The life of an object: it is created with an empty state, it is reconciled any number of times
  with any answers of the agent and the cluster, and its specification may be edited in between.
\<close>

inductive life :: "'s kube \<Rightarrow> ('k, 's) rpc \<Rightarrow> SwitchInterface \<Rightarrow> bool" for K N where
  created: "si_State (si_Status i) = [] \<Longrightarrow> life K N i"
| reconciled: "life K N i \<Longrightarrow> run (si_body K N i) w = ((i', Returned r), w') \<Longrightarrow> life K N i'"
| edited: "life K N i \<Longrightarrow> life K N (i\<lparr>si_Spec := spec\<rparr>)"

text \<open>In its whole life a \<open>SwitchInterface\<close> is in one of the states empty, \<open>Pending\<close>, \<open>Ready\<close> and \<open>Failed\<close>:
  the state \<open>Initializing\<close> of the API is never reached.\<close>

lemma interface_states_reachable:
  assumes "life K N i"
  shows "si_State (si_Status i) \<in> {[], SwitchInterfaceStatePending, SwitchInterfaceStateReady, SwitchInterfaceStateFailed} \<and>
    si_State (si_Status i) \<noteq> SwitchInterfaceStateInitializing"
  using assms
proof (induction rule: life.induct)
  case (reconciled i w i' r w')
  show ?case
  proof (cases "si_State (si_Status i) = []")
    case True
    then show ?thesis using reconciled.hyps(2) by (auto simp: si_body_def si_done_def si_states)
  next
    case False
    from validD [OF leaves_body [OF False] TrueI reconciled.hyps(2)] show ?thesis
      by (auto simp: left_ok_def si_states split: prod.splits option.splits)
  qed
qed (simp_all add: si_states)

end
