(* ===== verification/Interface_EndToEnd.thy ===== *)
theory Interface_EndToEnd
  imports Interface_Controller
begin

text \<open>
  The property that spans the operator: controller, client, server, agent and database. When the
  reconciliation of a \<open>SwitchInterface\<close> ends in \<open>Ready\<close>, CONFIG\_DB of the switch has the
  administrative state of the specification, and the alias of the port is the handle.

  The agent's operations are composed by their triples. Only the state of the pool and the content of
  CONFIG\_DB matter here, so the server need not be reachable throughout.
\<close>

abbreviation has_config :: "('c, 'w) store_view \<Rightarrow> (string \<Rightarrow> string \<rightharpoonup> string) \<Rightarrow> 'c SonicAgent \<times> 'w \<Rightarrow> bool" where
  "has_config V cfg \<equiv> steady V False cfg"

text \<open>What the agent reports of an interface is what CONFIG\_DB holds.\<close>

lemma GetInterface_valid:
  assumes c: "redis_contract R V" and h: "host_contract H V" and n: "iface_name (Some iface) = Inr n"
  shows "valid (has_config V cfg) (GetInterface R H (Some iface)) (\<lambda>r s. has_config V cfg s \<and>
    (\<forall>i. r = Inr i \<longrightarrow> cfg (''PORT|'' @ n) ''alias'' = Some (AliasName i) \<and> NativeNameToAbstractName n = Inr (i_Name i)))"
proof -
  have keep: "keeps (has_config V cfg) (GetInterface R H (Some iface))"
    unfolding GetInterface_def Let_def by (intro keeps_rules c h)
  have "valid (has_config V cfg) (GetInterface R H (Some iface)) (\<lambda>r s.
    (\<forall>i. r = Inr i \<longrightarrow> cfg (''PORT|'' @ n) ''alias'' = Some (AliasName i) \<and> NativeNameToAbstractName n = Inr (i_Name i)))"
    unfolding GetInterface_def name_or_def n sum.case Let_def
    apply (rule valid_connect_or [OF c], simp)
     apply (rule valid_connect_or [OF c], simp)
      apply (rule valid_on_err_pure [OF valid_keeps [OF keeps_reads(3) [OF c]]])
       apply (rule valid_fail, simp)
      apply (split if_split, intro conjI impI)
       apply (rule valid_fail, simp)
      apply (rule valid_bind_pure [OF valid_keeps [OF keeps_reads(2) [OF c]]])
      apply (rule valid_connect_or [OF c], simp)
       apply (rule valid_bind_pure [OF valid_keeps [OF keeps_reads(2) [OF c]]])
       apply (rule valid_on_err_pure [OF valid_keeps [OF keeps_host(1) [OF h]]])
        apply (rule valid_fail, simp)
       apply (split option.split, intro conjI impI allI)
        apply (rule valid_fail, simp)
       apply (rule valid_on_err_pure [OF valid_HGet [OF c]], simp)
        apply (rule valid_fail, simp)
       apply (split sum.split, intro conjI impI allI)
        apply (rule valid_fail, simp)
       apply (rule valid_ret, simp)
      apply simp_all
    done
  with keep show ?thesis unfolding keeps_def valid_def by blast
qed

section \<open>Triples of the client over a transport that delivers\<close>

lemma valid_client_get:
  assumes c: "redis_contract R V" and h: "host_contract H V" and m: "AbstractNameToNativeName (i_Name iface) = Inr m"
  shows "valid (has_config V cfg) (cli_GetInterfaceByAbstractName (loopback (sonic_agent R H)) cl iface)
    (\<lambda>o' s. has_config V cfg s \<and> (\<forall>p. o' = Returned (p, None) \<longrightarrow> (\<exists>i. p = Some i \<and>
       cfg (''PORT|'' @ m) ''alias'' = Some (AliasName i) \<and> NativeNameToAbstractName m = Inr (i_Name i))))"
proof -
  have "HasPrefix m ''Ethernet''" using m
    by (auto simp: AbstractNameToNativeName_def split: if_splits sum.splits)
  then have n: "iface_name (Some (zero_Interface\<lparr>i_Kind := InterfaceKind, i_Name := m\<rparr>)) = Inr m"
    by (auto simp: iface_name_def HasPrefix_iff)
  have "has_config V cfg s' \<and> (\<forall>p. o' = Returned (p, None) \<longrightarrow> (\<exists>i. p = Some i \<and>
       cfg (''PORT|'' @ m) ''alias'' = Some (AliasName i) \<and> NativeNameToAbstractName m = Inr (i_Name i)))"
    if s: "has_config V cfg s" and o: "run (cli_GetInterfaceByAbstractName (loopback (sonic_agent R H)) cl iface) s = (o', s')" for s o' s'
  proof -
    obtain r s1 where r: "run (GetInterface R H (Some (zero_Interface\<lparr>i_Kind := InterfaceKind, i_Name := m\<rparr>))) s = (r, s1)" by (metis surj_pair)
    have "run (ag_GetInterface (sonic_agent R H) (Some (zero_Interface\<lparr>i_Kind := InterfaceKind, i_Name := m\<rparr>))) s = (r, s1)"
      using r by (simp add: sonic_agent_def)
    from sonic.get_interface_end_to_end [OF m this, of cl] o validD [OF GetInterface_valid [OF c h n] s r]
    show ?thesis by (cases r) auto
  qed
  then show ?thesis unfolding valid_def by blast
qed

lemma valid_client_admin:
  assumes c: "redis_contract R V" and h: "host_contract H V"
  shows "valid (has_config V cfg) (cli_SetInterfaceAdminStatus (loopback (sonic_agent R H)) cl iface)
    (\<lambda>o' s. \<forall>p. o' = Returned (p, None) \<longrightarrow> (\<exists>n.
       iface_name (Some (zero_Interface\<lparr>i_Kind := InterfaceKind, i_Name := i_Name iface, AdminStatus := AdminStatus iface\<rparr>)) = Inr n \<and>
       has_config V (put_field (''PORT|'' @ n) ''admin_status'' (AdminStatus iface) cfg) s))"
proof -
  let ?i = "zero_Interface\<lparr>i_Kind := InterfaceKind, i_Name := i_Name iface, AdminStatus := AdminStatus iface\<rparr>"
  have "\<exists>n. iface_name (Some ?i) = Inr n \<and> has_config V (put_field (''PORT|'' @ n) ''admin_status'' (AdminStatus iface) cfg) s'"
    if s: "has_config V cfg s" and o: "run (cli_SetInterfaceAdminStatus (loopback (sonic_agent R H)) cl iface) s = (Returned (p, None), s')" for s p s'
  proof -
    obtain r s1 where r: "run (SetInterfaceAdminStatus R H (Some ?i)) s = (r, s1)" by (metis surj_pair)
    then have "run (ag_SetInterfaceAdminStatus (sonic_agent R H) (Some ?i)) s = (r, s1)" by (simp add: sonic_agent_def)
    from sonic.set_admin_end_to_end [OF this, of cl] o obtain i where i: "r = Inr i" and s1: "s1 = s'" by (cases r) auto
    obtain n where n: "iface_name (Some ?i) = Inr n"
    proof (cases "iface_name (Some ?i)")
      case (Inl st)
      then show thesis using r i by (simp add: SetInterfaceAdminStatus_def name_or_def)
    qed (use that in blast)
    from validD [OF SetInterfaceAdminStatus_valid [OF c h n] s r] i s1 n show ?thesis by auto
  qed
  then show ?thesis unfolding valid_def by blast
qed

text \<open>The alias is set through the abstract name of the port, which converts back to the port.\<close>

lemma abstract_of_native:
  assumes "AbstractNameToNativeName x = Inr m" and "NativeNameToAbstractName m = Inr a"
  shows "AbstractNameToNativeName a = Inr m" and "HasPrefix a ''eth''" and "HasPrefix x ''eth''"
proof -
  from assms(1) obtain k where k: "m = native_name (wrap64 k)"
    by (auto simp: AbstractNameToNativeName_def native_name_def split: if_splits sum.splits)
  have k64: "int64 (wrap64 k)" by simp
  from assms(2) have a: "a = abstract_name (wrap64 k sdiv 4) (wrap64 k smod 4)"
    unfolding k Native_to_Abstract [OF k64] by simp
  show "AbstractNameToNativeName a = Inr m"
    unfolding a Abstract_to_Native [OF port_split(2,3) [OF k64]] using port_split [OF k64] by (simp add: k)
  show "HasPrefix a ''eth''" by (simp add: a abstract_name_def)
  show "HasPrefix x ''eth''" using assms(1) by (auto simp: AbstractNameToNativeName_def split: if_splits)
qed

lemma valid_client_alias:
  assumes c: "redis_contract R V" and h: "host_contract H V"
    and m: "AbstractNameToNativeName (i_Name iface) = Inr m" "HasPrefix (i_Name iface) ''eth''" and al: "AliasName iface \<noteq> []"
  shows "valid (has_config V cfg) (cli_SetInterfaceAliasName (loopback (sonic_agent R H)) cl iface)
    (\<lambda>o' s. \<forall>p. o' = Returned (p, None) \<longrightarrow> has_config V (put_field (''PORT|'' @ m) ''alias'' (AliasName iface) cfg) s)"
proof -
  let ?i = "zero_Interface\<lparr>i_Kind := InterfaceKind, i_Name := i_Name iface, AliasName := AliasName iface\<rparr>"
  have n: "iface_name (Some ?i) = Inr m" using m by (auto simp: iface_name_def)
  have "has_config V (put_field (''PORT|'' @ m) ''alias'' (AliasName iface) cfg) s'"
    if s: "has_config V cfg s" and o: "run (cli_SetInterfaceAliasName (loopback (sonic_agent R H)) cl iface) s = (Returned (p, None), s')" for s p s'
  proof -
    obtain r s1 where r: "run (SetInterfaceAliasName R H (Some ?i)) s = (r, s1)" by (metis surj_pair)
    then have ag: "run (ag_SetInterfaceAliasName (sonic_agent R H) (Some ?i)) s = (r, s1)" by (simp add: sonic_agent_def)
    have "\<not> isl r \<and> s1 = s'"
      using o ag
      by (cases r) (auto simp: cli_defs loopback_conn srv_SetInterfaceAliasName_def success_def failed_def Let_def
          dest: codedD [OF sonic.alias_coded])
    then obtain i where "r = Inr i" "s1 = s'" by (cases r) auto
    with validD [OF SetInterfaceAliasName_valid [OF c h n] s r] al show ?thesis by simp
  qed
  then show ?thesis unfolding valid_def by blast
qed

section \<open>The reconciliation\<close>

text \<open>The cluster's answers do not touch the switch.\<close>

definition kube_contract :: "('c SonicAgent \<times> 'w) kube \<Rightarrow> ('c, 'w) store_view \<Rightarrow> bool" where
  "kube_contract K V \<longleftrightarrow> (\<forall>n ns cfg. keeps (has_config V cfg) (GetSwitch K n ns))"

lemma demo_kube_contract: "kube_contract demo_kube V"
  by (simp add: kube_contract_def demo_kube_def keeps_ret)

text \<open>A computation that has established \<open>G\<close> whenever it leaves the object \<open>Ready\<close> and returns no error.\<close>

definition ready_post :: "('s \<Rightarrow> bool) \<Rightarrow> si_result \<Rightarrow> 's \<Rightarrow> bool" where
  "ready_post G r s \<longleftrightarrow> (\<forall>a. snd r = Returned (a, None) \<longrightarrow> si_State (si_Status (fst r)) = SwitchInterfaceStateReady \<longrightarrow> G s)"

lemma ready_fail: "valid P (si_fail i err) (ready_post G)"
  by (simp add: valid_def si_fail_def ready_post_def)

lemma ready_panic: "valid P (ret (i, Panicked)) (ready_post G)"
  by (simp add: valid_def ready_post_def)

lemma ready_not: "st \<noteq> SwitchInterfaceStateReady \<Longrightarrow> valid P (si_done st i) (ready_post G)"
  by (simp add: valid_def si_done_def ready_post_def)

lemma ready_call:
  assumes "valid P m (\<lambda>o' s. \<forall>p. o' = Returned (p, None) \<longrightarrow> B p s)" and "\<And>p. valid (B p) (k p) (ready_post G)"
  shows "valid P (si_call i m k) (ready_post G)"
  unfolding si_call_def
proof (rule valid_bind [OF assms(1)])
  fix o' :: "'b ptr_err"
  show "valid (\<lambda>s. \<forall>p. o' = Returned (p, None) \<longrightarrow> B p s)
     (case o' of Returned (p, None) \<Rightarrow> k p | Returned (p, Some err) \<Rightarrow> si_fail i err | Panicked \<Rightarrow> ret (i, Panicked)) (ready_post G)"
  proof (cases o')
    case (Returned r)
    obtain p e where "r = (p, e)" by fastforce
    then show ?thesis using Returned assms(2) [of p] ready_fail by (cases e) auto
  qed (simp add: ready_panic)
qed

lemma ready_neighbor:
  assumes "redis_contract R V"
  shows "valid (has_config V cfg) (si_neighbor (loopback (sonic_agent R H)) cl i) (ready_post (has_config V cfg))"
proof -
  have k: "keeps (has_config V cfg) (GetInterfaceNeighbor R j)" for j
    unfolding GetInterfaceNeighbor_def Let_def by (intro keeps_rules assms)
  have "keeps (has_config V cfg) (cli_GetInterfaceNeighbor (loopback (sonic_agent R H)) cl j)" for j
    using keepsD [OF k]
    by (fastforce simp: keeps_def valid_def cli_defs loopback_conn srv_GetInterfaceNeighbor_def sonic_agent_def
        split: prod.splits sum.splits)
  then show ?thesis
    unfolding si_neighbor_def keeps_def
    by (rule valid_bind)
       (auto simp: valid_def si_fail_def si_done_def ready_post_def split: outcome.splits option.splits prod.splits if_splits)
qed

text \<open>What a ready interface means for the switch.\<close>

definition configured :: "('c, 'w) store_view \<Rightarrow> SwitchInterfaceSpec \<Rightarrow> 'c SonicAgent \<times> 'w \<Rightarrow> bool" where
  "configured V spec s \<longleftrightarrow> (\<exists>n m d.
     iface_name (Some (zero_Interface\<lparr>i_Kind := InterfaceKind, i_Name := si_NativeName spec, AdminStatus := d\<rparr>)) = Inr n \<and>
     AbstractNameToNativeName (si_Handle spec) = Inr m \<and>
     APIAdminStateToAgentDeviceStatus (spec_AdminState spec) = (d, None) \<and>
     hashes_of V (snd s) 4 (''PORT|'' @ n) ''admin_status'' = Some d \<and>
     hashes_of V (snd s) 4 (''PORT|'' @ m) ''alias'' = Some (si_Handle spec))"

lemma ready_mono: "valid P m (ready_post G) \<Longrightarrow> (\<And>s. G s \<Longrightarrow> G' s) \<Longrightarrow> valid P m (ready_post G')"
  unfolding valid_def ready_post_def by blast

lemma ready_apply_admin:
  assumes c: "redis_contract R V" and h: "host_contract H V"
    and m: "AbstractNameToNativeName (si_Handle spec) = Inr m" and cfg: "cfg (''PORT|'' @ m) ''alias'' = Some (si_Handle spec)"
    and spec: "si_Spec i = spec"
  shows "valid (has_config V cfg) (si_apply_admin (loopback (sonic_agent R H)) cl i) (ready_post (configured V spec))"
proof (cases "APIAdminStateToAgentDeviceStatus (spec_AdminState spec)")
  case (Pair d e)
  show ?thesis
  proof (cases e)
    case (Some err)
    then show ?thesis by (simp add: si_apply_admin_def spec Pair ready_fail)
  next
    case None
    let ?i = "\<lambda>d. zero_Interface\<lparr>i_Kind := InterfaceKind, i_Name := si_NativeName spec, AdminStatus := d\<rparr>"
    let ?B = "\<lambda>(p :: Interface option) s. \<exists>n. iface_name (Some (?i d)) = Inr n \<and>
        has_config V (put_field (''PORT|'' @ n) ''admin_status'' d cfg) s"
    have nb: "valid (?B p) (si_neighbor (loopback (sonic_agent R H)) cl j) (ready_post (configured V spec))" for p j
    proof -
      have "valid (has_config V (put_field (''PORT|'' @ n) ''admin_status'' d cfg)) (si_neighbor (loopback (sonic_agent R H)) cl j)
          (ready_post (configured V spec))" if n: "iface_name (Some (?i d)) = Inr n" for n
      proof (rule ready_mono [OF ready_neighbor [OF c]])
        fix s assume "has_config V (put_field (''PORT|'' @ n) ''admin_status'' d cfg) s"
        then have "hashes_of V (snd s) 4 = put_field (''PORT|'' @ n) ''admin_status'' d cfg" by (simp add: steady_def)
        then show "configured V spec s"
          unfolding configured_def using n m Pair None cfg
          by - (rule exI [of _ n], rule exI [of _ m], rule exI [of _ d], auto simp: put_field_def)
      qed
      then show ?thesis unfolding valid_def by blast
    qed
    show ?thesis
      unfolding si_apply_admin_def spec Pair None prod.case option.case
    proof (rule ready_call [where B = ?B])
      show "valid (has_config V cfg) (cli_SetInterfaceAdminStatus (loopback (sonic_agent R H)) cl (?i d)) (\<lambda>o' s. \<forall>p. o' = Returned (p, None) \<longrightarrow> ?B p s)"
        by (rule valid_conseq [OF valid_client_admin [OF c h]]) simp_all
    qed (auto simp: Let_def ready_fail simp del: append.simps intro!: nb split: option.split prod.split)
  qed
qed

text \<open>After the alias step the alias of the port is the handle, whether it had to be set or not.\<close>

lemma valid_set_alias:
  assumes c: "redis_contract R V" and h: "host_contract H V" and m: "AbstractNameToNativeName handle = Inr m"
    and al: "cfg (''PORT|'' @ m) ''alias'' = Some (AliasName iface)" and ab: "NativeNameToAbstractName m = Inr (i_Name iface)"
  shows "valid (has_config V cfg)
      (if AliasName iface \<noteq> handle
       then cli_SetInterfaceAliasName (loopback (sonic_agent R H)) cl (zero_Interface\<lparr>i_Kind := InterfaceKind, i_Name := i_Name iface, AliasName := handle\<rparr>)
       else ret (Returned (None, None)))
      (\<lambda>o' s. \<forall>p. o' = Returned (p, None) \<longrightarrow> (\<exists>cfg'. has_config V cfg' s \<and> cfg' (''PORT|'' @ m) ''alias'' = Some handle))"
proof (cases "AliasName iface = handle")
  case True
  then show ?thesis using al by (auto simp: valid_def)
next
  case False
  note back' = abstract_of_native [OF m ab]
  have "handle \<noteq> []" using back'(3) by auto
  with back' False show ?thesis
    by (simp, intro valid_conseq [OF valid_client_alias [OF c h, of _ m]]) (auto simp: put_field_def)
qed

lemma ready_found:
  assumes c: "redis_contract R V" and h: "host_contract H V" and m: "AbstractNameToNativeName (si_Handle (si_Spec i)) = Inr m"
    and al: "cfg (''PORT|'' @ m) ''alias'' = Some (AliasName iface)" and ab: "NativeNameToAbstractName m = Inr (i_Name iface)"
  shows "valid (has_config V cfg) (si_found (loopback (sonic_agent R H)) cl i iface) (ready_post (configured V (si_Spec i)))"
  unfolding si_found_def
proof (rule ready_call [OF valid_set_alias [where cfg = cfg, OF c h m al ab]])
  let ?rest = "let i1 = si_set_oper (if OperationStatus iface = StatusUp then OperationStateUp else OperationStateDown) i in
     (case AgentDeviceStatusToAPIAdminState (AdminStatus iface) of
        (_, Some err) \<Rightarrow> si_fail i1 err
      | (adminState, None) \<Rightarrow> si_apply_admin (loopback (sonic_agent R H)) cl (si_set_admin adminState i1))"
  have "valid (has_config V cfg') ?rest (ready_post (configured V (si_Spec i)))"
    if "cfg' (''PORT|'' @ m) ''alias'' = Some (si_Handle (si_Spec i))" for cfg'
    using ready_apply_admin [where cfg = cfg', OF c h m that] by (auto simp: Let_def ready_fail split: prod.split option.split)
  then show "valid (\<lambda>s. \<exists>cfg'. has_config V cfg' s \<and> cfg' (''PORT|'' @ m) ''alias'' = Some (si_Handle (si_Spec i))) ?rest
      (ready_post (configured V (si_Spec i)))" for p :: "Interface option"
    unfolding valid_def by blast
qed

lemma ready_lookup:
  assumes c: "redis_contract R V" and h: "host_contract H V"
  shows "valid (has_config V cfg) (si_lookup (loopback (sonic_agent R H)) cl i) (ready_post (configured V (si_Spec i)))"
  unfolding si_lookup_def
proof (cases "AbstractNameToNativeName (si_Handle (si_Spec i))")
  case (Inl err)
  let ?get = "cli_GetInterfaceByAbstractName (loopback (sonic_agent R H)) cl (zero_Interface\<lparr>i_Kind := InterfaceKind, i_Name := si_Handle (si_Spec i)\<rparr>)"
  have "valid (has_config V cfg) ?get (\<lambda>o' s. \<forall>p. o' = Returned (p, None) \<longrightarrow> False)"
    by (simp add: valid_def cli_defs loopback_conn Inl)
  then show "valid (has_config V cfg) (si_call i ?get (\<lambda>p. case p of None \<Rightarrow> si_done SwitchInterfaceStateFailed i
      | Some iface \<Rightarrow> si_found (loopback (sonic_agent R H)) cl i iface)) (ready_post (configured V (si_Spec i)))"
    by (rule ready_call) (simp add: valid_def)
next
  case (Inr m)
  let ?get = "cli_GetInterfaceByAbstractName (loopback (sonic_agent R H)) cl (zero_Interface\<lparr>i_Kind := InterfaceKind, i_Name := si_Handle (si_Spec i)\<rparr>)"
  let ?B = "\<lambda>p s. has_config V cfg s \<and> (\<exists>iface. p = Some iface \<and> cfg (''PORT|'' @ m) ''alias'' = Some (AliasName iface) \<and>
      NativeNameToAbstractName m = Inr (i_Name iface))"
  have "valid (has_config V cfg) ?get (\<lambda>o' s. \<forall>p. o' = Returned (p, None) \<longrightarrow> ?B p s)"
    by (rule valid_conseq [OF valid_client_get [OF c h, of _ m]]) (simp add: Inr | blast)+
  then show "valid (has_config V cfg) (si_call i ?get (\<lambda>p. case p of None \<Rightarrow> si_done SwitchInterfaceStateFailed i
      | Some iface \<Rightarrow> si_found (loopback (sonic_agent R H)) cl i iface)) (ready_post (configured V (si_Spec i)))"
  proof (rule ready_call)
    fix p :: "Interface option"
    show "valid (?B p) (case p of None \<Rightarrow> si_done SwitchInterfaceStateFailed i
      | Some iface \<Rightarrow> si_found (loopback (sonic_agent R H)) cl i iface) (ready_post (configured V (si_Spec i)))"
      by (rule valid_pure, elim exE conjE, simp only: option.case, rule ready_found [OF c h Inr])
  qed
qed

lemma ready_body:
  assumes c: "redis_contract R V" and h: "host_contract H V" and k: "kube_contract K V" and st: "si_State (si_Status i) \<noteq> []"
  shows "valid (has_config V cfg) (si_body K (loopback (sonic_agent R H)) i) (ready_post (configured V (si_Spec i)))"
proof (cases "SwitchRef (si_Spec i)")
  case None
  then show ?thesis using st by (simp add: si_body_def ready_not si_states)
next
  case (Some ref)
  have client: "valid (has_config V cfg) (NewAgentClientFromSwitchRef K (Some ref) ns) (\<lambda>r s. has_config V cfg s \<and> True)" for ns
    by (rule valid_keeps, unfold NewAgentClientFromSwitchRef_def option.case, intro keeps_rules)
       (use k in \<open>simp_all add: kube_contract_def\<close>)
  show ?thesis
    unfolding si_body_def Some if_not_P [OF st] if_not_P [OF option.distinct(2)]
    by (rule valid_on_err_pure [OF client], rule ready_fail)
       (auto simp: ready_panic ready_lookup [OF c h] split: option.split)
qed

text \<open>Property C1. Controller, client, server and agent together: when the body of the reconciliation of a \<open>SwitchInterface\<close>, after the step of the
  finalizer, ends in state \<open>Ready\<close> without an error, CONFIG\_DB of the switch holds the administrative state of the specification for the
  port with the native name, and the handle as the alias of the port the handle names. This holds whatever CONFIG\_DB
  held before, over a transport that delivers.\<close>

theorem ready_interface_is_configured:
  assumes "redis_contract R V" and "host_contract H V" and "kube_contract K V" and "pool_ok V a"
    and "si_State (si_Status i) \<noteq> []"
    and "run (si_body K (loopback (sonic_agent R H)) i) (a, w) = ((i', Returned (after, None)), s')"
    and "si_State (si_Status i') = SwitchInterfaceStateReady"
  shows "configured V (si_Spec i) s'"
proof -
  have "has_config V (hashes_of V w 4) (a, w)" using assms(4) by (simp add: steady_def)
  from validD [OF ready_body [OF assms(1-3,5)] this assms(6)] assms(7) show ?thesis
    by (simp add: ready_post_def)
qed

text \<open>The property at a port that is down and is to be up.\<close>

theorem ready_interface_is_configured_witness:
  "\<exists>i' s'. run (si_body demo_kube (loopback (sonic_agent mem_redis (mem_host True))) (demo_interface ''Pending''))
       (\<lparr>redisAddr = ''h:1'', clientPool = []\<rparr>, [((4, ''PORT|Ethernet0''), [(''alias'', ''eth0-0''), (''admin_status'', ''down'')])])
     = ((i', Returned (0, None)), s') \<and> configured mem_view (si_Spec (demo_interface ''Pending'')) s'"
proof -
  let ?s = "(\<lparr>redisAddr = ''h:1'', clientPool = []\<rparr>, [((4, ''PORT|Ethernet0''), [(''alias'', ''eth0-0''), (''admin_status'', ''down'')])]) :: int SonicAgent \<times> mem"
  have n: "AbstractNameToNativeName ''eth0-0'' = Inr ''Ethernet0''" "NativeNameToAbstractName ''Ethernet0'' = Inr ''eth0-0''" by code_simp+
  obtain i' s' where run: "run (si_body demo_kube (loopback (sonic_agent mem_redis (mem_host True))) (demo_interface ''Pending'')) ?s
      = ((i', Returned (0, None)), s')" and i': "si_State (si_Status i') = SwitchInterfaceStateReady"
    by (simp add: n si_body_def demo_interface_def demo_kube_def NewAgentClientFromSwitchRef_def NewAgentClientForSwitch_def
        demo_switch_def si_lookup_def si_call_def si_found_def si_apply_admin_def si_neighbor_def cli_defs loopback_conn
        srv_GetInterface_def srv_SetInterfaceAdminStatus_def srv_GetInterfaceNeighbor_def sonic_agent_def
        GetInterface_def SetInterfaceAdminStatus_def admin_read_back_def GetInterfaceNeighbor_def name_or_def iface_name_def
        connect_or_def Connect_def connect_locked_def connect_new_def getRedisDBIDByName_def SaveConfig_def fail_def
        mem_redis_def mem_host_def mem_hash_def pb_of_Interface_def Interface_of_pb_def success_def failed_def get_pb_def
        up_if_def mget_def dev_states state_convs admin_states oper_states si_done_def error_codes err_NewErrorStatus_def
        zero_Interface_def zero_InterfaceNeighbor_def zero_pb_Interface_def Let_def)
  have "configured mem_view (si_Spec (demo_interface ''Pending'')) s'"
    by (rule ready_interface_is_configured [OF mem_redis_contract mem_host_contract demo_kube_contract _ _ run i'])
       (simp_all add: pool_ok_def demo_interface_def)
  with run show ?thesis by blast
qed

end
