(* ===== verification/Interface_Liveness.thy ===== *)
theory Interface_Liveness
  imports Interface_EndToEnd
begin

text \<open>
  The converse of the property of \<open>Interface_EndToEnd\<close>: on a switch that answers, can save its configuration and has
  the port, the reconciliation of a \<open>SwitchInterface\<close> goes all the way. CONFIG\_DB gets the state of the specification, and the
  object becomes \<open>Ready\<close>, unless the agent cannot make sense of the neighbour's port.

  All triples here start from a reachable server, \<open>steady V True cfg\<close>, and say that calls return values.
\<close>

section \<open>The agent\<close>

text \<open>The kernel knows the network device of the port, with its hardware address.\<close>

definition link_known :: "'w host \<Rightarrow> string \<Rightarrow> bool" where
  "link_known H n \<longleftrightarrow> (\<forall>w. \<exists>mac. fst (run (LinkByName H n) w) = Inr (Some mac))"

lemma valid_LinkByName:
  assumes "host_contract H V" and "link_known H n"
  shows "valid (steady V up cfg) (io (LinkByName H n)) (\<lambda>r s. steady V up cfg s \<and> (\<exists>mac. r = Inr (Some mac)))"
proof -
  have "\<exists>mac. r = Inr (Some mac)" if "run (io (LinkByName H n)) s = (r, s')" for r s s'
  proof -
    from assms(2) obtain mac where "fst (run (LinkByName H n) (snd s)) = Inr (Some mac)" unfolding link_known_def by blast
    with that show ?thesis by (cases s) (auto split: prod.splits)
  qed
  then show ?thesis using keepsD [OF keeps_host(1) [OF assms(1)]] unfolding valid_def by blast
qed

definition two_states :: "string \<Rightarrow> bool" where
  "two_states st \<longleftrightarrow> st = StatusUp \<or> st = StatusDown"

lemma two_states_up_if [simp]: "two_states (up_if v)"
  by (simp add: two_states_def up_if_def)

lemma two_states_known:
  assumes "two_states st"
  shows "\<exists>a o'. AgentDeviceStatusToAPIAdminState st = (a, None) \<and> AgentDeviceStatusToAPIOperationState st = (o', None)"
  using assms by (auto simp: two_states_def state_convs dev_states)

lemma GetInterface_succeeds:
  assumes c: "redis_contract R V" and h: "host_contract H V" and n: "iface_name (Some iface) = Inr n" and l: "link_known H n"
    and al: "cfg (''PORT|'' @ n) ''alias'' = Some al" and ab: "NativeNameToAbstractName n = Inr ab"
  shows "valid (steady V True cfg) (GetInterface R H (Some iface)) (\<lambda>r s. steady V True cfg s \<and>
    (\<exists>i. r = Inr i \<and> AliasName i = al \<and> i_Name i = ab \<and> two_states (AdminStatus i)))"
proof -
  have ne: "cfg (''PORT|'' @ n) \<noteq> Map.empty" using al by auto
  show ?thesis
    unfolding GetInterface_def name_or_def n sum.case Let_def
    apply (rule valid_connect_or [OF c], simp)
     apply (rule valid_connect_or [OF c], simp)
      apply (rule valid_on_err_pure [OF valid_Exists [where cfg = cfg and k = "''PORT|'' @ n", OF c _ ne]], simp)
       apply simp
      apply (subst if_not_P, simp)
      apply (rule valid_bind_pure [OF valid_keeps [OF keeps_reads(2) [OF c]]])
      apply (rule valid_connect_or [OF c], simp)
       apply (rule valid_bind_pure [OF valid_keeps [OF keeps_reads(2) [OF c]]])
       apply (rule valid_on_err_pure [OF valid_LinkByName [OF h l]], simp)
       apply (elim exE, simp only: sum.inject option.case)
       apply (rule valid_on_err_pure [OF valid_HGet [OF c]], simp)
        apply (insert al, simp)[1]
       apply (simp only: ab sum.case)
       apply (rule valid_ret, insert al, simp)
      apply simp_all
    done
qed

text \<open>The operational status that setting the administrative status reports.\<close>

definition yields :: "('a \<Rightarrow> bool) \<Rightarrow> ('s, 'a sres) state \<Rightarrow> bool" where
  "yields P m \<longleftrightarrow> valid (\<lambda>_. True) m (\<lambda>r _. \<forall>i. r = Inr i \<longrightarrow> P i)"

named_theorems yields_rules \<open>rules for \<open>yields\<close>, one per form of a computation\<close>

lemma yields_ret [yields_rules]: "P x \<Longrightarrow> yields P (ret (Inr x))" "yields P (ret (Inl st))" "yields P (fail c m)"
  by (simp_all add: yields_def valid_def fail_def)

lemma yields_bind [yields_rules]: "(\<And>x. yields P (k x)) \<Longrightarrow> yields P (State_Monad.bind m k)"
  unfolding yields_def by (rule valid_bind [where B = "\<lambda>_ _. True"]) (simp_all add: valid_def)

lemma yields_on_err [yields_rules]: "(\<And>e. yields P (h e)) \<Longrightarrow> (\<And>v. yields P (k v)) \<Longrightarrow> yields P (on_err m h k)"
  unfolding on_err_def by (rule yields_bind) (simp split: sum.split)

lemma yields_on_fail [yields_rules]: "(\<And>e. yields P (h e)) \<Longrightarrow> yields P k \<Longrightarrow> yields P (on_fail m h k)"
  unfolding on_fail_def by (rule yields_bind) (simp split: option.split)

lemma yields_if [yields_rules]: "yields P m \<Longrightarrow> yields P m' \<Longrightarrow> yields P (if b then m else m')"
  by simp

lemma yields_connect_or [yields_rules]: "(\<And>c. yields P (k c)) \<Longrightarrow> yields P (connect_or R n what k)"
  unfolding connect_or_def by (intro yields_rules)

lemma yields_name_or [yields_rules]: "(\<And>n. yields P (k n)) \<Longrightarrow> yields P (name_or iface k)"
  unfolding name_or_def by (auto intro: yields_rules split: sum.split)

lemma SetInterfaceAdminStatus_oper: "yields (\<lambda>i. two_states (OperationStatus i)) (SetInterfaceAdminStatus R H iface)"
  unfolding SetInterfaceAdminStatus_def admin_read_back_def Let_def by (intro yields_rules) simp

section \<open>The neighbour\<close>

text \<open>What the agent makes of the LLDP entry of a port. \<open>NativeNameToAbstractName\<close> must read the description of the
  neighbour's port, if there is one.\<close>

definition understood :: "(string \<rightharpoonup> string) \<Rightarrow> bool" where
  "understood lldp \<longleftrightarrow> lldp = Map.empty \<or>
     (case lldp ''lldp_rem_port_desc'' of None \<Rightarrow> True | Some d \<Rightarrow> d = [] \<or> \<not> isl (NativeNameToAbstractName d))"

abbreviation lldp_of :: "('c, 'w) store_view \<Rightarrow> string \<Rightarrow> 'w \<Rightarrow> string \<rightharpoonup> string" where
  "lldp_of V n w \<equiv> hashes_of V w 0 (''LLDP_ENTRY_TABLE:'' @ n)"

definition appl :: "('c, 'w) store_view \<Rightarrow> (string \<Rightarrow> string \<rightharpoonup> string) \<Rightarrow> (string \<Rightarrow> string \<rightharpoonup> string) \<Rightarrow> 'c SonicAgent \<times> 'w \<Rightarrow> bool" where
  "appl V cfg ap s \<longleftrightarrow> steady V True cfg s \<and> hashes_of V (snd s) 0 = ap"

lemma valid_from_appl: "(\<And>ap. valid (appl V cfg ap) m Q) \<Longrightarrow> valid (steady V True cfg) m Q"
  unfolding valid_def appl_def by blast

lemma valid_appl:
  assumes ans: "answers (reachable V) m" and data: "\<And>w r w'. run m w = (r, w') \<Longrightarrow> hashes_of V w' = hashes_of V w"
    and res: "\<And>w v w'. run m w = (Inr v, w') \<Longrightarrow> hashes_of V w 0 = ap \<Longrightarrow> P v"
  shows "valid (appl V cfg ap) (io m) (\<lambda>r s. appl V cfg ap s \<and> (\<exists>v. r = Inr v \<and> P v))"
proof -
  have "appl V cfg ap (a, w') \<and> (\<exists>v. r = Inr v \<and> P v)" if "appl V cfg ap (a, w)" "run m w = (r, w')" for a w r w'
  proof -
    have "reachable V w" using that(1) by (simp add: appl_def steady_def)
    from answersD [OF ans this] that(2) obtain v where "r = Inr v" "reachable V w'" by auto
    with that data [OF that(2)] res [of w v w'] show ?thesis by (simp add: appl_def steady_def)
  qed
  then show ?thesis by (auto simp: valid_def io_def split: prod.splits)
qed

lemma valid_appl_Exists:
  assumes "redis_contract R V" and "db_of V c = 0"
  shows "valid (appl V cfg ap) (io (Exists R c k)) (\<lambda>r s. appl V cfg ap s \<and> (\<exists>x. r = Inr x \<and> (x = 0 \<longleftrightarrow> ap k = Map.empty)))"
proof (rule valid_appl [OF answers_up(3) [OF assms(1)] Exists_data [OF assms(1)]])
  fix w x w' assume "run (Exists R c k) w = (Inr x, w')" "hashes_of V w 0 = ap"
  with Exists_Inr [OF assms(1) this(1)] show "x = 0 \<longleftrightarrow> ap k = Map.empty" by (simp add: assms(2))
qed

lemma valid_appl_HGetAll:
  assumes "redis_contract R V" and "db_of V c = 0"
  shows "valid (appl V cfg ap) (io (HGetAll R c k)) (\<lambda>r s. appl V cfg ap s \<and> (\<exists>m. r = Inr m \<and> map_of m = ap k))"
proof (rule valid_appl [OF answers_up(1) [OF assms(1)] HGetAll_data [OF assms(1)]])
  fix w m w' assume "run (HGetAll R c k) w = (Inr m, w')" "hashes_of V w 0 = ap"
  with HGetAll_Inr [OF assms(1) this(1)] show "map_of m = ap k" by (simp add: assms(2))
qed

lemma lldp_handle_understood:
  assumes "map_of m = lldp" and "lldp \<noteq> Map.empty"
  shows "isl (lldp_handle m) \<longleftrightarrow> \<not> understood lldp"
  using assms by (auto simp: lldp_handle_def understood_def mget_def split: option.split)

text \<open>A neighbour is reported, or that there is none, exactly when the entry is understood.\<close>

definition neighbor_post :: "(string \<rightharpoonup> string) \<Rightarrow> InterfaceNeighbor sres \<Rightarrow> bool" where
  "neighbor_post lldp r \<longleftrightarrow> (case r of Inr _ \<Rightarrow> understood lldp | Inl st \<Rightarrow> Code st = NOT_FOUND \<longleftrightarrow> understood lldp)"

lemma GetInterfaceNeighbor_answers:
  assumes c: "redis_contract R V" and n: "iface_name (Some iface) = Inr n"
  shows "valid (steady V True cfg) (GetInterfaceNeighbor R (Some iface)) (\<lambda>r s. steady V True cfg s \<and> neighbor_post (lldp_of V n (snd s)) r)"
  unfolding GetInterfaceNeighbor_def name_or_def n sum.case Let_def
  apply (rule valid_connect_or [OF c], simp)
   apply (rule valid_from_appl)
   apply (rule valid_on_err_pure [OF valid_appl_Exists [OF c]], simp, simp)
   apply (split if_split, intro conjI impI)
    apply (rule valid_fail, simp add: appl_def neighbor_post_def understood_def)
   apply (rule valid_on_err_pure [OF valid_appl_HGetAll [OF c]], simp, simp)
   subgoal for cl ap x m
     using lldp_handle_understood [of m "ap (''LLDP_ENTRY_TABLE:'' @ n)"]
     by (cases "lldp_handle m") (auto simp: appl_def neighbor_post_def error_codes intro!: valid_fail valid_ret)
  apply simp
  done

section \<open>The client\<close>

lemma native_of_abstract:
  assumes "AbstractNameToNativeName x = Inr m"
  shows "i_Name i = m \<Longrightarrow> iface_name (Some i) = Inr m" and "\<exists>a. NativeNameToAbstractName m = Inr a"
proof -
  from assms obtain k where k: "m = native_name (wrap64 k)"
    by (auto simp: AbstractNameToNativeName_def native_name_def split: if_splits sum.splits)
  show "\<exists>a. NativeNameToAbstractName m = Inr a" using Native_to_Abstract [of "wrap64 k"] by (simp add: k)
  show "iface_name (Some i) = Inr m" if "i_Name i = m" using that by (auto simp: k native_name_def iface_name_def HasPrefix_iff)
qed

abbreviation returns :: "('a option \<Rightarrow> 's \<Rightarrow> bool) \<Rightarrow> 'a ptr_err \<Rightarrow> 's \<Rightarrow> bool" where
  "returns B o' s \<equiv> \<exists>p. o' = Returned (p, None) \<and> B p s"

lemma live_get:
  assumes c: "redis_contract R V" and h: "host_contract H V" and m: "AbstractNameToNativeName (i_Name iface) = Inr m" and l: "link_known H m"
    and al: "cfg (''PORT|'' @ m) ''alias'' = Some al" and ab: "NativeNameToAbstractName m = Inr ab"
  shows "valid (steady V True cfg) (cli_GetInterfaceByAbstractName (loopback (sonic_agent R H)) cl iface)
    (returns (\<lambda>p s. steady V True cfg s \<and> (\<exists>i. p = Some i \<and> AliasName i = al \<and> i_Name i = ab \<and> two_states (AdminStatus i))))"
    (is "valid _ ?m (returns ?B)")
proof -
  let ?i = "zero_Interface\<lparr>i_Kind := InterfaceKind, i_Name := m\<rparr>"
  have n: "iface_name (Some ?i) = Inr m" by (rule native_of_abstract(1) [OF m]) simp
  have "returns ?B o' s'" if s: "steady V True cfg s" and o: "run ?m s = (o', s')" for s o' s'
  proof -
    obtain r s1 where r: "run (GetInterface R H (Some ?i)) s = (r, s1)" by (metis surj_pair)
    from validD [OF GetInterface_succeeds [where cfg = cfg, OF c h n l al ab] s r] obtain i where "steady V True cfg s1" "r = Inr i"
      "AliasName i = al" "i_Name i = ab" "two_states (AdminStatus i)" by blast
    with client_get_interface_end_to_end [OF m r, of cl] o show ?thesis by auto
  qed
  then show ?thesis unfolding valid_def by blast
qed

lemma live_admin:
  assumes c: "redis_contract R V" and h: "host_contract H V" and b: "bus_works H" and al: "cfg (''PORT|'' @ n) ''alias'' \<noteq> None"
    and n: "iface_name (Some (zero_Interface\<lparr>i_Kind := InterfaceKind, i_Name := i_Name iface, AdminStatus := AdminStatus iface\<rparr>)) = Inr n"
  shows "valid (steady V True cfg) (cli_SetInterfaceAdminStatus (loopback (sonic_agent R H)) cl iface)
    (returns (\<lambda>p s. steady V True (put_field (''PORT|'' @ n) ''admin_status'' (AdminStatus iface) cfg) s \<and>
       (\<exists>i. p = Some i \<and> AdminStatus i = AdminStatus iface \<and> two_states (OperationStatus i))))"
    (is "valid _ ?m (returns ?B)")
proof -
  let ?i = "zero_Interface\<lparr>i_Kind := InterfaceKind, i_Name := i_Name iface, AdminStatus := AdminStatus iface\<rparr>"
  have "returns ?B o' s'" if s: "steady V True cfg s" and o: "run ?m s = (o', s')" for s o' s'
  proof -
    obtain r s1 where r: "run (SetInterfaceAdminStatus R H (Some ?i)) s = (r, s1)" by (metis surj_pair)
    from validD [OF SetInterfaceAdminStatus_valid [OF c h n] s r] b al obtain i where i: "r = Inr i"
      "steady V True (put_field (''PORT|'' @ n) ''admin_status'' (AdminStatus iface) cfg) s1" "AdminStatus i = AdminStatus iface"
      by (cases r) auto
    moreover have "two_states (OperationStatus i)"
      using validD [OF SetInterfaceAdminStatus_oper [unfolded yields_def] TrueI r] i(1) by blast
    ultimately show ?thesis using client_set_admin_end_to_end [OF r, of cl] o by auto
  qed
  then show ?thesis unfolding valid_def by blast
qed

lemma live_alias:
  assumes c: "redis_contract R V" and h: "host_contract H V" and b: "bus_works H" and al: "AliasName iface \<noteq> []"
    and m: "AbstractNameToNativeName (i_Name iface) = Inr m" "HasPrefix (i_Name iface) ''eth''"
  shows "valid (steady V True cfg) (cli_SetInterfaceAliasName (loopback (sonic_agent R H)) cl iface)
    (returns (\<lambda>p s. steady V True (put_field (''PORT|'' @ m) ''alias'' (AliasName iface) cfg) s))"
    (is "valid _ ?m (returns ?B)")
proof -
  let ?i = "zero_Interface\<lparr>i_Kind := InterfaceKind, i_Name := i_Name iface, AliasName := AliasName iface\<rparr>"
  have n: "iface_name (Some ?i) = Inr m" using m by (auto simp: iface_name_def)
  have "returns ?B o' s'" if s: "steady V True cfg s" and o: "run ?m s = (o', s')" for s o' s'
  proof -
    obtain r s1 where r: "run (SetInterfaceAliasName R H (Some ?i)) s = (r, s1)" by (metis surj_pair)
    from validD [OF SetInterfaceAliasName_valid [OF c h n] s r] b al obtain i where i: "r = Inr i"
      "steady V True (put_field (''PORT|'' @ m) ''alias'' (AliasName iface) cfg) s1" by (cases r) auto
    have "run (ag_SetInterfaceAliasName (sonic_agent R H) (Some ?i)) s = (Inr i, s1)" using r i by (simp add: sonic_agent_def)
    with o i(2) show ?thesis by (auto simp: cli_defs loopback_conn srv_SetInterfaceAliasName_def success_def Let_def)
  qed
  then show ?thesis unfolding valid_def by blast
qed

section \<open>The reconciliation\<close>

text \<open>The end of a reconciliation on a switch that works.\<close>

definition finished :: "('c, 'w) store_view \<Rightarrow> string \<Rightarrow> string \<Rightarrow> si_result \<Rightarrow> 'c SonicAgent \<times> 'w \<Rightarrow> bool" where
  "finished V n adminState r s \<longleftrightarrow> st_AdminState (si_Status (fst r)) = adminState \<and>
     (if understood (lldp_of V n (snd s))
      then snd r = Returned (0, None) \<and> si_State (si_Status (fst r)) = SwitchInterfaceStateReady
      else (\<exists>err. snd r = Returned (0, Some err)) \<and> si_State (si_Status (fst r)) = SwitchInterfaceStateFailed)"

lemma live_neighbor:
  assumes c: "redis_contract R V" and n: "AbstractNameToNativeName x = Inr (si_NativeName (si_Spec i))"
  shows "valid (steady V True cfg) (si_neighbor (loopback (sonic_agent R H)) cl i)
    (\<lambda>r s. steady V True cfg s \<and> finished V (si_NativeName (si_Spec i)) (st_AdminState (si_Status i)) r s)" (is "valid _ ?m ?Q")
proof -
  let ?j = "zero_Interface\<lparr>i_Kind := InterfaceKind, i_Name := si_NativeName (si_Spec i)\<rparr>"
  have "?Q res s'" if s: "steady V True cfg s" and o: "run ?m s = (res, s')" for s res s'
  proof -
    obtain r s1 where r: "run (GetInterfaceNeighbor R (Some ?j)) s = (r, s1)" by (metis surj_pair)
    have "iface_name (Some ?j) = Inr (si_NativeName (si_Spec i))" by (rule native_of_abstract(1) [OF n]) simp
    from validD [OF GetInterfaceNeighbor_answers [OF c this] s r]
    have p: "steady V True cfg s1" "neighbor_post (lldp_of V (si_NativeName (si_Spec i)) (snd s1)) r" by simp_all
    have r': "run (ag_GetInterfaceNeighbor (sonic_agent R H) (Some ?j)) s = (r, s1)" using r by (simp add: sonic_agent_def)
    show ?thesis
    proof (cases r)
      case (Inl st)
      have "Code st \<noteq> 0" using codedD [OF sonic.neighbor_coded] r' Inl by blast
      with o r' Inl p show ?thesis
        by (auto simp: si_neighbor_def cli_defs loopback_conn srv_GetInterfaceNeighbor_def failed_def neighbor_post_def finished_def
            si_done_def si_fail_def si_set_state_def si_set_neighbor_def)
    next
      case (Inr nb)
      with o r' p show ?thesis
        by (auto simp: si_neighbor_def cli_defs loopback_conn srv_GetInterfaceNeighbor_def success_def neighbor_post_def finished_def
            si_done_def si_set_state_def si_set_neighbor_def)
    qed
  qed
  then show ?thesis unfolding valid_def by blast
qed

lemma live_call: "valid P m (returns B) \<Longrightarrow> (\<And>p. valid (B p) (k p) Q) \<Longrightarrow> valid P (si_call i m k) Q"
  unfolding si_call_def by (rule valid_bind, assumption) (auto simp: valid_def)

lemma desired_state:
  assumes "APIAdminStateToAgentDeviceStatus st = (d, None)"
  shows "AgentDeviceStatusToAPIAdminState d = (st, None)"
  using assms by (auto simp: state_convs dev_states admin_states split: if_splits)

lemma live_apply_admin:
  assumes c: "redis_contract R V" and h: "host_contract H V" and b: "bus_works H"
    and n: "AbstractNameToNativeName x = Inr (si_NativeName (si_Spec i))" and al: "cfg (''PORT|'' @ si_NativeName (si_Spec i)) ''alias'' \<noteq> None"
    and d: "APIAdminStateToAgentDeviceStatus (spec_AdminState (si_Spec i)) = (d, None)"
  shows "valid (steady V True cfg) (si_apply_admin (loopback (sonic_agent R H)) cl i)
    (\<lambda>r s. steady V True (put_field (''PORT|'' @ si_NativeName (si_Spec i)) ''admin_status'' d cfg) s \<and>
       finished V (si_NativeName (si_Spec i)) (spec_AdminState (si_Spec i)) r s)" (is "valid _ _ ?Q")
proof -
  let ?n = "si_NativeName (si_Spec i)"
  let ?i = "zero_Interface\<lparr>i_Kind := InterfaceKind, i_Name := ?n, AdminStatus := d\<rparr>"
  let ?cfg = "put_field (''PORT|'' @ ?n) ''admin_status'' d cfg"
  have nb: "valid (steady V True ?cfg) (si_neighbor (loopback (sonic_agent R H)) cl j) ?Q"
    if "si_Spec j = si_Spec i" "st_AdminState (si_Status j) = spec_AdminState (si_Spec i)" for j
    using live_neighbor [OF c, of x j ?cfg H cl] n that by simp
  let ?B = "\<lambda>(p :: Interface option) s. steady V True ?cfg s \<and> (\<exists>r. p = Some r \<and> AdminStatus r = d \<and> two_states (OperationStatus r))"
  have set: "valid (steady V True cfg) (cli_SetInterfaceAdminStatus (loopback (sonic_agent R H)) cl ?i) (returns ?B)"
  proof -
    have "iface_name (Some (zero_Interface\<lparr>i_Kind := InterfaceKind, i_Name := i_Name ?i, AdminStatus := AdminStatus ?i\<rparr>)) = Inr ?n"
      by (rule native_of_abstract(1) [OF n]) simp
    from live_admin [where cfg = cfg, OF c h b al this] show ?thesis by simp
  qed
  show ?thesis
    unfolding si_apply_admin_def d prod.case option.case
  proof (rule live_call [OF set], rule valid_pure, elim exE conjE)
    fix p r assume r: "p = Some r" "AdminStatus r = d" "two_states (OperationStatus r)"
    from two_states_known [OF r(3)] obtain o' where "AgentDeviceStatusToAPIOperationState (OperationStatus r) = (o', None)" by blast
    with r desired_state [OF d]
    show "valid (steady V True ?cfg) (case p of None \<Rightarrow> si_neighbor (loopback (sonic_agent R H)) cl i
      | Some switchInterface \<Rightarrow> (case AgentDeviceStatusToAPIAdminState (AdminStatus switchInterface) of
          (_, Some err) \<Rightarrow> si_fail i err
        | (adminState, None) \<Rightarrow>
            let i1 = si_set_admin adminState i in
            (case AgentDeviceStatusToAPIOperationState (OperationStatus switchInterface) of
               (_, Some err) \<Rightarrow> si_fail i1 err
             | (operationState, None) \<Rightarrow>
                 si_neighbor (loopback (sonic_agent R H)) cl (si_set_oper (if OperationStatus switchInterface = StatusUp then OperationStateUp
                   else OperationStateDown) (si_set_oper operationState i1))))) ?Q"
      by (simp add: Let_def nb si_set_oper_def si_set_admin_def del: append.simps)
  qed
qed

lemma put_field_same: "cfg k f = Some v \<Longrightarrow> put_field k f v cfg = cfg"
  by (auto simp: put_field_def fun_eq_iff)

lemma live_set_alias:
  assumes c: "redis_contract R V" and h: "host_contract H V" and b: "bus_works H" and m: "AbstractNameToNativeName handle = Inr m"
    and al: "cfg (''PORT|'' @ m) ''alias'' = Some (AliasName iface)" and ab: "NativeNameToAbstractName m = Inr (i_Name iface)"
  shows "valid (steady V True cfg)
      (if AliasName iface \<noteq> handle
       then cli_SetInterfaceAliasName (loopback (sonic_agent R H)) cl (zero_Interface\<lparr>i_Kind := InterfaceKind, i_Name := i_Name iface, AliasName := handle\<rparr>)
       else ret (Returned (None, None)))
      (returns (\<lambda>p. steady V True (put_field (''PORT|'' @ m) ''alias'' handle cfg)))"
proof (cases "AliasName iface = handle")
  case True
  then show ?thesis using al put_field_same [of cfg "''PORT|'' @ m" "''alias''" handle] by (simp add: valid_def)
next
  case False
  note back' = abstract_of_native [OF m ab]
  have "handle \<noteq> []" using back'(3) by auto
  with live_alias [where iface = "zero_Interface\<lparr>i_Kind := InterfaceKind, i_Name := i_Name iface, AliasName := handle\<rparr>" and cfg = cfg, OF c h b] back' False
  show ?thesis by simp
qed

text \<open>CONFIG\_DB with the specification applied.\<close>

definition applied :: "SwitchInterfaceSpec \<Rightarrow> string \<Rightarrow> (string \<Rightarrow> string \<rightharpoonup> string) \<Rightarrow> string \<Rightarrow> string \<rightharpoonup> string" where
  "applied spec d cfg = put_field (''PORT|'' @ si_NativeName spec) ''admin_status'' d
     (put_field (''PORT|'' @ si_NativeName spec) ''alias'' (si_Handle spec) cfg)"

lemma live_found:
  assumes c: "redis_contract R V" and h: "host_contract H V" and b: "bus_works H"
    and m: "AbstractNameToNativeName (si_Handle (si_Spec i)) = Inr (si_NativeName (si_Spec i))"
    and d: "APIAdminStateToAgentDeviceStatus (spec_AdminState (si_Spec i)) = (d, None)"
    and al: "cfg (''PORT|'' @ si_NativeName (si_Spec i)) ''alias'' = Some (AliasName iface)"
    and ab: "NativeNameToAbstractName (si_NativeName (si_Spec i)) = Inr (i_Name iface)" and st: "two_states (AdminStatus iface)"
  shows "valid (steady V True cfg) (si_found (loopback (sonic_agent R H)) cl i iface)
    (\<lambda>r s. steady V True (applied (si_Spec i) d cfg) s \<and> finished V (si_NativeName (si_Spec i)) (spec_AdminState (si_Spec i)) r s)"
    (is "valid _ _ ?Q")
  unfolding si_found_def
proof (rule live_call [OF live_set_alias [where cfg = cfg, OF c h b m al ab]])
  let ?cfg = "put_field (''PORT|'' @ si_NativeName (si_Spec i)) ''alias'' (si_Handle (si_Spec i)) cfg"
  have alias': "?cfg (''PORT|'' @ si_NativeName (si_Spec i)) ''alias'' \<noteq> None" by (simp add: put_field_def)
  have "valid (steady V True ?cfg) (si_apply_admin (loopback (sonic_agent R H)) cl j) ?Q" if "si_Spec j = si_Spec i" for j
    using live_apply_admin [OF c h b, of "si_Handle (si_Spec i)" j ?cfg d cl] m d alias' that by (simp add: applied_def del: append.simps)
  with two_states_known [OF st]
  show "valid (steady V True ?cfg)
      (let i1 = si_set_oper (if OperationStatus iface = StatusUp then OperationStateUp else OperationStateDown) i in
       (case AgentDeviceStatusToAPIAdminState (AdminStatus iface) of
          (_, Some err) \<Rightarrow> si_fail i1 err
        | (adminState, None) \<Rightarrow> si_apply_admin (loopback (sonic_agent R H)) cl (si_set_admin adminState i1))) ?Q" for p :: "Interface option"
    by (auto simp: Let_def simp del: append.simps)
qed

lemma live_lookup:
  assumes c: "redis_contract R V" and h: "host_contract H V" and b: "bus_works H" and l: "link_known H (si_NativeName (si_Spec i))"
    and m: "AbstractNameToNativeName (si_Handle (si_Spec i)) = Inr (si_NativeName (si_Spec i))"
    and d: "APIAdminStateToAgentDeviceStatus (spec_AdminState (si_Spec i)) = (d, None)"
    and al: "cfg (''PORT|'' @ si_NativeName (si_Spec i)) ''alias'' \<noteq> None"
  shows "valid (steady V True cfg) (si_lookup (loopback (sonic_agent R H)) cl i)
    (\<lambda>r s. steady V True (applied (si_Spec i) d cfg) s \<and> finished V (si_NativeName (si_Spec i)) (spec_AdminState (si_Spec i)) r s)"
    (is "valid _ _ ?Q")
proof -
  let ?n = "si_NativeName (si_Spec i)"
  let ?i = "zero_Interface\<lparr>i_Kind := InterfaceKind, i_Name := si_Handle (si_Spec i)\<rparr>"
  obtain a where a: "cfg (''PORT|'' @ ?n) ''alias'' = Some a" using al by blast
  obtain ab where ab: "NativeNameToAbstractName ?n = Inr ab" using native_of_abstract(2) [OF m] by blast
  have m': "AbstractNameToNativeName (i_Name ?i) = Inr ?n" using m by simp
  show ?thesis
    unfolding si_lookup_def
  proof (rule live_call [OF live_get [where cfg = cfg, OF c h m' l a ab]], rule valid_pure, elim exE conjE)
    fix p and iface :: Interface assume p: "p = Some iface" "AliasName iface = a" "i_Name iface = ab" "two_states (AdminStatus iface)"
    from live_found [where cfg = cfg and iface = iface and cl = cl, OF c h b m d] a ab p
    show "valid (steady V True cfg) (case p of None \<Rightarrow> si_done SwitchInterfaceStateFailed i
        | Some iface \<Rightarrow> si_found (loopback (sonic_agent R H)) cl i iface) ?Q" by (simp del: append.simps)
  qed
qed

text \<open>The cluster has the switch that the interface refers to, and reading it leaves the switch alone.\<close>

definition switch_known :: "('c SonicAgent \<times> 'w) kube \<Rightarrow> ('c, 'w) store_view \<Rightarrow> string \<Rightarrow> string \<Rightarrow> bool" where
  "switch_known K V name namespace \<longleftrightarrow> (\<forall>cfg. valid (steady V True cfg) (GetSwitch K name namespace) (\<lambda>r s. steady V True cfg s \<and> \<not> isl r))"

lemma live_body:
  assumes "redis_contract R V" and "host_contract H V" and "bus_works H" and "link_known H (si_NativeName (si_Spec i))"
    and "AbstractNameToNativeName (si_Handle (si_Spec i)) = Inr (si_NativeName (si_Spec i))"
    and "APIAdminStateToAgentDeviceStatus (spec_AdminState (si_Spec i)) = (d, None)"
    and "cfg (''PORT|'' @ si_NativeName (si_Spec i)) ''alias'' \<noteq> None"
    and st: "si_State (si_Status i) \<noteq> []" and ref: "SwitchRef (si_Spec i) = Some ref" and k: "switch_known K V ref (m_Namespace (si_Meta i))"
  shows "valid (steady V True cfg) (si_body K (loopback (sonic_agent R H)) i)
    (\<lambda>r s. steady V True (applied (si_Spec i) d cfg) s \<and> finished V (si_NativeName (si_Spec i)) (spec_AdminState (si_Spec i)) r s)"
proof -
  have client: "valid (steady V True cfg) (NewAgentClientFromSwitchRef K (Some ref) (m_Namespace (si_Meta i)))
      (\<lambda>r s. steady V True cfg s \<and> (\<exists>cl. r = Inr (Some cl)))"
    unfolding NewAgentClientFromSwitchRef_def option.case
  proof (rule valid_on_err_pure [OF k [unfolded switch_known_def, THEN spec]])
    fix sw
    obtain cl where "NewAgentClientForSwitch sw = Inr cl" using client_for_switch by blast
    then show "valid (steady V True cfg) (case NewAgentClientForSwitch sw of Inl err \<Rightarrow> ret (Inl err) | Inr agentcli \<Rightarrow> ret (Inr (Some agentcli)))
        (\<lambda>r s. steady V True cfg s \<and> (\<exists>cl. r = Inr (Some cl)))" by (simp add: valid_def)
  qed simp
  show ?thesis
    unfolding si_body_def ref if_not_P [OF st] if_not_P [OF option.distinct(2)]
    by (rule valid_on_err_pure [OF client]) (use live_lookup [where cfg = cfg, OF assms(1-7)] in auto)
qed

text \<open>Property C2. On a switch that works, the body of the reconciliation, after the step of the finalizer, goes all the way. Assume the state of
  the object is not empty, the database is reachable, the configuration can be
  saved, CONFIG\_DB has the port with an alias, the kernel knows its device, the cluster has the switch, and the specification is
  such as \<open>EnsureInterface\<close> applies it: the handle names the port and the administrative state is \<open>Up\<close> or \<open>Down\<close>. Then the
  reconciliation returns, CONFIG\_DB has changed in the alias and the administrative status of that port and nowhere else, the status
  of the object has the administrative state of its specification, and the object is \<open>Ready\<close> with no error if and only if the agent
  understands the LLDP entry of the port. If the neighbour describes its port otherwise than as a SONiC switch does, the object is
  \<open>Failed\<close> although the port is configured.\<close>

theorem interface_converges:
  assumes "redis_contract R V" and "host_contract H V" and "bus_works H" and "link_known H (si_NativeName (si_Spec i))"
    and "AbstractNameToNativeName (si_Handle (si_Spec i)) = Inr (si_NativeName (si_Spec i))"
    and "APIAdminStateToAgentDeviceStatus (spec_AdminState (si_Spec i)) = (d, None)"
    and "hashes_of V w 4 (''PORT|'' @ si_NativeName (si_Spec i)) ''alias'' \<noteq> None"
    and "si_State (si_Status i) \<noteq> []" and "SwitchRef (si_Spec i) = Some ref" and "switch_known K V ref (m_Namespace (si_Meta i))"
    and "pool_ok V a" and "reachable V w"
  shows "\<exists>i' res a' w'. run (si_body K (loopback (sonic_agent R H)) i) (a, w) = ((i', res), (a', w')) \<and>
    hashes_of V w' 4 = put_field (''PORT|'' @ si_NativeName (si_Spec i)) ''admin_status'' d
      (put_field (''PORT|'' @ si_NativeName (si_Spec i)) ''alias'' (si_Handle (si_Spec i)) (hashes_of V w 4)) \<and>
    st_AdminState (si_Status i') = spec_AdminState (si_Spec i) \<and>
    (if understood (hashes_of V w' 0 (''LLDP_ENTRY_TABLE:'' @ si_NativeName (si_Spec i)))
     then res = Returned (0, None) \<and> si_State (si_Status i') = SwitchInterfaceStateReady
     else (\<exists>err. res = Returned (0, Some err)) \<and> si_State (si_Status i') = SwitchInterfaceStateFailed)"
proof -
  have s: "steady V True (hashes_of V w 4) (a, w)" using assms(11,12) by (simp add: steady_def)
  obtain i' res a' w' where run: "run (si_body K (loopback (sonic_agent R H)) i) (a, w) = ((i', res), (a', w'))" by (metis surj_pair)
  from validD [OF live_body [where cfg = "hashes_of V w 4", OF assms(1-10)] s run]
  have "hashes_of V w' 4 = applied (si_Spec i) d (hashes_of V w 4)"
    and "finished V (si_NativeName (si_Spec i)) (spec_AdminState (si_Spec i)) (i', res) (a', w')" by (simp_all add: steady_def)
  with run show ?thesis unfolding applied_def finished_def fst_conv snd_conv by blast
qed

text \<open>The property at a port that is down and is to be up, and whose neighbour is not a SONiC switch.\<close>

theorem interface_converges_witness:
  "\<exists>i' res a' w'. run (si_body demo_kube (loopback (sonic_agent mem_redis (mem_host True))) (demo_interface ''Pending''))
       (\<lparr>redisAddr = ''h:1'', clientPool = []\<rparr>, [((4, ''PORT|Ethernet0''), [(''alias'', ''old''), (''admin_status'', ''down'')]),
         ((0, ''LLDP_ENTRY_TABLE:Ethernet0''), [(''lldp_rem_port_desc'', ''uplink'')])]) = ((i', res), (a', w')) \<and>
     hashes_of mem_view w' 4 (''PORT|'' @ ''Ethernet0'') ''admin_status'' = Some ''up'' \<and>
     hashes_of mem_view w' 4 (''PORT|'' @ ''Ethernet0'') ''alias'' = Some ''eth0-0'' \<and>
     st_AdminState (si_Status i') = ''Up'' \<and> (\<exists>err. res = Returned (0, err))"
proof -
  let ?w = "[((4, ''PORT|Ethernet0''), [(''alias'', ''old''), (''admin_status'', ''down'')]),
         ((0, ''LLDP_ENTRY_TABLE:Ethernet0''), [(''lldp_rem_port_desc'', ''uplink'')])] :: mem"
  let ?i = "demo_interface ''Pending''"
  have spec: "si_NativeName (si_Spec ?i) = ''Ethernet0''" "si_Handle (si_Spec ?i) = ''eth0-0''" "SwitchRef (si_Spec ?i) = Some ''leaf-1''"
    "spec_AdminState (si_Spec ?i) = ''Up''" "si_State (si_Status ?i) = ''Pending''"
    by (simp_all add: demo_interface_def)
  have n: "AbstractNameToNativeName ''eth0-0'' = Inr ''Ethernet0''" by code_simp
  have d: "APIAdminStateToAgentDeviceStatus ''Up'' = (''up'', None)" by (simp add: state_convs dev_states admin_states)
  have host: "bus_works (mem_host True)" "link_known (mem_host True) ''Ethernet0''" by (simp_all add: bus_works_def link_known_def mem_host_def)
  have k: "switch_known demo_kube mem_view ''leaf-1'' ns" for ns by (simp add: switch_known_def demo_kube_def valid_def)
  have p: "pool_ok mem_view \<lparr>redisAddr = ''h:1'', clientPool = []\<rparr>" by (simp add: pool_ok_def)
  have w: "hashes_of mem_view ?w 4 (''PORT|'' @ ''Ethernet0'') ''alias'' \<noteq> None" "reachable mem_view ?w" by (simp_all add: mem_view_def mem_hash_def)
  from interface_converges [OF mem_redis_contract mem_host_contract host(1), of ?i "''up''" ?w "''leaf-1''" demo_kube
      "\<lparr>redisAddr = ''h:1'', clientPool = []\<rparr>", unfolded spec, OF host(2) n d w(1) _ refl k p w(2)]
  show ?thesis by (fastforce simp: put_field_def split: if_splits)
qed

end
