(* ===== verification/Ztp_Script.thy ===== *)
theory Ztp_Script
  imports Switch_Api "HOL-Library.AList"
begin

text \<open>
  The ZTP script that is generated from a \<open>Switch\<close> (\<open>internal/ztp/generated_mode.go\<close> and the
  template \<open>internal/ztp/templates/generated-mode.sh.gotmpl\<close>): the data of the template, the
  checks on volumes, mounts and users, and the text.

  The text is run by a shell on the switch, so the property that matters is that no value from the
  object is read as code. A small lexer of shell words is the reference: it reads quoted and unquoted
  text up to a separator and refuses every character with another meaning. The words of the
  \<open>docker run\<close> line are then the arguments that were meant, for all values.
\<close>

section \<open>Quoting\<close>

definition shellQuote :: "string \<Rightarrow> string" where
  "shellQuote value = [CHR 39] @ ReplaceAll value CHR 39 [CHR 39, CHR 34, CHR 39, CHR 34, CHR 39] @ [CHR 39]"

text \<open>The reference: the shell's reading of quoted text. A single quote ends at the next single quote.\<close>

fun sh_single :: "string \<Rightarrow> (string \<times> string) option" where
  "sh_single [] = None"
| "sh_single (c # s) = (if c = CHR 39 then Some ([], s) else map_option (\<lambda>(v, r). (c # v, r)) (sh_single s))"

text \<open>In double quotes the characters that start an expansion or an escape are refused.\<close>

fun sh_double :: "string \<Rightarrow> (string \<times> string) option" where
  "sh_double [] = None"
| "sh_double (c # s) =
     (if c = CHR 34 then Some ([], s)
      else if c \<in> {CHR ''$'', CHR 96, CHR 92} then None
      else map_option (\<lambda>(v, r). (c # v, r)) (sh_double s))"

definition sh_blank :: "char \<Rightarrow> bool" where
  "sh_blank c \<longleftrightarrow> c = CHR '' '' \<or> c = CHR 0x0A"

definition sh_plain :: "char \<Rightarrow> bool" where
  "sh_plain c \<longleftrightarrow> is_graph c \<and> c \<notin> {CHR 34, CHR 39, CHR 92, CHR 96, CHR ''$'', CHR ''&'', CHR '';'', CHR ''|'', CHR ''<'',
     CHR ''>'', CHR ''('', CHR '')'', CHR ''*'', CHR ''?'', CHR ''['', CHR '']'', CHR ''{'', CHR ''}'', CHR ''~'', CHR ''!'', CHR ''#''}"

lemma sh_single_length: "sh_single s = Some (v, r) \<Longrightarrow> length r < length s"
  by (induction s arbitrary: v) (auto split: if_splits)

lemma sh_double_length: "sh_double s = Some (v, r) \<Longrightarrow> length r < length s"
  by (induction s arbitrary: v) (auto split: if_splits)

text \<open>One word: the value it denotes and what follows it.\<close>

function sh_word :: "string \<Rightarrow> (string \<times> string) option" where
  "sh_word s = (case s of
      [] \<Rightarrow> Some ([], [])
    | c # r \<Rightarrow>
        if sh_blank c then Some ([], s)
        else if c = CHR 39 then (case sh_single r of None \<Rightarrow> None | Some (v, r') \<Rightarrow> map_option (\<lambda>(w, t). (v @ w, t)) (sh_word r'))
        else if c = CHR 34 then (case sh_double r of None \<Rightarrow> None | Some (v, r') \<Rightarrow> map_option (\<lambda>(w, t). (v @ w, t)) (sh_word r'))
        else if sh_plain c then map_option (\<lambda>(w, t). (c # w, t)) (sh_word r)
        else None)"
  by pat_completeness auto
termination
  by (relation "measure length") (auto dest: sh_single_length sh_double_length)

declare sh_word.simps [simp del]

lemma sh_plainD:
  assumes "sh_plain c"
  shows "\<not> sh_blank c \<and> c \<noteq> CHR 39 \<and> c \<noteq> CHR 34"
proof -
  have "\<not> sh_plain CHR 39" "\<not> sh_plain CHR 34" "\<not> sh_plain CHR '' ''" "\<not> sh_plain CHR 0x0A"
    by (simp_all add: sh_plain_def is_graph_def)
  with assms show ?thesis unfolding sh_blank_def by metis
qed

lemma sh_word_Nil [simp]: "sh_word [] = Some ([], [])"
  by (simp add: sh_word.simps [of "[]"])

lemma sh_word_blank [simp]: "sh_blank c \<Longrightarrow> sh_word (c # r) = Some ([], c # r)"
  by (simp add: sh_word.simps [of "c # r"])

lemma sh_word_single [simp]:
  "sh_word (CHR 39 # r) = (case sh_single r of None \<Rightarrow> None | Some (v, r') \<Rightarrow> map_option (\<lambda>(w, t). (v @ w, t)) (sh_word r'))"
  by (simp add: sh_word.simps [of "CHR 39 # r"] sh_blank_def)

lemma sh_word_double [simp]:
  "sh_word (CHR 34 # r) = (case sh_double r of None \<Rightarrow> None | Some (v, r') \<Rightarrow> map_option (\<lambda>(w, t). (v @ w, t)) (sh_word r'))"
  by (simp add: sh_word.simps [of "CHR 34 # r"] sh_blank_def)

lemma sh_word_plain [simp]: "sh_plain c \<Longrightarrow> sh_word (c # r) = map_option (\<lambda>(w, t). (c # w, t)) (sh_word r)"
  using sh_plainD [of c] by (simp add: sh_word.simps [of "c # r"])

lemma sh_word_length: "sh_word s = Some (v, r) \<Longrightarrow> length r \<le> length s"
proof (induction s arbitrary: v r rule: measure_induct_rule [where f = length])
  case (less s)
  show ?case
  proof (cases s)
    case (Cons c t)
    have IH: "length y \<le> length t \<Longrightarrow> sh_word y = Some (v', r') \<Longrightarrow> length r' \<le> length t" for y v' r'
      using less.IH [of y v' r'] Cons by simp
    from less.prems Cons show ?thesis
      by (auto simp: sh_word.simps [of "c # t"] split: if_splits option.splits
          dest!: sh_single_length sh_double_length dest: IH [OF less_imp_le] IH [OF order_refl])
  qed (use less.prems in simp)
qed

text \<open>Text that ends a word.\<close>

definition ends_word :: "string \<Rightarrow> bool" where
  "ends_word r \<longleftrightarrow> r = [] \<or> sh_blank (hd r)"

lemma ends_word_simps [simp]: "ends_word []" "ends_word (c # r) = sh_blank c"
  by (simp_all add: ends_word_def)

lemma sh_word_end: "ends_word r \<Longrightarrow> sh_word r = Some ([], r)"
  by (cases r) simp_all

text \<open>What is read after the opening quote of \<open>shellQuote\<close>.\<close>

lemma sh_single_quoted:
  assumes "ends_word r"
  shows "\<exists>a b. sh_single (ReplaceAll v CHR 39 [CHR 39, CHR 34, CHR 39, CHR 34, CHR 39] @ CHR 39 # r) = Some (a, b) \<and>
     map_option (\<lambda>(w, t). (a @ w, t)) (sh_word b) = Some (v, r)"
proof (induction v)
  case Nil
  then show ?case using sh_word_end [OF assms] by (simp add: ReplaceAll_def)
next
  case (Cons c v)
  then obtain a b where ab: "sh_single (ReplaceAll v CHR 39 [CHR 39, CHR 34, CHR 39, CHR 34, CHR 39] @ CHR 39 # r) = Some (a, b)"
    "map_option (\<lambda>(w, t). (a @ w, t)) (sh_word b) = Some (v, r)" by blast
  show ?case
  proof (cases "c = CHR 39")
    case True
    with ab show ?thesis by (auto simp: ReplaceAll_def)
  next
    case False
    with ab show ?thesis by (auto simp: ReplaceAll_def)
  qed
qed

text \<open>A quoted value is read by the shell as exactly one word with that value, whatever bytes it contains, when a
  blank, a newline or the end of the text follows.\<close>

lemma sh_word_quoted: "ends_word r \<Longrightarrow> sh_word (shellQuote v @ r) = Some (v, r)"
  using sh_single_quoted [of r v] by (auto simp: shellQuote_def)

section \<open>The data of the template\<close>

record generatedModeContainerData =
  g_Name :: string
  g_Image :: string
  g_HostPID :: bool
  g_Privileged :: bool
  DockerUser :: string
  g_VolumeMounts :: "string list"
  g_InjectControlKubeconfig :: bool
  EncodedControlKubeconfig :: string
  ControlKubeconfigPath :: string
  Entrypoint :: string
  g_Command :: "string list"
  g_Args :: "string list"
  FailureMessage :: string

record generatedModeTemplateData =
  SwitchName :: string
  t_Hostname :: string
  ConfigureONIE :: bool
  t_Containers :: "generatedModeContainerData list"

text \<open>\<open>base64.StdEncoding.EncodeToString\<close>.\<close>

definition b64_char :: "nat \<Rightarrow> char" where
  "b64_char n = (if n < 26 then char_of (65 + n) else if n < 52 then char_of (71 + n)
     else if n < 62 then char_of (n - 4) else if n = 62 then CHR ''+'' else CHR ''/'')"

fun base64 :: "string \<Rightarrow> string" where
  "base64 [] = []"
| "base64 [a] = (let x = of_char a :: nat in [b64_char (x div 4), b64_char (x mod 4 * 16), CHR ''='', CHR ''=''])"
| "base64 [a, b] = (let x = of_char a :: nat; y = of_char b :: nat in
     [b64_char (x div 4), b64_char (x mod 4 * 16 + y div 16), b64_char (y mod 16 * 4), CHR ''=''])"
| "base64 (a # b # c # r) = (let x = of_char a :: nat; y = of_char b :: nat; z = of_char c :: nat in
     b64_char (x div 4) # b64_char (x mod 4 * 16 + y div 16) # b64_char (y mod 16 * 4 + z div 64) # b64_char (z mod 64) # base64 r)"

definition containerDockerUser :: "Container \<Rightarrow> string res" where
  "containerDockerUser container = (case SecurityContext container of
      None \<Rightarrow> Inr []
    | Some sc \<Rightarrow> (case RunAsUser sc of
        None \<Rightarrow> (case RunAsGroup sc of
            Some _ \<Rightarrow> Inl (Errorf (''container '' @ Quote (c_Name container) @ '' sets securityContext.runAsGroup without securityContext.runAsUser''))
          | None \<Rightarrow> Inr [])
      | Some u \<Rightarrow> (case RunAsGroup sc of None \<Rightarrow> Inr (Itoa u) | Some g \<Rightarrow> Inr (Itoa u @ '':'' @ Itoa g))))"

fun volumes_loop :: "Volume list \<Rightarrow> gomap \<Rightarrow> gomap res" where
  "volumes_loop [] result = Inr result"
| "volumes_loop (v # vs) result =
     (if v_Name v = [] then Inl (Errorf ''volume name is empty'')
      else if map_of result (v_Name v) \<noteq> None then Inl (Errorf (''duplicate volume '' @ Quote (v_Name v)))
      else (case HostPath v of
          None \<Rightarrow> Inl (Errorf (''volume '' @ Quote (v_Name v) @ '' must specify hostPath''))
        | Some hp \<Rightarrow>
            if \<not> HasPrefix (hp_Path hp) ''/''
            then Inl (Errorf (''volume '' @ Quote (v_Name v) @ '' hostPath '' @ Quote (hp_Path hp) @ '' must be absolute''))
            else volumes_loop vs (AList.update (v_Name v) (hp_Path hp) result)))"

definition hostPathVolumes :: "Volume list \<Rightarrow> gomap res" where
  "hostPathVolumes volumes = volumes_loop volumes []"

fun mounts_loop :: "string \<Rightarrow> gomap \<Rightarrow> VolumeMount list \<Rightarrow> string list \<Rightarrow> string list \<Rightarrow> string list res" where
  "mounts_loop cname volumes [] mountPaths result = Inr result"
| "mounts_loop cname volumes (m # ms) mountPaths result = (case map_of volumes (vm_Name m) of
      None \<Rightarrow> Inl (Errorf (''container '' @ Quote cname @ '' mounts unknown volume '' @ Quote (vm_Name m)))
    | Some hostPath \<Rightarrow>
        if \<not> HasPrefix (MountPath m) ''/''
        then Inl (Errorf (''container '' @ Quote cname @ '' mountPath '' @ Quote (MountPath m) @ '' must be absolute''))
        else if MountPath m \<in> set mountPaths
        then Inl (Errorf (''container '' @ Quote cname @ '' mounts multiple volumes at '' @ Quote (MountPath m)))
        else mounts_loop cname volumes ms (MountPath m # mountPaths)
          (result @ [hostPath @ '':'' @ MountPath m @ '':'' @ (if ReadOnly m then ''ro'' else ''rw'')]))"

definition containerVolumeMounts :: "Container \<Rightarrow> gomap \<Rightarrow> string list res" where
  "containerVolumeMounts container volumes = mounts_loop (c_Name container) volumes (VolumeMounts container) [] []"

text \<open>The first loop over the containers: read and encode the kubeconfig when a container asks for it.\<close>

fun kubeconfig_loop :: "(string \<Rightarrow> ('w, string res) state) \<Rightarrow> string \<Rightarrow> Container list \<Rightarrow> string \<Rightarrow> ('w, string res) state" where
  "kubeconfig_loop readFile path [] encoded = ret (Inr encoded)"
| "kubeconfig_loop readFile path (c # cs) encoded =
     (if \<not> InjectControlKubeconfig c \<or> encoded \<noteq> [] then kubeconfig_loop readFile path cs encoded
      else if path = [] then ret (Inl (Errorf ''injectControlKubeconfig requires --bootstrap-control-kubeconfig-file''))
      else on_err (readFile path)
        (\<lambda>err. ret (Inl (ErrorfW (''reading control kubeconfig file '' @ Quote path @ '': '' @ error_text err) err)))
        (\<lambda>kubeconfig. kubeconfig_loop readFile path cs (base64 kubeconfig)))"

definition container_data :: "gomap \<Rightarrow> string \<Rightarrow> Container \<Rightarrow> generatedModeContainerData res" where
  "container_data volumes encoded container = (case containerDockerUser container of Inl err \<Rightarrow> Inl err
    | Inr dockerUser \<Rightarrow> (case containerVolumeMounts container volumes of Inl err \<Rightarrow> Inl err
    | Inr volumeMounts \<Rightarrow>
        if InjectControlKubeconfig container \<and>
           (case SecurityContext container of None \<Rightarrow> True | Some sc \<Rightarrow> RunAsUser sc = None)
        then Inl (Errorf (''container '' @ Quote (c_Name container) @ '' injects the control kubeconfig but has no securityContext.runAsUser''))
        else Inr \<lparr>g_Name = c_Name container, g_Image = Image container, g_HostPID = HostPID container,
          g_Privileged = (case SecurityContext container of None \<Rightarrow> False | Some sc \<Rightarrow> Privileged sc),
          DockerUser = dockerUser, g_VolumeMounts = volumeMounts,
          g_InjectControlKubeconfig = InjectControlKubeconfig container, EncodedControlKubeconfig = encoded,
          ControlKubeconfigPath = (if InjectControlKubeconfig container
             then ''/etc/sonic-operator/credentials/'' @ c_Name container @ ''/control-kubeconfig'' else []),
          Entrypoint = (case Command container of [] \<Rightarrow> [] | e # _ \<Rightarrow> e),
          g_Command = (case Command container of [] \<Rightarrow> [] | _ # r \<Rightarrow> r),
          g_Args = Args container,
          FailureMessage = ''sonic-operator: container '' @ c_Name container @ '' failed; continuing''\<rparr>))"

fun containers_loop :: "gomap \<Rightarrow> string \<Rightarrow> Container list \<Rightarrow> generatedModeContainerData list \<Rightarrow> generatedModeContainerData list res" where
  "containers_loop volumes encoded [] acc = Inr acc"
| "containers_loop volumes encoded (c # cs) acc = (case container_data volumes encoded c of
      Inl err \<Rightarrow> Inl err | Inr d \<Rightarrow> containers_loop volumes encoded cs (acc @ [d]))"

definition buildGeneratedModeTemplateData :: "(string \<Rightarrow> ('w, string res) state) \<Rightarrow> Switch \<Rightarrow> string \<Rightarrow> ('w, generatedModeTemplateData res) state" where
  "buildGeneratedModeTemplateData readFile s controlKubeconfigFilePath =
     (let spec = sw_Spec s; hostname = (if Hostname spec = [] then m_Name (sw_Meta s) else Hostname spec) in
      if hostname = [] then ret (Inl (Errorf ''hostname is empty''))
      else if s_NextBootMode spec \<notin> {[], NextBootModeNone, NextBootModeInstallOS}
      then ret (Inl (Errorf (''unsupported next boot mode '' @ Quote (s_NextBootMode spec))))
      else (case (if Containers spec \<noteq> [] then hostPathVolumes (Volumes spec) else Inr []) of
          Inl err \<Rightarrow> ret (Inl err)
        | Inr volumes \<Rightarrow>
            on_err (kubeconfig_loop readFile controlKubeconfigFilePath (Containers spec) []) (\<lambda>err. ret (Inl err))
              (\<lambda>encoded. ret (case containers_loop volumes encoded (Containers spec) [] of
                 Inl err \<Rightarrow> Inl err
               | Inr cs \<Rightarrow> Inr \<lparr>SwitchName = m_Name (sw_Meta s), t_Hostname = hostname,
                   ConfigureONIE = (s_NextBootMode spec = NextBootModeInstallOS), t_Containers = cs\<rparr>))))"

section \<open>The text\<close>

definition unlines :: "string list \<Rightarrow> string" where
  "unlines ls = concat (map (\<lambda>l. l @ [CHR 0x0A]) ls)"

definition onie_lines :: "string list" where
  "onie_lines = [
     ''# Configure ONIE install discovery for the next and every subsequent SONiC reboot.'',
     ''mkdir -p /onieboot'',
     ''cat >/etc/systemd/system/onieboot.mount <<'' @ [CHR 39] @ ''EOF'' @ [CHR 39],
     ''[Unit]'',
     ''Description=ONIE boot partition'',
     [],
     ''[Mount]'',
     ''What=LABEL=ONIE-BOOT'',
     ''Where=/onieboot'',
     ''Type=auto'',
     ''Options=defaults'',
     [],
     ''[Install]'',
     ''WantedBy=multi-user.target'',
     ''EOF'',
     [],
     ''cat >/etc/systemd/system/sonic-operator-onie-install.service <<'' @ [CHR 39] @ ''EOF'' @ [CHR 39],
     ''[Unit]'',
     ''Description=Configure next boot for ONIE install discovery'',
     ''Requires=onieboot.mount'',
     ''After=onieboot.mount'',
     [],
     ''[Service]'',
     ''Type=oneshot'',
     ''ExecStart=/bin/sh -c '' @ [CHR 39] @ ''grub-editenv /host/grub/grubenv set next_entry=ONIE'' @ [CHR 39],
     ''ExecStart=/bin/sh -c '' @ [CHR 39] @ ''grub-editenv /onieboot/grub/grubenv set onie_mode=install'' @ [CHR 39],
     [],
     ''[Install]'',
     ''WantedBy=multi-user.target'',
     ''EOF'',
     [],
     ''systemctl daemon-reload'',
     ''systemctl enable --now onieboot.mount'',
     ''systemctl enable --now sonic-operator-onie-install.service'']"

text \<open>The commands that put the control kubeconfig in place.\<close>

definition inject_lines :: "generatedModeContainerData \<Rightarrow> string list" where
  "inject_lines c =
     (if g_InjectControlKubeconfig c then
       [''install -d -m 0700 /etc/sonic-operator/credentials &&'',
        ''install -d -m 0700 '' @ shellQuote (''/etc/sonic-operator/credentials/'' @ g_Name c) @ '' &&'',
        ''printf '' @ [CHR 39] @ ''%s'' @ [CHR 39] @ '' '' @ shellQuote (EncodedControlKubeconfig c) @ '' | base64 -d >''
          @ shellQuote (ControlKubeconfigPath c) @ '' &&'',
        ''chown '' @ DockerUser c @ '' '' @ shellQuote (ControlKubeconfigPath c) @ '' &&'',
        ''chmod 0600 '' @ shellQuote (ControlKubeconfigPath c) @ '' &&'']
      else [])"

text \<open>The words of the \<open>docker run\<close> line, separated by one blank each.\<close>

definition docker_run_words :: "generatedModeContainerData \<Rightarrow> string list" where
  "docker_run_words c =
     [''docker'', ''run'', ''-d'', ''--name'', shellQuote (g_Name c), ''--network'', ''host'']
     @ (if g_HostPID c then [''--pid'', ''host''] else [])
     @ (if g_Privileged c then [''--privileged''] else [])
     @ [''--restart'', ''unless-stopped'']
     @ (if DockerUser c \<noteq> [] then [''--user'', shellQuote (DockerUser c)] else [])
     @ concat (map (\<lambda>m. [''-v'', shellQuote m]) (g_VolumeMounts c))
     @ (if g_InjectControlKubeconfig c
        then [''-e'', ''KUBECONFIG=/var/run/sonic-operator/control-kubeconfig'', ''-v'',
              shellQuote (ControlKubeconfigPath c @ '':/var/run/sonic-operator/control-kubeconfig:ro'')] else [])
     @ (if Entrypoint c \<noteq> [] then [''--entrypoint'', shellQuote (Entrypoint c)] else [])
     @ [shellQuote (g_Image c)] @ map shellQuote (g_Command c) @ map shellQuote (g_Args c)"

definition docker_run_line :: "generatedModeContainerData \<Rightarrow> string" where
  "docker_run_line c = Join (docker_run_words c) '' ''"

definition container_lines :: "generatedModeContainerData \<Rightarrow> string list" where
  "container_lines c =
     [''if ! (''] @ inject_lines c @
     [''docker pull '' @ shellQuote (g_Image c) @ '' &&'',
      ''(docker rm -f '' @ shellQuote (g_Name c) @ '' >/dev/null 2>&1 || true) &&'',
      docker_run_line c,
      ''); then'',
      ''  echo '' @ shellQuote (FailureMessage c) @ '' >&2'',
      ''fi'']"

definition render_template :: "generatedModeTemplateData \<Rightarrow> string" where
  "render_template d = unlines (
     [''#!/bin/bash'', ''set -euo pipefail'', [], ''# Generated by sonic-operator '' @ shellQuote (SwitchName d), []]
     @ (if ConfigureONIE d then onie_lines @ [[]] else [])
     @ [''config hostname '' @ shellQuote (t_Hostname d), ''config save -y'']
     @ (if t_Containers d \<noteq> [] then [] # ''# containers'' # concat (map container_lines (t_Containers d)) else [])
     @ [''sync''])"

definition renderGeneratedScript :: "(string \<Rightarrow> ('w, string res) state) \<Rightarrow> Switch \<Rightarrow> string \<Rightarrow> ('w, string res) state" where
  "renderGeneratedScript readFile s controlKubeconfigFilePath =
     on_err (buildGeneratedModeTemplateData readFile s controlKubeconfigFilePath) (\<lambda>err. ret (Inl err))
       (\<lambda>data. ret (Inr (render_template data)))"

section \<open>The words of a line\<close>

lemma sh_word_progress:
  assumes "sh_word (c # s) = Some (v, r)" and "\<not> sh_blank c"
  shows "length r < length (c # s)"
proof -
  from assms have "\<exists>y v'. length y \<le> length s \<and> sh_word y = Some (v', r)"
    by (auto simp: sh_word.simps [of "c # s"] split: if_splits option.splits
        dest!: sh_single_length sh_double_length intro: less_imp_le)
  then show ?thesis using sh_word_length by fastforce
qed

text \<open>The reference: the list of words of a line.\<close>

function sh_words :: "string \<Rightarrow> string list option" where
  "sh_words s = (case s of
      [] \<Rightarrow> Some []
    | c # t \<Rightarrow>
        if sh_blank c then sh_words t
        else (case sh_word s of None \<Rightarrow> None | Some (v, r) \<Rightarrow> map_option (\<lambda>vs. v # vs) (sh_words r)))"
  by pat_completeness auto
termination
  by (relation "measure length") (auto dest: sh_word_progress)

declare sh_words.simps [simp del]

text \<open>A text that the shell reads as one word with a given value.\<close>

definition renders :: "string \<Rightarrow> string \<Rightarrow> bool" where
  "renders t v \<longleftrightarrow> t \<noteq> [] \<and> \<not> sh_blank (hd t) \<and> (\<forall>r. ends_word r \<longrightarrow> sh_word (t @ r) = Some (v, r))"

lemma renders_quoted [simp]: "renders (shellQuote v) v"
  unfolding renders_def by (simp add: sh_word_quoted) (simp add: shellQuote_def sh_blank_def)

lemma renders_plain: "list_all sh_plain w \<Longrightarrow> w \<noteq> [] \<Longrightarrow> renders w w"
proof -
  assume w: "list_all sh_plain w" and ne: "w \<noteq> []"
  have "ends_word r \<Longrightarrow> sh_word (w @ r) = Some (w, r)" for r
    using w by (induction w) (auto simp: sh_word_end)
  moreover have "\<not> sh_blank (hd w)" using w ne sh_plainD by (cases w) auto
  ultimately show ?thesis using ne by (simp add: renders_def)
qed

lemma sh_words_Join:
  assumes "list_all2 renders ts vs"
  shows "sh_words (Join ts '' '') = Some vs"
  using assms
proof (induction ts "'' ''" arbitrary: vs rule: Join.induct)
  case 1
  then show ?case by (simp add: sh_words.simps)
next
  case (2 t)
  then obtain v where v: "vs = [v]" "renders t v" by (auto simp: list_all2_Cons1)
  then obtain c u where t: "t = c # u" "\<not> sh_blank c" by (cases t) (auto simp: renders_def)
  have "sh_word t = Some (v, [])" using v(2) by (metis append_Nil2 ends_word_simps(1) renders_def)
  then show ?case using t v(1) by (simp add: sh_words.simps [of "c # u"] sh_words.simps [of "[]"])
next
  case (3 t t' ts)
  then obtain v vs' where v: "vs = v # vs'" "renders t v" "list_all2 renders (t' # ts) vs'" by (auto simp: list_all2_Cons1)
  then obtain c u where t: "t = c # u" "\<not> sh_blank c" by (cases t) (auto simp: renders_def)
  let ?rest = "CHR '' '' # Join (t' # ts) '' ''"
  have b: "sh_blank CHR '' ''" by (simp add: sh_blank_def)
  have "sh_word (t @ ?rest) = Some (v, ?rest)" using v(2) b by (simp add: renders_def)
  moreover have "sh_words ?rest = Some vs'" using "3.hyps" [OF v(3)] b by (simp add: sh_words.simps [of ?rest])
  ultimately show ?case using t v(1) by (simp add: sh_words.simps [of "c # u @ ?rest"])
qed

text \<open>The arguments that the \<open>docker run\<close> line is meant to have.\<close>

definition docker_run_argv :: "generatedModeContainerData \<Rightarrow> string list" where
  "docker_run_argv c =
     [''docker'', ''run'', ''-d'', ''--name'', g_Name c, ''--network'', ''host'']
     @ (if g_HostPID c then [''--pid'', ''host''] else [])
     @ (if g_Privileged c then [''--privileged''] else [])
     @ [''--restart'', ''unless-stopped'']
     @ (if DockerUser c \<noteq> [] then [''--user'', DockerUser c] else [])
     @ concat (map (\<lambda>m. [''-v'', m]) (g_VolumeMounts c))
     @ (if g_InjectControlKubeconfig c
        then [''-e'', ''KUBECONFIG=/var/run/sonic-operator/control-kubeconfig'', ''-v'',
              ControlKubeconfigPath c @ '':/var/run/sonic-operator/control-kubeconfig:ro''] else [])
     @ (if Entrypoint c \<noteq> [] then [''--entrypoint'', Entrypoint c] else [])
     @ [g_Image c] @ g_Command c @ g_Args c"

lemma renders_literals:
  "renders ''docker'' ''docker''" "renders ''run'' ''run''" "renders ''-d'' ''-d''" "renders ''--name'' ''--name''"
  "renders ''--network'' ''--network''" "renders ''host'' ''host''" "renders ''--pid'' ''--pid''" "renders ''--privileged'' ''--privileged''"
  "renders ''--restart'' ''--restart''" "renders ''unless-stopped'' ''unless-stopped''" "renders ''--user'' ''--user''" "renders ''-v'' ''-v''"
  "renders ''-e'' ''-e''" "renders ''--entrypoint'' ''--entrypoint''"
  "renders ''KUBECONFIG=/var/run/sonic-operator/control-kubeconfig'' ''KUBECONFIG=/var/run/sonic-operator/control-kubeconfig''"
  by (rule renders_plain; simp add: sh_plain_def is_graph_def)+

lemma renders_mounts: "list_all2 renders (concat (map (\<lambda>m. [''-v'', shellQuote m]) ms)) (concat (map (\<lambda>m. [''-v'', m]) ms))"
  by (induction ms) (simp_all add: renders_literals)

lemma renders_quotes: "list_all2 renders (map shellQuote vs) vs"
  by (induction vs) simp_all

text \<open>Property C5. The shell reads the generated \<open>docker run\<close> line as exactly the intended arguments, whatever the names, images,
  mounts, commands and arguments of the \<open>Switch\<close> contain: no value of the object can add a word, a redirection or a command.\<close>

theorem docker_run_line_argv:
  "sh_words (docker_run_line c) = Some (docker_run_argv c)"
  unfolding docker_run_line_def
proof (rule sh_words_Join)
  show "list_all2 renders (docker_run_words c) (docker_run_argv c)"
    unfolding docker_run_words_def docker_run_argv_def
    by (intro list_all2_appendI renders_mounts renders_quotes) (simp_all add: renders_literals)
qed

section \<open>Volumes, mounts and users\<close>

lemma volumes_loop_Inr:
  assumes "volumes_loop vs acc = Inr m"
  shows "map_of m = map_of acc ++ map_of (rev (map (\<lambda>v. (v_Name v, hp_Path (the (HostPath v)))) vs)) \<and>
    distinct (map v_Name vs) \<and> (\<forall>v\<in>set vs. v_Name v \<noteq> [] \<and> v_Name v \<notin> dom (map_of acc) \<and>
      (\<exists>hp. HostPath v = Some hp \<and> HasPrefix (hp_Path hp) ''/''))"
  using assms
proof (induction vs acc rule: volumes_loop.induct)
  case (2 v vs acc)
  from "2.prems" obtain hp where hp: "v_Name v \<noteq> []" "map_of acc (v_Name v) = None" "HostPath v = Some hp" "HasPrefix (hp_Path hp) ''/''"
    and rec: "volumes_loop vs (AList.update (v_Name v) (hp_Path hp) acc) = Inr m"
    by (auto split: if_splits option.splits)
  from "2.IH" [OF _ _ hp(3) _ rec] hp
  have IH: "map_of m = map_of (AList.update (v_Name v) (hp_Path hp) acc) ++ map_of (rev (map (\<lambda>v. (v_Name v, hp_Path (the (HostPath v)))) vs))"
    "distinct (map v_Name vs)" "\<forall>u\<in>set vs. v_Name u \<noteq> [] \<and> v_Name u \<notin> dom (map_of (AList.update (v_Name v) (hp_Path hp) acc)) \<and>
      (\<exists>hp. HostPath u = Some hp \<and> HasPrefix (hp_Path hp) ''/'')" by simp_all
  have "v_Name v \<notin> v_Name ` set vs" using IH(3) by (auto simp: update_conv')
  with IH hp show ?case by (auto simp: update_conv' map_add_upd_left map_add_def fun_eq_iff split: option.splits)
qed simp

text \<open>\<open>hostPathVolumes\<close> succeeds only if every volume has a name of its own and an absolute host path, and then maps each
  name to the path of its volume and no other name to anything.\<close>

lemma hostPathVolumes_correct:
  assumes "hostPathVolumes vs = Inr m"
  shows "distinct (map v_Name vs) \<and> (\<forall>n p. map_of m n = Some p \<longleftrightarrow>
    (\<exists>v\<in>set vs. \<exists>hp. v_Name v = n \<and> HostPath v = Some hp \<and> hp_Path hp = p \<and> HasPrefix p ''/'' \<and> n \<noteq> []))"
proof -
  let ?kv = "rev (map (\<lambda>v. (v_Name v, hp_Path (the (HostPath v)))) vs)"
  from volumes_loop_Inr [OF assms [unfolded hostPathVolumes_def]]
  have m: "map_of m = map_of ?kv" and d: "distinct (map v_Name vs)"
    and ok: "\<forall>v\<in>set vs. v_Name v \<noteq> [] \<and> (\<exists>hp. HostPath v = Some hp \<and> HasPrefix (hp_Path hp) ''/'')" by auto
  have "distinct (map fst ?kv)" using d by (simp add: rev_map [symmetric] comp_def)
  then have "map_of m n = Some p \<longleftrightarrow> (\<exists>v\<in>set vs. v_Name v = n \<and> hp_Path (the (HostPath v)) = p)" for n p
    unfolding m by (subst map_of_eq_Some_iff) auto
  with d ok show ?thesis by fastforce
qed

lemma mounts_loop_Inr:
  assumes "mounts_loop n vols ms seen acc = Inr res"
  shows "\<exists>hs. length hs = length ms \<and> list_all2 (\<lambda>m h. map_of vols (vm_Name m) = Some h) ms hs \<and>
    res = acc @ map2 (\<lambda>m h. h @ '':'' @ MountPath m @ '':'' @ (if ReadOnly m then ''ro'' else ''rw'')) ms hs \<and>
    distinct (map MountPath ms) \<and> (\<forall>m\<in>set ms. HasPrefix (MountPath m) ''/'' \<and> MountPath m \<notin> set seen)"
  using assms
proof (induction n vols ms seen acc rule: mounts_loop.induct)
  case (2 n vols m ms seen acc)
  let ?t = "\<lambda>m h. h @ '':'' @ MountPath m @ '':'' @ (if ReadOnly m then ''ro'' else ''rw'')"
  from "2.prems" obtain h where h: "map_of vols (vm_Name m) = Some h" "HasPrefix (MountPath m) ''/''" "MountPath m \<notin> set seen"
    and rec: "mounts_loop n vols ms (MountPath m # seen) (acc @ [?t m h]) = Inr res"
    by (simp split: option.splits if_split_asm del: append.simps)
  from "2.IH" [OF h(1) _ h(3) rec] h(2) obtain hs where IH: "length hs = length ms" "list_all2 (\<lambda>m h. map_of vols (vm_Name m) = Some h) ms hs"
    "res = (acc @ [?t m h]) @ map2 ?t ms hs" "distinct (map MountPath ms)"
    "\<forall>m'\<in>set ms. HasPrefix (MountPath m') ''/'' \<and> MountPath m' \<notin> set (MountPath m # seen)" by blast
  have "MountPath m \<notin> MountPath ` set ms" using IH(5) by auto
  then show ?case using h IH by (intro exI [of _ "h # hs"]) (simp add: IH(3))
qed simp

text \<open>The mounts of a container are rendered one by one, each with the host path of the volume it names, at distinct
  absolute paths; any other mount is an error.\<close>

lemma containerVolumeMounts_correct:
  assumes "containerVolumeMounts c vols = Inr res"
  shows "\<exists>hs. list_all2 (\<lambda>m h. map_of vols (vm_Name m) = Some h) (VolumeMounts c) hs \<and>
    res = map2 (\<lambda>m h. h @ '':'' @ MountPath m @ '':'' @ (if ReadOnly m then ''ro'' else ''rw'')) (VolumeMounts c) hs \<and>
    distinct (map MountPath (VolumeMounts c)) \<and> (\<forall>m\<in>set (VolumeMounts c). HasPrefix (MountPath m) ''/'')"
  using mounts_loop_Inr [OF assms [unfolded containerVolumeMounts_def]] by fastforce

text \<open>A container in memory for the concrete instances.\<close>

definition demo_container :: Container where
  "demo_container = \<lparr>c_Name = ''agent'', Image = ''img:1'', Command = [], Args = [],
     VolumeMounts = [\<lparr>vm_Name = ''dbus'', MountPath = ''/run/dbus'', ReadOnly = True\<rparr>], HostPID = False,
     SecurityContext = Some \<lparr>Privileged = False, RunAsUser = Some 65532, RunAsGroup = Some 100\<rparr>, InjectControlKubeconfig = True\<rparr>"

lemma Itoa_plain: "list_all sh_plain (Itoa i) \<and> Itoa i \<noteq> []"
proof -
  have all: "\<forall>n\<in>set [48..<58]. sh_plain (char_of (n :: nat))" by code_simp
  have d: "sh_plain c" if "is_digit c" for c
  proof -
    have "of_char c \<in> set [48..<58 :: nat]" unfolding set_upt atLeastLessThan_iff using that by (simp add: is_digit_def)
    with all have "sh_plain (char_of (of_char c :: nat))" by blast
    then show ?thesis by simp
  qed
  then have "list_all sh_plain (dec n)" for n using dec_digits [of n] by (auto simp: list_all_iff)
  moreover have "sh_plain CHR ''-''" by (simp add: sh_plain_def is_graph_def)
  ultimately show ?thesis by (simp add: Itoa_def)
qed

text \<open>A container into which the control kubeconfig is injected always runs as a numeric user, and the text of
  that user, which the script passes to \<open>chown\<close> without quotes, is read by the shell as one word.\<close>

lemma injected_container_has_user:
  assumes "container_data vols enc c = Inr d" and "g_InjectControlKubeconfig d"
  shows "DockerUser d \<noteq> [] \<and> renders (DockerUser d) (DockerUser d) \<and>
    (\<exists>sc u. SecurityContext c = Some sc \<and> RunAsUser sc = Some u \<and> HasPrefix (DockerUser d) (Itoa u))"
proof -
  from assms obtain sc u where sc: "SecurityContext c = Some sc" "RunAsUser sc = Some u"
    and d: "containerDockerUser c = Inr (DockerUser d)"
    by (auto simp: container_data_def split: sum.splits if_splits option.splits)
  have "sh_plain CHR '':''" by (simp add: sh_plain_def is_graph_def)
  moreover from d sc have "\<exists>t. DockerUser d = Itoa u @ t \<and> (t = [] \<or> (\<exists>g. t = CHR '':'' # Itoa g))"
  proof (cases "RunAsGroup sc")
    case (Some g)
    then have "DockerUser d = Itoa u @ CHR '':'' # Itoa g" using d sc by (simp add: containerDockerUser_def)
    then show ?thesis by blast
  qed (simp add: containerDockerUser_def)
  ultimately have "list_all sh_plain (DockerUser d) \<and> DockerUser d \<noteq> [] \<and> HasPrefix (DockerUser d) (Itoa u)"
    using Itoa_plain [of u] Itoa_plain by (elim exE conjE disjE) (simp_all add: HasPrefix_def)
  then show ?thesis using sc renders_plain by blast
qed

end
