(* ===== verification/Ztp_Kubeconfig.thy ===== *)
theory Ztp_Kubeconfig
  imports Ztp_Script
begin

text \<open>
  The control kubeconfig in the generated script (\<open>internal/ztp/generated_mode.go\<close>): it is a
  credential, so two things matter. A container that asks for it gets the bytes of the file, through
  the base64 text in the script and \<open>base64 -d\<close> on the switch. A container that does not ask for
  it has no trace of it in its commands, and when none asks the file is not even read.
\<close>

section \<open>Decoding\<close>

text \<open>The reference: what \<open>base64 -d\<close> on the switch makes of the text.\<close>

definition b64_val :: "char \<Rightarrow> nat" where
  "b64_val c = (let n = of_char c :: nat in if 65 \<le> n \<and> n \<le> 90 then n - 65 else if 97 \<le> n \<and> n \<le> 122 then n - 71
     else if 48 \<le> n \<and> n \<le> 57 then n + 4 else if n = 43 then 62 else 63)"

fun unbase64 :: "string \<Rightarrow> string" where
  "unbase64 (a # b # c # d # r) =
     (if d = CHR ''='' then
        (if c = CHR ''='' then [char_of (b64_val a * 4 + b64_val b div 16)]
         else [char_of (b64_val a * 4 + b64_val b div 16), char_of (b64_val b mod 16 * 16 + b64_val c div 4)])
      else char_of (b64_val a * 4 + b64_val b div 16) # char_of (b64_val b mod 16 * 16 + b64_val c div 4)
        # char_of (b64_val c mod 4 * 64 + b64_val d) # unbase64 r)"
| "unbase64 _ = []"

lemma of_char_b64:
  "of_char (b64_char n) = (if n < 26 then 65 + n else if n < 52 then 71 + n else if n < 62 then n - 4 else if n = 62 then 43 else 47 :: nat)"
  by (simp add: b64_char_def)

lemma b64_val_char [simp]: "n < 64 \<Longrightarrow> b64_val (b64_char n) = n"
  by (auto simp: b64_val_def of_char_b64 Let_def)

lemma b64_char_pad [simp]: "b64_char n \<noteq> CHR ''=''"
proof
  assume "b64_char n = CHR ''=''"
  then have "of_char (b64_char n) = (61 :: nat)" by simp
  then show False by (simp add: of_char_b64 split: if_splits)
qed

lemma byte_parts:
  fixes x y z :: nat
  assumes "x < 256" "y < 256" "z < 256"
  shows "x div 4 < 64" "x mod 4 * 16 < 64" "x mod 4 * 16 + y div 16 < 64" "(x mod 4 * 16 + y div 16) div 16 = x mod 4"
    "(x mod 4 * 16 + y div 16) mod 16 = y div 16" "y mod 16 * 4 < 64" "y mod 16 * 4 + z div 64 < 64"
    "(y mod 16 * 4 + z div 64) div 4 = y mod 16" "(y mod 16 * 4 + z div 64) mod 4 = z div 64" "z mod 64 < 64"
    "y div 16 mod 16 = y div 16"
proof -
  have "y div 16 < 16" "z div 64 < 4" using assms by simp_all
  then show "x mod 4 * 16 + y div 16 < 64" "(x mod 4 * 16 + y div 16) div 16 = x mod 4" "(x mod 4 * 16 + y div 16) mod 16 = y div 16"
    "y mod 16 * 4 + z div 64 < 64" "(y mod 16 * 4 + z div 64) div 4 = y mod 16" "(y mod 16 * 4 + z div 64) mod 4 = z div 64" "y div 16 mod 16 = y div 16"
    using mod_less_divisor [of 4 x] mod_less_divisor [of 16 y] by (simp_all only: mult.commute [of _ 16] mult.commute [of _ 4] div_mult_self4 mod_mult_self4 div_less mod_less add_0_right)
qed (use assms in linarith)+

lemma unbase64_base64 [simp]: "unbase64 (base64 s) = s"
proof (induction s rule: base64.induct)
  case (2 a)
  then show ?case using byte_parts [of "of_char a" 0 0] by (simp add: Let_def)
next
  case (3 a b)
  then show ?case using byte_parts [of "of_char a" "of_char b" 0] by (simp add: Let_def)
next
  case (4 a b c r)
  then show ?case using byte_parts [of "of_char a" "of_char b" "of_char c"] by (simp add: Let_def)
qed simp

section \<open>Reading and injecting\<close>

lemma kubeconfig_loop_file:
  assumes content: "\<And>w. fst (run (readFile path) w) = Inr k"
  shows "run (kubeconfig_loop readFile path cs enc) w = (Inr e, w') \<Longrightarrow> enc = [] \<or> enc = base64 k \<Longrightarrow>
    (e = enc \<or> e = base64 k) \<and> (list_ex InjectControlKubeconfig cs \<longrightarrow> e = base64 k)"
proof (induction cs arbitrary: enc w)
  case (Cons c cs)
  obtain w1 where r: "run (readFile path) w = (Inr k, w1)" using content by (metis prod.collapse)
  show ?case
  proof (cases "InjectControlKubeconfig c \<and> enc = []")
    case True
    with Cons.prems r have "path \<noteq> []" "run (kubeconfig_loop readFile path cs (base64 k)) w1 = (Inr e, w')"
      by (auto split: if_splits)
    from Cons.IH [OF this(2)] show ?thesis by simp
  next
    case False
    with Cons.prems have "run (kubeconfig_loop readFile path cs enc) w = (Inr e, w')" by (auto split: if_splits)
    from Cons.IH [OF this Cons.prems(2)] False Cons.prems(2) show ?thesis by auto
  qed
qed simp

lemma containers_loop_Inr:
  "containers_loop vols enc cs acc = Inr ds \<Longrightarrow> \<exists>ds'. ds = acc @ ds' \<and> list_all2 (\<lambda>c d. container_data vols enc c = Inr d) cs ds'"
  by (induction vols enc cs acc arbitrary: ds rule: containers_loop.induct) (fastforce split: sum.splits)+

lemma container_data_inject:
  "container_data vols enc c = Inr d \<Longrightarrow> EncodedControlKubeconfig d = enc \<and> g_InjectControlKubeconfig d = InjectControlKubeconfig c"
  by (auto simp: container_data_def split: sum.splits if_splits)

text \<open>Property C11. Every container of a generated script that gets the control kubeconfig gets, once the shell on the switch has
  decoded it, exactly the bytes of the file, however many containers ask for it.\<close>

theorem kubeconfig_injected:
  assumes "\<And>w. fst (run (readFile path) w) = Inr k"
    and "run (buildGeneratedModeTemplateData readFile s path) w = (Inr d, w')"
    and "c \<in> set (t_Containers d)" "g_InjectControlKubeconfig c"
  shows "unbase64 (EncodedControlKubeconfig c) = k"
proof -
  let ?cs = "Containers (sw_Spec s)"
  from assms(2) obtain vols enc w1 where l: "run (kubeconfig_loop readFile path ?cs []) w = (Inr enc, w1)"
    and cl: "containers_loop vols enc ?cs [] = Inr (t_Containers d)"
    by (auto simp: buildGeneratedModeTemplateData_def Let_def split: if_splits sum.splits prod.splits)
  from containers_loop_Inr [OF cl] have "list_all2 (\<lambda>c d. container_data vols enc c = Inr d) ?cs (t_Containers d)" by simp
  with assms(3) obtain c0 where c0: "c0 \<in> set ?cs" "container_data vols enc c0 = Inr c"
    unfolding list_all2_conv_all_nth in_set_conv_nth [of c] by (metis nth_mem)
  then have "list_ex InjectControlKubeconfig ?cs" "EncodedControlKubeconfig c = enc"
    using container_data_inject [OF c0(2)] assms(4) by (auto simp: list_ex_iff)
  then show ?thesis using kubeconfig_loop_file [OF assms(1) l] by simp
qed

text \<open>A switch whose only container asks for the kubeconfig.\<close>

definition demo_boot :: Switch where
  "demo_boot = \<lparr>
     sw_Meta = \<lparr>m_Name = ''leaf'', m_Namespace = [], m_UID = [], m_Finalizers = [], m_DeletionTimestamp = None\<rparr>,
     sw_Spec = \<lparr>Hostname = [], s_Management = \<lparr>Host = [], Port = []\<rparr>, s_ZTP = None,
        Containers = [demo_container\<lparr>VolumeMounts := []\<rparr>], Volumes = [],
        s_NextBootMode = [], s_MacAddress = [], s_Ports = []\<rparr>,
     sw_Status = \<lparr>sw_State = [], sw_Ports = [], MACAddress = [], FirmwareVersion = [], SKU = []\<rparr>\<rparr>"

text \<open>The property at that switch.\<close>

theorem kubeconfig_injected_witness:
  "\<exists>d c. run (buildGeneratedModeTemplateData (\<lambda>_. ret (Inr ''kubeconfig'')) demo_boot ''/k'') () = (Inr d, ()) \<and>
     t_Containers d = [c] \<and> unbase64 (EncodedControlKubeconfig c) = ''kubeconfig''"
proof -
  obtain d c where d: "run (buildGeneratedModeTemplateData (\<lambda>_. ret (Inr ''kubeconfig'')) demo_boot ''/k'') () = (Inr d, ())"
    and c: "t_Containers d = [c]" "g_InjectControlKubeconfig c"
    by (simp add: buildGeneratedModeTemplateData_def demo_boot_def demo_container_def hostPathVolumes_def container_data_def
        containerDockerUser_def containerVolumeMounts_def Let_def)
  from kubeconfig_injected [OF _ d, of "''kubeconfig''" c] c have "unbase64 (EncodedControlKubeconfig c) = ''kubeconfig''" by simp
  with d c show ?thesis by blast
qed

lemma container_lines_encoded:
  "\<not> g_InjectControlKubeconfig c \<Longrightarrow> container_lines (c\<lparr>EncodedControlKubeconfig := x\<rparr>) = container_lines c"
  by (simp add: container_lines_def inject_lines_def docker_run_line_def docker_run_words_def)

lemma kubeconfig_loop_unread:
  "list_all (\<lambda>c. \<not> InjectControlKubeconfig c) cs \<Longrightarrow> kubeconfig_loop readFile path cs enc = ret (Inr enc)"
  by (induction cs) simp_all

lemma script_unread:
  assumes "list_all (\<lambda>c. \<not> InjectControlKubeconfig c) (Containers (sw_Spec s))"
  shows "renderGeneratedScript readFile s path = renderGeneratedScript (\<lambda>_. ret (Inr [])) s []"
  unfolding renderGeneratedScript_def buildGeneratedModeTemplateData_def Let_def kubeconfig_loop_unread [OF assms] by (rule refl)

text \<open>Property C12. The control kubeconfig reaches only the containers that ask for it: the commands of any other container are
  the same whatever the kubeconfig is, and when no container asks, the script does not depend on the file at all.\<close>

theorem kubeconfig_opt_in:
  "(\<not> g_InjectControlKubeconfig c \<longrightarrow> container_lines (c\<lparr>EncodedControlKubeconfig := x\<rparr>) = container_lines c) \<and>
   (list_all (\<lambda>c. \<not> InjectControlKubeconfig c) (Containers (sw_Spec s)) \<longrightarrow>
      renderGeneratedScript readFile s path = renderGeneratedScript readFile' s path')"
  by (simp add: container_lines_encoded script_unread [of s readFile path] script_unread [of s readFile' path'])

definition demo_quiet :: Switch where
  "demo_quiet = demo_boot\<lparr>sw_Spec := (sw_Spec demo_boot)\<lparr>Containers := [demo_container\<lparr>InjectControlKubeconfig := False\<rparr>]\<rparr>\<rparr>"

text \<open>The property at a switch whose container does not ask.\<close>

theorem kubeconfig_opt_in_witness:
  "renderGeneratedScript (\<lambda>_. ret (Inr ''secret'')) demo_quiet ''/k'' =
   (renderGeneratedScript (\<lambda>_. ret (Inl (ExtErr ''none''))) demo_quiet [] :: (unit, string res) state)"
  by (rule kubeconfig_opt_in [THEN conjunct2, rule_format]) (simp add: demo_quiet_def)

end
