(* ===== verification/Onie.thy ===== *)
theory Onie
  imports Go_Netip
begin

text \<open>
  The ONIE endpoint of the provisioning server (\<open>internal/onie/onie.go\<close>): which image a request
  gets, by its headers, and the file server that sends it. The operating system's \<open>open\<close> is a
  parameter; what the code uses of \<open>net/http\<close>, \<open>io/fs\<close>, \<open>os\<close>, \<open>net\<close> and \<open>path\<close> is modelled. Logging
  and the recorder of the status, which only the log shows, are in \<open>Onie_Log\<close>.
  The properties: the image is the one configured last for the machine, requests that name no image
  are refused, and no request opens a file outside the directory of the images.
\<close>

section \<open>Paths\<close>

text \<open>\<open>path.Clean\<close>, element by element.\<close>

definition clean_step :: "bool \<Rightarrow> string \<Rightarrow> string list \<Rightarrow> string list" where
  "clean_step rooted e out =
     (if e = [] \<or> e = ''.'' then out
      else if e = ''..'' then
        (if out \<noteq> [] \<and> last out \<noteq> ''..'' then butlast out else if rooted then out else out @ [''..''])
      else out @ [e])"

definition clean_elems :: "bool \<Rightarrow> string \<Rightarrow> string list" where
  "clean_elems rooted p = fold (clean_step rooted) (Split (CHR ''/'') p) []"

definition path_Clean :: "string \<Rightarrow> string" where
  "path_Clean p =
     (if p = [] then ''.''
      else let rooted = HasPrefix p ''/'';
               r = (if rooted then ''/'' else []) @ Join (clean_elems rooted p) ''/''
           in if r = [] then ''.'' else r)"

text \<open>\<open>path.Base\<close>: the last element, without the slashes at the end.\<close>

definition path_Base :: "string \<Rightarrow> string" where
  "path_Base p =
     (if p = [] then ''.''
      else let q = rev (dropWhile (\<lambda>c. c = CHR ''/'') (rev p)) in
        if q = [] then ''/'' else (case cut_last (CHR ''/'') q of None \<Rightarrow> q | Some (_, b) \<Rightarrow> b))"

definition HasSuffix :: "string \<Rightarrow> string \<Rightarrow> bool" where
  "HasSuffix s suf = HasPrefix (rev s) (rev suf)"

definition TrimSuffix :: "string \<Rightarrow> string \<Rightarrow> string" where
  "TrimSuffix s suf = rev (TrimPrefix (rev s) (rev suf))"

text \<open>\<open>fs.ValidPath\<close>. Names come from JSON, so they are UTF-8.\<close>

definition ok_elem :: "string \<Rightarrow> bool" where
  "ok_elem e \<longleftrightarrow> e \<noteq> [] \<and> e \<noteq> ''.'' \<and> e \<noteq> ''..''"

definition ValidPath :: "string \<Rightarrow> bool" where
  "ValidPath name \<longleftrightarrow> name = ''.'' \<or> list_all ok_elem (Split (CHR ''/'') name)"

section \<open>File servers\<close>

datatype fserr = ErrNotExist | ErrPermission | ErrOther string

datatype node = File string | Dir

text \<open>What \<open>open\<close> and \<open>fstat\<close> give for a name.\<close>

type_synonym fsys = "string \<Rightarrow> fserr + node"

text \<open>\<open>os.DirFS(dir)\<close> over the operating system's \<open>open\<close>.\<close>

definition DirFS :: "string \<Rightarrow> fsys \<Rightarrow> fsys" where
  "DirFS dir os name =
     (if dir = [] then Inl (ErrOther ''os: DirFS with empty root'')
      else if \<not> ValidPath name \<or> CHR 0x00 \<in> set name then Inl (ErrOther ''invalid argument'')
      else os (if last dir = CHR ''/'' then dir @ name else dir @ ''/'' @ name))"

text \<open>\<open>http.FS(inner).Open\<close>, with the mapping of an error below a file to \<open>ErrNotExist\<close>.\<close>

fun blame :: "fsys \<Rightarrow> fserr \<Rightarrow> string list \<Rightarrow> string list \<Rightarrow> fserr" where
  "blame inner err seen [] = err"
| "blame inner err seen (p # ps) =
     (if p = [] then blame inner err (seen @ [p]) ps
      else (case inner (Join (seen @ [p]) ''/'') of
          Inl _ \<Rightarrow> err
        | Inr (File _) \<Rightarrow> ErrNotExist
        | Inr Dir \<Rightarrow> blame inner err (seen @ [p]) ps))"

definition mapOpenError :: "fsys \<Rightarrow> fserr \<Rightarrow> string \<Rightarrow> fserr" where
  "mapOpenError inner err name = (case err of ErrOther _ \<Rightarrow> blame inner err [] (Split (CHR ''/'') name) | _ \<Rightarrow> err)"

definition http_Open :: "fsys \<Rightarrow> string \<Rightarrow> fserr + node" where
  "http_Open inner path =
     (let name = (if path = ''/'' then ''.'' else TrimPrefix path ''/'') in
      case inner name of Inl err \<Rightarrow> Inl (mapOpenError inner err name) | Inr n \<Rightarrow> Inr n)"

text \<open>What the file server answers: the content of a file (\<open>http.ServeContent\<close>), the listing of a
  directory, a redirect, an error (\<open>http.Error\<close> with that code and text).\<close>

datatype served = Content string | Listing string | Redirect string | HttpError nat string

definition toHTTPError :: "fserr \<Rightarrow> served" where
  "toHTTPError err = (case err of
      ErrNotExist \<Rightarrow> HttpError 404 ''404 page not found''
    | ErrPermission \<Rightarrow> HttpError 403 ''403 Forbidden''
    | ErrOther _ \<Rightarrow> HttpError 500 ''500 Internal Server Error'')"

text \<open>The part of \<open>serveFile\<close> for a directory whose URL ends with a slash.\<close>

definition serve_dir :: "fsys \<Rightarrow> string \<Rightarrow> served" where
  "serve_dir inner name =
     (let index = TrimSuffix name ''/'' @ ''/index.html'' in
      case http_Open inner index of
        Inr (File content) \<Rightarrow> Content content
      | Inr Dir \<Rightarrow> Listing index
      | Inl _ \<Rightarrow> Listing name)"

definition serveFile :: "fsys \<Rightarrow> string \<Rightarrow> string \<Rightarrow> served" where
  "serveFile inner url name =
     (if HasSuffix url ''/index.html'' then Redirect ''./''
      else (case http_Open inner name of
          Inl err \<Rightarrow> toHTTPError err
        | Inr Dir \<Rightarrow>
            if last url \<noteq> CHR ''/'' then Redirect (path_Base url @ ''/'') else serve_dir inner name
        | Inr (File content) \<Rightarrow>
            if last url \<noteq> CHR ''/'' then Content content
            else if path_Base url = ''/'' \<or> path_Base url = ''.''
            then HttpError 500 ''http: attempting to traverse a non-directory''
            else Redirect (''../'' @ path_Base url)))"

definition FileServer :: "fsys \<Rightarrow> string \<Rightarrow> served" where
  "FileServer inner url =
     (let upath = (if HasPrefix url ''/'' then url else ''/'' @ url) in serveFile inner upath (path_Clean upath))"

section \<open>Requests\<close>

record http_request =
  rq_Header :: "(string \<times> string list) list"
  rq_RemoteAddr :: string

text \<open>\<open>http.Header.Get\<close>: the first value under the canonical form of the key; headers are stored under it.\<close>

fun canon :: "bool \<Rightarrow> string \<Rightarrow> string" where
  "canon upper [] = []"
| "canon upper (c # s) = (if upper \<and> 97 \<le> (of_char c :: nat) \<and> (of_char c :: nat) \<le> 122 then char_of ((of_char c :: nat) - 32)
     else if upper then c else lower_char c) # canon (c = CHR ''-'') s"

definition header_Get :: "http_request \<Rightarrow> string \<Rightarrow> string" where
  "header_Get r key = (case map_of (rq_Header r) (canon True key) of Some (v # _) \<Rightarrow> v | _ \<Rightarrow> [])"

text \<open>\<open>net.SplitHostPort\<close>; the error is not looked at.\<close>

definition SplitHostPort :: "string \<Rightarrow> (string \<times> string) option" where
  "SplitHostPort hostport = (case cut_last (CHR '':'') hostport of
      None \<Rightarrow> None
    | Some (before, port) \<Rightarrow>
        (case hostport of
           c # rest \<Rightarrow>
             if c = CHR ''['' then
               (case cut_at (CHR '']'') rest of
                  None \<Rightarrow> None
                | Some (host, after) \<Rightarrow>
                    if after \<noteq> CHR '':'' # port then None
                    else if CHR ''['' \<in> set rest \<or> CHR '']'' \<in> set after then None
                    else Some (host, port))
             else if CHR '':'' \<in> set before then None
             else if CHR ''['' \<in> set hostport \<or> CHR '']'' \<in> set hostport then None
             else Some (before, port)
         | [] \<Rightarrow> None))"

section \<open>The handler\<close>

record OnieImage =
  img_Vendor :: string
  OnieUpdater :: string
  OnieInstaller :: string

record onie_Config =
  OnieImages :: "OnieImage list"

record onie_handler =
  onieImagesDir :: string
  images :: "string \<Rightarrow> OnieImage option"

text \<open>\<open>Register\<close>: the map of the images, in which a later entry for a machine replaces an earlier one.\<close>

definition onie_Register :: "string \<Rightarrow> onie_Config \<Rightarrow> onie_handler" where
  "onie_Register dir cfg = \<lparr>onieImagesDir = dir, images = fold (\<lambda>img m. m(img_Vendor img \<mapsto> img)) (OnieImages cfg) Map.empty\<rparr>"

definition clientIdentity :: "http_request \<Rightarrow> string \<times> string \<times> string" where
  "clientIdentity r =
     (let xForwardedFor = header_Get r ''X-Forwarded-For''; forwarded = header_Get r ''Forwarded'';
          first = TrimSpace (hd (Split (CHR '','') xForwardedFor))
      in if xForwardedFor \<noteq> [] \<and> first \<noteq> [] then (first, xForwardedFor, forwarded)
         else (case SplitHostPort (rq_RemoteAddr r) of
             Some (host, _) \<Rightarrow> if host \<noteq> [] then (host, xForwardedFor, forwarded) else (rq_RemoteAddr r, xForwardedFor, forwarded)
           | None \<Rightarrow> (rq_RemoteAddr r, xForwardedFor, forwarded)))"

text \<open>\<open>onieFS.Open\<close> hands the name to the inner file system and logs an error.\<close>

definition onieFS_Open :: "fsys \<Rightarrow> fsys" where
  "onieFS_Open inner name = (case inner name of Inl err \<Rightarrow> Inl err | Inr file \<Rightarrow> Inr file)"

definition onie_serve :: "onie_handler \<Rightarrow> fsys \<Rightarrow> http_request \<Rightarrow> served" where
  "onie_serve h inner r =
     (let operation = header_Get r ''ONIE-OPERATION''; machine = header_Get r ''ONIE-MACHINE'' in
      case images h machine of
        None \<Rightarrow> HttpError 404 ''404 page not found''
      | Some img \<Rightarrow>
          if operation = ''onie-update'' then FileServer (onieFS_Open inner) (''/'' @ OnieUpdater img)
          else if operation = ''os-install'' then FileServer (onieFS_Open inner) (''/'' @ OnieInstaller img)
          else HttpError 400 (''unknown ONIE-OPERATION: '' @ operation))"

definition onie_ServeHTTP :: "onie_handler \<Rightarrow> fsys \<Rightarrow> http_request \<Rightarrow> served" where
  "onie_ServeHTTP h os r = onie_serve h (DirFS (onieImagesDir h) os) r"

section \<open>No name leaves the directory\<close>

lemma Split_set: "x \<in> set (Split c s) \<Longrightarrow> c \<notin> set x"
  by (induction c s rule: Split.induct)
    (subst (asm) (2) Split.simps, auto simp: cut_at_Some cut_at_None split: option.splits)

definition plain_elem :: "string \<Rightarrow> bool" where
  "plain_elem e \<longleftrightarrow> ok_elem e \<and> CHR ''/'' \<notin> set e"

lemma fold_clean_step:
  "list_all plain_elem out \<Longrightarrow> \<forall>e\<in>set es. CHR ''/'' \<notin> set e \<Longrightarrow> list_all plain_elem (fold (clean_step True) es out)"
proof (induction es arbitrary: out)
  case (Cons e es)
  have "list_all plain_elem (clean_step True e out)"
    using Cons.prems by (auto simp: clean_step_def plain_elem_def ok_elem_def list_all_iff dest: in_set_butlastD)
  then show ?case using Cons by simp
qed simp

lemma clean_elems_plain: "list_all plain_elem (clean_elems True p)"
  unfolding clean_elems_def by (rule fold_clean_step) (auto dest: Split_set)

lemma path_Clean_rooted: "path_Clean (CHR ''/'' # p) = CHR ''/'' # Join (clean_elems True (CHR ''/'' # p)) ''/''"
  by (simp add: path_Clean_def HasPrefix_def Let_def)

lemma Split_Join_plain: "list_all plain_elem es \<Longrightarrow> es \<noteq> [] \<Longrightarrow> Split (CHR ''/'') (Join es ''/'') = es"
  by (rule Split_Join) (auto simp: plain_elem_def list_all_iff)

lemma ValidPath_Join: "list_all plain_elem es \<Longrightarrow> es \<noteq> [] \<Longrightarrow> ValidPath (Join es ''/'')"
  unfolding ValidPath_def using Split_Join_plain by (auto simp: list_all_iff plain_elem_def)

lemma Join_plain_Nil: "list_all plain_elem es \<Longrightarrow> Join es ''/'' = [] \<longleftrightarrow> es = []"
  by (induction es "''/''" rule: Join.induct) (auto simp: plain_elem_def ok_elem_def)

lemma Join_snoc: "es \<noteq> [] \<Longrightarrow> Join (es @ [e]) sep = Join es sep @ sep @ e"
  by (induction es sep rule: Join.induct) auto

text \<open>Two file systems that agree on the names of \<open>fs.ValidPath\<close>.\<close>

definition agree :: "fsys \<Rightarrow> fsys \<Rightarrow> bool" where
  "agree f g \<longleftrightarrow> (\<forall>n. ValidPath n \<longrightarrow> f n = g n)"

lemma blame_agree:
  "agree f g \<Longrightarrow> list_all plain_elem (seen @ ps) \<Longrightarrow> blame f err seen ps = blame g err seen ps"
proof (induction ps arbitrary: seen)
  case (Cons p ps)
  then have "f (Join (seen @ [p]) ''/'') = g (Join (seen @ [p]) ''/'')"
    using ValidPath_Join [of "seen @ [p]"] by (simp add: agree_def)
  with Cons show ?case by (auto split: sum.splits node.splits)
qed simp

lemma http_Open_agree:
  assumes "agree f g" "list_all plain_elem es"
  shows "http_Open f (CHR ''/'' # Join es ''/'') = http_Open g (CHR ''/'' # Join es ''/'')"
proof (cases "es = []")
  case True
  have "f ''.'' = g ''.''" using assms(1) by (simp add: agree_def ValidPath_def)
  then show ?thesis using True
    by (auto simp: http_Open_def mapOpenError_def Let_def split: sum.splits fserr.splits)
next
  case False
  then have e: "f (Join es ''/'') = g (Join es ''/'')" using assms ValidPath_Join by (simp add: agree_def)
  moreover have "mapOpenError f err (Join es ''/'') = mapOpenError g err (Join es ''/'')" for err
    using blame_agree [OF assms(1), of "[]" es] False assms(2)
    by (simp add: mapOpenError_def Split_Join_plain split: fserr.splits)
  moreover have "TrimPrefix (CHR ''/'' # Join es ''/'') ''/'' = Join es ''/''" using TrimPrefix_append [of "''/''"] by simp
  ultimately show ?thesis using False Join_plain_Nil [OF assms(2)]
    by (simp add: http_Open_def Let_def split: sum.splits)
qed

lemma Join_last: "list_all plain_elem es \<Longrightarrow> es \<noteq> [] \<Longrightarrow> last (Join es ''/'') \<noteq> CHR ''/''"
proof (induction es "''/''" rule: Join.induct)
  case (3 x y ys)
  moreover have "Join (y # ys) ''/'' \<noteq> []" using 3(2) Join_plain_Nil [of "y # ys"] by simp
  ultimately show ?case by simp
qed (auto simp: plain_elem_def ok_elem_def dest: last_in_set)

lemma TrimSuffix_slash: "s \<noteq> [] \<Longrightarrow> last s \<noteq> CHR ''/'' \<Longrightarrow> TrimSuffix s ''/'' = s"
  by (cases s rule: rev_cases) (simp_all add: TrimSuffix_def TrimPrefix_def HasPrefix_def)

lemma index_path:
  assumes "list_all plain_elem es"
  shows "TrimSuffix (CHR ''/'' # Join es ''/'') ''/'' @ ''/index.html'' = CHR ''/'' # Join (es @ [''index.html'']) ''/''"
proof (cases "es = []")
  case False
  then have "last (CHR ''/'' # Join es ''/'') \<noteq> CHR ''/''" using assms Join_last Join_plain_Nil by simp
  then show ?thesis using False by (simp add: TrimSuffix_slash Join_snoc)
qed (simp add: TrimSuffix_def TrimPrefix_def HasPrefix_def)

lemma serve_dir_agree:
  assumes "agree f g" "list_all plain_elem es"
  shows "serve_dir f (CHR ''/'' # Join es ''/'') = serve_dir g (CHR ''/'' # Join es ''/'')"
proof -
  have "list_all plain_elem (es @ [''index.html''])" using assms(2) by (simp add: plain_elem_def ok_elem_def)
  from http_Open_agree [OF assms(1) this] show ?thesis
    unfolding serve_dir_def index_path [OF assms(2)] by (simp add: Let_def)
qed

lemma serveFile_cong:
  "http_Open f name = http_Open g name \<Longrightarrow> serve_dir f name = serve_dir g name \<Longrightarrow> serveFile f url name = serveFile g url name"
  by (simp add: serveFile_def split: sum.split node.split)

lemma FileServer_rooted: "FileServer f (''/'' @ img) = serveFile f (''/'' @ img) (CHR ''/'' # Join (clean_elems True (''/'' @ img)) ''/'')"
  using path_Clean_rooted by (simp add: FileServer_def Let_def HasPrefix_def)

lemma FileServer_agree: "agree f g \<Longrightarrow> FileServer f (''/'' @ img) = FileServer g (''/'' @ img)"
  unfolding FileServer_rooted
  by (rule serveFile_cong) (auto intro: http_Open_agree serve_dir_agree clean_elems_plain)

text \<open>Property C13. Whatever the configuration and the request, the handler asks the file system only for names without
  \<open>..\<close>, \<open>.\<close> or empty elements: its answer depends on nothing else. So no configured image name, with any number of
  \<open>..\<close>, reaches a file outside the directory of the images.\<close>

theorem onie_confined:
  assumes "\<And>n. ValidPath n \<Longrightarrow> f n = g n"
  shows "onie_serve h f r = onie_serve h g r"
proof -
  have "agree (onieFS_Open f) (onieFS_Open g)" using assms by (simp add: agree_def onieFS_Open_def)
  from FileServer_agree [OF this] show ?thesis by (simp add: onie_serve_def Let_def split: option.splits)
qed

text \<open>The images of the examples.\<close>

definition demo_onie :: onie_handler where
  "demo_onie = onie_Register ''/images'' \<lparr>OnieImages = [
     \<lparr>img_Vendor = ''m1'', OnieUpdater = ''old'', OnieInstaller = ''old''\<rparr>,
     \<lparr>img_Vendor = ''m1'', OnieUpdater = [], OnieInstaller = ''sonic.bin''\<rparr>,
     \<lparr>img_Vendor = ''m2'', OnieUpdater = ''../secret'', OnieInstaller = ''../../etc/passwd''\<rparr>]\<rparr>"

definition demo_request :: "string \<Rightarrow> string \<Rightarrow> http_request" where
  "demo_request machine operation = \<lparr>rq_Header = [(''Onie-Machine'', [machine]), (''Onie-Operation'', [operation])], rq_RemoteAddr = ''192.0.2.7:33''\<rparr>"

lemma demo_headers:
  "header_Get (demo_request m p) ''ONIE-MACHINE'' = m" "header_Get (demo_request m p) ''ONIE-OPERATION'' = p"
proof -
  have "canon True ''ONIE-MACHINE'' = ''Onie-Machine''" "canon True ''ONIE-OPERATION'' = ''Onie-Operation''" by code_simp+
  then show "header_Get (demo_request m p) ''ONIE-MACHINE'' = m" "header_Get (demo_request m p) ''ONIE-OPERATION'' = p"
    by (simp_all add: header_Get_def demo_request_def)
qed

text \<open>The property at an image name that climbs out of the directory.\<close>

theorem onie_confined_witness:
  "onie_serve demo_onie (\<lambda>n. if n = ''etc/passwd'' then Inl ErrNotExist else Inr (File ''root'')) (demo_request ''m2'' ''os-install'') =
   onie_serve demo_onie (\<lambda>n. if ValidPath n then (if n = ''etc/passwd'' then Inl ErrNotExist else Inr (File ''root'')) else Inl ErrPermission)
     (demo_request ''m2'' ''os-install'')"
  by (rule onie_confined) simp

section \<open>What is served\<close>

lemma images_fold: "fold (\<lambda>img m. m(img_Vendor img \<mapsto> img)) imgs m0 v =
  (case filter (\<lambda>img. img_Vendor img = v) imgs of [] \<Rightarrow> m0 v | xs \<Rightarrow> Some (last xs))"
  by (induction imgs arbitrary: m0) (auto split: list.splits)

definition onie_image :: "string \<Rightarrow> OnieImage \<Rightarrow> string option" where
  "onie_image operation img = (if operation = ''onie-update'' then Some (OnieUpdater img)
     else if operation = ''os-install'' then Some (OnieInstaller img) else None)"

lemma clean_elem: "plain_elem e \<Longrightarrow> clean_elems True (''/'' @ e) = [e]"
  using Split_append [of "CHR ''/''" "[]" e] by (simp add: clean_elems_def clean_step_def plain_elem_def ok_elem_def)

lemma FileServer_plain:
  assumes "plain_elem e" "e \<noteq> ''index.html''"
  shows "FileServer f (''/'' @ e) = (case http_Open f (''/'' @ e) of
      Inl err \<Rightarrow> toHTTPError err | Inr Dir \<Rightarrow> Redirect (path_Base (''/'' @ e) @ ''/'') | Inr (File content) \<Rightarrow> Content content)"
proof -
  have l: "e \<noteq> []" "last e \<noteq> CHR ''/''" using assms(1) by (auto simp: plain_elem_def ok_elem_def dest: last_in_set)
  have "\<not> HasSuffix (''/'' @ e) ''/index.html''"
  proof
    assume "HasSuffix (''/'' @ e) ''/index.html''"
    then obtain p where "rev (''/'' @ e) = rev ''/index.html'' @ p" unfolding HasSuffix_def HasPrefix_iff by blast
    then have p: "''/'' @ e = rev p @ ''/index.html''" by (metis rev_append rev_rev_ident)
    then show False
    proof (cases "rev p")
      case Nil
      with p assms(2) show False by simp
    next
      case (Cons c q)
      with p have "e = q @ ''/index.html''" by simp
      then show False using assms(1) by (simp add: plain_elem_def)
    qed
  qed
  moreover have "last (''/'' @ e) = last e" using l(1) by simp
  moreover have "FileServer f (''/'' @ e) = serveFile f (''/'' @ e) (''/'' @ e)"
    using FileServer_rooted [of f e] clean_elem [OF assms(1)] by simp
  ultimately show ?thesis using l(2) by (simp add: serveFile_def del: append.simps split: sum.split node.split)
qed

lemma DirFS_plain:
  assumes "plain_elem e" "CHR 0x00 \<notin> set e" "dir \<noteq> []" "last dir \<noteq> CHR ''/''"
  shows "DirFS dir os e = os (dir @ ''/'' @ e)"
  using assms ValidPath_Join [of "[e]"] by (simp add: DirFS_def)

lemma http_Open_plain:
  assumes "e \<noteq> []"
  shows "http_Open f (''/'' @ e) = (case f e of Inl err \<Rightarrow> Inl (mapOpenError f err e) | Inr n \<Rightarrow> Inr n)"
  using assms TrimPrefix_append [of "''/''" e] by (simp add: http_Open_def Let_def)

definition entries :: "onie_Config \<Rightarrow> http_request \<Rightarrow> OnieImage list" where
  "entries cfg r = filter (\<lambda>img. img_Vendor img = header_Get r ''ONIE-MACHINE'') (OnieImages cfg)"

lemma images_Register:
  "images (onie_Register dir cfg) (header_Get r ''ONIE-MACHINE'') = (case entries cfg r of [] \<Rightarrow> None | xs \<Rightarrow> Some (last xs))"
  by (simp add: onie_Register_def images_fold entries_def)

text \<open>A request gets 404 if no entry of the configuration is for its machine, and 400 if its operation is none of
  the two of ONIE, whatever the file system holds.\<close>

lemma onie_refuses:
  "(entries cfg r = [] \<longrightarrow> onie_ServeHTTP (onie_Register dir cfg) os r = HttpError 404 ''404 page not found'') \<and>
   (entries cfg r \<noteq> [] \<and> header_Get r ''ONIE-OPERATION'' \<notin> {''onie-update'', ''os-install''} \<longrightarrow>
      onie_ServeHTTP (onie_Register dir cfg) os r = HttpError 400 (''unknown ONIE-OPERATION: '' @ header_Get r ''ONIE-OPERATION''))"
  by (auto simp: onie_ServeHTTP_def onie_serve_def images_Register Let_def split: list.splits)

lemma onie_serve_known:
  assumes "entries cfg r \<noteq> []" and "onie_image (header_Get r ''ONIE-OPERATION'') (last (entries cfg r)) = Some name"
  shows "onie_ServeHTTP (onie_Register dir cfg) os r = FileServer (DirFS dir os) (''/'' @ name)"
proof -
  have "onieFS_Open f = f" for f by (rule ext) (simp add: onieFS_Open_def split: sum.split)
  moreover have "onieImagesDir (onie_Register dir cfg) = dir" by (simp add: onie_Register_def)
  ultimately show ?thesis using assms
    by (auto simp: onie_ServeHTTP_def onie_serve_def images_Register onie_image_def Let_def split: list.splits if_splits)
qed

lemma path_Base_plain: "plain_elem e \<Longrightarrow> path_Base (''/'' @ e) = e"
proof -
  assume e: "plain_elem e"
  then obtain x c where x: "e = x @ [c]" "c \<noteq> CHR ''/''" "CHR ''/'' \<notin> set x"
    by (cases e rule: rev_cases) (auto simp: plain_elem_def ok_elem_def)
  then have "cut_at (CHR ''/'') (c # rev x @ [CHR ''/'']) = Some (c # rev x, [])" by (simp add: cut_at_Some)
  with x show ?thesis by (simp add: path_Base_def cut_last_def)
qed

text \<open>Property C14. Where the last entry for the machine names, for the operation, an entry of the directory of the images, the
  answer is the content of that file, and in every other case the redirect or the error that says why there is none.\<close>

theorem onie_serves_image:
  assumes "entries cfg r \<noteq> []" and "onie_image (header_Get r ''ONIE-OPERATION'') (last (entries cfg r)) = Some name"
    and "plain_elem name" "name \<noteq> ''index.html''" "CHR 0x00 \<notin> set name" and "dir \<noteq> []" "last dir \<noteq> CHR ''/''"
  shows "onie_ServeHTTP (onie_Register dir cfg) os r = (case os (dir @ ''/'' @ name) of
      Inr (File content) \<Rightarrow> Content content
    | Inr Dir \<Rightarrow> Redirect (name @ ''/'')
    | Inl ErrNotExist \<Rightarrow> HttpError 404 ''404 page not found''
    | Inl ErrPermission \<Rightarrow> HttpError 403 ''403 Forbidden''
    | Inl (ErrOther _) \<Rightarrow> HttpError 500 ''500 Internal Server Error'')"
proof -
  have n: "name \<noteq> []" "Split (CHR ''/'') name = [name]" using assms(3) by (auto simp: plain_elem_def ok_elem_def)
  show ?thesis
    unfolding onie_serve_known [OF assms(1,2)] FileServer_plain [OF assms(3,4)] http_Open_plain [OF n(1)] path_Base_plain [OF assms(3)]
      DirFS_plain [OF assms(3,5-7)]
    by (simp add: mapOpenError_def toHTTPError_def n DirFS_plain [OF assms(3,5-7)] split: sum.split fserr.split node.split)
qed

text \<open>The property at the second entry for a machine, which replaces the first.\<close>

theorem onie_serves_image_witness:
  "onie_ServeHTTP demo_onie (\<lambda>n. if n = ''/images/sonic.bin'' then Inr (File ''ELF'') else Inl ErrNotExist) (demo_request ''m1'' ''os-install'')
     = Content ''ELF''"
  unfolding demo_onie_def
  by (subst onie_serves_image [where name = "''sonic.bin''"])
    (simp_all add: entries_def demo_headers onie_image_def plain_elem_def ok_elem_def)

text \<open>Property C39. An entry that leaves the name for an operation empty does not make the request fail: it is answered with the
  listing of the directory of all images, as if that were the image.\<close>

theorem onie_empty_name_lists:
  assumes "entries cfg r \<noteq> []" and "onie_image (header_Get r ''ONIE-OPERATION'') (last (entries cfg r)) = Some []"
    and "dir \<noteq> []" "last dir \<noteq> CHR ''/''" and "os (dir @ ''/.'') = Inr Dir" "os (dir @ ''/index.html'') = Inl e"
  shows "onie_ServeHTTP (onie_Register dir cfg) os r = Listing ''/''"
proof -
  have v: "ValidPath ''.''" "ValidPath ''index.html''" by (simp_all add: ValidPath_def ok_elem_def)
  then have d: "DirFS dir os ''.'' = Inr Dir" "DirFS dir os ''index.html'' = Inl e" using assms(3-6) by (simp_all add: DirFS_def)
  then have "http_Open (DirFS dir os) ''/'' = Inr Dir" by (simp add: http_Open_def Let_def)
  moreover have "isl (http_Open (DirFS dir os) ''/index.html'')"
    using d(2) TrimPrefix_append [of "''/''" "''index.html''"] by (simp add: http_Open_def Let_def)
  moreover have "TrimSuffix ''/'' ''/'' = []" by (simp add: TrimSuffix_def TrimPrefix_def HasPrefix_def)
  moreover have "clean_elems True ''/'' = []" by code_simp
  moreover have "\<not> HasSuffix ''/'' ''/index.html''" by code_simp
  ultimately show ?thesis unfolding onie_serve_known [OF assms(1,2)] FileServer_rooted
    by (auto simp: serveFile_def serve_dir_def Let_def isl_def)
qed

text \<open>The property at an entry that configures the installer only.\<close>

theorem onie_empty_name_lists_witness:
  "onie_ServeHTTP demo_onie (\<lambda>n. if n = ''/images/.'' then Inr Dir else Inl ErrNotExist) (demo_request ''m1'' ''onie-update'') = Listing ''/''"
  unfolding demo_onie_def by (rule onie_empty_name_lists) (simp_all add: entries_def demo_headers onie_image_def)

section \<open>Who asks\<close>

text \<open>The address logged for a client is empty only if the connection has none: a forwarding header with an empty
  first element is passed over.\<close>

lemma clientIdentity_nonempty: "rq_RemoteAddr r \<noteq> [] \<Longrightarrow> fst (clientIdentity r) \<noteq> []"
  by (auto simp: clientIdentity_def Let_def split: option.splits)

end
