(* ===== verification/Onie_Log.thy ===== *)
theory Onie_Log
  imports Onie
begin

text \<open>
  The rest of \<open>internal/onie/onie.go\<close>: the recorder that stands between the file server and the response, and the log. A
  handler of \<open>net/http\<close> is a script: it calls the two methods of the response and goes on with what they return.

  The recorder changes nothing about the response, whatever the script and the response do. Over the response of
  \<open>net/http\<close>, and for scripts that set the status before they write, as those of that package do, the status it records is the one
  the client gets, so that the log tells failed requests from served ones.
\<close>

section \<open>Responses and handlers\<close>

record 's ResponseWriter =
  rw_WriteHeader :: "int \<Rightarrow> ('s, unit) state"
  rw_Write :: "string \<Rightarrow> ('s, int \<times> goerror option) state"

datatype script = Finished | CallWriteHeader int script | CallWrite string "int \<times> goerror option \<Rightarrow> script"

primrec exec :: "'s ResponseWriter \<Rightarrow> script \<Rightarrow> ('s, unit) state" where
  "exec w Finished = ret ()"
| "exec w (CallWriteHeader code k) = State_Monad.bind (rw_WriteHeader w code) (\<lambda>_. exec w k)"
| "exec w (CallWrite p k) = State_Monad.bind (rw_Write w p) (\<lambda>r. exec w (k r))"

section \<open>The recorder\<close>

record statusRecorder =
  rec_status :: int
  rec_bytes :: int

definition recorder_WriteHeader :: "'s ResponseWriter \<Rightarrow> int \<Rightarrow> (statusRecorder \<times> 's, unit) state" where
  "recorder_WriteHeader w statusCode = State (\<lambda>(r, s). case run (rw_WriteHeader w statusCode) s of
     (_, s') \<Rightarrow> ((), (r\<lparr>rec_status := statusCode\<rparr>, s')))"

definition recorder_Write :: "'s ResponseWriter \<Rightarrow> string \<Rightarrow> (statusRecorder \<times> 's, int \<times> goerror option) state" where
  "recorder_Write w p = State (\<lambda>(r, s).
     let r1 = (if rec_status r = 0 then r\<lparr>rec_status := 200\<rparr> else r) in
     case run (rw_Write w p) s of ((n, err), s') \<Rightarrow> ((n, err), (r1\<lparr>rec_bytes := rec_bytes r1 + n\<rparr>, s')))"

definition recorder :: "'s ResponseWriter \<Rightarrow> (statusRecorder \<times> 's) ResponseWriter" where
  "recorder w = \<lparr>rw_WriteHeader = recorder_WriteHeader w, rw_Write = recorder_Write w\<rparr>"

lemma recorder_transparent: "snd (snd (run (exec (recorder w) k) (r, s))) = snd (run (exec w k) s)"
proof (induction k arbitrary: r s)
  case (CallWriteHeader code k)
  then show ?case by (simp add: recorder_def recorder_WriteHeader_def split: prod.split)
next
  case (CallWrite p k)
  then show ?case by (simp add: recorder_def recorder_Write_def Let_def split: prod.split)
qed simp

text \<open>The response of \<open>net/http\<close> to a GET request: the first status counts, writing sends 200 before the body.\<close>

record response =
  sent :: "int option"
  body :: string

definition server_response :: "response ResponseWriter" where
  "server_response = \<lparr>
     rw_WriteHeader = (\<lambda>code. State (\<lambda>s. ((), if sent s = None then s\<lparr>sent := Some code\<rparr> else s))),
     rw_Write = (\<lambda>p. State (\<lambda>s. ((int (length p), None),
       s\<lparr>sent := Some (case sent s of None \<Rightarrow> 200 | Some code \<Rightarrow> code), body := body s @ p\<rparr>)))\<rparr>"

text \<open>A script that sets the status once at most, to a status that there is, and before it writes.\<close>

primrec orderly :: "bool \<Rightarrow> script \<Rightarrow> bool" where
  "orderly started Finished = True"
| "orderly started (CallWriteHeader code k) = (\<not> started \<and> 200 \<le> code \<and> orderly True k)"
| "orderly started (CallWrite p k) = (\<forall>r. orderly True (k r))"

definition recorded :: "statusRecorder \<Rightarrow> response \<Rightarrow> bool" where
  "recorded r s \<longleftrightarrow> (case sent s of None \<Rightarrow> rec_status r = 0 | Some code \<Rightarrow> 200 \<le> code \<and> rec_status r = code) \<and> rec_bytes r = int (length (body s))"

lemma recorded_exec:
  "orderly (sent s \<noteq> None) k \<Longrightarrow> recorded r s \<Longrightarrow> case snd (run (exec (recorder server_response) k) (r, s)) of (r', s') \<Rightarrow> recorded r' s'"
proof (induction k arbitrary: r s)
  case (CallWriteHeader code k)
  let ?s = "s\<lparr>sent := Some code\<rparr>"
  have "recorded (r\<lparr>rec_status := code\<rparr>) ?s" "orderly (sent ?s \<noteq> None) k"
    using CallWriteHeader.prems by (auto simp: recorded_def split: option.splits)
  from CallWriteHeader.IH [OF this(2,1)] CallWriteHeader.prems(1) show ?case
    by (simp add: recorder_def recorder_WriteHeader_def server_response_def)
next
  case (CallWrite p k)
  let ?s = "s\<lparr>sent := Some (case sent s of None \<Rightarrow> 200 | Some code \<Rightarrow> code), body := body s @ p\<rparr>"
  let ?r = "(if rec_status r = 0 then r\<lparr>rec_status := 200\<rparr> else r)\<lparr>rec_bytes := rec_bytes r + int (length p)\<rparr>"
  have "recorded ?r ?s" using CallWrite.prems(2) by (auto simp: recorded_def split: option.splits)
  moreover have "orderly (sent ?s \<noteq> None) (k (int (length p), None))" using CallWrite.prems(1) by simp
  ultimately show ?case using CallWrite.IH [OF rangeI, of ?s "(int (length p), None)" ?r]
    by (auto simp: recorder_def recorder_Write_def server_response_def Let_def split: if_splits)
qed simp

section \<open>The log\<close>

datatype level = LevelInfo | LevelWarn

datatype attr = AText string | ANumber int | AError fserr

record log_entry =
  le_Level :: level
  le_Message :: string
  le_Attrs :: "(string \<times> attr) list"

text \<open>What \<open>os.Stat\<close> tells of a file.\<close>

record file_info =
  fi_IsDir :: bool
  fi_IsRegular :: bool
  fi_Mode :: string
  fi_Size :: int

definition onie_logger :: "string \<Rightarrow> (string \<times> attr) list" where
  "onie_logger dir = [(''component'', AText ''onie''), (''onieImagesDir'', AText dir)]"

text \<open>\<open>Register\<close> says what it finds at the directory of the images.\<close>

definition onie_Register_log :: "(string \<Rightarrow> fserr + file_info) \<Rightarrow> string \<Rightarrow> log_entry" where
  "onie_Register_log Stat dir = (case Stat dir of
      Inl err \<Rightarrow> \<lparr>le_Level = LevelWarn, le_Message = ''images directory stat failed'', le_Attrs = onie_logger dir @ [(''err'', AError err)]\<rparr>
    | Inr st \<Rightarrow>
        if \<not> fi_IsDir st
        then \<lparr>le_Level = LevelWarn, le_Message = ''images path is not a directory'',
              le_Attrs = onie_logger dir @ [(''mode'', AText (fi_Mode st))]\<rparr>
        else \<lparr>le_Level = LevelInfo, le_Message = ''images directory configured'',
              le_Attrs = onie_logger dir @ [(''mode'', AText (fi_Mode st))]\<rparr>)"

definition filepath_Join :: "string \<Rightarrow> string \<Rightarrow> string" where
  "filepath_Join a b = (case filter (\<lambda>e. e \<noteq> []) [a, b] of [] \<Rightarrow> [] | es \<Rightarrow> path_Clean (Join es ''/''))"

text \<open>The path of the file behind a URL.\<close>

definition fs_path :: "string \<Rightarrow> string \<Rightarrow> string" where
  "fs_path dir url = filepath_Join dir (TrimPrefix (path_Clean (''/'' @ url)) ''/'')"

definition request_logger :: "string \<Rightarrow> string \<Rightarrow> string \<Rightarrow> string \<Rightarrow> string \<Rightarrow> (string \<times> attr) list" where
  "request_logger dir url clientIP operation machine = onie_logger dir @
     [(''cleanURLPath'', AText (path_Clean (''/'' @ url))), (''fsPath'', AText (fs_path dir url)), (''clientIP'', AText clientIP),
      (''operation'', AText operation), (''machine'', AText machine)]"

text \<open>The entry after a request has been served, from the status that was recorded.\<close>

definition served_log :: "(string \<times> attr) list \<Rightarrow> (string \<Rightarrow> fserr + file_info) \<Rightarrow> string \<Rightarrow> int \<Rightarrow> string \<Rightarrow> string \<Rightarrow> log_entry" where
  "served_log logger Stat fsPath recStatus method duration =
     (let status = (if recStatus = 0 then 200 else recStatus);
          entry = (\<lambda>l m fs. \<lparr>le_Level = l, le_Message = m, le_Attrs = logger @ [(''status'', ANumber status), (''duration'', AText duration)] @ fs\<rparr>) in
      if 400 \<le> status then entry LevelWarn ''served request (failed)'' []
      else if status = 200 \<and> method = ''GET''
      then (case Stat fsPath of
          Inr st \<Rightarrow> if fi_IsRegular st then entry LevelInfo ''served download'' [(''fileSize'', ANumber (fi_Size st))]
            else entry LevelInfo ''served request'' []
        | Inl _ \<Rightarrow> entry LevelInfo ''served request'' [])
      else entry LevelInfo ''served request'' [])"

text \<open>Serving a file through the recorder. How \<open>net/http\<close> puts an answer into calls of the response is a parameter.\<close>

definition serve_recorded :: "fsys \<Rightarrow> string \<Rightarrow> (served \<Rightarrow> script) \<Rightarrow> (int \<Rightarrow> log_entry) \<Rightarrow> 's ResponseWriter \<Rightarrow> ('s, log_entry) state" where
  "serve_recorded fs url answer log w = State (\<lambda>s.
     case run (exec (recorder w) (answer (FileServer fs url))) (\<lparr>rec_status = 0, rec_bytes = 0\<rparr>, s) of
       (_, (rec, s')) \<Rightarrow> (log (rec_status rec), s'))"

text \<open>\<open>ServeHTTP\<close> with the response and the log.\<close>

definition onie_ServeHTTP_logged :: "onie_handler \<Rightarrow> fsys \<Rightarrow> (string \<Rightarrow> fserr + file_info) \<Rightarrow> (served \<Rightarrow> script) \<Rightarrow> string \<Rightarrow> string \<Rightarrow>
    http_request \<Rightarrow> 's ResponseWriter \<Rightarrow> ('s, log_entry) state" where
  "onie_ServeHTTP_logged h os Stat answer method duration r w =
     (let (clientIP, _, _) = clientIdentity r;
          operation = header_Get r ''ONIE-OPERATION''; machine = header_Get r ''ONIE-MACHINE'';
          reject = (\<lambda>m fs resp. State_Monad.bind (exec w (answer resp))
            (\<lambda>_. ret \<lparr>le_Level = LevelWarn, le_Message = m, le_Attrs = onie_logger (onieImagesDir h) @ fs\<rparr>));
          serve = (\<lambda>url. serve_recorded (onieFS_Open (DirFS (onieImagesDir h) os)) url answer
            (\<lambda>status. served_log (request_logger (onieImagesDir h) url clientIP operation machine) Stat
               (fs_path (onieImagesDir h) url) status method duration) w)
      in case images h machine of
        None \<Rightarrow> reject ''unknown ONIE-MACHINE, rejecting'' [(''machine'', AText machine), (''clientIP'', AText clientIP)]
          (HttpError 404 ''404 page not found'')
      | Some img \<Rightarrow>
          if operation = ''onie-update'' then serve (''/'' @ OnieUpdater img)
          else if operation = ''os-install'' then serve (''/'' @ OnieInstaller img)
          else reject ''unknown ONIE-OPERATION, rejecting'' [(''operation'', AText operation), (''machine'', AText machine), (''clientIP'', AText clientIP)]
            (HttpError 400 (''unknown ONIE-OPERATION: '' @ operation)))"

section \<open>What the log tells\<close>

abbreviation no_response :: response where
  "no_response \<equiv> \<lparr>sent = None, body = []\<rparr>"

text \<open>The status a client gets; without a call of either method \<open>net/http\<close> sends 200.\<close>

definition status_code :: "response \<Rightarrow> int" where
  "status_code s = (case sent s of None \<Rightarrow> 200 | Some code \<Rightarrow> code)"

text \<open>The documented behaviour of \<open>net/http\<close>: its scripts are orderly, and an error is sent with its code.\<close>

definition net_http :: "(served \<Rightarrow> script) \<Rightarrow> bool" where
  "net_http answer \<longleftrightarrow> (\<forall>x. orderly False (answer x)) \<and>
     (\<forall>code m. 200 \<le> code \<longrightarrow> status_code (snd (run (exec server_response (answer (HttpError code m))) no_response)) = int code)"

lemma recorded_served:
  assumes "orderly False k" and "run (exec (recorder server_response) k) (\<lparr>rec_status = 0, rec_bytes = 0\<rparr>, no_response) = (u, (r', s'))"
  shows "(if rec_status r' = 0 then 200 else rec_status r') = status_code s'" and "rec_bytes r' = int (length (body s'))"
  using recorded_exec [of no_response k "\<lparr>rec_status = 0, rec_bytes = 0\<rparr>"] assms
  by (auto simp: recorded_def status_code_def split: option.splits)

lemma served_log_level: "le_Level (served_log lg Stat p st method d) = LevelWarn \<longleftrightarrow> 400 \<le> (if st = 0 then 200 else st)"
  by (auto simp: served_log_def Let_def split: sum.split)

lemma serve_recorded_log:
  assumes "net_http answer" and "\<And>st. le_Level (log st) = LevelWarn \<longleftrightarrow> 400 \<le> (if st = 0 then 200 else st)"
    and "run (serve_recorded fs url answer log server_response) no_response = (entry, s')"
  shows "s' = snd (run (exec server_response (answer (FileServer fs url))) no_response) \<and> (le_Level entry = LevelWarn \<longleftrightarrow> 400 \<le> status_code s')"
proof -
  obtain u r1 s1 where x: "run (exec (recorder server_response) (answer (FileServer fs url))) (\<lparr>rec_status = 0, rec_bytes = 0\<rparr>, no_response) = (u, (r1, s1))"
    by (metis surj_pair)
  then have e: "entry = log (rec_status r1)" "s' = s1" using assms(3) by (simp_all add: serve_recorded_def)
  have "orderly False (answer (FileServer fs url))" using assms(1) by (simp add: net_http_def)
  from recorded_served(1) [OF this x] e x recorder_transparent [of server_response "answer (FileServer fs url)" "\<lparr>rec_status = 0, rec_bytes = 0\<rparr>" no_response]
  show ?thesis by (simp add: assms(2))
qed

text \<open>Property C28. Recording and logging do not change what a client of the ONIE endpoint gets: it is the answer of the handler, written by
  \<open>net/http\<close>. The entry of the handler in the log is a warning if and only if the client got a status of 400 or more.\<close>

theorem onie_log_tells_failures:
  assumes "net_http answer"
    and "run (onie_ServeHTTP_logged h os Stat answer method duration r server_response) no_response = (entry, s')"
  shows "s' = snd (run (exec server_response (answer (onie_ServeHTTP h os r))) no_response) \<and>
    (le_Level entry = LevelWarn \<longleftrightarrow> 400 \<le> status_code s')"
proof -
  let ?op = "header_Get r ''ONIE-OPERATION''" and ?fs = "onieFS_Open (DirFS (onieImagesDir h) os)"
  have reject: "400 \<le> status_code s'"
    if "snd (run (exec server_response (answer (HttpError code m))) no_response) = s'" "400 \<le> code" for code m
  proof -
    have "status_code (snd (run (exec server_response (answer (HttpError code m))) no_response)) = int code"
      using assms(1) that(2) by (simp add: net_http_def)
    then show ?thesis using that by simp
  qed
  show ?thesis
  proof (cases "images h (header_Get r ''ONIE-MACHINE'')")
    case None
    then show ?thesis using assms(2) reject [of 404 "''404 page not found''"]
      by (auto simp: onie_ServeHTTP_logged_def onie_ServeHTTP_def onie_serve_def Let_def split: prod.splits)
  next
    case (Some img)
    consider "?op = ''onie-update''" | "?op = ''os-install''" | "?op \<noteq> ''onie-update''" "?op \<noteq> ''os-install''" by blast
    then show ?thesis
    proof cases
      case 1
      with Some assms(2) show ?thesis
        by (auto simp: onie_ServeHTTP_logged_def onie_ServeHTTP_def onie_serve_def Let_def served_log_level
            dest!: serve_recorded_log [OF assms(1), rotated] split: prod.splits)
    next
      case 2
      with Some assms(2) show ?thesis
        by (auto simp: onie_ServeHTTP_logged_def onie_ServeHTTP_def onie_serve_def Let_def served_log_level
            dest!: serve_recorded_log [OF assms(1), rotated] split: prod.splits)
    next
      case 3
      with Some assms(2) reject [of 400 "''unknown ONIE-OPERATION: '' @ ?op"] show ?thesis
        by (auto simp: onie_ServeHTTP_logged_def onie_ServeHTTP_def onie_serve_def Let_def split: prod.splits)
    qed
  qed
qed

text \<open>The simplest scripts that keep the contract.\<close>

fun plain_answer :: "served \<Rightarrow> script" where
  "plain_answer (Content c) = CallWriteHeader 200 (CallWrite c (\<lambda>_. Finished))"
| "plain_answer (Listing l) = CallWrite l (\<lambda>_. Finished)"
| "plain_answer (Redirect url) = CallWriteHeader 301 Finished"
| "plain_answer (HttpError code m) = (if code < 200 then Finished else CallWriteHeader (int code) (CallWrite (m @ [CHR 0x0A]) (\<lambda>_. Finished)))"

lemma plain_answer_net_http: "net_http plain_answer"
proof -
  have "orderly False (plain_answer x)" for x by (cases x) auto
  then show ?thesis by (auto simp: net_http_def server_response_def status_code_def)
qed

text \<open>The property at a machine that is not configured.\<close>

theorem onie_log_tells_failures_witness:
  "\<exists>entry s'. run (onie_ServeHTTP_logged (onie_Register ''/images'' \<lparr>OnieImages = []\<rparr>) (\<lambda>_. Inl ErrNotExist) (\<lambda>_. Inl ErrNotExist) plain_answer
      ''GET'' ''1ms'' (demo_request ''os-install'' ''x86'') server_response) no_response = (entry, s') \<and>
     status_code s' = 404 \<and> le_Level entry = LevelWarn"
proof -
  let ?h = "onie_Register ''/images'' \<lparr>OnieImages = []\<rparr>"
  obtain entry s' where run: "run (onie_ServeHTTP_logged ?h (\<lambda>_. Inl ErrNotExist) (\<lambda>_. Inl ErrNotExist) plain_answer
      ''GET'' ''1ms'' (demo_request ''os-install'' ''x86'') server_response) no_response = (entry, s')" by (metis surj_pair)
  from onie_log_tells_failures [OF plain_answer_net_http run]
  have "status_code s' = 404" by (simp add: onie_ServeHTTP_def onie_serve_def onie_Register_def server_response_def status_code_def)
  with onie_log_tells_failures [OF plain_answer_net_http run] run show ?thesis by simp
qed

end
