(* ===== verification/Ztp.thy ===== *)
theory Ztp
  imports Ztp_Script Go_Netip
begin

text \<open>
  The ZTP endpoint of the provisioning server (\<open>internal/ztp/ztp.go\<close>): which switch a request
  comes from, and the two handlers that answer with a script from a ConfigMap or with a generated
  one. The cluster and the file system are parameters. The properties: a request is matched to a
  switch exactly when one and only one switch has its address, and both handlers answer with a script
  of that switch or with an error.
\<close>

record 'w reader =
  ListSwitches :: "('w, Switch list res) state"
  GetConfigMap :: "string \<Rightarrow> string \<Rightarrow> ('w, gomap res) state"

record http_response =
  hr_status :: nat
  hr_type :: "string option"
  hr_body :: string

definition script_type :: string where
  "script_type = ''text/x-shellscript; charset=utf-8''"

definition handleErr :: "goerror \<Rightarrow> http_response" where
  "handleErr e = \<lparr>hr_status = 500, hr_type = None, hr_body = error_text e\<rparr>"

definition ok_script :: "string \<Rightarrow> http_response" where
  "ok_script script = \<lparr>hr_status = 200, hr_type = Some script_type, hr_body = script\<rparr>"

fun match_loop :: "addr \<Rightarrow> Switch list \<Rightarrow> Switch option \<Rightarrow> Switch option res" where
  "match_loop a [] matched = Inr matched"
| "match_loop a (s # ss) matched = (case s_ZTP (sw_Spec s) of
      None \<Rightarrow> match_loop a ss matched
    | Some z \<Rightarrow> (case ParseAddr (SourceAddress z) of
        Inl err \<Rightarrow> Inl (ErrorfW (''switch '' @ Quote (m_Name (sw_Meta s)) @ '' has invalid ZTP source address ''
            @ Quote (SourceAddress z) @ '': '' @ error_text err) err)
      | Inr configured \<Rightarrow>
          if configured \<noteq> a then match_loop a ss matched
          else if matched \<noteq> None then Inl (Errorf (''multiple switches use ZTP source address '' @ Quote (addr_String a)))
          else match_loop a ss (Some s)))"

definition matchingSwitch :: "'w reader \<Rightarrow> string \<Rightarrow> ('w, Switch res) state" where
  "matchingSwitch K remoteAddr = (case ParseAddrPort remoteAddr of
      Inl err \<Rightarrow> ret (Inl err)
    | Inr (a, _) \<Rightarrow>
        on_err (ListSwitches K)
          (\<lambda>err. ret (Inl (ErrorfW (''listing switches for ZTP: '' @ error_text err) err)))
          (\<lambda>items. ret (case match_loop a items None of
              Inl err \<Rightarrow> Inl err
            | Inr None \<Rightarrow> Inl (Errorf (''no switch configured for ZTP source address '' @ Quote (addr_String a)))
            | Inr (Some s) \<Rightarrow> Inr s)))"

text \<open>\<open>matched.Spec.ZTP\<close> is not nil for a switch that matched; a nil pointer would be a panic.\<close>

definition ztp_configmap :: "'w reader \<Rightarrow> string \<Rightarrow> ('w, http_response option) state" where
  "ztp_configmap K remoteAddr =
     on_err (matchingSwitch K remoteAddr) (\<lambda>err. ret (Some (handleErr err)))
       (\<lambda>matched. case s_ZTP (sw_Spec matched) of
          None \<Rightarrow> ret None
        | Some z \<Rightarrow> (case ScriptRef z of
            None \<Rightarrow> ret (Some (handleErr (Errorf (''switch '' @ Quote (m_Name (sw_Meta matched)) @ '' has no ztp.scriptRef for configmap mode''))))
          | Some r \<Rightarrow>
              on_err (GetConfigMap K (ref_Namespace r) (ref_Name r))
                (\<lambda>err. ret (Some (handleErr (ErrorfW (''getting ZTP ConfigMap '' @ ref_Namespace r @ ''/'' @ ref_Name r @ '': '' @ error_text err) err))))
                (\<lambda>data. case map_of data (ref_Key r) of
                   None \<Rightarrow> ret (Some (handleErr (Errorf (''ZTP ConfigMap '' @ ref_Namespace r @ ''/'' @ ref_Name r @ '' has no key '' @ Quote (ref_Key r)))))
                 | Some script \<Rightarrow> ret (Some (ok_script script)))))"

definition ztp_generated :: "'w reader \<Rightarrow> (string \<Rightarrow> ('w, string res) state) \<Rightarrow> string \<Rightarrow> string \<Rightarrow> ('w, http_response) state" where
  "ztp_generated K readFile controlKubeconfigFilePath remoteAddr =
     on_err (matchingSwitch K remoteAddr) (\<lambda>err. ret (handleErr err))
       (\<lambda>matched. on_err (renderGeneratedScript readFile matched controlKubeconfigFilePath)
          (\<lambda>err. ret (handleErr (ErrorfW (''rendering generated ZTP for switch '' @ Quote (m_Name (sw_Meta matched)) @ '': '' @ error_text err) err)))
          (\<lambda>script. ret (ok_script script)))"

section \<open>Matching\<close>

text \<open>The switches configured with an address, and those whose configured address is no address.\<close>

definition has_address :: "addr \<Rightarrow> Switch \<Rightarrow> bool" where
  "has_address a s = (case s_ZTP (sw_Spec s) of None \<Rightarrow> False | Some z \<Rightarrow> ParseAddr (SourceAddress z) = Inr a)"

definition bad_address :: "Switch \<Rightarrow> bool" where
  "bad_address s = (case s_ZTP (sw_Spec s) of None \<Rightarrow> False | Some z \<Rightarrow> isl (ParseAddr (SourceAddress z)))"

lemma match_loop_Inr:
  "match_loop a ss matched = Inr r \<longleftrightarrow>
     list_all (\<lambda>s. \<not> bad_address s) ss \<and>
     (case filter (has_address a) ss of [] \<Rightarrow> r = matched | [s] \<Rightarrow> matched = None \<and> r = Some s | _ \<Rightarrow> False)"
proof (induction a ss matched rule: match_loop.induct)
  case (2 a s ss matched)
  show ?case
  proof (cases "s_ZTP (sw_Spec s)")
    case None
    with "2.IH"(1) show ?thesis by (simp add: has_address_def bad_address_def)
  next
    case (Some z)
    show ?thesis
    proof (cases "ParseAddr (SourceAddress z)")
      case (Inl e)
      with Some show ?thesis by (simp add: bad_address_def)
    next
      case (Inr b)
      with Some "2.IH"(2,3) show ?thesis
        by (cases "b = a"; cases matched) (auto simp: has_address_def bad_address_def split: list.splits)
    qed
  qed
qed auto

text \<open>Property C15. A request is matched to a switch if and only if that switch is the one and only one configured with the
  address the request comes from, and no configured address is invalid: two switches with the same address, or a
  malformed one, make every request fail.\<close>

theorem matchingSwitch_unique:
  assumes "ParseAddrPort remoteAddr = Inr (a, port)" and "run (ListSwitches K) w = (Inr items, w')"
  shows "run (matchingSwitch K remoteAddr) w = (Inr s, w') \<longleftrightarrow>
    list_all (\<lambda>s. \<not> bad_address s) items \<and> filter (has_address a) items = [s]"
proof -
  have "run (matchingSwitch K remoteAddr) w = (Inr s, w') \<longleftrightarrow> match_loop a items None = Inr (Some s)"
    using assms by (auto simp: matchingSwitch_def split: sum.splits option.splits)
  then show ?thesis unfolding match_loop_Inr by (auto split: list.splits)
qed

text \<open>A cluster in memory with two switches, one of them configured for ZTP.\<close>

definition demo_ztp :: "string \<Rightarrow> ZTP option \<Rightarrow> Switch" where
  "demo_ztp name z = \<lparr>
     sw_Meta = \<lparr>m_Name = name, m_Namespace = [], m_UID = [], m_Finalizers = [], m_DeletionTimestamp = None\<rparr>,
     sw_Spec = \<lparr>Hostname = [], s_Management = \<lparr>Host = [], Port = []\<rparr>, s_ZTP = z, Containers = [], Volumes = [],
        s_NextBootMode = [], s_MacAddress = [], s_Ports = []\<rparr>,
     sw_Status = \<lparr>sw_State = [], sw_Ports = [], MACAddress = [], FirmwareVersion = [], SKU = []\<rparr>\<rparr>"

definition demo_ref :: ZTP where
  "demo_ref = \<lparr>SourceAddress = ''192.0.2.10'', ScriptRef = Some \<lparr>ref_Namespace = ''ns'', ref_Name = ''cm'', ref_Key = ''ztp.sh''\<rparr>\<rparr>"

definition demo_reader :: "unit reader" where
  "demo_reader = \<lparr>ListSwitches = ret (Inr [demo_ztp ''a'' None, demo_ztp ''b'' (Some demo_ref)]),
     GetConfigMap = (\<lambda>ns n. ret (Inr [(''ztp.sh'', ''echo hi'')]))\<rparr>"

lemma demo_addr: "ParseAddrPort ''192.0.2.10:4711'' = Inr (Addr4 [192, 0, 2, 10], 4711)" "ParseAddr ''192.0.2.10'' = Inr (Addr4 [192, 0, 2, 10])"
  by code_simp+

text \<open>The property at that cluster.\<close>

theorem matchingSwitch_unique_witness:
  "run (matchingSwitch demo_reader ''192.0.2.10:4711'') () = (Inr (demo_ztp ''b'' (Some demo_ref)), ())"
proof -
  have "run (ListSwitches demo_reader) () = (Inr [demo_ztp ''a'' None, demo_ztp ''b'' (Some demo_ref)], ())"
    by (simp add: demo_reader_def)
  from matchingSwitch_unique [OF demo_addr(1) this] show ?thesis
    by (simp add: demo_addr(2) has_address_def bad_address_def demo_ztp_def demo_ref_def)
qed

section \<open>The handlers\<close>

lemma demo_match: "run (matchingSwitch demo_reader ''192.0.2.10:4711'') () = (Inr (demo_ztp ''b'' (Some demo_ref)), ())"
proof -
  have "match_loop (Addr4 [192, 0, 2, 10]) [demo_ztp ''a'' None, demo_ztp ''b'' (Some demo_ref)] None = Inr (Some (demo_ztp ''b'' (Some demo_ref)))"
    by (simp add: demo_addr(2) demo_ztp_def demo_ref_def)
  then show ?thesis by (simp add: matchingSwitch_def demo_addr(1) demo_reader_def)
qed

lemma demo_configmap: "run (ztp_configmap demo_reader ''192.0.2.10:4711'') () = (Some (ok_script ''echo hi''), ())"
proof -
  have "GetConfigMap demo_reader = (\<lambda>ns n. ret (Inr [(''ztp.sh'', ''echo hi'')]))" by (simp add: demo_reader_def)
  then show ?thesis by (simp add: ztp_configmap_def demo_match demo_ztp_def demo_ref_def)
qed

lemma matchingSwitch_Inr:
  assumes "run (matchingSwitch K remoteAddr) w = (Inr s, w')"
  shows "\<exists>a port items. ParseAddrPort remoteAddr = Inr (a, port) \<and> run (ListSwitches K) w = (Inr items, w') \<and>
    filter (has_address a) items = [s] \<and> s_ZTP (sw_Spec s) \<noteq> None"
proof -
  from assms obtain a port items where a: "ParseAddrPort remoteAddr = Inr (a, port)" "run (ListSwitches K) w = (Inr items, w')"
    and m: "match_loop a items None = Inr (Some s)"
    by (auto simp: matchingSwitch_def split: sum.splits prod.splits option.splits)
  from m have f: "filter (has_address a) items = [s]" unfolding match_loop_Inr by (auto split: list.splits)
  then have "has_address a s" by (metis filter_eq_ConsD)
  then show ?thesis using a f by (auto simp: has_address_def split: option.splits)
qed

text \<open>The ConfigMap handler never dereferences a nil pointer and fails closed: it answers 200 only with the entry that
  the reference of the one matching switch names, and otherwise 500.\<close>

lemma ztp_configmap_cases:
  assumes "run (ztp_configmap K remoteAddr) w = (o', w')"
  shows "\<exists>resp. o' = Some resp \<and> (hr_status resp = 500 \<or> hr_status resp = 200 \<and>
    (\<exists>a port items s z r data w1. ParseAddrPort remoteAddr = Inr (a, port) \<and> run (ListSwitches K) w = (Inr items, w1) \<and>
       filter (has_address a) items = [s] \<and> s_ZTP (sw_Spec s) = Some z \<and> ScriptRef z = Some r \<and>
       run (GetConfigMap K (ref_Namespace r) (ref_Name r)) w1 = (Inr data, w') \<and> map_of data (ref_Key r) = Some (hr_body resp)))"
proof -
  obtain m w1 where m: "run (matchingSwitch K remoteAddr) w = (m, w1)" by fastforce
  show ?thesis
  proof (cases m)
    case (Inl e)
    with m assms show ?thesis by (auto simp: ztp_configmap_def handleErr_def)
  next
    case (Inr s)
    from matchingSwitch_Inr [OF m [unfolded Inr]] obtain a port items z where
      *: "ParseAddrPort remoteAddr = Inr (a, port)" "run (ListSwitches K) w = (Inr items, w1)"
        "filter (has_address a) items = [s]" "s_ZTP (sw_Spec s) = Some z" by blast
    show ?thesis
    proof (cases "ScriptRef z")
      case None
      with m Inr assms *(4) show ?thesis by (auto simp: ztp_configmap_def handleErr_def)
    next
      case (Some r)
      obtain d w2 where d: "run (GetConfigMap K (ref_Namespace r) (ref_Name r)) w1 = (d, w2)" by fastforce
      show ?thesis
      proof (cases "\<exists>data v. d = Inr data \<and> map_of data (ref_Key r) = Some v")
        case True
        then show ?thesis using d m Inr assms * Some by (force simp: ztp_configmap_def ok_script_def)
      next
        case False
        then show ?thesis using d m Inr assms *(4) Some
          by (cases d) (auto simp: ztp_configmap_def handleErr_def split: option.splits)
      qed
    qed
  qed
qed

text \<open>The generating handler answers 200 only with the text rendered from the data of the one matching switch, and
  otherwise 500.\<close>

lemma ztp_generated_cases:
  assumes "run (ztp_generated K readFile path remoteAddr) w = (resp, w')"
  shows "hr_status resp = 500 \<or> hr_status resp = 200 \<and> hr_type resp = Some script_type \<and>
    (\<exists>a port items s d w1. ParseAddrPort remoteAddr = Inr (a, port) \<and> run (ListSwitches K) w = (Inr items, w1) \<and>
       filter (has_address a) items = [s] \<and>
       run (buildGeneratedModeTemplateData readFile s path) w1 = (Inr d, w') \<and> hr_body resp = render_template d)"
proof -
  obtain m w1 where m: "run (matchingSwitch K remoteAddr) w = (m, w1)" by fastforce
  show ?thesis
  proof (cases m)
    case (Inl e)
    with m assms show ?thesis by (auto simp: ztp_generated_def handleErr_def)
  next
    case (Inr s)
    obtain d w2 where d: "run (buildGeneratedModeTemplateData readFile s path) w1 = (d, w2)" by fastforce
    show ?thesis
    proof (cases d)
      case (Inl e)
      with d m Inr assms show ?thesis by (auto simp: ztp_generated_def renderGeneratedScript_def handleErr_def)
    next
      case (Inr dt)
      with d m \<open>m = Inr s\<close> assms have "resp = ok_script (render_template dt)" "w2 = w'"
        by (auto simp: ztp_generated_def renderGeneratedScript_def)
      then show ?thesis using matchingSwitch_Inr [OF m [unfolded \<open>m = Inr s\<close>]] d Inr by (auto simp: ok_script_def)
    qed
  qed
qed

end
