(* ===== verification/Provisioning.thy ===== *)
theory Provisioning
  imports Ztp Onie
begin

text \<open>
  The provisioning server as the two programs put it together: \<open>setupProvisioningServer\<close> of
  \<open>cmd/main.go\<close>, with the ZTP handler of the mode that is configured and the ONIE handler, and \<open>Main\<close> of
  \<open>cmd/provisioning-server/main.go\<close>, with the ONIE handler alone. A server is its routes; \<open>serve\<close> is
  \<open>http.ServeMux\<close> over them, for paths without percent signs. Opening and decoding the configuration
  file are parameters, and so are the cluster, the file of the kubeconfig and the images.

  The properties: the server exists exactly when the configuration can be read and the mode is one of
  the two, and then a script served under \<open>/ztp\<close> comes from the handler of that mode and no other.
\<close>

section \<open>Putting the server together\<close>

datatype handler = ConfigMapHandler | GeneratedHandler string | OnieHandler onie_handler

type_synonym mux = "(string \<times> handler) list"

text \<open>\<open>mux.Handle(''GET ...'', h)\<close>.\<close>

definition RegisterConfigMap :: "mux \<Rightarrow> mux" where
  "RegisterConfigMap m = m @ [(''/ztp'', ConfigMapHandler)]"

definition RegisterGenerated :: "mux \<Rightarrow> string \<Rightarrow> mux" where
  "RegisterGenerated m controlKubeconfigFile = m @ [(''/ztp'', GeneratedHandler controlKubeconfigFile)]"

definition RegisterOnie :: "mux \<Rightarrow> string \<Rightarrow> onie_Config \<Rightarrow> mux" where
  "RegisterOnie m dir cfg = m @ [(''/onie'', OnieHandler (onie_Register dir cfg))]"

record http_Server =
  srv_Addr :: string
  srv_Handler :: mux

text \<open>Opening the configuration file and decoding it.\<close>

definition read_config :: "(string \<Rightarrow> ('w, string res) state) \<Rightarrow> (string \<Rightarrow> onie_Config res) \<Rightarrow> string \<Rightarrow> ('w, onie_Config res) state" where
  "read_config open_file decode path =
     on_err (open_file path) (\<lambda>err. ret (Inl (ErrorfW (''unable to open onie config file: '' @ error_text err) err)))
       (\<lambda>content. ret (decode content))"

definition setupProvisioningServer :: "(string \<Rightarrow> ('w, string res) state) \<Rightarrow> (string \<Rightarrow> onie_Config res) \<Rightarrow>
    string \<Rightarrow> string \<Rightarrow> string \<Rightarrow> string \<Rightarrow> string \<Rightarrow> ('w, http_Server res) state" where
  "setupProvisioningServer open_file decode addr imagesDir onieConfigPath ztpMode bootstrapControlKubeconfigFile =
     on_err (read_config open_file decode onieConfigPath) (\<lambda>err. ret (Inl err))
       (\<lambda>onieConf.
          if ztpMode = ''configmap''
          then ret (Inr \<lparr>srv_Addr = addr, srv_Handler = RegisterOnie (RegisterConfigMap []) imagesDir onieConf\<rparr>)
          else if ztpMode = ''generated''
          then ret (Inr \<lparr>srv_Addr = addr, srv_Handler = RegisterOnie (RegisterGenerated [] bootstrapControlKubeconfigFile) imagesDir onieConf\<rparr>)
          else ret (Inl (Errorf (''unsupported ztp mode '' @ Quote ztpMode @ '' (supported: configmap, generated)''))))"

text \<open>\<open>Main\<close> of the stand-alone server, up to listening. The first argument is the name of the program.\<close>

definition provisioning_Main :: "(string \<Rightarrow> ('w, string res) state) \<Rightarrow> (string \<Rightarrow> onie_Config res) \<Rightarrow> string list \<Rightarrow> ('w, http_Server res) state" where
  "provisioning_Main open_file decode args = (case args of
      [_, listenAddr, imagesDir, onieConfigPath] \<Rightarrow>
        on_err (read_config open_file decode onieConfigPath) (\<lambda>err. ret (Inl err))
          (\<lambda>onieConf. ret (Inr \<lparr>srv_Addr = listenAddr, srv_Handler = RegisterOnie [] imagesDir onieConf\<rparr>))
    | _ \<Rightarrow> ret (Inl (Errorf ''usage: provisioning-server <listen-addr> <onie-images-dir> <onie-config>'')))"

section \<open>Serving\<close>

record prov_request = http_request +
  rq_Method :: string
  rq_Path :: string

datatype response = ZtpResponse "http_response option" | OnieResponse served | MuxRedirect string | MuxError nat string

text \<open>The path \<open>http.ServeMux\<close> looks up.\<close>

definition cleanPath :: "string \<Rightarrow> string" where
  "cleanPath p =
     (let p1 = (if HasPrefix p ''/'' then p else ''/'' @ p); np = path_Clean p1 in
      if last p1 = CHR ''/'' \<and> np \<noteq> ''/'' then np @ ''/'' else np)"

definition handle :: "'w reader \<Rightarrow> (string \<Rightarrow> ('w, string res) state) \<Rightarrow> fsys \<Rightarrow> handler \<Rightarrow> prov_request \<Rightarrow> ('w, response) state" where
  "handle K readFile os h r = (case h of
      ConfigMapHandler \<Rightarrow> State_Monad.bind (ztp_configmap K (rq_RemoteAddr r)) (\<lambda>x. ret (ZtpResponse x))
    | GeneratedHandler kubeconfig \<Rightarrow>
        State_Monad.bind (ztp_generated K readFile kubeconfig (rq_RemoteAddr r)) (\<lambda>x. ret (ZtpResponse (Some x)))
    | OnieHandler oh \<Rightarrow> ret (OnieResponse (onie_ServeHTTP oh os (http_request.truncate r))))"

definition serve :: "'w reader \<Rightarrow> (string \<Rightarrow> ('w, string res) state) \<Rightarrow> fsys \<Rightarrow> mux \<Rightarrow> prov_request \<Rightarrow> ('w, response) state" where
  "serve K readFile os m r =
     (let path = (if rq_Method r = ''CONNECT'' then rq_Path r else cleanPath (rq_Path r)) in
      if path \<noteq> rq_Path r then ret (MuxRedirect path)
      else (case map_of m path of
          None \<Rightarrow> ret (MuxError 404 ''404 page not found'')
        | Some h \<Rightarrow> if rq_Method r \<in> {''GET'', ''HEAD''} then handle K readFile os h r
            else ret (MuxError 405 ''Method Not Allowed'')))"

section \<open>Properties\<close>

text \<open>The provisioning server of the operator is set up exactly when the configuration of the images can be opened and
  decoded and the mode is \<open>configmap\<close> or \<open>generated\<close>, and then has one route for ZTP, of that mode, and one for the images; in
  every other case there is no server.\<close>

lemma setup_exactly_when:
  assumes "run (open_file path) w = (f, w1)"
  shows "(run (setupProvisioningServer open_file decode addr dir path mode kubeconfig) w = (Inr srv, w')) =
    (w' = w1 \<and> (\<exists>content conf. f = Inr content \<and> decode content = Inr conf \<and>
      (mode = ''configmap'' \<and> srv = \<lparr>srv_Addr = addr, srv_Handler = [(''/ztp'', ConfigMapHandler), (''/onie'', OnieHandler (onie_Register dir conf))]\<rparr> \<or>
       mode = ''generated'' \<and> srv = \<lparr>srv_Addr = addr, srv_Handler = [(''/ztp'', GeneratedHandler kubeconfig), (''/onie'', OnieHandler (onie_Register dir conf))]\<rparr>)))"
  using assms
  by (auto simp: setupProvisioningServer_def read_config_def RegisterConfigMap_def RegisterGenerated_def RegisterOnie_def
      split: sum.splits if_splits)

text \<open>A configuration in memory.\<close>

definition demo_open :: "string \<Rightarrow> (unit, string res) state" where
  "demo_open path = (if path = ''/etc/onie.json'' then ret (Inr ''{}'') else ret (Inl (ExtErr ''no such file'')))"

definition demo_decode :: "string \<Rightarrow> onie_Config res" where
  "demo_decode content = (if content = ''{}'' then Inr \<lparr>OnieImages = []\<rparr> else Inl (ExtErr ''invalid''))"

lemma serve_ztp:
  assumes "run (serve K readFile os m r) w = (ZtpResponse x, w')"
  shows "\<exists>h. map_of m (rq_Path r) = Some h \<and> rq_Method r \<in> {''GET'', ''HEAD''} \<and> run (handle K readFile os h r) w = (ZtpResponse x, w')"
  using assms by (auto simp: serve_def Let_def split: if_splits option.splits)

lemma handle_ztp:
  assumes "run (handle K readFile os h r) w = (ZtpResponse x, w')"
  shows "h = ConfigMapHandler \<and> run (ztp_configmap K (rq_RemoteAddr r)) w = (x, w') \<or>
    (\<exists>k y. h = GeneratedHandler k \<and> x = Some y \<and> run (ztp_generated K readFile k (rq_RemoteAddr r)) w = (y, w'))"
  using assms by (cases h) (auto simp: handle_def split: prod.splits)

text \<open>Property C6. The whole endpoint: a server that was set up answers under \<open>/ztp\<close>, to \<open>GET\<close> and \<open>HEAD\<close> only and never with a
  panic. A script it answers with, status 200, is for the one switch configured with the address of the client: in
  the mode \<open>configmap\<close> it is the entry of the ConfigMap this switch references, in the mode \<open>generated\<close> the script rendered
  from this switch. Neither mode falls back to the other.\<close>

theorem provisioning_script_source:
  assumes "run (setupProvisioningServer open_file decode addr dir path mode kubeconfig) w0 = (Inr srv, w1)"
    and "run (serve K readFile os (srv_Handler srv) r) w = (ZtpResponse x, w')"
  shows "rq_Path r = ''/ztp'' \<and> rq_Method r \<in> {''GET'', ''HEAD''} \<and> (\<exists>resp. x = Some resp \<and> (hr_status resp = 500 \<or>
    hr_status resp = 200 \<and> (\<exists>a port items s w2. ParseAddrPort (rq_RemoteAddr r) = Inr (a, port) \<and>
      run (ListSwitches K) w = (Inr items, w2) \<and> filter (has_address a) items = [s] \<and>
      (mode = ''configmap'' \<and> (\<exists>z ref data. s_ZTP (sw_Spec s) = Some z \<and> ScriptRef z = Some ref \<and>
         run (GetConfigMap K (ref_Namespace ref) (ref_Name ref)) w2 = (Inr data, w') \<and> map_of data (ref_Key ref) = Some (hr_body resp)) \<or>
       mode = ''generated'' \<and> (\<exists>d. run (buildGeneratedModeTemplateData readFile s kubeconfig) w2 = (Inr d, w') \<and> hr_body resp = render_template d)))))"
proof -
  obtain h where h: "map_of (srv_Handler srv) (rq_Path r) = Some h" "rq_Method r \<in> {''GET'', ''HEAD''}"
    "run (handle K readFile os h r) w = (ZtpResponse x, w')"
    using serve_ztp [OF assms(2)] by blast
  have srv: "mode = ''configmap'' \<and> (\<exists>oh. srv_Handler srv = [(''/ztp'', ConfigMapHandler), (''/onie'', OnieHandler oh)]) \<or>
      mode = ''generated'' \<and> (\<exists>oh. srv_Handler srv = [(''/ztp'', GeneratedHandler kubeconfig), (''/onie'', OnieHandler oh)])"
    using assms(1)
    by (auto simp: setupProvisioningServer_def read_config_def RegisterConfigMap_def RegisterGenerated_def RegisterOnie_def
        split: sum.splits if_splits prod.splits)
  from handle_ztp [OF h(3)] show ?thesis
  proof (elim disjE conjE exE)
    assume "h = ConfigMapHandler" and z: "run (ztp_configmap K (rq_RemoteAddr r)) w = (x, w')"
    with srv h(1) have "rq_Path r = ''/ztp''" "mode = ''configmap''" by (auto split: if_splits)
    with ztp_configmap_cases [OF z] h(2) show ?thesis by blast
  next
    fix k y assume "h = GeneratedHandler k" and x: "x = Some y" and z: "run (ztp_generated K readFile k (rq_RemoteAddr r)) w = (y, w')"
    with srv h(1) have "rq_Path r = ''/ztp''" "mode = ''generated''" "k = kubeconfig" by (auto split: if_splits)
    with ztp_generated_cases [OF z] x h(2) show ?thesis by blast
  qed
qed

text \<open>The property at a client the configuration of the example knows.\<close>

definition demo_get :: prov_request where
  "demo_get = \<lparr>rq_Header = [], rq_RemoteAddr = ''192.0.2.10:4711'', rq_Method = ''GET'', rq_Path = ''/ztp''\<rparr>"

theorem provisioning_script_source_witness:
  "\<exists>srv. run (setupProvisioningServer demo_open demo_decode '':80'' ''/images'' ''/etc/onie.json'' ''configmap'' []) () = (Inr srv, ()) \<and>
     run (serve demo_reader (\<lambda>_. ret (Inl (ExtErr ''none''))) (\<lambda>_. Inl ErrNotExist) (srv_Handler srv) demo_get) () = (ZtpResponse (Some (ok_script ''echo hi'')), ()) \<and>
     (\<exists>a port items s. ParseAddrPort (rq_RemoteAddr demo_get) = Inr (a, port) \<and> run (ListSwitches demo_reader) () = (Inr items, ()) \<and> filter (has_address a) items = [s])"
proof -
  obtain srv where srv: "run (setupProvisioningServer demo_open demo_decode '':80'' ''/images'' ''/etc/onie.json'' ''configmap'' []) () = (Inr srv, ())"
    and m: "map_of (srv_Handler srv) ''/ztp'' = Some ConfigMapHandler"
    by (simp add: setupProvisioningServer_def read_config_def demo_open_def demo_decode_def RegisterConfigMap_def RegisterOnie_def)
  have "cleanPath ''/ztp'' = ''/ztp''" by code_simp
  then have s: "run (serve demo_reader (\<lambda>_. ret (Inl (ExtErr ''none''))) (\<lambda>_. Inl ErrNotExist) (srv_Handler srv) demo_get) () =
      (ZtpResponse (Some (ok_script ''echo hi'')), ())"
    by (simp add: serve_def demo_get_def m handle_def demo_configmap)
  from provisioning_script_source [OF srv s] show ?thesis using srv s by (auto simp: ok_script_def)
qed

end
