(* ===== verification/Pool_Concurrency.thy ===== *)
theory Pool_Concurrency
  imports Sonic_Agent
begin

text \<open>
  \<open>SonicAgent.Connect\<close> (\<open>internal/agent/sonic/sonic_agent.go\<close>) as goroutines run it: every request of the
  server has its own, and they share the pool of clients under a read-write lock. A goroutine is the
  point in the code it has reached; a step is one access to the pool or one call of the Redis client,
  so every interleaving of these is a run. New readers may pass a waiting writer here, which Go's
  lock does not allow: the relation has more runs than the program.

  The lemmas: a goroutine that runs alone computes what \<open>Connect\<close> of the sequential model computes; in
  every run only one goroutine works under the write lock, the pool stays right and no client that was
  opened is lost; some goroutine can always go on; but a client that one goroutine was handed can be
  closed by another while the first is using it.
\<close>

section \<open>Goroutines\<close>

datatype 'c pc =
    Start
  | Looking
  | Pinging 'c
  | Waiting
  | Relooking
  | Repinging 'c
  | Closing 'c
  | Creating
  | Testing 'c
  | Discarding 'c goerror
  | Done "'c res"

text \<open>The points under the write lock.\<close>

fun locked :: "'c pc \<Rightarrow> bool" where
  "locked Relooking = True"
| "locked (Repinging c) = True"
| "locked (Closing c) = True"
| "locked Creating = True"
| "locked (Testing c) = True"
| "locked (Discarding c err) = True"
| "locked _ = False"

text \<open>The code between two points, but for the operations on the lock.\<close>

fun advance :: "('c, 'w) redis \<Rightarrow> string \<Rightarrow> 'c pc \<Rightarrow> 'c SonicAgent \<times> 'w \<Rightarrow> 'c pc \<times> ('c SonicAgent \<times> 'w)" where
  "advance R dbName Looking (a, w) =
     (case map_of (clientPool a) dbName of Some client \<Rightarrow> Pinging client | None \<Rightarrow> Waiting, (a, w))"
| "advance R dbName (Pinging client) (a, w) = (case run (Ping R client) w of
      (None, w') \<Rightarrow> (Done (Inr client), (a, w')) | (Some _, w') \<Rightarrow> (Waiting, (a, w')))"
| "advance R dbName Relooking (a, w) =
     (case map_of (clientPool a) dbName of Some client \<Rightarrow> Repinging client | None \<Rightarrow> Creating, (a, w))"
| "advance R dbName (Repinging client) (a, w) = (case run (Ping R client) w of
      (None, w') \<Rightarrow> (Done (Inr client), (a, w')) | (Some _, w') \<Rightarrow> (Closing client, (a, w')))"
| "advance R dbName (Closing client) (a, w) = (case run (Close R client) w of
      (Some err, w') \<Rightarrow> (Done (Inl (ErrorfW (''failed to close Redis client: '' @ error_text err) err)), (a, w'))
    | (None, w') \<Rightarrow> (Creating, (a\<lparr>clientPool := AList.delete dbName (clientPool a)\<rparr>, w')))"
| "advance R dbName Creating (a, w) =
     (if getRedisDBIDByName dbName = -1 then (Done (Inl (Errorf (''unknown database name: '' @ dbName))), (a, w))
      else (case run (NewClient R (redisAddr a) (getRedisDBIDByName dbName)) w of (client, w') \<Rightarrow> (Testing client, (a, w'))))"
| "advance R dbName (Testing client) (a, w) = (case run (Ping R client) w of
      (None, w') \<Rightarrow> (Done (Inr client), (a\<lparr>clientPool := AList.update dbName client (clientPool a)\<rparr>, w'))
    | (Some err, w') \<Rightarrow> (Discarding client err, (a, w')))"
| "advance R dbName (Discarding client err) (a, w) = (case run (Close R client) w of
      (Some err2, w') \<Rightarrow> (Done (Inl (ErrorfW (''failed to close Redis client: '' @ error_text err2) err2)), (a, w'))
    | (None, w') \<Rightarrow> (Done (Inl (ErrorfW (''failed to connect to Redis database '' @ dbName @ '': '' @ error_text err) err)), (a, w')))"
| "advance R dbName p s = (p, s)"

section \<open>The system\<close>

text \<open>
  The pool and the world, the holders of the lock, the point each goroutine has reached and, for the
  properties only, which clients have been opened and on which \<open>Close\<close> has been called.
\<close>

record ('c, 'w) sys =
  shared :: "'c SonicAgent \<times> 'w"
  readers :: "nat set"
  writer :: "nat option"
  pcs :: "nat \<Rightarrow> 'c pc"
  opened :: "'c set"
  closed :: "'c set"

fun opens :: "'c pc \<Rightarrow> 'c pc \<Rightarrow> 'c set" where
  "opens Creating (Testing c) = {c}"
| "opens _ _ = {}"

fun closes :: "'c pc \<Rightarrow> 'c set" where
  "closes (Closing c) = {c}"
| "closes (Discarding c err) = {c}"
| "closes _ = {}"

text \<open>Goroutine \<open>t\<close> does what comes next, for the database it was asked for.\<close>

definition go_on :: "('c, 'w) redis \<Rightarrow> (nat \<Rightarrow> string) \<Rightarrow> nat \<Rightarrow> ('c, 'w) sys \<Rightarrow> ('c, 'w) sys" where
  "go_on R db t s = (case advance R (db t) (pcs s t) (shared s) of (p, sh) \<Rightarrow>
     s\<lparr>shared := sh, pcs := (pcs s)(t := p), opened := opened s \<union> opens (pcs s t) p, closed := closed s \<union> closes (pcs s t)\<rparr>)"

inductive pool_step :: "('c, 'w) redis \<Rightarrow> (nat \<Rightarrow> string) \<Rightarrow> ('c, 'w) sys \<Rightarrow> ('c, 'w) sys \<Rightarrow> bool" for R db where
  RLock: "pcs s t = Start \<Longrightarrow> writer s = None \<Longrightarrow> pool_step R db s (s\<lparr>readers := insert t (readers s), pcs := (pcs s)(t := Looking)\<rparr>)"
| Look: "pcs s t = Looking \<Longrightarrow> pool_step R db s ((go_on R db t s)\<lparr>readers := readers s - {t}\<rparr>)"
| Ping_out: "pcs s t = Pinging c \<Longrightarrow> pool_step R db s (go_on R db t s)"
| Lock: "pcs s t = Waiting \<Longrightarrow> writer s = None \<Longrightarrow> readers s = {} \<Longrightarrow>
    pool_step R db s (s\<lparr>writer := Some t, pcs := (pcs s)(t := Relooking)\<rparr>)"
| Work: "locked (pcs s t) \<Longrightarrow>
    pool_step R db s ((go_on R db t s)\<lparr>writer := (if locked (pcs (go_on R db t s) t) then writer s else None)\<rparr>)"

text \<open>The same as a function: the step of goroutine \<open>t\<close>, none when it waits for the lock or has returned.\<close>

definition fire :: "('c, 'w) redis \<Rightarrow> (nat \<Rightarrow> string) \<Rightarrow> nat \<Rightarrow> ('c, 'w) sys \<Rightarrow> ('c, 'w) sys option" where
  "fire R db t s = (case pcs s t of
      Start \<Rightarrow> if writer s = None then Some (s\<lparr>readers := insert t (readers s), pcs := (pcs s)(t := Looking)\<rparr>) else None
    | Looking \<Rightarrow> Some ((go_on R db t s)\<lparr>readers := readers s - {t}\<rparr>)
    | Pinging c \<Rightarrow> Some (go_on R db t s)
    | Waiting \<Rightarrow> if writer s = None \<and> readers s = {} then Some (s\<lparr>writer := Some t, pcs := (pcs s)(t := Relooking)\<rparr>) else None
    | Done r \<Rightarrow> None
    | _ \<Rightarrow> Some ((go_on R db t s)\<lparr>writer := (if locked (pcs (go_on R db t s) t) then writer s else None)\<rparr>))"

fun schedule :: "('c, 'w) redis \<Rightarrow> (nat \<Rightarrow> string) \<Rightarrow> nat list \<Rightarrow> ('c, 'w) sys \<Rightarrow> ('c, 'w) sys option" where
  "schedule R db [] s = Some s"
| "schedule R db (t # ts) s = Option.bind (fire R db t s) (schedule R db ts)"

definition pool_init :: "'c SonicAgent \<times> 'w \<Rightarrow> ('c, 'w) sys" where
  "pool_init sh = \<lparr>shared = sh, readers = {}, writer = None, pcs = (\<lambda>_. Start), opened = {}, closed = {}\<rparr>"

abbreviation pool_run :: "('c, 'w) redis \<Rightarrow> (nat \<Rightarrow> string) \<Rightarrow> ('c, 'w) sys \<Rightarrow> ('c, 'w) sys \<Rightarrow> bool" where
  "pool_run R db \<equiv> (pool_step R db)\<^sup>*\<^sup>*"

lemma pool_step_fire: "pool_step R db s s' \<longleftrightarrow> (\<exists>t. fire R db t s = Some s')"
proof
  assume "pool_step R db s s'"
  then show "\<exists>t. fire R db t s = Some s'"
  proof cases
    case (RLock t)
    then have "fire R db t s = Some s'" by (simp add: fire_def)
    then show ?thesis ..
  next
    case (Look t)
    then have "fire R db t s = Some s'" by (simp add: fire_def)
    then show ?thesis ..
  next
    case (Ping_out t c)
    then have "fire R db t s = Some s'" by (simp add: fire_def)
    then show ?thesis ..
  next
    case (Lock t)
    then have "fire R db t s = Some s'" by (simp add: fire_def)
    then show ?thesis ..
  next
    case (Work t)
    then have "fire R db t s = Some s'" by (cases "pcs s t") (simp_all add: fire_def)
    then show ?thesis ..
  qed
next
  assume "\<exists>t. fire R db t s = Some s'"
  then obtain t where t: "fire R db t s = Some s'" ..
  show "pool_step R db s s'"
  proof (cases "locked (pcs s t)")
    case True
    then have "s' = (go_on R db t s)\<lparr>writer := (if locked (pcs (go_on R db t s) t) then writer s else None)\<rparr>"
      using t by (cases "pcs s t") (simp_all add: fire_def)
    with pool_step.Work [OF True] show ?thesis by simp
  next
    case False
    with t show ?thesis
      by (cases "pcs s t") (auto simp: fire_def split: if_splits intro: pool_step.intros)
  qed
qed

lemma schedule_run: "schedule R db ts s = Some s' \<Longrightarrow> (pool_step R db ^^ length ts) s s'"
proof (induction ts arbitrary: s)
  case (Cons t ts)
  then obtain s1 where "fire R db t s = Some s1" "schedule R db ts s1 = Some s'" by (auto simp: Option.bind_eq_Some_conv)
  with Cons.IH have "pool_step R db s s1" "(pool_step R db ^^ length ts) s1 s'" using pool_step_fire by blast+
  then show ?case using relpowp_Suc_I2 by fastforce
qed simp

section \<open>The invariant\<close>

text \<open>What a goroutine knows at its point: of the client it has in hand, and of the entry of the pool.\<close>

fun knows :: "('c, 'w) store_view \<Rightarrow> string \<Rightarrow> 'c SonicAgent \<Rightarrow> 'c pc \<Rightarrow> bool" where
  "knows V n a (Pinging c) = (db_of V c = getRedisDBIDByName n \<and> getRedisDBIDByName n \<noteq> -1)"
| "knows V n a (Repinging c) = (map_of (clientPool a) n = Some c)"
| "knows V n a (Closing c) = (map_of (clientPool a) n = Some c)"
| "knows V n a Creating = (map_of (clientPool a) n = None)"
| "knows V n a (Testing c) = (map_of (clientPool a) n = None \<and> db_of V c = getRedisDBIDByName n \<and> getRedisDBIDByName n \<noteq> -1)"
| "knows V n a (Discarding c err) = (map_of (clientPool a) n = None)"
| "knows V n a (Done (Inr c)) = (db_of V c = getRedisDBIDByName n \<and> getRedisDBIDByName n \<noteq> -1)"
| "knows V n a _ = True"

fun holds :: "'c pc \<Rightarrow> 'c set" where
  "holds (Testing c) = {c}"
| "holds (Discarding c err) = {c}"
| "holds _ = {}"

definition lock_inv :: "('c, 'w) sys \<Rightarrow> bool" where
  "lock_inv s \<longleftrightarrow> (\<forall>t. locked (pcs s t) = (writer s = Some t)) \<and> readers s = {t. pcs s t = Looking} \<and> (writer s \<noteq> None \<longrightarrow> readers s = {})"

definition data_inv :: "('c, 'w) store_view \<Rightarrow> (nat \<Rightarrow> string) \<Rightarrow> ('c, 'w) sys \<Rightarrow> bool" where
  "data_inv V db s \<longleftrightarrow> pool_ok V (fst (shared s)) \<and> (\<forall>t. knows V (db t) (fst (shared s)) (pcs s t)) \<and>
     opened s - closed s \<subseteq> ran (map_of (clientPool (fst (shared s)))) \<union> (\<Union>t. holds (pcs s t))"

lemma advance_Looking: "advance R n p sh = (p', sh') \<Longrightarrow> p' \<noteq> Looking"
  by (induction R n p sh rule: advance.induct) (auto split: option.splits prod.splits if_splits)

lemma advance_locked: "advance R n p sh = (p', sh') \<Longrightarrow> locked p' \<Longrightarrow> locked p"
  by (induction R n p sh rule: advance.induct) (auto split: option.splits prod.splits if_splits)

lemma knows_unlocked: "\<not> locked p \<Longrightarrow> knows V n a p = knows V n a' p"
  by (cases "(V, n, a, p)" rule: knows.cases) auto

lemma holds_unlocked: "\<not> locked p \<Longrightarrow> holds p = {}"
  by (cases p) auto

lemma go_on_simps [simp]:
  "readers (go_on R db t s) = readers s" "writer (go_on R db t s) = writer s"
  "pcs (go_on R db t s) = (pcs s)(t := fst (advance R (db t) (pcs s t) (shared s)))"
  "shared (go_on R db t s) = snd (advance R (db t) (pcs s t) (shared s))"
  "opened (go_on R db t s) = opened s \<union> opens (pcs s t) (fst (advance R (db t) (pcs s t) (shared s)))"
  "closed (go_on R db t s) = closed s \<union> closes (pcs s t)"
  by (simp_all add: go_on_def split: prod.split)

text \<open>Outside the write lock the pool is not changed.\<close>

lemma advance_unlocked:
  assumes "\<not> locked p" "advance R n p (a, w) = (p', (a', w'))" "pool_ok V a" "knows V n a p"
  shows "a' = a \<and> knows V n a p' \<and> opens p p' = {} \<and> closes p = {}"
  using assms by (cases p) (auto simp: pool_ok_def split: option.splits prod.splits)

lemma ran_delete: "map_of m n = Some x \<Longrightarrow> ran (map_of m) - {x} \<subseteq> ran (map_of (AList.delete n m))"
  by (auto simp: ran_def delete_conv') (metis option.inject)

lemma pool_ok_update:
  "pool_ok V a \<Longrightarrow> db_of V c = getRedisDBIDByName n \<Longrightarrow> getRedisDBIDByName n \<noteq> -1 \<Longrightarrow>
   pool_ok V (a\<lparr>clientPool := AList.update n c (clientPool a)\<rparr>)"
  by (simp add: pool_ok_def update_conv')

lemma ran_update: "map_of m n = None \<Longrightarrow> ran (map_of (AList.update n x m)) = insert x (ran (map_of m))"
  by (simp add: update_conv')

text \<open>Under it the pool stays right, the goroutine knows what it should, and what was opened is in the pool or in hand.\<close>

lemma advance_work:
  assumes c: "redis_contract R V" and p: "locked p" "advance R n p (a, w) = (p', (a', w'))" "pool_ok V a" "knows V n a p"
  shows "pool_ok V a' \<and> knows V n a' p' \<and>
    (ran (map_of (clientPool a)) \<union> holds p \<union> opens p p') - closes p \<subseteq> ran (map_of (clientPool a')) \<union> holds p'"
proof (cases p)
  case Relooking
  with p show ?thesis by (auto split: option.splits)
next
  case (Repinging x)
  with p show ?thesis by (auto simp: pool_ok_def split: option.splits prod.splits)
next
  case (Closing x)
  then show ?thesis
  proof (cases "run (Close R x) w")
    case (Pair r w1)
    then show ?thesis using p Closing pool_ok_delete [OF p(3), of n] ran_delete [of "clientPool a" n x]
      by (cases r) (auto simp: delete_conv')
  qed
next
  case Creating
  then show ?thesis using p NewClient_ok [OF c] by (auto split: if_splits prod.splits)
next
  case (Testing x)
  then show ?thesis
  proof (cases "run (Ping R x) w")
    case (Pair r w1)
    then show ?thesis using p Testing pool_ok_update [OF p(3), of x n]
      by (cases r) (auto simp: ran_update)
  qed
next
  case (Discarding x err)
  with p show ?thesis by (auto split: option.splits prod.splits)
qed (use p(1) in auto)

lemma lock_inv_step: "pool_step R db s s' \<Longrightarrow> lock_inv s \<Longrightarrow> lock_inv s'"
proof (induction rule: pool_step.induct)
  case (Look s t)
  obtain p' sh where a: "advance R (db t) (pcs s t) (shared s) = (p', sh)" by (metis surj_pair)
  with advance_Looking [OF a] advance_locked [OF a] Look show ?case by (auto simp: lock_inv_def)
next
  case (Ping_out s t c)
  have "writer s \<noteq> Some t" using Ping_out unfolding lock_inv_def by (metis locked.simps(9))
  moreover obtain p' sh where a: "advance R (db t) (pcs s t) (shared s) = (p', sh)" by (metis surj_pair)
  ultimately show ?case using advance_Looking [OF a] advance_locked [OF a] Ping_out a by (auto simp: lock_inv_def)
next
  case (Work s t)
  obtain p' sh where a: "advance R (db t) (pcs s t) (shared s) = (p', sh)" by (metis surj_pair)
  have w: "writer s = Some t" "readers s = {}" using Work by (auto simp: lock_inv_def)
  with advance_Looking [OF a] a Work show ?case by (auto simp: lock_inv_def)
qed (auto simp: lock_inv_def)

lemma data_inv_quiet:
  assumes "\<not> locked (pcs s t)" and "data_inv V db s"
  shows "data_inv V db (go_on R db t s)"
proof -
  obtain a w where sh: "shared s = (a, w)" by fastforce
  obtain p' a' w' where ad: "advance R (db t) (pcs s t) (a, w) = (p', (a', w'))" by (metis surj_pair)
  have inv: "pool_ok V a" "\<And>u. knows V (db u) a (pcs s u)" using assms(2) sh by (auto simp: data_inv_def)
  from advance_unlocked [OF assms(1) ad inv] have q: "a' = a" "knows V (db t) a p'" "opens (pcs s t) p' = {}" "closes (pcs s t) = {}" by auto
  have "holds (pcs s t) = {}" "\<not> locked p'" using holds_unlocked advance_locked [OF ad] assms(1) by auto
  then have "holds (((pcs s)(t := p')) u) = holds (pcs s u)" for u using holds_unlocked [of p'] by simp
  then show ?thesis using assms(2) sh ad q inv by (simp add: data_inv_def)
qed

lemma data_inv_work:
  assumes c: "redis_contract R V" and "locked (pcs s t)" and l: "lock_inv s" and d: "data_inv V db s"
  shows "data_inv V db (go_on R db t s)"
proof -
  obtain a w where sh: "shared s = (a, w)" by fastforce
  obtain p' a' w' where ad: "advance R (db t) (pcs s t) (a, w) = (p', (a', w'))" by (metis surj_pair)
  have inv: "pool_ok V a" "\<And>u. knows V (db u) a (pcs s u)" using d sh by (auto simp: data_inv_def)
  have others: "\<not> locked (pcs s u)" if "u \<noteq> t" for u using l assms(2) that by (auto simp: lock_inv_def)
  note adv = advance_work [OF c assms(2) ad inv]
  have "knows V (db u) a' (((pcs s)(t := p')) u)" for u
    using adv knows_unlocked [OF others, of u V "db u" a' a] inv(2) [of u] by (cases "u = t") simp_all
  moreover have "opened s \<union> opens (pcs s t) p' - (closed s \<union> closes (pcs s t)) \<subseteq>
      ran (map_of (clientPool a')) \<union> (\<Union>u. holds (((pcs s)(t := p')) u))"
  proof -
    have "holds (pcs s u) \<subseteq> holds (pcs s t)" for u using holds_unlocked [OF others, of u] by (cases "u = t") auto
    then have 1: "(\<Union>u. holds (pcs s u)) \<subseteq> holds (pcs s t)" by blast
    have 2: "holds p' \<subseteq> (\<Union>u. holds (((pcs s)(t := p')) u))" by (rule subset_trans [OF _ UN_upper [of t]]) simp_all
    have "opened s - closed s \<subseteq> ran (map_of (clientPool a)) \<union> (\<Union>u. holds (pcs s u))" using d sh by (simp add: data_inv_def)
    then have "opened s - closed s \<subseteq> ran (map_of (clientPool a)) \<union> holds (pcs s t)" using 1 by (rule subset_trans [OF _ Un_mono [OF subset_refl]])
    then have "opened s \<union> opens (pcs s t) p' - (closed s \<union> closes (pcs s t)) \<subseteq>
        ran (map_of (clientPool a)) \<union> holds (pcs s t) \<union> opens (pcs s t) p' - closes (pcs s t)" by (auto simp only: Un_iff Diff_iff)
    also have "\<dots> \<subseteq> ran (map_of (clientPool a')) \<union> holds p'" using adv by simp
    also have "\<dots> \<subseteq> ran (map_of (clientPool a')) \<union> (\<Union>u. holds (((pcs s)(t := p')) u))" by (rule Un_mono [OF subset_refl 2])
    finally show ?thesis .
  qed
  ultimately show ?thesis using adv sh ad by (simp add: data_inv_def)
qed

lemma data_inv_step:
  assumes c: "redis_contract R V"
  shows "pool_step R db s s' \<Longrightarrow> lock_inv s \<Longrightarrow> data_inv V db s \<Longrightarrow> data_inv V db s'"
proof (induction rule: pool_step.induct)
  case (RLock s t)
  have "holds (((pcs s)(t := Looking)) u) = holds (pcs s u)" for u using RLock by simp
  then show ?case using RLock by (auto simp: data_inv_def)
next
  case (Lock s t)
  have "holds (((pcs s)(t := Relooking)) u) = holds (pcs s u)" for u using Lock by simp
  then show ?case using Lock by (auto simp: data_inv_def)
next
  case (Look s t)
  then show ?case using data_inv_quiet [of s t V db R] by (simp add: data_inv_def)
next
  case (Ping_out s t c)
  then show ?case using data_inv_quiet [of s t V db R] by simp
next
  case (Work s t)
  then show ?case using data_inv_work [OF c, of s t db] by (simp add: data_inv_def)
qed

text \<open>The states that goroutines starting from an empty pool can reach.\<close>

lemma reachable_inv:
  assumes "redis_contract R V" and "pool_run R db (pool_init (\<lparr>redisAddr = addr, clientPool = []\<rparr>, w)) s"
  shows "lock_inv s \<and> data_inv V db s"
  using assms(2)
proof (induction rule: rtranclp_induct)
  case base
  show ?case by (auto simp: lock_inv_def data_inv_def pool_init_def pool_ok_def)
next
  case (step s s')
  then show ?case using lock_inv_step data_inv_step [OF assms(1)] by blast
qed

text \<open>Property C23. However goroutines that call \<open>Connect\<close> interleave: at most one is past the write lock, every entry of the pool is a
  client of the database of its name, every client handed out is one of the database asked for, and when no goroutine
  is past the lock every client that was opened and not closed is in the pool, so none is lost.\<close>

theorem pool_concurrent_safe:
  assumes "redis_contract R V" and "pool_run R db (pool_init (\<lparr>redisAddr = addr, clientPool = []\<rparr>, w)) s"
  shows "(\<forall>t u. locked (pcs s t) \<and> locked (pcs s u) \<longrightarrow> t = u) \<and> pool_ok V (fst (shared s)) \<and>
    (\<forall>t c. pcs s t = Done (Inr c) \<longrightarrow> db_of V c = getRedisDBIDByName (db t)) \<and>
    ((\<forall>t. \<not> locked (pcs s t)) \<longrightarrow> opened s - closed s \<subseteq> ran (map_of (clientPool (fst (shared s)))))"
proof -
  from reachable_inv [OF assms] have l: "lock_inv s" and d: "data_inv V db s" by auto
  have "t = u" if "locked (pcs s t)" "locked (pcs s u)" for t u using l that by (auto simp: lock_inv_def)
  moreover have "db_of V c = getRedisDBIDByName (db t)" if "pcs s t = Done (Inr c)" for t c
  proof -
    have "knows V (db t) (fst (shared s)) (pcs s t)" using d by (simp add: data_inv_def)
    with that show ?thesis by simp
  qed
  moreover have "opened s - closed s \<subseteq> ran (map_of (clientPool (fst (shared s))))" if "\<forall>t. \<not> locked (pcs s t)"
  proof -
    have "(\<Union>t. holds (pcs s t)) = {}" using holds_unlocked that by blast
    then show ?thesis using d by (simp add: data_inv_def)
  qed
  ultimately show ?thesis using d by (auto simp: data_inv_def)
qed

section \<open>Every call returns\<close>

text \<open>The number of steps a goroutine has at most before it.\<close>

fun rank :: "'c pc \<Rightarrow> nat" where
  "rank Start = 10"
| "rank Looking = 9"
| "rank (Pinging c) = 8"
| "rank Waiting = 7"
| "rank Relooking = 6"
| "rank (Repinging c) = 5"
| "rank (Closing c) = 4"
| "rank Creating = 3"
| "rank (Testing c) = 2"
| "rank (Discarding c err) = 1"
| "rank (Done r) = 0"

lemma advance_rank:
  "p = Looking \<or> (\<exists>c. p = Pinging c) \<or> locked p \<Longrightarrow> rank (fst (advance R n p sh)) < rank p"
  by (induction R n p sh rule: advance.induct) (auto split: option.splits prod.splits if_splits)

text \<open>A step moves one goroutine, and forward.\<close>

lemma go_on_moves:
  "pcs s t = Looking \<or> (\<exists>c. pcs s t = Pinging c) \<or> locked (pcs s t) \<Longrightarrow>
   \<exists>u p. pcs (go_on R db t s) = (pcs s)(u := p) \<and> rank p < rank (pcs s u)"
  using advance_rank [of "pcs s t" R "db t" "shared s"] go_on_simps(3) by blast

lemma step_pcs:
  "pool_step R db s s' \<Longrightarrow> \<exists>t. (pcs s t = Start \<and> pcs s' = (pcs s)(t := Looking)) \<or> (pcs s t = Waiting \<and> pcs s' = (pcs s)(t := Relooking)) \<or>
     ((pcs s t = Looking \<or> (\<exists>c. pcs s t = Pinging c) \<or> locked (pcs s t)) \<and> pcs s' = pcs (go_on R db t s))"
  by (erule pool_step.cases; simp del: go_on_simps; blast)

lemma step_moves:
  assumes "pool_step R db s s'"
  shows "\<exists>t p. pcs s' = (pcs s)(t := p) \<and> rank p < rank (pcs s t)"
proof -
  obtain t where "(pcs s t = Start \<and> pcs s' = (pcs s)(t := Looking)) \<or> (pcs s t = Waiting \<and> pcs s' = (pcs s)(t := Relooking)) \<or>
     ((pcs s t = Looking \<or> (\<exists>c. pcs s t = Pinging c) \<or> locked (pcs s t)) \<and> pcs s' = pcs (go_on R db t s))"
    using step_pcs [OF assms] by blast
  then show ?thesis
  proof (elim disjE conjE)
    assume "pcs s t = Start" "pcs s' = (pcs s)(t := Looking)"
    moreover have "rank Looking < rank (Start :: 'a pc)" by simp
    ultimately show ?thesis by metis
  next
    assume "pcs s t = Waiting" "pcs s' = (pcs s)(t := Relooking)"
    moreover have "rank Relooking < rank (Waiting :: 'a pc)" by simp
    ultimately show ?thesis by metis
  qed (use go_on_moves [of s t R db] in metis)+
qed

lemma rank_le: "rank p \<le> 10" "rank p = 10 \<longleftrightarrow> p = Start"
  by (cases p; simp)+

lemma run_ranks: "(pool_step R db ^^ k) s0 s \<Longrightarrow> rank (pcs s t) \<le> rank (pcs s0 t)"
proof (induction k arbitrary: s)
  case (Suc k)
  then obtain s1 where s1: "(pool_step R db ^^ k) s0 s1" "pool_step R db s1 s" by auto
  then obtain u p where "pcs s = (pcs s1)(u := p)" "rank p < rank (pcs s1 u)" using step_moves by blast
  then show ?case using Suc.IH [OF s1(1)] by (cases "t = u") auto
qed simp

lemma run_length:
  assumes "finite T"
  shows "(pool_step R db ^^ k) s0 s \<Longrightarrow> (\<And>t. rank (pcs s t) < rank (pcs s0 t) \<Longrightarrow> t \<in> T) \<Longrightarrow>
    (\<Sum>t\<in>T. rank (pcs s t)) + k \<le> (\<Sum>t\<in>T. rank (pcs s0 t))"
proof (induction k arbitrary: s)
  case (Suc k)
  then obtain s1 where s1: "(pool_step R db ^^ k) s0 s1" "pool_step R db s1 s" by auto
  then obtain u p where u: "pcs s = (pcs s1)(u := p)" "rank p < rank (pcs s1 u)" using step_moves by blast
  have le: "rank (pcs s t) \<le> rank (pcs s1 t)" for t using u by simp
  have "u \<in> T" using Suc.prems(2) [of u] u run_ranks [OF s1(1), of u] by simp
  then have "(\<Sum>t\<in>T. rank (pcs s t)) < (\<Sum>t\<in>T. rank (pcs s1 t))"
    using u le by (intro sum_strict_mono_ex1 [OF assms]) auto
  moreover have "(\<Sum>t\<in>T. rank (pcs s1 t)) + k \<le> (\<Sum>t\<in>T. rank (pcs s0 t))"
    using Suc.IH [OF s1(1)] Suc.prems(2) le by (meson le_less_trans)
  ultimately show ?case by simp
qed simp

lemma can_step:
  assumes "lock_inv s" and "pcs s t \<noteq> Start" "\<And>r. pcs s t \<noteq> Done r"
  shows "\<exists>u s'. pcs s u \<noteq> Start \<and> pool_step R db s s' \<and> pcs s' u \<noteq> pcs s u"
proof -
  have moves: "\<exists>s'. pool_step R db s s' \<and> pcs s' u \<noteq> pcs s u" if "pcs s u = Looking \<or> (\<exists>c. pcs s u = Pinging c) \<or> locked (pcs s u)" for u
  proof -
    have "fst (advance R (db u) (pcs s u) (shared s)) \<noteq> pcs s u" using advance_rank [OF that] by (metis less_irrefl)
    with that show ?thesis by (elim disjE exE) (fastforce intro: pool_step.Look, fastforce intro: pool_step.Ping_out, fastforce intro: pool_step.Work)
  qed
  show ?thesis
  proof (cases "\<exists>u. pcs s u = Looking \<or> (\<exists>c. pcs s u = Pinging c) \<or> locked (pcs s u)")
    case True
    then obtain u where "pcs s u = Looking \<or> (\<exists>c. pcs s u = Pinging c) \<or> locked (pcs s u)" by blast
    moreover from this have "pcs s u \<noteq> Start" by auto
    ultimately show ?thesis using moves by blast
  next
    case False
    then have "pcs s t = Waiting" using assms(2,3) by (cases "pcs s t") (metis locked.simps)+
    moreover have "writer s = None" "readers s = {}" using assms(1) False by (auto simp: lock_inv_def) (metis option.exhaust)
    ultimately have "pool_step R db s (s\<lparr>writer := Some t, pcs := (pcs s)(t := Relooking)\<rparr>)" by (rule pool_step.Lock)
    with \<open>pcs s t = Waiting\<close> show ?thesis by (intro exI [of _ t] exI) auto
  qed
qed

text \<open>Property C26. Calls of \<open>Connect\<close> always return: while a call is under way some call can take a step, whatever the others do, and
  a run in which $n$ calls have been made has at most $10n$ steps.\<close>

theorem pool_calls_return:
  assumes "(pool_step R db ^^ k) (pool_init (\<lparr>redisAddr = addr, clientPool = []\<rparr>, w)) s"
    and "redis_contract R V"
  shows "(finite {t. pcs s t \<noteq> Start} \<longrightarrow> k \<le> 10 * card {t. pcs s t \<noteq> Start}) \<and>
    ((\<exists>t. pcs s t \<noteq> Start \<and> (\<forall>r. pcs s t \<noteq> Done r)) \<longrightarrow> (\<exists>u s'. pcs s u \<noteq> Start \<and> pool_step R db s s' \<and> pcs s' u \<noteq> pcs s u))"
proof -
  let ?T = "{t. pcs s t \<noteq> Start}"
  have "k \<le> 10 * card ?T" if "finite ?T"
    using run_length [OF that assms(1)] rank_le(2) by (fastforce simp: pool_init_def)
  moreover have "lock_inv s" using reachable_inv [OF assms(2)] relpowp_imp_rtranclp [OF assms(1)] by blast
  ultimately show ?thesis using can_step [of s _ R db] by blast
qed

section \<open>One goroutine alone\<close>

text \<open>What the goroutine does when nothing keeps it waiting.\<close>

fun nxt :: "('c, 'w) redis \<Rightarrow> string \<Rightarrow> 'c pc \<times> ('c SonicAgent \<times> 'w) \<Rightarrow> 'c pc \<times> ('c SonicAgent \<times> 'w)" where
  "nxt R n (Start, sh) = (Looking, sh)"
| "nxt R n (Waiting, sh) = (Relooking, sh)"
| "nxt R n (p, sh) = advance R n p sh"

definition alone :: "nat \<Rightarrow> ('c, 'w) sys \<Rightarrow> bool" where
  "alone t s \<longleftrightarrow> lock_inv s \<and> (\<forall>u. u \<noteq> t \<longrightarrow> \<not> locked (pcs s u) \<and> pcs s u \<noteq> Looking)"

lemma nxt_Done: "(nxt R n ^^ k) (Done r, sh) = (Done r, sh)"
  by (induction k) (cases sh; simp)+

lemma fire_alone:
  assumes a: "alone t s" and "\<And>r. pcs s t \<noteq> Done r"
  shows "\<exists>s'. fire R db t s = Some s' \<and> alone t s' \<and>
    (\<exists>p. pcs s' = (pcs s)(t := p) \<and> nxt R (db t) (pcs s t, shared s) = (p, shared s'))"
proof -
  have free: "writer s = None" if "\<not> locked (pcs s t)" using a that unfolding alone_def lock_inv_def by (metis option.exhaust)
  have "readers s = {}" if "pcs s t \<noteq> Looking" using a that by (auto simp: alone_def lock_inv_def)
  note quiet = this
  have "\<nexists>r. pcs s t = Done r" using assms(2) by blast
  have "\<exists>s'. fire R db t s = Some s' \<and> (\<exists>p. pcs s' = (pcs s)(t := p) \<and> nxt R (db t) (pcs s t, shared s) = (p, shared s'))"
  proof (cases "pcs s t = Start \<or> pcs s t = Waiting")
    case True
    then show ?thesis using free quiet by (auto simp: fire_def)
  next
    case False
    then have "nxt R (db t) (pcs s t, shared s) = advance R (db t) (pcs s t) (shared s)" by (cases "pcs s t") simp_all
    moreover have "\<exists>s'. fire R db t s = Some s' \<and> pcs s' = pcs (go_on R db t s) \<and> shared s' = shared (go_on R db t s)"
      using False \<open>\<nexists>r. pcs s t = Done r\<close> by (cases "pcs s t") (simp_all add: fire_def del: go_on_simps)
    ultimately show ?thesis by (metis go_on_simps(3,4) prod.collapse)
  qed
  then obtain s' p where s': "fire R db t s = Some s'" "pcs s' = (pcs s)(t := p)" "nxt R (db t) (pcs s t, shared s) = (p, shared s')" by blast
  moreover have "lock_inv s'" using lock_inv_step [of R db s s'] a s'(1) by (auto simp: pool_step_fire alone_def)
  ultimately show ?thesis using a by (auto simp: alone_def)
qed

lemma run_alone:
  assumes "alone t s" and "(nxt R (db t) ^^ k) (pcs s t, shared s) = (Done r, sh)"
  shows "\<exists>s'. pool_run R db s s' \<and> alone t s' \<and> pcs s' = (pcs s)(t := Done r) \<and> shared s' = sh"
  using assms
proof (induction k arbitrary: s)
  case 0
  then show ?case by (auto intro!: exI [of _ s])
next
  case (Suc k)
  show ?case
  proof (cases "\<exists>q. pcs s t = Done q")
    case True
    then obtain q where q: "pcs s t = Done q" ..
    with Suc.prems(2) have "q = r \<and> shared s = sh" by (simp add: nxt_Done del: funpow.simps)
    with q Suc.prems(1) show ?thesis by (intro exI [of _ s]) auto
  next
    case False
    then obtain s1 p where s1: "fire R db t s = Some s1" "alone t s1" "pcs s1 = (pcs s)(t := p)"
      "nxt R (db t) (pcs s t, shared s) = (p, shared s1)" using fire_alone [OF Suc.prems(1)] by blast
    then have "(nxt R (db t) ^^ k) (pcs s1 t, shared s1) = (Done r, sh)" using Suc.prems(2) by (simp add: funpow_swap1)
    from Suc.IH [OF s1(2) this] obtain s' where s': "pool_run R db s1 s'" "alone t s'" "pcs s' = (pcs s1)(t := Done r)" "shared s' = sh" by blast
    moreover have "pool_step R db s s1" using s1(1) pool_step_fire by blast
    moreover have "pcs s' = (pcs s)(t := Done r)" using s'(3) s1(3) by simp
    ultimately show ?thesis by (metis converse_rtranclp_into_rtranclp)
  qed
qed

text \<open>Its steps, put together, are the sequential definition.\<close>

lemma nxt_Creating: "(nxt R n ^^ 3) (Creating, sh) = (case run (connect_new R n) sh of (r, sh') \<Rightarrow> (Done r, sh'))"
proof -
  obtain a w where sh: "sh = (a, w)" by fastforce
  obtain c w0 where new: "run (NewClient R (redisAddr a) (getRedisDBIDByName n)) w = (c, w0)" by (metis surj_pair)
  obtain r w1 where ping: "run (Ping R c) w0 = (r, w1)" by (metis surj_pair)
  obtain r2 w2 where close: "run (Close R c) w1 = (r2, w2)" by (metis surj_pair)
  have three: "(nxt R n ^^ 3) x = nxt R n (nxt R n (nxt R n x))" for x by (simp add: eval_nat_numeral)
  show ?thesis using new ping close unfolding three sh
    by (cases r; cases r2) (simp_all add: connect_new_def Let_def)
qed

lemma nxt_Relooking: "(nxt R n ^^ 6) (Relooking, sh) = (case run (connect_locked R n) sh of (r, sh') \<Rightarrow> (Done r, sh'))"
proof -
  obtain a w where sh: "sh = (a, w)" by fastforce
  have six: "(nxt R n ^^ 6) x = (nxt R n ^^ 2) ((nxt R n ^^ 3) (nxt R n x))" for x by (simp add: eval_nat_numeral)
  have six': "(nxt R n ^^ 6) x = (nxt R n ^^ 3) (nxt R n (nxt R n (nxt R n x)))" for x by (simp add: eval_nat_numeral)
  show ?thesis
  proof (cases "map_of (clientPool a) n")
    case None
    then show ?thesis unfolding six sh by (simp add: nxt_Creating connect_locked_def nxt_Done split: prod.split)
  next
    case (Some c)
    obtain r w1 where ping: "run (Ping R c) w = (r, w1)" by (metis surj_pair)
    obtain r2 w2 where close: "run (Close R c) w1 = (r2, w2)" by (metis surj_pair)
    show ?thesis using Some ping close unfolding six' sh
      by (cases r; cases r2) (simp_all add: nxt_Creating connect_locked_def nxt_Done split: prod.split)
  qed
qed

lemma nxt_Connect: "(nxt R n ^^ 10) (Start, sh) = (case run (Connect R n) sh of (r, sh') \<Rightarrow> (Done r, sh'))"
proof -
  obtain a w where sh: "sh = (a, w)" by fastforce
  have ten: "(nxt R n ^^ 10) x = nxt R n ((nxt R n ^^ 6) (nxt R n (nxt R n (nxt R n x))))" for x by (simp add: eval_nat_numeral)
  have ten': "(nxt R n ^^ 10) x = (nxt R n ^^ 6) (nxt R n (nxt R n (nxt R n (nxt R n x))))" for x by (simp add: eval_nat_numeral)
  show ?thesis
  proof (cases "map_of (clientPool a) n")
    case None
    then show ?thesis unfolding ten sh by (simp add: nxt_Relooking Connect_def split: prod.split)
  next
    case (Some c)
    obtain r w1 where ping: "run (Ping R c) w = (r, w1)" by (metis surj_pair)
    show ?thesis using Some ping unfolding ten' sh
      by (cases r) (simp_all add: nxt_Relooking Connect_def nxt_Done split: prod.split)
  qed
qed

text \<open>Property C25. The goroutines implement the sequential \<open>Connect\<close>: from every state they reach in which no other goroutine is looking
  into the pool or past the write lock, a new call can run to its end without waiting, hands back what \<open>Connect\<close>
  computes, leaves the pool and the world as \<open>Connect\<close> leaves them, the lock free and the other goroutines where they were.\<close>

theorem Connect_alone_refines:
  assumes "redis_contract R V" and "pool_run R db (pool_init (\<lparr>redisAddr = addr, clientPool = []\<rparr>, w)) s"
    and "pcs s t = Start" and "\<forall>u. \<not> locked (pcs s u) \<and> pcs s u \<noteq> Looking"
    and "run (Connect R (db t)) (shared s) = (r, sh)"
  shows "\<exists>s'. pool_run R db s s' \<and> pcs s' = (pcs s)(t := Done r) \<and> shared s' = sh \<and> readers s' = {} \<and> writer s' = None"
proof -
  have "alone t s" using reachable_inv [OF assms(1,2)] assms(4) by (auto simp: alone_def)
  moreover have "(nxt R (db t) ^^ 10) (pcs s t, shared s) = (Done r, sh)" using assms(3,5) by (simp add: nxt_Connect)
  ultimately obtain s' where s': "pool_run R db s s'" "alone t s'" "pcs s' = (pcs s)(t := Done r)" "shared s' = sh"
    using run_alone by blast
  moreover have "readers s' = {}" using s'(2,3) assms(4) by (auto simp: alone_def lock_inv_def)
  moreover have "writer s' = None" using s'(2,3) assms(4) unfolding alone_def lock_inv_def
    by (metis fun_upd_apply locked.simps(11) not_Some_eq)
  ultimately show ?thesis by blast
qed

section \<open>While the server answers\<close>

text \<open>What a goroutine knows when no ping fails: the client it has is the one in the pool.\<close>

fun calm :: "string \<Rightarrow> 'c SonicAgent \<Rightarrow> 'c pc \<Rightarrow> bool" where
  "calm n a (Pinging c) = (map_of (clientPool a) n = Some c)"
| "calm n a (Repinging c) = (map_of (clientPool a) n = Some c)"
| "calm n a (Closing c) = False"
| "calm n a Creating = (map_of (clientPool a) n = None)"
| "calm n a (Testing c) = (map_of (clientPool a) n = None)"
| "calm n a (Discarding c err) = False"
| "calm n a (Done r) = (case r of Inr c \<Rightarrow> map_of (clientPool a) n = Some c | Inl err \<Rightarrow> getRedisDBIDByName n = -1)"
| "calm n a _ = True"

lemma Ping_up: "redis_contract R V \<Longrightarrow> reachable V w \<Longrightarrow> \<exists>w'. run (Ping R c) w = (None, w') \<and> reachable V w'"
  using redis_contractD(10) [of R V] unfolding Client_law_def accepts_def by blast

lemma advance_calm:
  assumes c: "redis_contract R V" and p: "advance R n p (a, w) = (p', (a', w'))" "reachable V w" "calm n a p"
  shows "reachable V w' \<and> calm n a' p' \<and> closes p = {} \<and> map_of (clientPool a) \<subseteq>\<^sub>m map_of (clientPool a') \<and> (\<not> locked p \<longrightarrow> a' = a)"
proof (cases p)
  case (Pinging x)
  then show ?thesis using p Ping_up [OF c p(2), of x] by auto
next
  case (Repinging x)
  then show ?thesis using p Ping_up [OF c p(2), of x] by auto
next
  case (Testing x)
  then show ?thesis using p Ping_up [OF c p(2), of x] by (auto simp: update_conv' map_le_def)
next
  case Creating
  then show ?thesis using p NewClient_up [OF c p(2)] by (auto split: if_splits prod.splits)
qed (use p in \<open>auto split: option.splits\<close>)

lemma calm_mono: "\<not> locked p \<Longrightarrow> calm n a p \<Longrightarrow> map_of (clientPool a) \<subseteq>\<^sub>m map_of (clientPool a') \<Longrightarrow> calm n a' p"
  by (cases p) (auto simp: map_le_def dom_def split: sum.splits)

definition calm_inv :: "('c, 'w) store_view \<Rightarrow> (nat \<Rightarrow> string) \<Rightarrow> ('c, 'w) sys \<Rightarrow> bool" where
  "calm_inv V db s \<longleftrightarrow> reachable V (snd (shared s)) \<and> closed s = {} \<and> (\<forall>t. calm (db t) (fst (shared s)) (pcs s t))"

lemma calm_go_on:
  assumes c: "redis_contract R V" and l: "lock_inv s" and i: "calm_inv V db s"
  shows "calm_inv V db (go_on R db t s)"
proof -
  obtain a w where sh: "shared s = (a, w)" by fastforce
  obtain p' a' w' where ad: "advance R (db t) (pcs s t) (a, w) = (p', (a', w'))" by (metis surj_pair)
  have up: "reachable V w" and k: "\<And>u. calm (db u) a (pcs s u)" using i sh by (auto simp: calm_inv_def)
  note adv = advance_calm [OF c ad up k]
  have "calm (db u) a' (pcs s u)" if "u \<noteq> t" for u
  proof (cases "locked (pcs s t)")
    case True
    then have "\<not> locked (pcs s u)" using l that by (auto simp: lock_inv_def)
    with calm_mono k adv show ?thesis by blast
  qed (use adv k in simp)
  then show ?thesis using adv i sh ad by (simp add: calm_inv_def)
qed

lemma calm_step:
  assumes "redis_contract R V" "lock_inv s" "calm_inv V db s" "pool_step R db s s'"
  shows "calm_inv V db s'"
  using assms(4)
proof cases
  case (Look t)
  then show ?thesis using calm_go_on [OF assms(1-3), of t] by (simp add: calm_inv_def)
next
  case (Ping_out t c)
  then show ?thesis using calm_go_on [OF assms(1-3), of t] by simp
next
  case (Work t)
  then show ?thesis using calm_go_on [OF assms(1-3), of t] by (simp add: calm_inv_def)
qed (use assms(3) in \<open>auto simp: calm_inv_def\<close>)

lemma calm_reachable:
  assumes c: "redis_contract R V" and up: "reachable V w" and r: "pool_run R db (pool_init (\<lparr>redisAddr = addr, clientPool = []\<rparr>, w)) s"
  shows "calm_inv V db s"
  using r
proof (induction rule: rtranclp_induct)
  case base
  show ?case using up by (simp add: calm_inv_def pool_init_def)
next
  case (step s s')
  then show ?case using calm_step [OF c] reachable_inv [OF c] by blast
qed

lemma calm_shared:
  assumes "calm_inv V db s"
  shows "closed s = {} \<and> (\<forall>t err. pcs s t = Done (Inl err) \<longrightarrow> getRedisDBIDByName (db t) = -1) \<and>
    (\<forall>t u c d. pcs s t = Done (Inr c) \<and> pcs s u = Done (Inr d) \<and> db t = db u \<longrightarrow> c = d)"
proof -
  have i: "closed s = {}" "\<And>t. calm (db t) (fst (shared s)) (pcs s t)" using assms by (auto simp: calm_inv_def)
  have "getRedisDBIDByName (db t) = -1" if "pcs s t = Done (Inl err)" for t err using i(2) [of t] that by simp
  moreover have "map_of (clientPool (fst (shared s))) (db t) = Some c" if "pcs s t = Done (Inr c)" for t c using i(2) [of t] that by simp
  ultimately show ?thesis using i(1) by (metis option.inject)
qed

text \<open>A count of the clients that have been opened: opening one adds to it, a ping does not.\<close>

definition counts_clients :: "('c, 'w) redis \<Rightarrow> ('w \<Rightarrow> nat) \<Rightarrow> bool" where
  "counts_clients R made \<longleftrightarrow> (\<forall>addr d w. made (snd (run (NewClient R addr d) w)) = Suc (made w)) \<and>
     (\<forall>c w. made (snd (run (Ping R c) w)) = made w)"

fun testing :: "'c pc \<Rightarrow> nat" where
  "testing (Testing c) = 1"
| "testing _ = 0"

definition in_hand :: "('c, 'w) sys \<Rightarrow> nat set" where
  "in_hand s = {t. \<exists>c. pcs s t = Testing c}"

lemma testing_locked: "\<not> locked p \<Longrightarrow> testing p = 0"
  by (cases p) simp_all

lemma in_hand_iff: "t \<in> in_hand s \<longleftrightarrow> testing (pcs s t) = Suc 0"
  by (cases "pcs s t") (simp_all add: in_hand_def)

lemma counts_clientsD:
  assumes "counts_clients R made"
  shows "run (NewClient R addr d) w = (c, w') \<Longrightarrow> made w' = Suc (made w)" and "run (Ping R c) w = (r, w') \<Longrightarrow> made w' = made w"
  using assms unfolding counts_clients_def by (metis snd_conv)+

text \<open>A step opens a client only for a name that the pool does not have, and the client is then tested and put into the pool.\<close>

lemma advance_made:
  assumes c: "redis_contract R V" and m: "counts_clients R made"
    and p: "advance R n p (a, w) = (p', (a', w'))" "reachable V w" "calm n a p"
  shows "made w' + card (dom (map_of (clientPool a))) + testing p = made w + card (dom (map_of (clientPool a'))) + testing p'"
proof (cases p)
  case (Pinging x)
  obtain w1 where "run (Ping R x) w = (None, w1)" using Ping_up [OF c p(2), of x] by blast
  then show ?thesis using p Pinging counts_clientsD(2) [OF m, of x w] by auto
next
  case (Repinging x)
  obtain w1 where "run (Ping R x) w = (None, w1)" using Ping_up [OF c p(2), of x] by blast
  then show ?thesis using p Repinging counts_clientsD(2) [OF m, of x w] by auto
next
  case (Testing x)
  obtain w1 where w1: "run (Ping R x) w = (None, w1)" using Ping_up [OF c p(2), of x] by blast
  moreover have "card (insert n (dom (map_of (clientPool a)))) = Suc (card (dom (map_of (clientPool a))))"
    using p(3) Testing by (intro card_insert_disjoint) (auto simp: finite_dom_map_of)
  ultimately show ?thesis using p Testing counts_clientsD(2) [OF m w1] by (auto simp: update_conv')
next
  case Creating
  then show ?thesis using p counts_clientsD(1) [OF m] by (auto split: if_splits prod.splits)
qed (use p in \<open>auto split: option.splits\<close>)

definition count_inv :: "('w \<Rightarrow> nat) \<Rightarrow> nat \<Rightarrow> ('c, 'w) sys \<Rightarrow> bool" where
  "count_inv made m s \<longleftrightarrow> made (snd (shared s)) = m + card (dom (map_of (clientPool (fst (shared s))))) + card (in_hand s)"

lemma in_hand_lock:
  assumes "lock_inv s"
  shows "locked (pcs s t) \<Longrightarrow> in_hand s = {u. u = t \<and> testing (pcs s t) = 1}" and "card (in_hand s) \<le> 1"
proof -
  have w: "writer s = Some u" if "u \<in> in_hand s" for u
  proof -
    have "locked (pcs s u)" using that by (auto simp: in_hand_def)
    then show ?thesis using assms by (simp add: lock_inv_def)
  qed
  have u: "u = t" if "u \<in> in_hand s" "locked (pcs s t)" for u t using w [OF that(1)] that(2) assms by (simp add: lock_inv_def)
  then show "locked (pcs s t) \<Longrightarrow> in_hand s = {u. u = t \<and> testing (pcs s t) = 1}"
    using in_hand_iff [of _ s] by (auto simp del: testing.simps)
  have "in_hand s \<subseteq> (case writer s of None \<Rightarrow> {} | Some u \<Rightarrow> {u})" using w by (fastforce split: option.splits)
  from card_mono [OF _ this] show "card (in_hand s) \<le> 1" by (cases "writer s") simp_all
qed

lemma count_go_on:
  assumes c: "redis_contract R V" "counts_clients R made" and s: "lock_inv s" "calm_inv V db s" "count_inv made m s"
  shows "made (snd (shared (go_on R db t s))) + card {u. u = t \<and> testing (pcs s t) = 1} =
    m + card (dom (map_of (clientPool (fst (shared (go_on R db t s)))))) + card {u. u = t \<and> testing (pcs (go_on R db t s) t) = 1} + card (in_hand s)"
proof -
  obtain a w where sh: "shared s = (a, w)" by fastforce
  obtain p' a' w' where ad: "advance R (db t) (pcs s t) (a, w) = (p', (a', w'))" by (metis surj_pair)
  have "reachable V w" "calm (db t) a (pcs s t)" using s(2) sh by (auto simp: calm_inv_def)
  from advance_made [OF c ad this] s(3) sh
  have "made w' + testing (pcs s t) = m + card (dom (map_of (clientPool a'))) + testing p' + card (in_hand s)" by (simp add: count_inv_def)
  moreover have "card {u. u = t \<and> testing p = 1} = testing p" for p :: "'a pc" by (cases p) auto
  ultimately show ?thesis using sh ad by simp
qed

lemma count_quiet:
  assumes "count_inv made m s" and "pcs s' = (pcs s)(t := p)" and "\<not> locked (pcs s t)" "p \<in> {Looking, Relooking}" and "shared s' = shared s"
  shows "count_inv made m s'"
proof -
  have "in_hand s' = in_hand s" using assms(2-4) by (auto simp: in_hand_def)
  then show ?thesis using assms(1,5) by (simp add: count_inv_def)
qed

lemma count_step:
  assumes c: "redis_contract R V" "counts_clients R made" and s: "lock_inv s" "calm_inv V db s" "count_inv made m s" and step: "pool_step R db s s'"
  shows "count_inv made m s'"
proof -
  have l': "lock_inv s'" using lock_inv_step [OF step s(1)] .
  have quiet: "count_inv made m s'" if "\<not> locked (pcs s t)" "pcs s' = pcs (go_on R db t s)" "shared s' = shared (go_on R db t s)" for t
  proof -
    have "\<not> locked (pcs s' t)" using that(1,2) advance_locked [OF prod.collapse [symmetric], of R "db t" "pcs s t" "shared s"] by auto
    then have "testing (pcs s t) = 0" "testing (pcs s' t) = 0" using that(1) testing_locked by auto
    moreover from this have "u \<in> in_hand s' \<longleftrightarrow> u \<in> in_hand s" for u using that(2) by (cases "u = t") (simp_all add: in_hand_iff)
    then have "in_hand s' = in_hand s" by blast
    ultimately show ?thesis using count_go_on [OF c s, of t] that by (simp add: count_inv_def)
  qed
  from step show ?thesis
  proof cases
    case (Work t)
    have "in_hand s' = {u. u = t \<and> testing (pcs s' t) = 1}"
    proof (cases "locked (pcs s' t)")
      case False
      have "\<not> locked (pcs s' u)" for u using False Work s(1) l' by (cases "u = t") (auto simp: lock_inv_def)
      then have "testing (pcs s' u) = 0" for u by (rule testing_locked)
      then show ?thesis by (simp add: in_hand_iff set_eq_iff)
    qed (rule in_hand_lock(1) [OF l'])
    then show ?thesis using count_go_on [OF c s, of t] in_hand_lock(1) [OF s(1) Work(2)] Work(1) by (simp add: count_inv_def)
  next
    case (Look t)
    then show ?thesis by (intro quiet [of t]) simp_all
  next
    case (Ping_out t c)
    then show ?thesis by (intro quiet [of t]) simp_all
  qed (use count_quiet [OF s(3)] in auto)
qed

lemma count_reachable:
  assumes c: "redis_contract R V" "counts_clients R made" and up: "reachable V w"
    and r: "pool_run R db (pool_init (\<lparr>redisAddr = addr, clientPool = []\<rparr>, w)) s"
  shows "count_inv made (made w) s"
  using r
proof (induction rule: rtranclp_induct)
  case base
  show ?case by (simp add: count_inv_def pool_init_def in_hand_def)
next
  case (step s s')
  then show ?case using count_step [OF c] reachable_inv [OF c(1)] calm_reachable [OF c(1) up] by blast
qed

text \<open>Property C24. The second look under the write lock works: while the server answers, however the calls interleave, no client is ever
  closed, a call fails only for a name that is no database, and every call for the same name is handed the one client
  that is in the pool under its name. No client is opened that is not used: at every time as many have been opened as there are names in
  the pool, and one more while a call tests the client it has opened, for a name that is not in the pool then.\<close>

theorem pool_shares_clients:
  assumes "redis_contract R V" and "counts_clients R made" and "reachable V w"
    and "pool_run R db (pool_init (\<lparr>redisAddr = addr, clientPool = []\<rparr>, w)) s"
  shows "closed s = {} \<and> (\<forall>t err. pcs s t = Done (Inl err) \<longrightarrow> getRedisDBIDByName (db t) = -1) \<and>
    (\<forall>t c. pcs s t = Done (Inr c) \<longrightarrow> map_of (clientPool (fst (shared s))) (db t) = Some c) \<and>
    (\<forall>t u c d. pcs s t = Done (Inr c) \<and> pcs s u = Done (Inr d) \<and> db t = db u \<longrightarrow> c = d) \<and>
    made (snd (shared s)) = made w + card (dom (map_of (clientPool (fst (shared s))))) + card {t. \<exists>c. pcs s t = Testing c} \<and>
    card {t. \<exists>c. pcs s t = Testing c} \<le> 1 \<and>
    (\<forall>t c. pcs s t = Testing c \<longrightarrow> map_of (clientPool (fst (shared s))) (db t) = None)"
proof -
  have inv: "calm_inv V db s" by (rule calm_reachable [OF assms(1,3,4)])
  then have calm: "calm (db t) (fst (shared s)) (pcs s t)" for t by (simp add: calm_inv_def)
  have "map_of (clientPool (fst (shared s))) (db t) = Some c" if "pcs s t = Done (Inr c)" for t c using calm [of t] that by simp
  moreover have "map_of (clientPool (fst (shared s))) (db t) = None" if "pcs s t = Testing c" for t c using calm [of t] that by simp
  moreover have "card (in_hand s) \<le> 1" using in_hand_lock(2) reachable_inv [OF assms(1,4)] by blast
  moreover note calm_shared [OF inv] count_reachable [OF assms]
  ultimately show ?thesis unfolding count_inv_def in_hand_def by blast
qed

section \<open>A client that is closed while it is used\<close>

text \<open>
  A store in memory over a connection that fails now and then: the outcomes of the next calls of \<open>Ping\<close> are
  in the world, and every client has a number of its own.
\<close>

definition flaky_redis :: "(int \<times> nat, (nat \<times> bool list) \<times> mem) redis" where
  "flaky_redis = \<lparr>
     HGet = (\<lambda>c k f. io (HGet mem_redis (fst c) k f)),
     HGetAll = (\<lambda>c k. io (HGetAll mem_redis (fst c) k)),
     HSet = (\<lambda>c k fvs. io (HSet mem_redis (fst c) k fvs)),
     HDel = (\<lambda>c k f. io (HDel mem_redis (fst c) k f)),
     HExists = (\<lambda>c k f. io (HExists mem_redis (fst c) k f)),
     Exists = (\<lambda>c k. io (Exists mem_redis (fst c) k)),
     Del = (\<lambda>c k. io (Del mem_redis (fst c) k)),
     Keys = (\<lambda>c p. io (Keys mem_redis (fst c) p)),
     Scan = (\<lambda>c cur p n. io (Scan mem_redis (fst c) cur p n)),
     Ping = (\<lambda>c. State (\<lambda>((i, bs), w). (if bs = [] \<or> hd bs then None else Some (ExtErr ''timeout''), ((i, tl bs), w)))),
     Close = (\<lambda>c. State (\<lambda>w. (None, w))),
     NewClient = (\<lambda>a d. State (\<lambda>((i, bs), w). ((d, i), ((Suc i, bs), w))))\<rparr>"

definition flaky_view :: "(int \<times> nat, (nat \<times> bool list) \<times> mem) store_view" where
  "flaky_view = \<lparr>db_of = fst, hashes_of = (\<lambda>w. hashes_of mem_view (snd w)),
     reachable = (\<lambda>w. snd (fst w) = []), glob = star_match\<rparr>"

lemma scan_run_flaky: "scan_run flaky_redis c p cur w bs w' \<longleftrightarrow> bs = [mem_keys (snd w) (fst c) p] \<and> w' = w"
  by (cases w) (auto simp: flaky_redis_def mem_redis_def elim: scan_run.cases intro: scan_run.scan_last)

lemmas flaky_simps = flaky_redis_def flaky_view_def mem_simps

lemma flaky_HGet_law: "HGet_law flaky_redis flaky_view"
  by (auto simp: HGet_law_def flaky_redis_def flaky_view_def mem_redis_def mem_view_def split: option.splits)

lemma flaky_reads:
  "HGetAll_law flaky_redis flaky_view" "HExists_law flaky_redis flaky_view" "Exists_law flaky_redis flaky_view"
  by (simp_all add: HGetAll_law_def HExists_law_def Exists_law_def flaky_simps)

lemma flaky_Keys_law: "Keys_law flaky_redis flaky_view"
  by (simp add: Keys_law_def flaky_simps) (simp add: mem_keys_def)

lemma flaky_writes:
  "HSet_law flaky_redis flaky_view" "HDel_law flaky_redis flaky_view" "Del_law flaky_redis flaky_view"
  by (simp_all add: HSet_law_def HDel_law_def Del_law_def flaky_simps upd_hash_def fun_eq_iff delete_conv')

lemma flaky_Scan_law: "Scan_law flaky_redis flaky_view"
  by (simp add: Scan_law_def scan_run_flaky) (simp add: flaky_simps)

lemma flaky_rest: "Client_law flaky_redis flaky_view" "glob_law flaky_view"
  by (simp_all add: Client_law_def flaky_simps glob_law_def star_match_plain plain_no_star)

lemma flaky_redis_contract: "redis_contract flaky_redis flaky_view"
  by (simp add: redis_contract_def flaky_HGet_law flaky_reads flaky_Keys_law flaky_writes flaky_Scan_law flaky_rest)

text \<open>Two goroutines, one after the other, both asking for \<open>CONFIG_DB\<close>; the second finds the connection of the first dead.\<close>

definition two_calls :: "(int \<times> nat, (nat \<times> bool list) \<times> mem) sys" where
  "two_calls = pool_init (\<lparr>redisAddr = ''localhost:6379'', clientPool = []\<rparr>, ((0, [True, False, False]), []))"

definition ask_config :: "nat \<Rightarrow> string" where
  "ask_config t = ''CONFIG_DB''"

lemma two_calls_runs:
  "\<exists>s. schedule flaky_redis ask_config ([0, 0, 0, 0, 0, 0] @ [1, 1, 1, 1, 1, 1, 1]) two_calls = Some s \<and>
     pcs s 0 = Done (Inr (4, 0)) \<and> pcs s 1 = Creating \<and> closed s = {(4, 0)} \<and> opened s = {(4, 0)} \<and> {t. pcs s t \<noteq> Start} = {0, 1}"
  by (simp add: two_calls_def pool_init_def fire_def go_on_def ask_config_def getRedisDBIDByName_def flaky_redis_def) auto

lemma two_calls_reach:
  "\<exists>s. (pool_step flaky_redis ask_config ^^ 13) two_calls s \<and>
     pcs s 0 = Done (Inr (4, 0)) \<and> pcs s 1 = Creating \<and> closed s = {(4, 0)} \<and> opened s = {(4, 0)} \<and> {t. pcs s t \<noteq> Start} = {0, 1}"
proof -
  obtain s where s: "schedule flaky_redis ask_config ([0, 0, 0, 0, 0, 0] @ [1, 1, 1, 1, 1, 1, 1]) two_calls = Some s"
      "pcs s 0 = Done (Inr (4, 0))" "pcs s 1 = Creating" "closed s = {(4, 0)}" "opened s = {(4, 0)}" "{t. pcs s t \<noteq> Start} = {0, 1}"
    using two_calls_runs by blast
  have n: "length ([0, 0, 0, 0, 0, 0] @ [1, 1, 1, 1, 1, 1, 1 :: nat]) = 13" by simp
  from schedule_run [OF s(1)] have "(pool_step flaky_redis ask_config ^^ 13) two_calls s" unfolding n .
  with s(2-) show ?thesis by blast
qed

text \<open>Property C33. A client that a call was handed can be closed by another call while it is used: over a store that keeps the contract,
  but whose connection fails for a while, the first call returns a client, the second finds that it does not answer and closes it.\<close>

theorem client_closed_in_use:
  "redis_contract flaky_redis flaky_view \<and>
   (\<exists>s c. pool_run flaky_redis ask_config two_calls s \<and> pcs s 0 = Done (Inr c) \<and> c \<in> closed s)"
proof -
  obtain s where s: "(pool_step flaky_redis ask_config ^^ 13) two_calls s" "pcs s 0 = Done (Inr (4, 0))" "closed s = {(4, 0)}"
    using two_calls_reach by blast
  then have "(4, 0) \<in> closed s" by simp
  with relpowp_imp_rtranclp [OF s(1)] s(2) flaky_redis_contract show ?thesis by blast
qed

theorem pool_concurrent_safe_witness:
  "\<exists>s. pool_run flaky_redis ask_config two_calls s \<and> pcs s 0 = Done (Inr (4, 0)) \<and> locked (pcs s 1) \<and>
     pool_ok flaky_view (fst (shared s)) \<and> (\<forall>t. locked (pcs s t) \<longrightarrow> t = 1) \<and> db_of flaky_view (4, 0) = getRedisDBIDByName ''CONFIG_DB''"
proof -
  obtain s where s: "(pool_step flaky_redis ask_config ^^ 13) two_calls s" "pcs s 0 = Done (Inr (4, 0))" "pcs s 1 = Creating"
    using two_calls_reach by blast
  note r = relpowp_imp_rtranclp [OF s(1)]
  from pool_concurrent_safe [OF flaky_redis_contract r [unfolded two_calls_def]] have safe: "\<forall>t u. locked (pcs s t) \<and> locked (pcs s u) \<longrightarrow> t = u"
    "pool_ok flaky_view (fst (shared s))" "\<forall>t c. pcs s t = Done (Inr c) \<longrightarrow> db_of flaky_view c = getRedisDBIDByName (ask_config t)" by auto
  have "locked (pcs s 1)" using s(3) by simp
  with safe s(2) r show ?thesis by (metis ask_config_def)
qed

theorem pool_calls_return_witness:
  "\<exists>s. (pool_step flaky_redis ask_config ^^ 13) two_calls s \<and> 13 \<le> 10 * card {t. pcs s t \<noteq> Start} \<and>
     (\<exists>u s'. pcs s u \<noteq> Start \<and> pool_step flaky_redis ask_config s s' \<and> pcs s' u \<noteq> pcs s u)"
proof -
  obtain s where s: "(pool_step flaky_redis ask_config ^^ 13) two_calls s" "pcs s 1 = Creating" "{t. pcs s t \<noteq> Start} = {0, 1}"
    using two_calls_reach by blast
  note ret = pool_calls_return [OF s(1) [unfolded two_calls_def] flaky_redis_contract]
  have "finite {t. pcs s t \<noteq> Start}" using s(3) by simp
  moreover have "\<exists>t. pcs s t \<noteq> Start \<and> (\<forall>r. pcs s t \<noteq> Done r)" using s(2) by (intro exI [of _ 1]) simp
  ultimately show ?thesis using ret s(1) by blast
qed

theorem pool_shares_clients_witness:
  "\<exists>s. pool_run flaky_redis ask_config (pool_init (\<lparr>redisAddr = ''localhost:6379'', clientPool = []\<rparr>, ((0, []), []))) s \<and>
     pcs s 0 = Done (Inr (4, 0)) \<and> pcs s 1 = Done (Inr (4, 0)) \<and> closed s = {} \<and> map_of (clientPool (fst (shared s))) ''CONFIG_DB'' = Some (4, 0) \<and>
     fst (fst (snd (shared s))) = card (dom (map_of (clientPool (fst (shared s))))) + card {t. \<exists>c. pcs s t = Testing c}"
proof -
  let ?i = "pool_init (\<lparr>redisAddr = ''localhost:6379'', clientPool = []\<rparr>, ((0, []), []))"
  obtain s where s: "schedule flaky_redis ask_config [0, 1, 1, 0, 1, 1, 1, 1, 0, 0, 0] ?i = Some s" "pcs s 0 = Done (Inr (4, 0))" "pcs s 1 = Done (Inr (4, 0))"
    by (simp add: pool_init_def fire_def go_on_def ask_config_def getRedisDBIDByName_def flaky_redis_def)
  note r = relpowp_imp_rtranclp [OF schedule_run [OF s(1)]]
  have up: "reachable flaky_view ((0, []), [])" by (simp add: flaky_view_def)
  have n: "counts_clients flaky_redis (\<lambda>w. fst (fst w))" by (simp add: counts_clients_def flaky_redis_def split_beta)
  note ps = pool_shares_clients [OF flaky_redis_contract n up r]
  have "map_of (clientPool (fst (shared s))) (ask_config 0) = Some (4, 0)" using ps s(2) by blast
  moreover have "closed s = {}" using ps by blast
  moreover have "fst (fst (snd (shared s))) = card (dom (map_of (clientPool (fst (shared s))))) + card {t. \<exists>c. pcs s t = Testing c}" using ps by simp
  ultimately show ?thesis using s(2,3) r by (intro exI [of _ s]) (simp add: ask_config_def)
qed

theorem Connect_alone_refines_witness:
  "\<exists>s'. pool_run mem_redis ask_config (pool_init (\<lparr>redisAddr = ''localhost:6379'', clientPool = []\<rparr>, [])) s' \<and>
     pcs s' = (\<lambda>_. Start)(7 := Done (Inr 4)) \<and> shared s' = (\<lparr>redisAddr = ''localhost:6379'', clientPool = [(''CONFIG_DB'', 4)]\<rparr>, []) \<and> writer s' = None"
proof -
  let ?i = "pool_init (\<lparr>redisAddr = ''localhost:6379'', clientPool = []\<rparr>, [])"
  have "run (Connect mem_redis (ask_config 7)) (shared ?i) = (Inr 4, (\<lparr>redisAddr = ''localhost:6379'', clientPool = [(''CONFIG_DB'', 4)]\<rparr>, []))"
    by (simp add: pool_init_def Connect_def connect_locked_def connect_new_def ask_config_def getRedisDBIDByName_def mem_redis_def Let_def)
  from Connect_alone_refines [OF mem_redis_contract, where db = ask_config and t = 7, OF rtranclp.rtrancl_refl _ _ this]
  have "\<exists>s'. pool_run mem_redis ask_config ?i s' \<and> pcs s' = (pcs ?i)(7 := Done (Inr 4)) \<and>
      shared s' = (\<lparr>redisAddr = ''localhost:6379'', clientPool = [(''CONFIG_DB'', 4)]\<rparr>, []) \<and> readers s' = {} \<and> writer s' = None"
    by (simp add: pool_init_def)
  then show ?thesis by (simp add: pool_init_def) blast
qed

end
