(* ===== verification/Programs.thy ===== *)
theory Programs
  imports Provisioning Agent_Server Pool_Concurrency
begin

text \<open>
  The two programs from their start to the point where they serve: \<open>main\<close> of the operator (\<open>cmd/main.go\<close>) with the
  registration of the controllers, and \<open>StartServer\<close> of the agent (\<open>agent_server/server.go\<close>). The flags are
  a record with the defaults of the source; the package controller-runtime, the network and the files are parameters.
  A program that leaves through \<open>os.Exit\<close> or \<open>log.Fatalf\<close> has the outcome \<open>Exit\<close>.

  The lemmas: when the operator gets to running and with which options; that with the address the flag
  \<open>--http-server-address\<close> has by default it does not keep running; and that the agent, once it serves, starts from the
  empty pool that concurrent requests then share.
\<close>

section \<open>The flags of the operator\<close>

record main_flags =
  metricsAddr :: string
  probeAddr :: string
  enableLeaderElection :: bool
  secureMetrics :: bool
  webhookCertPath :: string
  webhookCertName :: string
  webhookCertKey :: string
  metricsCertPath :: string
  metricsCertName :: string
  metricsCertKey :: string
  enableHTTP2 :: bool
  httpServerAddr :: string
  ztp_mode :: string
  bootstrapControlKubeconfigFile :: string
  onie_images_dir :: string
  onieConfigFile :: string
  disableProvisionsingServer :: bool

definition default_flags :: main_flags where
  "default_flags = \<lparr>metricsAddr = ''0'', probeAddr = '':8081'', enableLeaderElection = False, secureMetrics = True,
     webhookCertPath = [], webhookCertName = ''tls.crt'', webhookCertKey = ''tls.key'',
     metricsCertPath = [], metricsCertName = ''tls.crt'', metricsCertKey = ''tls.key'',
     enableHTTP2 = False, httpServerAddr = ''0'', ztp_mode = ''generated'', bootstrapControlKubeconfigFile = [],
     onie_images_dir = ''/var/lib/sonic-operator/onie'', onieConfigFile = ''/etc/onie.json'', disableProvisionsingServer = False\<rparr>"

section \<open>The options of the manager\<close>

record tls_Config =
  NextProtos :: "string list"

datatype filter_provider = WithAuthenticationAndAuthorization

record webhook_Options =
  wh_TLSOpts :: "(tls_Config \<Rightarrow> tls_Config) list"
  wh_CertDir :: string
  wh_CertName :: string
  wh_KeyName :: string

record metrics_Options =
  ms_BindAddress :: string
  ms_SecureServing :: bool
  ms_TLSOpts :: "(tls_Config \<Rightarrow> tls_Config) list"
  ms_FilterProvider :: "filter_provider option"
  ms_CertDir :: string
  ms_CertName :: string
  ms_KeyName :: string

record manager_Options =
  mo_Metrics :: metrics_Options
  mo_WebhookServer :: webhook_Options
  mo_HealthProbeBindAddress :: string
  mo_LeaderElection :: bool
  mo_LeaderElectionID :: string

definition disableHTTP2 :: "tls_Config \<Rightarrow> tls_Config" where
  "disableHTTP2 c = c\<lparr>NextProtos := [''http/1.1'']\<rparr>"

definition tlsOpts :: "main_flags \<Rightarrow> (tls_Config \<Rightarrow> tls_Config) list" where
  "tlsOpts f = (if \<not> enableHTTP2 f then [disableHTTP2] else [])"

definition webhookServerOptions :: "main_flags \<Rightarrow> webhook_Options" where
  "webhookServerOptions f =
     (let w = \<lparr>wh_TLSOpts = tlsOpts f, wh_CertDir = [], wh_CertName = [], wh_KeyName = []\<rparr> in
      if webhookCertPath f \<noteq> []
      then w\<lparr>wh_CertDir := webhookCertPath f, wh_CertName := webhookCertName f, wh_KeyName := webhookCertKey f\<rparr> else w)"

definition metricsServerOptions :: "main_flags \<Rightarrow> metrics_Options" where
  "metricsServerOptions f =
     (let m0 = \<lparr>ms_BindAddress = metricsAddr f, ms_SecureServing = secureMetrics f, ms_TLSOpts = tlsOpts f, ms_FilterProvider = None,
                ms_CertDir = [], ms_CertName = [], ms_KeyName = []\<rparr>;
          m1 = (if secureMetrics f then m0\<lparr>ms_FilterProvider := Some WithAuthenticationAndAuthorization\<rparr> else m0) in
      if metricsCertPath f \<noteq> []
      then m1\<lparr>ms_CertDir := metricsCertPath f, ms_CertName := metricsCertName f, ms_KeyName := metricsCertKey f\<rparr> else m1)"

definition manager_options :: "main_flags \<Rightarrow> manager_Options" where
  "manager_options f = \<lparr>mo_Metrics = metricsServerOptions f, mo_WebhookServer = webhookServerOptions f,
     mo_HealthProbeBindAddress = probeAddr f, mo_LeaderElection = enableLeaderElection f,
     mo_LeaderElectionID = ''7ada019f.sonic.networking.metal.ironcore.dev''\<rparr>"

section \<open>Starting the operator\<close>

record controller_spec =
  cs_For :: string
  cs_Owns :: "string list"
  cs_Named :: string

definition sw_SetupWithManager :: controller_spec where
  "sw_SetupWithManager = \<lparr>cs_For = ''Switch'', cs_Owns = [''SwitchInterface''], cs_Named = ''switch''\<rparr>"

definition si_SetupWithManager :: controller_spec where
  "si_SetupWithManager = \<lparr>cs_For = ''SwitchInterface'', cs_Owns = [], cs_Named = ''switchinterface''\<rparr>"

text \<open>What \<open>main\<close> calls of controller-runtime. \<open>GetConfigOrDie\<close> leaves the program on an error.\<close>

record ('m, 'w) runtime =
  GetConfig :: "('w, goerror option) state"
  NewManager :: "manager_Options \<Rightarrow> ('w, 'm res) state"
  Complete :: "'m \<Rightarrow> controller_spec \<Rightarrow> ('w, goerror option) state"
  AddHealthzCheck :: "'m \<Rightarrow> string \<Rightarrow> ('w, goerror option) state"
  AddReadyzCheck :: "'m \<Rightarrow> string \<Rightarrow> ('w, goerror option) state"
  mgr_Start :: "'m \<Rightarrow> ('w, goerror option) state"

datatype 'm startup = Exit nat | Running 'm "http_Server option"

definition or_exit :: "('w, goerror option) state \<Rightarrow> ('w, 'm startup) state \<Rightarrow> ('w, 'm startup) state" where
  "or_exit m k = on_fail m (\<lambda>_. ret (Exit 1)) k"

definition main_server :: "(string \<Rightarrow> ('w, string res) state) \<Rightarrow> (string \<Rightarrow> onie_Config res) \<Rightarrow> main_flags \<Rightarrow> 'm \<Rightarrow> ('w, 'm startup) state" where
  "main_server open_file decode f mgr =
     (if \<not> disableProvisionsingServer f
      then on_err (setupProvisioningServer open_file decode (httpServerAddr f) (onie_images_dir f) (onieConfigFile f) (ztp_mode f) (bootstrapControlKubeconfigFile f))
        (\<lambda>_. ret (Exit 1)) (\<lambda>provServer. ret (Running mgr (Some provServer)))
      else ret (Running mgr None))"

definition main_start :: "('m, 'w) runtime \<Rightarrow> (string \<Rightarrow> ('w, string res) state) \<Rightarrow> (string \<Rightarrow> onie_Config res) \<Rightarrow> main_flags \<Rightarrow> ('w, 'm startup) state" where
  "main_start C open_file decode f =
     or_exit (GetConfig C)
     (on_err (NewManager C (manager_options f)) (\<lambda>_. ret (Exit 1)) (\<lambda>mgr.
       or_exit (Complete C mgr sw_SetupWithManager)
       (or_exit (Complete C mgr si_SetupWithManager)
       (or_exit (AddHealthzCheck C mgr ''healthz'')
       (or_exit (AddReadyzCheck C mgr ''readyz'')
       (main_server open_file decode f mgr))))))"

text \<open>
  Then two goroutines run: the HTTP server, whose end is that of the program, and the manager.
  \<open>ListenAndServe\<close> of Go's library listens and serves until an error.
\<close>

definition ListenAndServe :: "(string \<Rightarrow> ('w, 'l res) state) \<Rightarrow> ('l \<Rightarrow> mux \<Rightarrow> ('w, goerror) state) \<Rightarrow> http_Server \<Rightarrow> ('w, goerror) state" where
  "ListenAndServe listen serve_on srv =
     on_err (listen (if srv_Addr srv = [] then '':http'' else srv_Addr srv)) ret (\<lambda>l. serve_on l (srv_Handler srv))"

definition http_goroutine :: "(string \<Rightarrow> ('w, 'l res) state) \<Rightarrow> ('l \<Rightarrow> mux \<Rightarrow> ('w, goerror) state) \<Rightarrow> http_Server \<Rightarrow> ('w, 'm startup) state" where
  "http_goroutine listen serve_on srv = State_Monad.bind (ListenAndServe listen serve_on srv) (\<lambda>err. ret (Exit 1))"

definition manager_goroutine :: "('m, 'w) runtime \<Rightarrow> 'm \<Rightarrow> ('w, 'm startup) state" where
  "manager_goroutine C mgr = or_exit (mgr_Start C mgr) (ret (Exit 0))"

section \<open>Starting the agent\<close>

datatype ('l, 'c) agent_startup = Fatal string | Serving 'l "'c SonicAgent"

text \<open>\<open>StartServer\<close> up to \<open>Serve\<close>; the flags \<open>port\<close> and \<open>redis-addr\<close> are arguments. The methods served are those of \<open>sonic_agent\<close>.\<close>

definition StartServer :: "(string \<Rightarrow> string \<Rightarrow> ('w, 'l res) state) \<Rightarrow> ('c, 'w) redis \<Rightarrow> int \<Rightarrow> string \<Rightarrow> ('w, ('l, 'c) agent_startup) state" where
  "StartServer listen R port addr =
     on_err (listen ''tcp4'' (''0.0.0.0:'' @ Itoa port)) (\<lambda>err. ret (Fatal (''failed to listen: '' @ error_text err))) (\<lambda>lis.
     on_err (NewSonicRedisAgent R addr) (\<lambda>err. ret (Fatal (''failed to create SonicRedisAgent: '' @ error_text err)))
       (\<lambda>swAgent. ret (Serving lis swAgent)))"

section \<open>The operator\<close>

lemma run_or_exit [simp]: "run (or_exit m k) w = (case run m w of (None, w') \<Rightarrow> run k w' | (Some _, w') \<Rightarrow> (Exit 1, w'))"
  by (simp add: or_exit_def split: prod.split option.split)

lemma main_server_cases:
  "run (main_server open_file decode f mgr) w = (r, w') \<Longrightarrow> r = Exit 1 \<or> (disableProvisionsingServer f \<and> r = Running mgr None) \<or>
     (\<not> disableProvisionsingServer f \<and> (\<exists>srv. r = Running mgr (Some srv) \<and>
       run (setupProvisioningServer open_file decode (httpServerAddr f) (onie_images_dir f) (onieConfigFile f) (ztp_mode f) (bootstrapControlKubeconfigFile f)) w = (Inr srv, w')))"
  by (auto simp: main_server_def split: if_splits prod.splits sum.splits)

text \<open>Before it runs, the operator leaves only with the code 1; when it runs, the server is that of the flags.\<close>

lemma main_start_cases:
  assumes "run (main_start C open_file decode f) w = (r, w')"
  shows "r = Exit 1 \<or> (\<exists>mgr w0. run (main_server open_file decode f mgr) w0 = (r, w'))"
  using assms by (auto simp: main_start_def split: prod.splits option.splits sum.splits)

lemma setup_addr: "run (setupProvisioningServer open_file decode addr dir path mode kc) w = (Inr srv, w') \<Longrightarrow> srv_Addr srv = addr"
  by (auto simp: setupProvisioningServer_def split: prod.splits sum.splits if_splits)

lemma main_start_running:
  assumes "run (main_start C open_file decode f) w = (Running mgr s, w')"
  shows "(disableProvisionsingServer f \<longrightarrow> s = None) \<and> (\<not> disableProvisionsingServer f \<longrightarrow> (\<exists>srv. s = Some srv \<and> srv_Addr srv = httpServerAddr f))"
proof -
  obtain mgr' w0 where "run (main_server open_file decode f mgr') w0 = (Running mgr s, w')" using main_start_cases [OF assms] by auto
  from main_server_cases [OF this] setup_addr show ?thesis by auto
qed

text \<open>The documented behaviour of \<open>net.Listen\<close> for TCP: an address has a host and a port.\<close>

definition listen_law :: "(string \<Rightarrow> ('w, 'l res) state) \<Rightarrow> bool" where
  "listen_law listen \<longleftrightarrow> (\<forall>a w. a \<noteq> [] \<and> SplitHostPort a = None \<longrightarrow> (\<exists>err w'. run (listen a) w = (Inl err, w')))"

text \<open>Property C32. The operator does not keep running with the address that \<open>--http-server-address\<close> has by default: unless the
  provisioning server is disabled by its flag, the program either exits while it starts or starts a server whose \<open>Listen\<close>
  fails in every state, upon which the whole program exits with code 1.\<close>

theorem operator_exits_by_default:
  assumes "listen_law listen" and "httpServerAddr f = httpServerAddr default_flags" and "\<not> disableProvisionsingServer f"
    and "run (main_start C open_file decode f) w = (r, w')"
  shows "r = Exit 1 \<or> (\<exists>mgr srv. r = Running mgr (Some srv) \<and>
    (\<forall>w2. \<exists>err w3. run (listen (srv_Addr srv)) w2 = (Inl err, w3) \<and> run (http_goroutine listen serve_on srv) w2 = (Exit 1, w3)))"
proof (cases r)
  case (Exit n)
  then show ?thesis using main_start_cases [OF assms(4)] main_server_cases by fastforce
next
  case (Running mgr s)
  then obtain srv where srv: "s = Some srv" "srv_Addr srv = ''0''"
    using main_start_running assms(2,3,4) by (fastforce simp: default_flags_def)
  have "SplitHostPort ''0'' = None" by (simp add: SplitHostPort_def cut_last_def)
  then have "\<exists>err w3. run (listen ''0'') w2 = (Inl err, w3)" for w2 using assms(1) unfolding listen_law_def by blast
  then have "\<exists>err w3. run (listen (srv_Addr srv)) w2 = (Inl err, w3) \<and> run (http_goroutine listen serve_on srv) w2 = (Exit 1, w3)" for w2
    using srv(2) by (fastforce simp: http_goroutine_def ListenAndServe_def)
  with Running srv(1) show ?thesis by blast
qed

text \<open>The arguments of the deployment in \<open>config/manager/manager.yaml\<close>, over a network that only checks addresses.\<close>

definition deployed_flags :: main_flags where
  "deployed_flags = default_flags\<lparr>enableLeaderElection := True, probeAddr := '':8081'', ztp_mode := ''generated'',
     bootstrapControlKubeconfigFile := ''/etc/sonic-operator/control-kubeconfig/kubeconfig''\<rparr>"

definition tcp_listen :: "string \<Rightarrow> (unit, string res) state" where
  "tcp_listen a = ret (if a \<noteq> [] \<and> SplitHostPort a = None then Inl (ExtErr ''missing port in address'') else Inr a)"

definition quiet_runtime :: "(unit, unit) runtime" where
  "quiet_runtime = \<lparr>GetConfig = ret None, NewManager = (\<lambda>_. ret (Inr ())), Complete = (\<lambda>_ _. ret None),
     AddHealthzCheck = (\<lambda>_ _. ret None), AddReadyzCheck = (\<lambda>_ _. ret None), mgr_Start = (\<lambda>_. ret None)\<rparr>"

theorem operator_exits_by_default_witness:
  "\<exists>srv. run (main_start quiet_runtime demo_open demo_decode deployed_flags) () = (Running () (Some srv), ()) \<and>
     run (http_goroutine tcp_listen (\<lambda>_ _. ret (ExtErr ''closed'')) srv) () = (Exit 1 :: unit startup, ())"
proof -
  obtain srv where r: "run (main_start quiet_runtime demo_open demo_decode deployed_flags) () = (Running () (Some srv), ())"
    by (simp add: main_start_def main_server_def quiet_runtime_def deployed_flags_def default_flags_def setupProvisioningServer_def
        read_config_def demo_open_def demo_decode_def)
  have l: "listen_law tcp_listen" by (simp add: listen_law_def tcp_listen_def)
  have "httpServerAddr deployed_flags = httpServerAddr default_flags" "\<not> disableProvisionsingServer deployed_flags"
    by (simp_all add: deployed_flags_def default_flags_def)
  from operator_exits_by_default [OF l this r] r show ?thesis by auto
qed

text \<open>The options: HTTP/2 is off for both servers unless it is enabled, and a metrics endpoint that is served securely
  asks for authentication.\<close>

lemma manager_options_secure:
  "(\<not> enableHTTP2 f \<longrightarrow> NextProtos (fold id (ms_TLSOpts (mo_Metrics (manager_options f))) c) = [''http/1.1''] \<and>
      NextProtos (fold id (wh_TLSOpts (mo_WebhookServer (manager_options f))) c) = [''http/1.1'']) \<and>
   (ms_SecureServing (mo_Metrics (manager_options f)) \<longrightarrow> ms_FilterProvider (mo_Metrics (manager_options f)) = Some WithAuthenticationAndAuthorization)"
  by (simp add: manager_options_def metricsServerOptions_def webhookServerOptions_def tlsOpts_def disableHTTP2_def Let_def)

section \<open>The agent\<close>

lemma Close_up: "redis_contract R V \<Longrightarrow> reachable V w \<Longrightarrow> \<exists>w'. run (Close R c) w = (None, w') \<and> reachable V w'"
  using redis_contractD(10) [of R V] unfolding Client_law_def accepts_def by blast

lemma NewSonicRedisAgent_up:
  assumes c: "redis_contract R V" and "reachable V w"
  shows "\<exists>w'. run (NewSonicRedisAgent R addr) w = (Inr \<lparr>redisAddr = addr, clientPool = []\<rparr>, w') \<and> reachable V w'"
proof -
  obtain t w0 where t: "run (NewClient R addr 4) w = (t, w0)" by (metis surj_pair)
  obtain w1 where w1: "run (Ping R t) w0 = (None, w1)" "reachable V w1" using Ping_up [OF c NewClient_up [OF c assms(2) t]] by blast
  obtain w2 where "run (Close R t) w1 = (None, w2)" "reachable V w2" using Close_up [OF c w1(2)] by blast
  with t w1(1) show ?thesis by (simp add: NewSonicRedisAgent_def)
qed

text \<open>An agent that does not get its connection is not served at all.\<close>

lemma StartServer_cases:
  assumes "run (StartServer listen R port addr) w = (r, w')"
  shows "(\<exists>msg. r = Fatal msg) \<or> (\<exists>l w1 a. run (listen ''tcp4'' (''0.0.0.0:'' @ Itoa port)) w = (Inr l, w1) \<and>
    run (NewSonicRedisAgent R addr) w1 = (Inr a, w') \<and> r = Serving l a)"
  using assms by (auto simp: StartServer_def split: prod.splits sum.splits)

text \<open>Property C27. An agent that can listen on its port while the Redis server answers gets to serving, with an empty pool; and however
  the requests it then serves interleave, no client of the pool is closed, a call of \<open>Connect\<close> fails only for a name
  that is no database, and all calls for one name share one client.\<close>

theorem StartServer_serves:
  assumes "redis_contract R V" and "run (listen ''tcp4'' (''0.0.0.0:'' @ Itoa port)) w = (Inr l, w1)" and "reachable V w1"
  shows "\<exists>a w2. run (StartServer listen R port addr) w = (Serving l a, w2) \<and> clientPool a = [] \<and>
    (\<forall>db s. pool_run R db (pool_init (a, w2)) s \<longrightarrow> closed s = {} \<and>
       (\<forall>t err. pcs s t = Done (Inl err) \<longrightarrow> getRedisDBIDByName (db t) = -1) \<and>
       (\<forall>t u c d. pcs s t = Done (Inr c) \<and> pcs s u = Done (Inr d) \<and> db t = db u \<longrightarrow> c = d))"
proof -
  let ?a = "\<lparr>redisAddr = addr, clientPool = []\<rparr>"
  obtain w2 where w2: "run (NewSonicRedisAgent R addr) w1 = (Inr ?a, w2)" "reachable V w2"
    using NewSonicRedisAgent_up [OF assms(1,3)] by blast
  have served: "run (StartServer listen R port addr) w = (Serving l ?a, w2)" using assms(2) w2(1) by (simp add: StartServer_def)
  have "closed s = {} \<and> (\<forall>t err. pcs s t = Done (Inl err) \<longrightarrow> getRedisDBIDByName (db t) = -1) \<and>
       (\<forall>t u c d. pcs s t = Done (Inr c) \<and> pcs s u = Done (Inr d) \<and> db t = db u \<longrightarrow> c = d)"
    if "pool_run R db (pool_init (?a, w2)) s" for db s
    by (rule calm_shared [OF calm_reachable [OF assms(1) w2(2) that]])
  with served show ?thesis by (intro exI [of _ ?a] exI [of _ w2]) simp
qed

theorem StartServer_serves_witness:
  "\<exists>a w2. run (StartServer (\<lambda>net a. ret (Inr a)) mem_redis 50051 ''127.0.0.1:6379'') [] = (Serving (''0.0.0.0:'' @ Itoa 50051) a, w2) \<and> clientPool a = []"
proof -
  have up: "reachable mem_view []" by (simp add: mem_view_def)
  have "run ((\<lambda>net a. ret (Inr a)) ''tcp4'' (''0.0.0.0:'' @ Itoa 50051)) [] = (Inr (''0.0.0.0:'' @ Itoa 50051) :: string res, [])" by simp
  from StartServer_serves [OF mem_redis_contract, where listen = "\<lambda>net a. ret (Inr a)" and port = 50051 and addr = "''127.0.0.1:6379''", OF this up] show ?thesis by blast
qed

end
