(* ===== verification/Print_Render.thy ===== *)
theory Print_Render
  imports Agent_Client "HOL-Library.Multiset"
begin

text \<open>
  The output of the command line client (\<open>internal/agent/agent_client/client/print_render.go\<close>):
  the basic renderer, the conversion of objects to tables, the registry of renderers and the printer
  that chooses between them. The writer and the package that lays out a table are parameters, and so
  is \<open>sort.Slice\<close>, of which only the documented contract is used: the result is a permutation in
  order, and nothing is said about the order of equal elements.

  The objects are the values of the types \<open>Object\<close> and \<open>ObjectList\<close>, which are all the types that
  implement the interfaces of the source: the branches for another type cannot be reached.
\<close>

section \<open>Parameters\<close>

text \<open>A cell of a table is a text, or the readiness of a device.\<close>

datatype cell = CText string | CUint "32 word"

record TableData =
  Headers :: "string list"
  Rows :: "cell list list"

record 's writer =
  Fprint :: "string \<Rightarrow> ('s, goerror option) state"
  tw_Render :: "TableData \<Rightarrow> ('s, unit) state"
  sort_Slice :: "(Interface \<Rightarrow> Interface \<Rightarrow> bool) \<Rightarrow> Interface list \<Rightarrow> Interface list"

text \<open>The contract of \<open>sort.Slice\<close>, for a comparison by a number.\<close>

definition sorts :: "((Interface \<Rightarrow> Interface \<Rightarrow> bool) \<Rightarrow> Interface list \<Rightarrow> Interface list) \<Rightarrow> bool" where
  "sorts srt \<longleftrightarrow> (\<forall>key :: Interface \<Rightarrow> int. \<forall>xs. mset (srt (\<lambda>x y. key x < key y) xs) = mset xs \<and>
     sorted (map key (srt (\<lambda>x y. key x < key y) xs)))"

section \<open>Renderers\<close>

datatype printable = Obj Object | Lst ObjectList

definition Fprintln :: "'s writer \<Rightarrow> string \<Rightarrow> ('s, goerror option) state" where
  "Fprintln W s = Fprint W (s @ [CHR 0x0A])"

definition object_line :: "Object \<Rightarrow> string" where
  "object_line obj = (if GetKind obj \<noteq> [] then ToLower (GetKind obj) @ ''/'' @ GetName obj else GetName obj)"

definition renderObject :: "'s writer \<Rightarrow> Object \<Rightarrow> ('s, goerror option) state" where
  "renderObject W obj = Fprintln W (Join [object_line obj] '' '')"

fun render_objects :: "'s writer \<Rightarrow> Object list \<Rightarrow> ('s, goerror option) state" where
  "render_objects W [] = ret None"
| "render_objects W (obj # objs) = on_fail (renderObject W obj) (\<lambda>err. ret (Some err)) (render_objects W objs)"

fun objects_of :: "printable \<Rightarrow> Object list" where
  "objects_of (Obj v) = [v]"
| "objects_of (Lst v) = GetItems v"

text \<open>The line with the information, when there is one.\<close>

definition print_info :: "'s writer \<Rightarrow> string \<Rightarrow> ('s, goerror option) state" where
  "print_info W info = (if info \<noteq> [] then Fprintln W info else ret None)"

definition basic_Render :: "'s writer \<Rightarrow> string \<Rightarrow> printable \<Rightarrow> ('s, goerror option) state" where
  "basic_Render W info v = on_fail (print_info W info) (\<lambda>err. ret (Some err)) (render_objects W (objects_of v))"

definition deviceToTable :: "SwitchDevice \<Rightarrow> TableData" where
  "deviceToTable device = \<lparr>
     Headers = [''Name'', ''MAC Address'', ''HW SKU'', ''Sonic OS Version'', ''ASIC Type'', ''Readiness''],
     Rows = [[CText (SwitchDevice_GetName device), CText (LocalMacAddress device), CText (Hwsku device),
       CText (SonicOSVersion device), CText (AsicType device), CUint (Readiness device)]]\<rparr>"

text \<open>The number in the native name: 0 for a name without one, and the nearest 64-bit number for one out of range.\<close>

definition native_number :: "Interface \<Rightarrow> int" where
  "native_number iface = fst (Atoi (TrimPrefix (NativeName iface) ''Ethernet''))"

definition interface_row :: "Interface \<Rightarrow> cell list" where
  "interface_row iface = map CText [i_Name iface, NativeName iface, AliasName iface, i_MacAddress iface,
     OperationStatus iface, AdminStatus iface]"

text \<open>\<open>sort.Slice\<close> orders the slice of the caller in place. The callers render a value that they do not use afterwards, so that only the
  order of the rows is modelled.\<close>

definition interfaceToTable :: "'s writer \<Rightarrow> Interface list \<Rightarrow> TableData" where
  "interfaceToTable W ifaces = \<lparr>
     Headers = [''Name'', ''Native Name'', ''Alias Name'', ''MAC Address'', ''Operation Status'', ''Admin Status''],
     Rows = map interface_row (sort_Slice W (\<lambda>x y. native_number x < native_number y) ifaces)\<rparr>"

definition portToTable :: "agent_Port list \<Rightarrow> TableData" where
  "portToTable ports = \<lparr>Headers = [''Name'', ''Alias''], Rows = map (\<lambda>port. [CText (p_Name port), CText (Alias port)]) ports\<rparr>"

definition interfaceNeighborToTable :: "InterfaceNeighbor \<Rightarrow> TableData" where
  "interfaceNeighborToTable nb = \<lparr>Headers = [''Neighbor Name'', ''Handle'', ''MAC Address''],
     Rows = [[CText (SystemName nb), CText (Handle nb), CText (n_MacAddress nb)]]\<rparr>"

fun ConvertToTable :: "'s writer \<Rightarrow> printable \<Rightarrow> TableData" where
  "ConvertToTable W (Obj (ODevice d)) = deviceToTable d"
| "ConvertToTable W (Obj (OInterface i)) = interfaceToTable W [i]"
| "ConvertToTable W (Lst (OInterfaceList l)) = interfaceToTable W (il_Items l)"
| "ConvertToTable W (Lst (OPortList l)) = portToTable (pl_Items l)"
| "ConvertToTable W (Obj (OPort p)) = portToTable [p]"
| "ConvertToTable W (Obj (ONeighbor n)) = interfaceNeighborToTable n"

definition table_Render :: "'s writer \<Rightarrow> string \<Rightarrow> printable \<Rightarrow> ('s, goerror option) state" where
  "table_Render W info v =
     on_fail (print_info W info) (\<lambda>err. ret (Some err))
       (State_Monad.bind (tw_Render W (ConvertToTable W v)) (\<lambda>_. ret None))"

section \<open>The registry\<close>

datatype renderer = BasicRenderer | TableRenderer

type_synonym factory = "string \<Rightarrow> renderer option"

definition NewRendererFactory :: factory where
  "NewRendererFactory = (\<lambda>_. None)"

definition RegisterRenderer :: "factory \<Rightarrow> string \<Rightarrow> renderer \<Rightarrow> factory res" where
  "RegisterRenderer f name r =
     (if f name \<noteq> None then Inl (Errorf (''renderer '' @ name @ '' already registered'')) else Inr (f(name \<mapsto> r)))"

definition registerDefaultRenderers :: "factory \<Rightarrow> factory res" where
  "registerDefaultRenderers f = (case RegisterRenderer f ''basic'' BasicRenderer of
      Inl err \<Rightarrow> Inl err
    | Inr f1 \<Rightarrow> RegisterRenderer f1 ''table'' TableRenderer)"

definition GetRenderer :: "factory \<Rightarrow> string \<Rightarrow> renderer res" where
  "GetRenderer f name = (case f name of None \<Rightarrow> Inl (Errorf (''renderer '' @ name @ '' not found'')) | Some r \<Rightarrow> Inr r)"

fun Render :: "renderer \<Rightarrow> 's writer \<Rightarrow> string \<Rightarrow> printable \<Rightarrow> ('s, goerror option) state" where
  "Render BasicRenderer W info v = basic_Render W info v"
| "Render TableRenderer W info v = table_Render W info v"

record DefaultPrintRender =
  RendererType :: string
  RendererFactory :: factory

definition NewDefaultPrintRender :: "string \<Rightarrow> DefaultPrintRender outcome" where
  "NewDefaultPrintRender rendererType = (case registerDefaultRenderers NewRendererFactory of
      Inl err \<Rightarrow> Panicked
    | Inr f \<Rightarrow> Returned \<lparr>RendererType = rendererType, RendererFactory = f\<rparr>)"

section \<open>The printer\<close>

text \<open>An object or a list with an error status is shown as a server error, and a table is not used for it.\<close>

definition server_error :: "Status \<Rightarrow> string" where
  "server_error st = ''server error: '' @ Itoa (uint (Code st)) @ '', '' @ Message st"

definition choose_renderer :: "DefaultPrintRender \<Rightarrow> Status \<Rightarrow> string" where
  "choose_renderer p st = (if Code st \<noteq> 0 \<and> RendererType p = ''table'' then ''basic'' else RendererType p)"

definition RenderObject :: "DefaultPrintRender \<Rightarrow> string \<Rightarrow> 's writer \<Rightarrow> Object \<Rightarrow> ('s, Status option) state" where
  "RenderObject p info W obj =
     (let st = GetStatus obj; info' = (if Code st \<noteq> 0 then server_error st else info) in
      case GetRenderer (RendererFactory p) (choose_renderer p st) of
        Inl err \<Rightarrow> ret (Some (NewErrorStatus BAD_REQUEST (''error creating renderer: '' @ error_text err)))
      | Inr r \<Rightarrow>
          on_fail (Render r W info' (Obj obj))
            (\<lambda>err. ret (Some (NewErrorStatus CLIENT_ERROR (''error rendering '' @ GetKind obj @ '': '' @ error_text err))))
            (ret (if Code st \<noteq> 0 then Some (NewErrorStatus (Code st) (Message st)) else None)))"

fun list_GetStatus :: "ObjectList \<Rightarrow> Status" where
  "list_GetStatus (OInterfaceList l) = il_Status l"
| "list_GetStatus (OPortList l) = pl_Status l"

definition RenderList :: "DefaultPrintRender \<Rightarrow> string \<Rightarrow> 's writer \<Rightarrow> ObjectList \<Rightarrow> ('s, Status option) state" where
  "RenderList p info W l =
     (let st = list_GetStatus l; info' = (if Code st \<noteq> 0 then server_error st else info) in
      case GetRenderer (RendererFactory p) (choose_renderer p st) of
        Inl err \<Rightarrow> ret (Some (NewErrorStatus CLIENT_ERROR (''error creating renderer: '' @ error_text err)))
      | Inr r \<Rightarrow>
          on_fail (Render r W info' (Lst l))
            (\<lambda>err. ret (Some (NewErrorStatus CLIENT_ERROR (''error rendering list: '' @ error_text err))))
            (ret (if Code st \<noteq> 0 then Some (NewErrorStatus (Code st) (Message st)) else None)))"

definition print_status :: "string \<Rightarrow> Status option \<Rightarrow> goerror option" where
  "print_status what status = (case status of
      Some st \<Rightarrow> if Code st \<noteq> 0 then Some (Errorf (what @ Message st)) else None
    | None \<Rightarrow> None)"

fun Print :: "DefaultPrintRender \<Rightarrow> string \<Rightarrow> 's writer \<Rightarrow> printable \<Rightarrow> ('s, goerror option) state" where
  "Print d info W (Obj v) = State_Monad.bind (RenderObject d info W v) (\<lambda>status. ret (print_status ''error rendering object: '' status))"
| "Print d info W (Lst v) = State_Monad.bind (RenderList d info W v) (\<lambda>status. ret (print_status ''error rendering list: '' status))"

section \<open>What is printed\<close>

lemma default_renderers:
  "registerDefaultRenderers NewRendererFactory = Inr (Map.empty(''basic'' \<mapsto> BasicRenderer, ''table'' \<mapsto> TableRenderer))"
  by (simp add: registerDefaultRenderers_def RegisterRenderer_def NewRendererFactory_def)

definition default_printer :: "string \<Rightarrow> DefaultPrintRender" where
  "default_printer t = \<lparr>RendererType = t, RendererFactory = Map.empty(''basic'' \<mapsto> BasicRenderer, ''table'' \<mapsto> TableRenderer)\<rparr>"

lemma NewDefaultPrintRender_eq: "NewDefaultPrintRender t = Returned (default_printer t)"
  by (simp add: NewDefaultPrintRender_def default_renderers default_printer_def)

lemma default_renderer:
  assumes "t \<in> {''basic'', ''table''}"
  shows "\<exists>r. GetRenderer (RendererFactory (default_printer t)) (choose_renderer (default_printer t) st) = Inr r"
  using assms by (auto simp: GetRenderer_def choose_renderer_def default_printer_def)

fun status_of :: "printable \<Rightarrow> Status" where
  "status_of (Obj v) = GetStatus v"
| "status_of (Lst v) = list_GetStatus v"

text \<open>A writer that never fails.\<close>

definition writes :: "'s writer \<Rightarrow> bool" where
  "writes W \<longleftrightarrow> (\<forall>x s. fst (run (Fprint W x) s) = None)"

lemma writes_Fprintln: "writes W \<Longrightarrow> \<exists>s'. run (Fprintln W x) s = (None, s')"
  unfolding writes_def Fprintln_def by (metis prod.collapse)

lemma writes_info: "writes W \<Longrightarrow> \<exists>s'. run (print_info W info) s = (None, s')"
  using writes_Fprintln [of W info s] by (simp add: print_info_def)

lemma writes_objects: "writes W \<Longrightarrow> \<exists>s'. run (render_objects W objs) s = (None, s')"
proof (induction objs arbitrary: s)
  case (Cons o' objs)
  obtain s1 where "run (renderObject W o') s = (None, s1)" 
    using writes_Fprintln [OF Cons.prems, of "Join [object_line o'] '' ''" s] by (auto simp: renderObject_def)
  then show ?case using Cons.IH [OF Cons.prems, of s1] by simp
qed simp

lemma writes_Render: "writes W \<Longrightarrow> \<exists>s'. run (Render r W info v) s = (None, s')"
proof -
  assume w: "writes W"
  obtain s1 where "run (print_info W info) s = (None, s1)" using writes_info [OF w] by blast
  then show ?thesis using writes_objects [OF w, of "objects_of v" s1]
    by (cases r) (auto simp: basic_Render_def table_Render_def split: prod.split)
qed

lemma Print_error:
  assumes "t \<in> {''basic'', ''table''}" and "Code (status_of v) \<noteq> 0"
  shows "fst (run (Print (default_printer t) info W v) s) \<noteq> None"
proof -
  obtain r where r: "GetRenderer (RendererFactory (default_printer t)) (choose_renderer (default_printer t) (status_of v)) = Inr r"
    using default_renderer [OF assms(1)] by blast
  have "CLIENT_ERROR \<noteq> 0" by (simp add: CLIENT_ERROR_def)
  then show ?thesis using assms(2) r
    by (cases v) (simp_all add: RenderObject_def RenderList_def print_status_def NewErrorStatus_def Let_def split: prod.split option.split)
qed

lemma Print_ok:
  assumes "t \<in> {''basic'', ''table''}" and "Code (status_of v) = 0" and w: "writes W"
  shows "fst (run (Print (default_printer t) info W v) s) = None"
proof -
  obtain r where r: "GetRenderer (RendererFactory (default_printer t)) (choose_renderer (default_printer t) (status_of v)) = Inr r"
    using default_renderer [OF assms(1)] by blast
  obtain s' where "run (Render r W info v) s = (None, s')" using writes_Render [OF w] by blast
  then show ?thesis using r assms(2) by (cases v) (simp_all add: RenderObject_def RenderList_def print_status_def Let_def)
qed

text \<open>The printer of the command line reports what the server reported: for an object or a list whose status is
  an error it returns an error whatever happens, and where the output can be written it returns an error in no other case.
  Building the printer never panics.\<close>

lemma Print_reports_status:
  assumes "t \<in> {''basic'', ''table''}"
  shows "\<exists>p. NewDefaultPrintRender t = Returned p \<and>
    (Code (status_of v) \<noteq> 0 \<longrightarrow> fst (run (Print p info W v) s) \<noteq> None) \<and>
    (writes W \<longrightarrow> (fst (run (Print p info W v) s) = None) = (Code (status_of v) = 0))"
  using NewDefaultPrintRender_eq [of t] Print_error [OF assms, of v info W s] Print_ok [OF assms, of v W info s]
  by (cases "Code (status_of v) = 0") auto

text \<open>A terminal in memory, with the insertion sort that \<open>sort.Slice\<close> uses on short lists.\<close>

fun ins :: "('a \<Rightarrow> 'a \<Rightarrow> bool) \<Rightarrow> 'a \<Rightarrow> 'a list \<Rightarrow> 'a list" where
  "ins lt x [] = [x]"
| "ins lt x (y # ys) = (if lt y x then y # ins lt x ys else x # y # ys)"

definition ins_sort :: "('a \<Rightarrow> 'a \<Rightarrow> bool) \<Rightarrow> 'a list \<Rightarrow> 'a list" where
  "ins_sort lt xs = foldr (ins lt) xs []"

definition mem_writer :: "string list writer" where
  "mem_writer = \<lparr>Fprint = (\<lambda>x. State (\<lambda>out. (None, out @ [x]))), tw_Render = (\<lambda>d. State (\<lambda>out. ((), out @ Headers d))), sort_Slice = ins_sort\<rparr>"

lemma mset_ins [simp]: "mset (ins lt x ys) = add_mset x (mset ys)"
  by (induction ys) simp_all

lemma set_ins [simp]: "set (ins lt x ys) = insert x (set ys)"
  by (induction ys) auto

lemma sorted_ins: "sorted (map key ys) \<Longrightarrow> sorted (map key (ins (\<lambda>x y. key x < (key y :: int)) x ys))"
  by (induction ys) auto

lemma sorts_ins_sort: "sorts ins_sort"
proof -
  have "mset (ins_sort lt xs) = mset xs" for lt and xs :: "Interface list" by (induction xs) (simp_all add: ins_sort_def)
  moreover have "sorted (map key (ins_sort (\<lambda>x y. key x < key y) xs))" for key :: "Interface \<Rightarrow> int" and xs
    by (induction xs) (simp_all add: ins_sort_def sorted_ins)
  ultimately show ?thesis by (simp add: sorts_def)
qed

lemma native_number_native_name: "int64 n \<Longrightarrow> NativeName i = native_name n \<Longrightarrow> native_number i = n"
  by (simp add: native_number_def native_name_def TrimPrefix_append del: append.simps)

text \<open>Property C38. For ports with the native names \<open>Ethernet\<close>$n$, each once, the table of the interfaces is that of the ports
  ordered by $n$, as a number and not as a text, whichever sorting algorithm is used and in whatever order the server listed
  them.\<close>

theorem interface_table_sorted:
  assumes "sorts (sort_Slice W)" and "distinct (map NativeName ifaces)"
    and "\<And>i. i \<in> set ifaces \<Longrightarrow> \<exists>n. int64 n \<and> NativeName i = native_name n"
  shows "Rows (interfaceToTable W ifaces) = map interface_row (sort_key native_number ifaces)"
proof -
  have "inj_on native_number (set ifaces)"
  proof (rule inj_onI)
    fix x y assume "x \<in> set ifaces" "y \<in> set ifaces" "native_number x = native_number y"
    then have "NativeName x = NativeName y" using assms(3) native_number_native_name by metis
    then show "x = y" using assms(2) \<open>x \<in> set ifaces\<close> \<open>y \<in> set ifaces\<close> by (metis distinct_map inj_onD)
  qed
  then have "sort_key native_number ifaces = sort_Slice W (\<lambda>x y. native_number x < native_number y) ifaces"
    by (intro sort_key_inj_key_eq) (use assms(1) in \<open>simp_all add: sorts_def\<close>)
  then show ?thesis by (simp add: interfaceToTable_def)
qed

text \<open>The property at ports listed in the order of their texts.\<close>

definition demo_ports :: "Interface list" where
  "demo_ports = map (\<lambda>n. zero_Interface\<lparr>NativeName := native_name n\<rparr>) [0, 12, 4]"

theorem interface_table_sorted_witness:
  "Rows (interfaceToTable mem_writer demo_ports) = map interface_row (sort_key native_number demo_ports)"
proof (rule interface_table_sorted)
  show "sorts (sort_Slice mem_writer)" by (simp add: mem_writer_def sorts_ins_sort)
  show "distinct (map NativeName demo_ports)" by code_simp
  show "\<exists>n. int64 n \<and> NativeName i = native_name n" if "i \<in> set demo_ports" for i
    using that by (auto simp: demo_ports_def int64_def)
qed

end
