(* ===== verification/Cli_Commands.thy ===== *)
theory Cli_Commands
  imports Print_Render Interface_EndToEnd
begin

text \<open>
  The commands of \<open>agent_cli\<close> (\<open>internal/agent/agent_client/commands\<close>): each asks the agent through
  the client and prints what it gets, or returns an error. A command here
  is the function that runs once the command line is read; \<open>Cli_Tree\<close> puts the commands into their tree. The
  same writer stands for the standard output throughout.

  The lemmas follow a command to the switch and back: an error of the agent is an error of the
  command, \<open>set interface-status\<close> does to the database what it says, and \<open>get interface\<close> dereferences
  a nil pointer exactly when the name starts with neither of the two prefixes it looks for.
\<close>

section \<open>Commands\<close>

definition default_address :: "string \<Rightarrow> string" where
  "default_address grpcPort = ''localhost:'' @ (if grpcPort = [] then ''50051'' else grpcPort)"

text \<open>Printing through a pointer: the methods of the printer dereference it.\<close>

definition print_ptr :: "DefaultPrintRender \<Rightarrow> string \<Rightarrow> 's writer \<Rightarrow> printable option \<Rightarrow> ('s, goerror option outcome) state" where
  "print_ptr p info W v = (case v of
      None \<Rightarrow> ret Panicked
    | Some x \<Rightarrow> State_Monad.bind (Print p info W x) (\<lambda>err. ret (Returned err)))"

text \<open>Continue after a call of the client that returns a pointer and an error.\<close>

definition on_ptr :: "('s, 'a ptr_err) state \<Rightarrow> (goerror \<Rightarrow> ('s, goerror option outcome) state) \<Rightarrow>
    ('a option \<Rightarrow> ('s, goerror option outcome) state) \<Rightarrow> ('s, goerror option outcome) state" where
  "on_ptr m h k = State_Monad.bind m (\<lambda>o'. case o' of
      Panicked \<Rightarrow> ret Panicked
    | Returned (_, Some err) \<Rightarrow> h err
    | Returned (p, None) \<Rightarrow> k p)"

abbreviation cmd_error :: "goerror \<Rightarrow> ('s, goerror option outcome) state" where
  "cmd_error err \<equiv> ret (Returned (Some err))"

definition RunGetDeviceInfo :: "('k, 's) rpc \<Rightarrow> SwitchAgentClient \<Rightarrow> DefaultPrintRender \<Rightarrow> 's writer \<Rightarrow> ('s, goerror option outcome) state" where
  "RunGetDeviceInfo N c p W =
     on_err (cli_GetDeviceInfo N c) (\<lambda>err. cmd_error (Errorf (''failed to get device info: '' @ error_text err)))
       (\<lambda>device. print_ptr p ''Device Info'' W (Some (Obj (ODevice device))))"

definition RunListInterfaces :: "('k, 's) rpc \<Rightarrow> SwitchAgentClient \<Rightarrow> DefaultPrintRender \<Rightarrow> 's writer \<Rightarrow> ('s, goerror option outcome) state" where
  "RunListInterfaces N c p W =
     on_err (cli_ListInterfaces N c) (\<lambda>err. cmd_error (Errorf (''failed to list interfaces: '' @ error_text err)))
       (\<lambda>interfaces. print_ptr p ''Interfaces'' W (Some (Lst (OInterfaceList interfaces))))"

definition RunListPorts :: "('k, 's) rpc \<Rightarrow> SwitchAgentClient \<Rightarrow> DefaultPrintRender \<Rightarrow> 's writer \<Rightarrow> ('s, goerror option outcome) state" where
  "RunListPorts N c p W =
     on_err (cli_ListPorts N c) (\<lambda>err. cmd_error (Errorf (''failed to list ports: '' @ error_text err)))
       (\<lambda>ports. print_ptr p ''Ports'' W (Some (Lst (OPortList ports))))"

text \<open>A name with neither prefix leaves the pointer nil and the error nil.\<close>

definition RunGetInterface :: "('k, 's) rpc \<Rightarrow> SwitchAgentClient \<Rightarrow> DefaultPrintRender \<Rightarrow> 's writer \<Rightarrow> string \<Rightarrow> ('s, goerror option outcome) state" where
  "RunGetInterface N c p W interfaceName =
     (let get = (\<lambda>name. cli_GetInterfaceByAbstractName N c (zero_Interface\<lparr>i_Kind := InterfaceKind, i_Name := name\<rparr>));
          show = (\<lambda>m. on_ptr m (\<lambda>err. cmd_error (Errorf (''failed to get interface info: '' @ error_text err)))
            (\<lambda>iface. print_ptr p ''Interface Info'' W (map_option (\<lambda>i. Obj (OInterface i)) iface)))
      in if HasPrefix interfaceName ''Ethernet''
         then (case NativeNameToAbstractName interfaceName of
             Inl err \<Rightarrow> cmd_error (Errorf (''failed to convert native name to abstract name: '' @ error_text err))
           | Inr abstractName \<Rightarrow> show (get abstractName))
         else if HasPrefix interfaceName ''eth'' then show (get interfaceName)
         else show (ret (Returned (None, None))))"

definition RunGetInterfaceNeighbors :: "('k, 's) rpc \<Rightarrow> SwitchAgentClient \<Rightarrow> DefaultPrintRender \<Rightarrow> 's writer \<Rightarrow> string \<Rightarrow> ('s, goerror option outcome) state" where
  "RunGetInterfaceNeighbors N c p W interfaceName =
     (let show = (\<lambda>abstractName. on_ptr (cli_GetInterfaceNeighbor N c (zero_Interface\<lparr>i_Kind := InterfaceKind, i_Name := abstractName\<rparr>))
            (\<lambda>err. cmd_error (Errorf (''failed to get interface neighbor info: '' @ error_text err)))
            (\<lambda>nb. print_ptr p ''Interface Neighbor Info'' W (map_option (\<lambda>n. Obj (ONeighbor n)) nb)))
      in if HasPrefix interfaceName ''Ethernet''
         then (case NativeNameToAbstractName interfaceName of
             Inl err \<Rightarrow> cmd_error (Errorf (''failed to convert native name to abstract name: '' @ error_text err))
           | Inr abstractName \<Rightarrow> show abstractName)
         else if HasPrefix interfaceName ''eth'' then show interfaceName
         else cmd_error (Errorf (''invalid interface name: '' @ interfaceName @ ''. Must start with '' @ [CHR 39] @ ''Ethernet'' @ [CHR 39]
                @ '' or '' @ [CHR 39] @ ''eth'' @ [CHR 39])))"

record SetInterfaceStatusOptions =
  opt_InterfaceName :: string
  opt_AdminStatus :: string

definition RunSetInterfaceStatus :: "('k, 's) rpc \<Rightarrow> SwitchAgentClient \<Rightarrow> DefaultPrintRender \<Rightarrow> 's writer \<Rightarrow> SetInterfaceStatusOptions \<Rightarrow> ('s, goerror option outcome) state" where
  "RunSetInterfaceStatus N c p W opts = (case ValidateDeviceStatusStr (opt_AdminStatus opts) of
      (_, Some err) \<Rightarrow> cmd_error err
    | (adminStatus, None) \<Rightarrow>
        State_Monad.bind (Fprint W (''Setting interface admin status to: '' @ adminStatus @ '' for interface: '' @ opt_InterfaceName opts @ [CHR 0x0A]))
          (\<lambda>_. on_ptr (cli_SetInterfaceAdminStatus N c (zero_Interface\<lparr>i_Kind := InterfaceKind, i_Name := opt_InterfaceName opts, AdminStatus := adminStatus\<rparr>))
            (\<lambda>err. cmd_error (ErrorfW (''failed to set interface admin status: '' @ error_text err) err))
            (\<lambda>iface. print_ptr p ''Interface admin status updated successfully'' W (map_option (\<lambda>i. Obj (OInterface i)) iface))))"

definition RunSaveConfig :: "('k, 's) rpc \<Rightarrow> SwitchAgentClient \<Rightarrow> 's writer \<Rightarrow> ('s, goerror option outcome) state" where
  "RunSaveConfig N c W = State_Monad.bind (cli_SaveConfig N c) (\<lambda>o'. case o' of
      Panicked \<Rightarrow> ret Panicked
    | Returned (Some err) \<Rightarrow> cmd_error (ErrorfW (''failed to save config: '' @ error_text err) err)
    | Returned None \<Rightarrow> State_Monad.bind (Fprintln W ''Config saved successfully'') (\<lambda>err. ret (Returned err)))"

section \<open>Errors\<close>

lemma run_print_ptr_Some:
  "run (print_ptr p info W (Some x)) s = (case run (Print p info W x) s of (err, s') \<Rightarrow> (Returned err, s'))"
  by (simp add: print_ptr_def)

abbreviation cli_printer :: DefaultPrintRender where
  "cli_printer \<equiv> default_printer ''table''"

lemma print_ptr_error:
  "Code (status_of x) \<noteq> 0 \<Longrightarrow> \<exists>err. fst (run (print_ptr cli_printer info W (Some x)) s) = Returned (Some err)"
  using Print_error [of "''table''" x info W s] by (auto simp: run_print_ptr_Some split: prod.splits)

lemma print_ptr_no_panic: "fst (run (print_ptr p info W v) s) = Panicked \<longleftrightarrow> v = None"
  by (auto simp: print_ptr_def split: option.split prod.splits)

context switch_agent
begin

lemma device_info_error:
  assumes "run (ag_GetDeviceInfo A) s = (Inl st, s1)"
  shows "\<exists>err. fst (run (RunGetDeviceInfo (loopback A) c cli_printer W) s) = Returned (Some err)"
proof -
  obtain d where d: "run (cli_GetDeviceInfo (loopback A) c) s = (Inr d, s1)" and "d_Status d = \<lparr>Code = Code st, Message = Message st\<rparr>"
    using assms by (simp add: cli_GetDeviceInfo_def loopback_conn srv_GetDeviceInfo_def failed_def ProtoStatusToStatus_def)
  then have "Code (status_of (Obj (ODevice d))) \<noteq> 0" using codedD [OF device_coded assms] by simp
  from print_ptr_error [OF this] show ?thesis using d by (simp add: RunGetDeviceInfo_def)
qed

lemma list_interfaces_error:
  assumes "run (ag_ListInterfaces A) s = (Inl st, s1)"
  shows "\<exists>err. fst (run (RunListInterfaces (loopback A) c cli_printer W) s) = Returned (Some err)"
proof -
  obtain l where l: "run (cli_ListInterfaces (loopback A) c) s = (Inr l, s1)" and "Code (il_Status l) = Code st"
    using assms by (simp add: cli_ListInterfaces_def loopback_conn srv_ListInterfaces_def failed_def ProtoStatusToStatus_def)
  then have "Code (status_of (Lst (OInterfaceList l))) \<noteq> 0" using codedD [OF interfaces_coded assms] by simp
  from print_ptr_error [OF this] show ?thesis using l by (simp add: RunListInterfaces_def)
qed

lemma list_ports_error:
  assumes "run (ag_ListPorts A) s = (Inl st, s1)"
  shows "\<exists>err. fst (run (RunListPorts (loopback A) c cli_printer W) s) = Returned (Some err)"
proof -
  obtain l where l: "run (cli_ListPorts (loopback A) c) s = (Inr l, s1)" and "Code (pl_Status l) = Code st"
    using assms by (simp add: cli_ListPorts_def loopback_conn srv_ListPorts_def failed_def ProtoStatusToStatus_def)
  then have "Code (status_of (Lst (OPortList l))) \<noteq> 0" using codedD [OF ports_coded assms] by simp
  from print_ptr_error [OF this] show ?thesis using l by (simp add: RunListPorts_def)
qed

lemma on_ptr_panic:
  "(\<And>err s. fst (run (h err) s) \<noteq> Panicked) \<Longrightarrow> fst (run m s) \<noteq> Panicked \<Longrightarrow>
   fst (run (on_ptr m h k) s) = Panicked \<longleftrightarrow> (\<exists>p s'. run m s = (Returned (p, None), s') \<and> fst (run (k p) s') = Panicked)"
  by (auto simp: on_ptr_def split: prod.splits outcome.splits option.splits)

lemma get_interface_some:
  "run (cli_GetInterfaceByAbstractName (loopback A) c iface) s = (Returned (p, None), s') \<Longrightarrow> p \<noteq> None"
  by (auto simp: cli_defs loopback_conn split: sum.splits option.splits if_splits prod.splits)

lemma get_interface_panics:
  "fst (run (RunGetInterface (loopback A) c p W name) s) = Panicked \<longleftrightarrow> \<not> HasPrefix name ''Ethernet'' \<and> \<not> HasPrefix name ''eth''"
proof -
  let ?m = "\<lambda>x. cli_GetInterfaceByAbstractName (loopback A) c (zero_Interface\<lparr>i_Kind := InterfaceKind, i_Name := x\<rparr>)"
  let ?h = "\<lambda>err. cmd_error (Errorf (''failed to get interface info: '' @ error_text err)) :: ('a, goerror option outcome) state"
  let ?k = "\<lambda>i. print_ptr p ''Interface Info'' W (map_option (\<lambda>i. Obj (OInterface i)) i)"
  have q: "fst (run (on_ptr (?m x) ?h ?k) s) \<noteq> Panicked" for x
    using on_ptr_panic [of ?h "?m x" s ?k] client_no_panic(3) get_interface_some print_ptr_no_panic by fastforce
  have n: "fst (run (on_ptr (ret (Returned (None, None))) ?h ?k) s) = Panicked"
    by (simp add: on_ptr_def print_ptr_def)
  show ?thesis unfolding RunGetInterface_def Let_def using q n by (auto split: sum.split)
qed

end

text \<open>An error of the SONiC agent while it reads the device, the interfaces or the ports is an error of the command that
  asked: although the client hides it, the status of the empty result reaches the printer.\<close>

lemma commands_report_agent_errors:
  assumes "run (GetDeviceInfo R H) s = (Inl st1, s1)" "run (ListInterfaces R H) s = (Inl st2, s2)" "run (ListPorts R) s = (Inl st3, s3)"
  shows "(\<exists>err. fst (run (RunGetDeviceInfo (loopback (sonic_agent R H)) c cli_printer W) s) = Returned (Some err)) \<and>
    (\<exists>err. fst (run (RunListInterfaces (loopback (sonic_agent R H)) c cli_printer W) s) = Returned (Some err)) \<and>
    (\<exists>err. fst (run (RunListPorts (loopback (sonic_agent R H)) c cli_printer W) s) = Returned (Some err))"
  using sonic.device_info_error [of R H s st1 s1] sonic.list_interfaces_error [of R H s st2 s2] sonic.list_ports_error [of R H s st3 s3] assms
  by (simp add: sonic_agent_def)

text \<open>Standard output that is not looked at.\<close>

definition null_writer :: "'s writer" where
  "null_writer = \<lparr>Fprint = (\<lambda>_. ret None), tw_Render = (\<lambda>_. ret ()), sort_Slice = ins_sort\<rparr>"

section \<open>Setting a status\<close>

text \<open>Writing to standard output does not touch the switch.\<close>

definition out_contract :: "('c SonicAgent \<times> 'w) writer \<Rightarrow> ('c, 'w) store_view \<Rightarrow> bool" where
  "out_contract W V \<longleftrightarrow> (\<forall>cfg x d. keeps (has_config V cfg) (Fprint W x) \<and> keeps (has_config V cfg) (tw_Render W d))"

lemma keeps_out:
  assumes "out_contract W V"
  shows "keeps (has_config V cfg) (Fprint W x)" "keeps (has_config V cfg) (tw_Render W d)"
  using assms by (simp_all add: out_contract_def)

lemma keeps_render_objects: "out_contract W V \<Longrightarrow> keeps (has_config V cfg) (render_objects W objs)"
  by (induction objs) (auto simp: renderObject_def Fprintln_def intro!: keeps_rules keeps_out)

lemma keeps_Render: "out_contract W V \<Longrightarrow> keeps (has_config V cfg) (Render r W info v)"
  by (cases r) (auto simp: basic_Render_def table_Render_def print_info_def Fprintln_def intro!: keeps_rules keeps_out keeps_render_objects)

lemma keeps_Print: "out_contract W V \<Longrightarrow> keeps (has_config V cfg) (Print p info W v)"
  by (cases v) (auto simp: RenderObject_def RenderList_def Let_def intro!: keeps_rules keeps_Render split: sum.split)

lemma keeps_print_ptr: "out_contract W V \<Longrightarrow> keeps (has_config V cfg) (print_ptr p info W v)"
  by (auto simp: print_ptr_def intro!: keeps_rules keeps_Print split: option.split)

lemma valid_on_ptr:
  assumes m: "valid P m (\<lambda>o' s. \<forall>p. o' = Returned (p, None) \<longrightarrow> B s)" and h: "\<And>err. valid (\<lambda>_. True) (h err) Q"
    and k: "\<And>p. valid B (k p) Q" and "\<And>s. Q Panicked s"
  shows "valid P (on_ptr m h k) Q"
  unfolding on_ptr_def
proof (rule valid_bind [OF m])
  fix o' :: "'b ptr_err"
  show "valid (\<lambda>s. \<forall>p. o' = Returned (p, None) \<longrightarrow> B s)
      (case o' of Returned (p, None) \<Rightarrow> k p | Returned (p, Some err) \<Rightarrow> h err | Panicked \<Rightarrow> ret Panicked) Q"
  proof (cases o')
    case (Returned r)
    obtain p e where r: "r = (p, e)" by fastforce
    show ?thesis
    proof (cases e)
      case None
      then show ?thesis using Returned r k [of p] by simp
    next
      case (Some err)
      then show ?thesis using Returned r h [of err] by (simp add: valid_def)
    qed
  qed (simp add: valid_def assms(4))
qed

lemma set_status_valid:
  assumes c: "redis_contract R V" and h: "host_contract H V" and w: "out_contract W V"
  shows "valid (has_config V cfg) (RunSetInterfaceStatus (loopback (sonic_agent R H)) cl p W opts)
    (\<lambda>o' s. o' = Returned None \<longrightarrow> opt_AdminStatus opts \<in> {''up'', ''down''} \<and>
       (\<exists>n. iface_name (Some (zero_Interface\<lparr>i_Kind := InterfaceKind, i_Name := opt_InterfaceName opts, AdminStatus := opt_AdminStatus opts\<rparr>)) = Inr n \<and>
         has_config V (put_field (''PORT|'' @ n) ''admin_status'' (opt_AdminStatus opts) cfg) s))" (is "valid _ _ ?Q")
proof (cases "opt_AdminStatus opts \<in> {''up'', ''down''}")
  case False
  then show ?thesis by (auto simp: RunSetInterfaceStatus_def ValidateDeviceStatusStr_def valid_def)
next
  case True
  let ?i = "zero_Interface\<lparr>i_Kind := InterfaceKind, i_Name := opt_InterfaceName opts, AdminStatus := opt_AdminStatus opts\<rparr>"
  let ?B = "\<lambda>o' s. \<forall>p. o' = Returned (p, None) \<longrightarrow> (\<exists>n. iface_name (Some ?i) = Inr n \<and>
      has_config V (put_field (''PORT|'' @ n) ''admin_status'' (opt_AdminStatus opts) cfg) s)"
  have set: "valid (has_config V cfg) (cli_SetInterfaceAdminStatus (loopback (sonic_agent R H)) cl ?i) ?B"
    by (rule valid_conseq [OF valid_client_admin [OF c h]]) simp_all
  have pr: "valid (has_config V cfg') (print_ptr p info W v) (\<lambda>_. has_config V cfg')" for cfg' info v
    using keeps_print_ptr [OF w] by (simp add: keeps_def)
  have k: "valid (\<lambda>s. \<exists>n. iface_name (Some ?i) = Inr n \<and> has_config V (put_field (''PORT|'' @ n) ''admin_status'' (opt_AdminStatus opts) cfg) s)
      (print_ptr p info W v) ?Q" for info v
    using pr True unfolding valid_def by blast
  have v: "ValidateDeviceStatusStr (opt_AdminStatus opts) = (opt_AdminStatus opts, None)" using True by (auto simp: ValidateDeviceStatusStr_def)
  show ?thesis
    unfolding RunSetInterfaceStatus_def v prod.case option.case
  proof (rule valid_bind [OF keeps_out(1) [OF w, unfolded keeps_def]], rule valid_on_ptr [OF set])
    show "valid (\<lambda>_. True) (cmd_error err) ?Q" for err by (simp add: valid_def)
  qed (rule k, simp)
qed

text \<open>The command at a port that is down and is to be up.\<close>

lemma demo_set_status:
  "\<exists>a' w'. run (RunSetInterfaceStatus (loopback (sonic_agent mem_redis (mem_host True))) c cli_printer null_writer
       \<lparr>opt_InterfaceName = ''Ethernet0'', opt_AdminStatus = ''up''\<rparr>)
       (\<lparr>redisAddr = ''h:1'', clientPool = []\<rparr>, [((4, ''PORT|Ethernet0''), [(''alias'', ''eth0-0''), (''admin_status'', ''down'')])])
     = (Returned None, (a', w'))"
  by (simp add: RunSetInterfaceStatus_def ValidateDeviceStatusStr_def on_ptr_def null_writer_def print_ptr_def default_printer_def
      RenderObject_def GetRenderer_def choose_renderer_def table_Render_def print_info_def Fprintln_def print_status_def
      cli_defs loopback_conn srv_SetInterfaceAdminStatus_def sonic_agent_def SetInterfaceAdminStatus_def admin_read_back_def
      name_or_def iface_name_def connect_or_def Connect_def connect_locked_def connect_new_def getRedisDBIDByName_def
      SaveConfig_def mem_redis_def mem_host_def mem_hash_def success_def get_pb_def ProtoStatusToStatus_def
      zero_Interface_def zero_pb_Interface_def Let_def)

lemma null_writer_contract: "out_contract null_writer V"
  by (simp add: out_contract_def null_writer_def keeps_ret)

end
