(* ===== verification/Cli_Tree.thy ===== *)
theory Cli_Tree
  imports Cli_Commands
begin

text \<open>
  The program \<open>agent_cli\<close>: the tree of its commands (\<open>get.go\<close>, \<open>list.go\<close>, \<open>set.go\<close>, \<open>gnoi.go\<close>, \<open>root.go\<close> and the constructors of
  the commands), its flags, the client that all commands share, and \<open>main\<close>. The package cobra, which reads the command line, is a
  parameter \<open>Execute\<close>; \<open>cobra_contract\<close> is what its documentation promises for lines of plain words, optionally after a flag.

  The specification is \<open>invocation_of\<close>, which reads a line as one of seven requests or none. The tree implements it, and with
  the properties of the commands this gives those of the whole program.
\<close>

section \<open>Commands of cobra\<close>

text \<open>The variables of the package, and the state of a command: the variables and the world.\<close>

record cli_vars =
  switchAgentClient :: "SwitchAgentClient option"
  address :: string
  connectTimeout :: int

type_synonym ('s, 'a) cliM = "(cli_vars \<times> 's, 'a) state"
type_synonym 's run_fn = "string list \<Rightarrow> ('s, goerror option outcome) cliM"

datatype arg_check = NoArgs | ExactArgs nat

text \<open>A flag sets the variable it is bound to.\<close>

datatype flag = StringVar string "string \<Rightarrow> cli_vars \<Rightarrow> cli_vars" | DurationVar string "int \<Rightarrow> cli_vars \<Rightarrow> cli_vars"

record 's cmd_fields =
  Use :: string
  Short :: string
  Example :: string
  Args :: arg_check
  SilenceUsage :: bool
  SilenceErrors :: bool
  RunE :: "'s run_fn"
  PersistentPreRunE :: "'s run_fn option"

datatype 's command = Cmd (c_fields: "'s cmd_fields") (flags: "flag list") (commands: "'s command list")

definition new_command :: "string \<Rightarrow> string \<Rightarrow> string \<Rightarrow> arg_check \<Rightarrow> 's run_fn \<Rightarrow> 's command" where
  "new_command use short example check runE = Cmd \<lparr>Use = use, Short = short, Example = example, Args = check,
     SilenceUsage = False, SilenceErrors = False, RunE = runE, PersistentPreRunE = None\<rparr> [] []"

definition AddCommand :: "'s command list \<Rightarrow> 's command \<Rightarrow> 's command" where
  "AddCommand new c = Cmd (c_fields c) (flags c) (commands c @ new)"

section \<open>The tree\<close>

text \<open>Help for a command is printed by cobra.\<close>

definition SubcommandRequired :: "(string \<Rightarrow> ('s, goerror option) state) \<Rightarrow> string \<Rightarrow> 's run_fn" where
  "SubcommandRequired Help use args = on_fail (io (Help use)) (\<lambda>err. ret (Returned (Some err)))
     (ret (Returned (Some (Errorf ''subcommand is required''))))"

text \<open>Continue with the shared client; calling a method of a nil client panics.\<close>

definition GetSharedSwitchAgentClient :: "(SwitchAgentClient \<Rightarrow> ('s, goerror option outcome) state) \<Rightarrow> ('s, goerror option outcome) cliM" where
  "GetSharedSwitchAgentClient k = State_Monad.bind State_Monad.get (\<lambda>(v, _). case switchAgentClient v of
      None \<Rightarrow> ret Panicked
    | Some c \<Rightarrow> io (k c))"

text \<open>An argument by its index; out of range it panics.\<close>

definition arg :: "string list \<Rightarrow> nat \<Rightarrow> (string \<Rightarrow> ('s, goerror option outcome) cliM) \<Rightarrow> ('s, goerror option outcome) cliM" where
  "arg args i k = (if i < length args then k (args ! i) else ret Panicked)"

definition cmd_GetDeviceInfo :: "('k, 's) rpc \<Rightarrow> 's writer \<Rightarrow> DefaultPrintRender \<Rightarrow> 's command" where
  "cmd_GetDeviceInfo N W printer = new_command ''device-info'' ''Get device information'' ''agent_cli get device-info'' NoArgs
     (\<lambda>args. GetSharedSwitchAgentClient (\<lambda>c. RunGetDeviceInfo N c printer W))"

definition cmd_GetInterface :: "('k, 's) rpc \<Rightarrow> 's writer \<Rightarrow> DefaultPrintRender \<Rightarrow> 's command" where
  "cmd_GetInterface N W printer = new_command ''interface'' ''Get interface information'' ''agent_cli get interface <interface-name>'' (ExactArgs 1)
     (\<lambda>args. arg args 0 (\<lambda>name. GetSharedSwitchAgentClient (\<lambda>c. RunGetInterface N c printer W name)))"

definition cmd_GetInterfaceNeighbor :: "('k, 's) rpc \<Rightarrow> 's writer \<Rightarrow> DefaultPrintRender \<Rightarrow> 's command" where
  "cmd_GetInterfaceNeighbor N W printer =
     new_command ''interface-neighbor'' ''Get interface neighbors information'' ''agent_cli get interface-neighbor <interface-name>'' (ExactArgs 1)
     (\<lambda>args. arg args 0 (\<lambda>name. GetSharedSwitchAgentClient (\<lambda>c. RunGetInterfaceNeighbors N c printer W name)))"

definition cmd_ListInterfaces :: "('k, 's) rpc \<Rightarrow> 's writer \<Rightarrow> DefaultPrintRender \<Rightarrow> 's command" where
  "cmd_ListInterfaces N W printer = new_command ''interfaces'' ''List interfaces'' ''agent_cli list interfaces'' NoArgs
     (\<lambda>args. GetSharedSwitchAgentClient (\<lambda>c. RunListInterfaces N c printer W))"

definition cmd_ListPorts :: "('k, 's) rpc \<Rightarrow> 's writer \<Rightarrow> DefaultPrintRender \<Rightarrow> 's command" where
  "cmd_ListPorts N W printer = new_command ''ports'' ''List ports'' ''agent_cli list ports'' NoArgs
     (\<lambda>args. GetSharedSwitchAgentClient (\<lambda>c. RunListPorts N c printer W))"

definition cmd_SetInterfaceStatus :: "('k, 's) rpc \<Rightarrow> 's writer \<Rightarrow> DefaultPrintRender \<Rightarrow> 's command" where
  "cmd_SetInterfaceStatus N W printer =
     new_command ''interface-status'' ''Set interface status'' ''agent_cli set interface-status <interface-name> up/down'' (ExactArgs 2)
     (\<lambda>args. arg args 0 (\<lambda>name. arg args 1 (\<lambda>status. GetSharedSwitchAgentClient (\<lambda>c.
        RunSetInterfaceStatus N c printer W \<lparr>opt_InterfaceName = name, opt_AdminStatus = status\<rparr>))))"

definition cmd_SaveConfig :: "('k, 's) rpc \<Rightarrow> 's writer \<Rightarrow> 's command" where
  "cmd_SaveConfig N W = new_command ''save-config'' ''Save the current configuration'' ''agent_cli gnoi save-config'' NoArgs
     (\<lambda>args. GetSharedSwitchAgentClient (\<lambda>c. RunSaveConfig N c W))"

text \<open>The inner commands. Making a printer may panic.\<close>

definition with_printer :: "(DefaultPrintRender \<Rightarrow> 'a) \<Rightarrow> 'a outcome" where
  "with_printer k = (case NewDefaultPrintRender ''table'' of Panicked \<Rightarrow> Panicked | Returned p \<Rightarrow> Returned (k p))"

definition group_command :: "(string \<Rightarrow> ('s, goerror option) state) \<Rightarrow> string \<Rightarrow> 's command list \<Rightarrow> 's command" where
  "group_command Help use subcommands = AddCommand subcommands (new_command use [] [] NoArgs (SubcommandRequired Help use))"

definition Get :: "('k, 's) rpc \<Rightarrow> 's writer \<Rightarrow> (string \<Rightarrow> ('s, goerror option) state) \<Rightarrow> 's command outcome" where
  "Get N W Help = with_printer (\<lambda>printRenderer. group_command Help ''get [subcommand]''
     [cmd_GetDeviceInfo N W printRenderer, cmd_GetInterface N W printRenderer, cmd_GetInterfaceNeighbor N W printRenderer])"

definition cmd_List :: "('k, 's) rpc \<Rightarrow> 's writer \<Rightarrow> (string \<Rightarrow> ('s, goerror option) state) \<Rightarrow> 's command outcome" where
  "cmd_List N W Help = with_printer (\<lambda>printRenderer. group_command Help ''list [subcommand]''
     [cmd_ListInterfaces N W printRenderer, cmd_ListPorts N W printRenderer])"

definition cmd_Set :: "('k, 's) rpc \<Rightarrow> 's writer \<Rightarrow> (string \<Rightarrow> ('s, goerror option) state) \<Rightarrow> 's command outcome" where
  "cmd_Set N W Help = with_printer (\<lambda>printRenderer. group_command Help ''set [subcommand]'' [cmd_SetInterfaceStatus N W printRenderer])"

definition Gnoi :: "('k, 's) rpc \<Rightarrow> 's writer \<Rightarrow> (string \<Rightarrow> ('s, goerror option) state) \<Rightarrow> 's command" where
  "Gnoi N W Help = group_command Help ''gnoi [subcommand]'' [cmd_SaveConfig N W]"

text \<open>Before any command runs the client is made, for the address and the timeout that the flags have set.\<close>

definition pre_run :: "'s run_fn" where
  "pre_run args = State_Monad.bind State_Monad.get (\<lambda>(v, s).
     State_Monad.bind (State_Monad.set (v\<lparr>switchAgentClient := Some (NewDefaultSwitchAgentClient (address v) (connectTimeout v))\<rparr>, s))
       (\<lambda>_. ret (Returned None)))"

text \<open>\<open>Command\<close> also sets the variables to the defaults of their flags. The port comes from the environment.\<close>

definition Command :: "('k, 's) rpc \<Rightarrow> 's writer \<Rightarrow> (string \<Rightarrow> ('s, goerror option) state) \<Rightarrow> string \<Rightarrow> ('s command \<times> cli_vars) outcome" where
  "Command N W Help grpcPort =
     (case (Get N W Help, cmd_List N W Help, cmd_Set N W Help) of
        (Returned cget, Returned clist, Returned cset) \<Rightarrow>
          Returned (Cmd \<lparr>Use = ''agent_cli [command]'', Short = [], Example = [], Args = NoArgs, SilenceUsage = True, SilenceErrors = True,
              RunE = SubcommandRequired Help ''agent_cli [command]'', PersistentPreRunE = Some pre_run\<rparr>
            [StringVar ''address'' (\<lambda>a v. v\<lparr>address := a\<rparr>), DurationVar ''connect-timeout'' (\<lambda>d v. v\<lparr>connectTimeout := d\<rparr>)]
            [cget, clist, cset, Gnoi N W Help],
          \<lparr>switchAgentClient = None, address = default_address grpcPort, connectTimeout = 4 * 10 ^ 9\<rparr>)
      | _ \<Rightarrow> Panicked)"

text \<open>\<open>main\<close> with its exit code; a panic ends the program with code 2.\<close>

definition agent_cli :: "('s command \<Rightarrow> string list \<Rightarrow> ('s, goerror option outcome) cliM) \<Rightarrow> ('k, 's) rpc \<Rightarrow> 's writer \<Rightarrow>
    (string \<Rightarrow> ('s, goerror option) state) \<Rightarrow> string \<Rightarrow> string list \<Rightarrow> ('s, nat) state" where
  "agent_cli Execute N W Help grpcPort args = (case Command N W Help grpcPort of
      Panicked \<Rightarrow> ret 2
    | Returned (cmd, v) \<Rightarrow> State (\<lambda>s. case run (Execute cmd args) (v, s) of
        (Panicked, (_, s')) \<Rightarrow> (2, s')
      | (Returned (Some err), (_, s')) \<Rightarrow> (1, s')
      | (Returned None, (_, s')) \<Rightarrow> (0, s')))"

text \<open>\<open>AddFlags\<close>, which no command uses: binds flags and marks the required ones, up to the first that cannot be marked.\<close>

record 'f FlagSpec =
  fl_Name :: string
  fl_Usage :: string
  fl_Required :: bool
  fl_BindFunc :: "'f \<Rightarrow> 'f"

fun AddFlags :: "(string \<Rightarrow> 'f \<Rightarrow> 'f \<times> goerror option) \<Rightarrow> 'f FlagSpec list \<Rightarrow> 'f \<Rightarrow> 'f \<times> goerror option" where
  "AddFlags MarkFlagRequired [] fs = (fs, None)"
| "AddFlags MarkFlagRequired (spec # specs) fs =
     (let fs1 = fl_BindFunc spec fs in
      if fl_Required spec
      then (case MarkFlagRequired (fl_Name spec) fs1 of
          (fs2, Some err) \<Rightarrow> (fs2, Some err)
        | (fs2, None) \<Rightarrow> AddFlags MarkFlagRequired specs fs2)
      else AddFlags MarkFlagRequired specs fs1)"

section \<open>What cobra does\<close>

text \<open>A word that is no flag.\<close>

definition plain_word :: "string \<Rightarrow> bool" where
  "plain_word t \<longleftrightarrow> t \<noteq> [] \<and> hd t \<noteq> CHR ''-''"

text \<open>The commands that cobra adds by itself.\<close>

definition builtin :: "string list \<Rightarrow> bool" where
  "builtin ts \<longleftrightarrow> ts \<noteq> [] \<and> ToLower (hd ts) \<in> {''help'', ''completion'', ''__complete'', ''__completenodesc''}"

text \<open>A command is known by the first word of its use. Words are compared without regard to case, which \<open>Command\<close> asks for;
  the names of the commands are ASCII, and \<open>ToLower\<close> folds ASCII letters.\<close>

definition answers_to :: "string \<Rightarrow> 's command \<Rightarrow> bool" where
  "answers_to t c \<longleftrightarrow> ToLower (takeWhile (\<lambda>x. x \<noteq> CHR '' '') (Use (c_fields c))) = ToLower t"

fun args_ok :: "arg_check \<Rightarrow> string list \<Rightarrow> bool" where
  "args_ok NoArgs as = (as = [])"
| "args_ok (ExactArgs n) as = (length as = n)"

text \<open>The deepest command that the words lead to, with the words that are left and the nearest function to run before it.\<close>

fun locate :: "'s run_fn option \<Rightarrow> 's command \<Rightarrow> string list \<Rightarrow> 's run_fn option \<times> 's command \<times> string list" where
  "locate pre c [] = (case PersistentPreRunE (c_fields c) of None \<Rightarrow> pre | Some p \<Rightarrow> Some p, c, [])"
| "locate pre c (t # ts) =
     (let pre' = (case PersistentPreRunE (c_fields c) of None \<Rightarrow> pre | Some p \<Rightarrow> Some p) in
      case find (answers_to t) (commands c) of None \<Rightarrow> (pre', c, t # ts) | Some d \<Rightarrow> locate pre' d ts)"

definition run_located :: "'s run_fn option \<Rightarrow> 's command \<Rightarrow> 's run_fn" where
  "run_located pre c as = State_Monad.bind (case pre of None \<Rightarrow> ret (Returned None) | Some p \<Rightarrow> p as) (\<lambda>r. case r of
      Returned None \<Rightarrow> RunE (c_fields c) as
    | _ \<Rightarrow> ret r)"

definition flag_setter :: "flag list \<Rightarrow> string \<Rightarrow> (string \<Rightarrow> cli_vars \<Rightarrow> cli_vars) option" where
  "flag_setter fs name = (case find (\<lambda>f. case f of StringVar n _ \<Rightarrow> n = name | DurationVar n _ \<Rightarrow> n = name) fs of
      Some (StringVar _ setter) \<Rightarrow> Some setter
    | _ \<Rightarrow> None)"

definition cobra_contract :: "('s command \<Rightarrow> string list \<Rightarrow> ('s, goerror option outcome) cliM) \<Rightarrow> bool" where
  "cobra_contract Execute \<longleftrightarrow>
     (\<forall>root ts s. list_all plain_word ts \<and> \<not> builtin ts \<longrightarrow> (case locate None root ts of (pre, c, as) \<Rightarrow>
        if args_ok (Args (c_fields c)) as then run (Execute root ts) s = run (run_located pre c as) s
        else \<exists>err. run (Execute root ts) s = (Returned (Some err), s))) \<and>
     (\<forall>root name setter a ts v s. flag_setter (flags root) name = Some setter \<and> list_all plain_word (a # ts) \<and> \<not> builtin ts \<longrightarrow>
        run (Execute root ((''--'' @ name) # a # ts)) (v, s) = run (Execute root ts) (setter a v, s))"

section \<open>What a line asks for\<close>

datatype invocation = AskDevice | AskInterface string | AskNeighbor string | AskInterfaces | AskPorts | AskStatus string string | AskSave

fun invocation_of :: "string list \<Rightarrow> invocation option" where
  "invocation_of [a, b] =
     (if ToLower a = ''get'' \<and> ToLower b = ''device-info'' then Some AskDevice
      else if ToLower a = ''list'' \<and> ToLower b = ''interfaces'' then Some AskInterfaces
      else if ToLower a = ''list'' \<and> ToLower b = ''ports'' then Some AskPorts
      else if ToLower a = ''gnoi'' \<and> ToLower b = ''save-config'' then Some AskSave
      else None)"
| "invocation_of [a, b, n] =
     (if ToLower a = ''get'' \<and> ToLower b = ''interface'' then Some (AskInterface n)
      else if ToLower a = ''get'' \<and> ToLower b = ''interface-neighbor'' then Some (AskNeighbor n)
      else None)"
| "invocation_of [a, b, n, st] = (if ToLower a = ''set'' \<and> ToLower b = ''interface-status'' then Some (AskStatus n st) else None)"
| "invocation_of _ = None"

fun perform :: "('k, 's) rpc \<Rightarrow> SwitchAgentClient \<Rightarrow> 's writer \<Rightarrow> invocation \<Rightarrow> ('s, goerror option outcome) state" where
  "perform N c W AskDevice = RunGetDeviceInfo N c cli_printer W"
| "perform N c W (AskInterface n) = RunGetInterface N c cli_printer W n"
| "perform N c W (AskNeighbor n) = RunGetInterfaceNeighbors N c cli_printer W n"
| "perform N c W AskInterfaces = RunListInterfaces N c cli_printer W"
| "perform N c W AskPorts = RunListPorts N c cli_printer W"
| "perform N c W (AskStatus n st) = RunSetInterfaceStatus N c cli_printer W \<lparr>opt_InterfaceName = n, opt_AdminStatus = st\<rparr>"
| "perform N c W AskSave = RunSaveConfig N c W"

definition cli_root :: "('k, 's) rpc \<Rightarrow> 's writer \<Rightarrow> (string \<Rightarrow> ('s, goerror option) state) \<Rightarrow> 's command" where
  "cli_root N W Help = Cmd \<lparr>Use = ''agent_cli [command]'', Short = [], Example = [], Args = NoArgs, SilenceUsage = True, SilenceErrors = True,
       RunE = SubcommandRequired Help ''agent_cli [command]'', PersistentPreRunE = Some pre_run\<rparr>
     [StringVar ''address'' (\<lambda>a v. v\<lparr>address := a\<rparr>), DurationVar ''connect-timeout'' (\<lambda>d v. v\<lparr>connectTimeout := d\<rparr>)]
     [group_command Help ''get [subcommand]'' [cmd_GetDeviceInfo N W cli_printer, cmd_GetInterface N W cli_printer, cmd_GetInterfaceNeighbor N W cli_printer],
      group_command Help ''list [subcommand]'' [cmd_ListInterfaces N W cli_printer, cmd_ListPorts N W cli_printer],
      group_command Help ''set [subcommand]'' [cmd_SetInterfaceStatus N W cli_printer],
      group_command Help ''gnoi [subcommand]'' [cmd_SaveConfig N W]]"

lemma Command_returns:
  "Command N W Help grpcPort = Returned (cli_root N W Help, \<lparr>switchAgentClient = None, address = default_address grpcPort, connectTimeout = 4 * 10 ^ 9\<rparr>)"
  by (simp add: Command_def Get_def cmd_List_def cmd_Set_def Gnoi_def with_printer_def NewDefaultPrintRender_eq cli_root_def)

lemmas cmd_defs = cmd_GetDeviceInfo_def cmd_GetInterface_def cmd_GetInterfaceNeighbor_def cmd_ListInterfaces_def cmd_ListPorts_def
  cmd_SetInterfaceStatus_def cmd_SaveConfig_def new_command_def group_command_def AddCommand_def

lemma lower_words: "ToLower ''get'' = ''get''" "ToLower ''list'' = ''list''" "ToLower ''set'' = ''set''" "ToLower ''gnoi'' = ''gnoi''"
  "ToLower ''device-info'' = ''device-info''" "ToLower ''interface'' = ''interface''" "ToLower ''interface-neighbor'' = ''interface-neighbor''"
  "ToLower ''interfaces'' = ''interfaces''" "ToLower ''ports'' = ''ports''" "ToLower ''interface-status'' = ''interface-status''"
  "ToLower ''save-config'' = ''save-config''"
  by code_simp+

lemma answers_to_simps:
  "answers_to t (group_command Help ''get [subcommand]'' cs) \<longleftrightarrow> ToLower t = ''get''"
  "answers_to t (group_command Help ''list [subcommand]'' cs) \<longleftrightarrow> ToLower t = ''list''"
  "answers_to t (group_command Help ''set [subcommand]'' cs) \<longleftrightarrow> ToLower t = ''set''"
  "answers_to t (group_command Help ''gnoi [subcommand]'' cs) \<longleftrightarrow> ToLower t = ''gnoi''"
  "answers_to t (cmd_GetDeviceInfo N W p) \<longleftrightarrow> ToLower t = ''device-info''"
  "answers_to t (cmd_GetInterface N W p) \<longleftrightarrow> ToLower t = ''interface''"
  "answers_to t (cmd_GetInterfaceNeighbor N W p) \<longleftrightarrow> ToLower t = ''interface-neighbor''"
  "answers_to t (cmd_ListInterfaces N W p) \<longleftrightarrow> ToLower t = ''interfaces''"
  "answers_to t (cmd_ListPorts N W p) \<longleftrightarrow> ToLower t = ''ports''"
  "answers_to t (cmd_SetInterfaceStatus N W p) \<longleftrightarrow> ToLower t = ''interface-status''"
  "answers_to t (cmd_SaveConfig N W) \<longleftrightarrow> ToLower t = ''save-config''"
  unfolding answers_to_def cmd_defs by (auto simp: lower_words)

text \<open>A group of commands passes a line on to the command it names.\<close>

lemma locate_leaf: "commands c = [] \<Longrightarrow> PersistentPreRunE (c_fields c) = None \<Longrightarrow> locate pre c ts = (pre, c, ts)"
  by (cases ts) simp_all

lemma leaves [simp]:
  "commands (cmd_GetDeviceInfo N W p) = []" "commands (cmd_GetInterface N W p) = []" "commands (cmd_GetInterfaceNeighbor N W p) = []"
  "commands (cmd_ListInterfaces N W p) = []" "commands (cmd_ListPorts N W p) = []" "commands (cmd_SetInterfaceStatus N W p) = []"
  "commands (cmd_SaveConfig N W) = []"
  "PersistentPreRunE (c_fields (cmd_GetDeviceInfo N W p)) = None" "PersistentPreRunE (c_fields (cmd_GetInterface N W p)) = None"
  "PersistentPreRunE (c_fields (cmd_GetInterfaceNeighbor N W p)) = None" "PersistentPreRunE (c_fields (cmd_ListInterfaces N W p)) = None"
  "PersistentPreRunE (c_fields (cmd_ListPorts N W p)) = None" "PersistentPreRunE (c_fields (cmd_SetInterfaceStatus N W p)) = None"
  "PersistentPreRunE (c_fields (cmd_SaveConfig N W)) = None"
  by (simp_all add: cmd_defs)

lemma group_simps [simp]:
  "commands (group_command Help use cs) = cs" "PersistentPreRunE (c_fields (group_command Help use cs)) = None"
  "Args (c_fields (group_command Help use cs)) = NoArgs" "RunE (c_fields (group_command Help use cs)) = SubcommandRequired Help use"
  by (simp_all add: group_command_def AddCommand_def new_command_def)

text \<open>What the located command does: what the line asks for, with the client that has been made; or nothing but to ask for a subcommand.\<close>

definition serves :: "('k, 's) rpc \<Rightarrow> 's writer \<Rightarrow> (string \<Rightarrow> ('s, goerror option) state) \<Rightarrow> invocation option \<Rightarrow> 's command \<Rightarrow> string list \<Rightarrow> bool" where
  "serves N W Help req c as \<longleftrightarrow> (case req of
      Some i \<Rightarrow> args_ok (Args (c_fields c)) as \<and>
        (\<forall>v s cl. switchAgentClient v = Some cl \<longrightarrow> run (RunE (c_fields c) as) (v, s) = run (io (perform N cl W i)) (v, s))
    | None \<Rightarrow> args_ok (Args (c_fields c)) as \<longrightarrow> (\<exists>use. RunE (c_fields c) as = SubcommandRequired Help use as))"

lemma serves_group: "serves N W Help None (group_command Help use cs) as"
  by (auto simp: serves_def)

lemma serves_leaf:
  "serves N W Help (if as = [] then Some AskDevice else None) (cmd_GetDeviceInfo N W cli_printer) as"
  "serves N W Help (if as = [] then Some AskInterfaces else None) (cmd_ListInterfaces N W cli_printer) as"
  "serves N W Help (if as = [] then Some AskPorts else None) (cmd_ListPorts N W cli_printer) as"
  "serves N W Help (if as = [] then Some AskSave else None) (cmd_SaveConfig N W) as"
  "serves N W Help (case as of [n] \<Rightarrow> Some (AskInterface n) | _ \<Rightarrow> None) (cmd_GetInterface N W cli_printer) as"
  "serves N W Help (case as of [n] \<Rightarrow> Some (AskNeighbor n) | _ \<Rightarrow> None) (cmd_GetInterfaceNeighbor N W cli_printer) as"
  "serves N W Help (case as of [n, st] \<Rightarrow> Some (AskStatus n st) | _ \<Rightarrow> None) (cmd_SetInterfaceStatus N W cli_printer) as"
  by (auto simp: serves_def cmd_defs GetSharedSwitchAgentClient_def arg_def split: list.split)

lemma invocation_of_words:
  "invocation_of [] = None" "invocation_of [a] = None"
  "ToLower a = ''get'' \<Longrightarrow> invocation_of (a # b # as) =
     (if ToLower b = ''device-info'' then (if as = [] then Some AskDevice else None)
      else if ToLower b = ''interface'' then (case as of [n] \<Rightarrow> Some (AskInterface n) | _ \<Rightarrow> None)
      else if ToLower b = ''interface-neighbor'' then (case as of [n] \<Rightarrow> Some (AskNeighbor n) | _ \<Rightarrow> None) else None)"
  "ToLower a = ''list'' \<Longrightarrow> invocation_of (a # b # as) =
     (if ToLower b = ''interfaces'' then (if as = [] then Some AskInterfaces else None)
      else if ToLower b = ''ports'' then (if as = [] then Some AskPorts else None) else None)"
  "ToLower a = ''set'' \<Longrightarrow> invocation_of (a # b # as) =
     (if ToLower b = ''interface-status'' then (case as of [n, st] \<Rightarrow> Some (AskStatus n st) | _ \<Rightarrow> None) else None)"
  "ToLower a = ''gnoi'' \<Longrightarrow> invocation_of (a # b # as) = (if ToLower b = ''save-config'' then (if as = [] then Some AskSave else None) else None)"
  "ToLower a \<notin> {''get'', ''list'', ''set'', ''gnoi''} \<Longrightarrow> invocation_of (a # ts) = None"
  by (cases "a # b # as" rule: invocation_of.cases; simp; fail | cases "a # ts" rule: invocation_of.cases; simp; fail)+

lemma located:
  obtains c as where "locate None (cli_root N W Help) ts = (Some pre_run, c, as)" and "serves N W Help (invocation_of ts) c as"
proof -
  have top: "locate None (cli_root N W Help) (a # ts) = (case find (answers_to a) (commands (cli_root N W Help)) of
      None \<Rightarrow> (Some pre_run, cli_root N W Help, a # ts) | Some d \<Rightarrow> locate (Some pre_run) d ts)" for a ts
    by (simp add: cli_root_def Let_def)
  have rooted: "serves N W Help None (cli_root N W Help) as" for as by (auto simp: serves_def cli_root_def)
  have "\<exists>c as. locate None (cli_root N W Help) ts = (Some pre_run, c, as) \<and> serves N W Help (invocation_of ts) c as"
  proof (cases ts)
    case Nil
    then show ?thesis using rooted by (simp add: invocation_of_words) (simp add: cli_root_def)
  next
    case (Cons a bs)
    note kids = answers_to_simps
    show ?thesis
    proof (cases "ToLower a \<in> {''get'', ''list'', ''set'', ''gnoi''}")
      case False
      then show ?thesis unfolding Cons top invocation_of_words(7) [OF False] using rooted by (simp add: cli_root_def kids)
    next
      case True
      show ?thesis
      proof (cases bs)
        case Nil
        with True show ?thesis unfolding Cons top Nil invocation_of_words
          by (auto simp: cli_root_def kids serves_group)
      next
        case (Cons b as)
        from True consider "ToLower a = ''get''" | "ToLower a = ''list''" | "ToLower a = ''set''" | "ToLower a = ''gnoi''" by blast
        then show ?thesis
          by cases (simp_all add: Let_def \<open>ts = a # bs\<close> top Cons invocation_of_words cli_root_def kids locate_leaf serves_group serves_leaf)
      qed
    qed
  qed
  then show thesis using that by blast
qed

lemma cobraD:
  assumes "cobra_contract Execute" and "list_all plain_word ts" and "\<not> builtin ts"
  shows "case locate None root ts of (pre, c, as) \<Rightarrow>
        if args_ok (Args (c_fields c)) as then run (Execute root ts) s = run (run_located pre c as) s
        else \<exists>err. run (Execute root ts) s = (Returned (Some err), s)"
    and "flag_setter (flags root) name = Some setter \<Longrightarrow> plain_word a \<Longrightarrow>
        run (Execute root ((''--'' @ name) # a # ts)) (v, x) = run (Execute root ts) (setter a v, x)"
  subgoal by (rule assms(1) [unfolded cobra_contract_def, THEN conjunct1, THEN spec, THEN spec, THEN spec, THEN mp]) (simp add: assms(2,3))
  subgoal by (rule assms(1) [unfolded cobra_contract_def, THEN conjunct2, THEN spec, THEN spec, THEN spec, THEN spec, THEN spec, THEN spec, THEN spec, THEN mp])
    (simp add: assms(2,3))
  done

text \<open>The program is the request that the line makes, or an error.\<close>

lemma Execute_root:
  assumes "cobra_contract Execute" and "list_all plain_word ts" and "\<not> builtin ts"
  shows "case invocation_of ts of
      Some i \<Rightarrow> \<exists>v'. run (Execute (cli_root N W Help) ts) (v, s) =
        (case run (perform N (NewDefaultSwitchAgentClient (address v) (connectTimeout v)) W i) s of (r, s') \<Rightarrow> (r, (v', s')))
    | None \<Rightarrow> \<exists>err v' s'. run (Execute (cli_root N W Help) ts) (v, s) = (Returned (Some err), (v', s'))"
proof -
  obtain c as where l: "locate None (cli_root N W Help) ts = (Some pre_run, c, as)" "serves N W Help (invocation_of ts) c as" by (rule located)
  let ?v = "v\<lparr>switchAgentClient := Some (NewDefaultSwitchAgentClient (address v) (connectTimeout v))\<rparr>"
  have E: "if args_ok (Args (c_fields c)) as then run (Execute (cli_root N W Help) ts) (v, s) = run (RunE (c_fields c) as) (?v, s)
      else \<exists>err. run (Execute (cli_root N W Help) ts) (v, s) = (Returned (Some err), (v, s))"
    using cobraD(1) [OF assms, of "cli_root N W Help" "(v, s)"] l(1) by (simp add: run_located_def pre_run_def)
  show ?thesis
  proof (cases "invocation_of ts")
    case None
    with l(2) E show ?thesis
      by (auto simp: serves_def SubcommandRequired_def split: if_splits prod.splits option.splits)
  next
    case (Some i)
    with l(2) E show ?thesis by (auto simp: serves_def split: prod.splits)
  qed
qed

text \<open>The exit code of an outcome.\<close>

definition exit_code :: "goerror option outcome \<Rightarrow> nat" where
  "exit_code r = (case r of Panicked \<Rightarrow> 2 | Returned (Some _) \<Rightarrow> 1 | Returned None \<Rightarrow> 0)"

lemma run_agent_cli:
  "run (agent_cli Execute N W Help grpcPort ts) s =
     (case run (Execute (cli_root N W Help) ts) (\<lparr>switchAgentClient = None, address = default_address grpcPort, connectTimeout = 4 * 10 ^ 9\<rparr>, s) of
        (r, (v, s')) \<Rightarrow> (exit_code r, s'))"
  by (simp add: agent_cli_def Command_returns exit_code_def split: prod.split outcome.split option.split)

lemma agent_cli_plain:
  assumes "cobra_contract Execute" and "list_all plain_word ts" and "\<not> builtin ts"
  shows "case invocation_of ts of
      Some i \<Rightarrow> run (agent_cli Execute N W Help grpcPort ts) s =
        (case run (perform N (NewDefaultSwitchAgentClient (default_address grpcPort) (4 * 10 ^ 9)) W i) s of (r, s') \<Rightarrow> (exit_code r, s'))
    | None \<Rightarrow> fst (run (agent_cli Execute N W Help grpcPort ts) s) = 1"
  using Execute_root [OF assms, of N W Help "\<lparr>switchAgentClient = None, address = default_address grpcPort, connectTimeout = 4 * 10 ^ 9\<rparr>" s]
  by (auto simp: run_agent_cli exit_code_def split: option.splits prod.splits)

lemma agent_cli_address:
  assumes "cobra_contract Execute" and "list_all plain_word ts" and "\<not> builtin ts" and "plain_word addr" and "invocation_of ts = Some i"
  shows "run (agent_cli Execute N W Help grpcPort (''--address'' # addr # ts)) s =
    (case run (perform N (NewDefaultSwitchAgentClient addr (4 * 10 ^ 9)) W i) s of (r, s') \<Rightarrow> (exit_code r, s'))"
proof -
  let ?v = "\<lparr>switchAgentClient = None, address = default_address grpcPort, connectTimeout = 4 * 10 ^ 9\<rparr>"
  have "flag_setter (flags (cli_root N W Help)) ''address'' = Some (\<lambda>a v. v\<lparr>address := a\<rparr>)" by (simp add: cli_root_def flag_setter_def)
  from cobraD(2) [OF assms(1-3) this assms(4), of ?v s] Execute_root [OF assms(1-3), of N W Help "?v\<lparr>address := addr\<rparr>" s] assms(5)
  show ?thesis by (auto simp: run_agent_cli split: prod.splits)
qed

section \<open>No command panics but one\<close>

context switch_agent
begin

lemma on_ptr_no_panic:
  assumes "\<And>err s. fst (run (h err) s) \<noteq> Panicked" and "fst (run m s) \<noteq> Panicked"
    and "\<And>s'. run m s \<noteq> (Returned (None, None), s')"
  shows "fst (run (on_ptr m h (\<lambda>x. print_ptr p info W (map_option f x))) s) \<noteq> Panicked"
  using assms on_ptr_panic [of h m s] print_ptr_no_panic [of p info W] by (metis map_option_is_None)

lemma neighbor_not_nil: "run (cli_GetInterfaceNeighbor (loopback A) c iface) s \<noteq> (Returned (None, None), s')"
  by (auto simp: cli_defs loopback_conn split: sum.splits option.splits if_splits prod.splits)

lemma admin_not_nil: "run (cli_SetInterfaceAdminStatus (loopback A) c iface) s \<noteq> (Returned (None, None), s')"
  by (auto simp: cli_defs loopback_conn Let_def split: sum.splits option.splits if_splits prod.splits)

lemma perform_panics:
  "fst (run (perform (loopback A) c W i) s) = Panicked \<longleftrightarrow> (\<exists>n. i = AskInterface n \<and> \<not> HasPrefix n ''Ethernet'' \<and> \<not> HasPrefix n ''eth'')"
proof (cases i)
  case (AskNeighbor n)
  then show ?thesis
    by (auto simp: RunGetInterfaceNeighbors_def Let_def on_ptr_no_panic client_no_panic neighbor_not_nil split: sum.split)
next
  case (AskStatus n st)
  have "fst (run (RunSetInterfaceStatus (loopback A) c cli_printer W opts) s) \<noteq> Panicked" for opts
    unfolding RunSetInterfaceStatus_def by (auto simp: on_ptr_no_panic client_no_panic admin_not_nil split: prod.split option.split)
  with AskStatus show ?thesis by simp
next
  case AskSave
  then show ?thesis using client_no_panic(5) [of c s]
    by (auto simp: RunSaveConfig_def split: prod.splits outcome.splits option.splits)
next
  case (AskInterface n)
  then show ?thesis using get_interface_panics by simp
qed (auto simp: RunGetDeviceInfo_def RunListInterfaces_def RunListPorts_def print_ptr_no_panic split: prod.splits sum.splits)

end

section \<open>The program\<close>

text \<open>An instance of the contract: one flag at most, in front.\<close>

definition dispatch :: "'s command \<Rightarrow> string list \<Rightarrow> ('s, goerror option outcome) cliM" where
  "dispatch root ts = (case locate None root ts of (pre, c, as) \<Rightarrow>
     if args_ok (Args (c_fields c)) as then run_located pre c as else ret (Returned (Some (Errorf ''wrong number of arguments''))))"

definition flag_at :: "'s command \<Rightarrow> string list \<Rightarrow> (cli_vars \<Rightarrow> cli_vars) option" where
  "flag_at root ts = (case ts of
      f # a # _ \<Rightarrow> if HasPrefix f ''--'' then map_option (\<lambda>setter. setter a) (flag_setter (flags root) (TrimPrefix f ''--'')) else None
    | _ \<Rightarrow> None)"

definition plain_Execute :: "'s command \<Rightarrow> string list \<Rightarrow> ('s, goerror option outcome) cliM" where
  "plain_Execute root ts = (case flag_at root ts of
      None \<Rightarrow> dispatch root ts
    | Some upd \<Rightarrow> State (\<lambda>(v, s). run (dispatch root (drop 2 ts)) (upd v, s)))"

lemma plain_Execute_words: "list_all plain_word ts \<Longrightarrow> plain_Execute root ts = dispatch root ts"
  by (auto simp: plain_Execute_def flag_at_def plain_word_def HasPrefix_iff split: list.split)

lemma plain_Execute_contract: "cobra_contract plain_Execute"
proof -
  have one: "case locate None root ts of (pre, c, as) \<Rightarrow>
      if args_ok (Args (c_fields c)) as then run (plain_Execute root ts) s = run (run_located pre c as) s
      else \<exists>err. run (plain_Execute root ts) s = (Returned (Some err), s)" if "list_all plain_word ts" for root :: "'s command" and ts s
    using plain_Execute_words [OF that, of root] by (simp add: dispatch_def split: prod.split)
  have two: "run (plain_Execute root ((''--'' @ name) # a # ts)) (v, s) = run (plain_Execute root ts) (setter a v, s)"
    if "flag_setter (flags root) name = Some setter" "list_all plain_word (a # ts)" for root :: "'s command" and name setter a ts v s
    using that plain_Execute_words [of ts root] by (simp add: plain_Execute_def [of root "_ # _"] flag_at_def del: append.simps)
  show ?thesis unfolding cobra_contract_def
  proof (intro conjI allI impI)
    fix root :: "'s command" and ts s assume "list_all plain_word ts \<and> \<not> builtin ts"
    then show "case locate None root ts of (pre, c, as) \<Rightarrow>
      if args_ok (Args (c_fields c)) as then run (plain_Execute root ts) s = run (run_located pre c as) s
      else \<exists>err. run (plain_Execute root ts) s = (Returned (Some err), s)" by (intro one) simp
  qed (rule two, simp_all)
qed

text \<open>Property C7. The program from its command line to the database: when \<open>agent_cli set interface-status\<close> \<open>name\<close> \<open>status\<close> exits with code
  0, the status was \<open>up\<close> or \<open>down\<close>, the name named a port, and CONFIG\_DB of the switch differs from what it was in nothing but the
  administrative status of that port, which is the one asked for.\<close>

theorem command_line_configures:
  assumes "redis_contract R V" "host_contract H V" "out_contract W V" "pool_ok V a" and "cobra_contract Execute"
    and "plain_word name" "plain_word st"
    and "run (agent_cli Execute (loopback (sonic_agent R H)) W Help grpcPort [''set'', ''interface-status'', name, st]) (a, w) = (0, (a', w'))"
  shows "st \<in> {''up'', ''down''} \<and>
    (\<exists>n. iface_name (Some (zero_Interface\<lparr>i_Kind := InterfaceKind, i_Name := name, AdminStatus := st\<rparr>)) = Inr n \<and>
      hashes_of V w' 4 = put_field (''PORT|'' @ n) ''admin_status'' st (hashes_of V w 4))"
proof -
  let ?c = "NewDefaultSwitchAgentClient (default_address grpcPort) (4 * 10 ^ 9)"
  let ?o = "\<lparr>opt_InterfaceName = name, opt_AdminStatus = st\<rparr>"
  have "list_all plain_word [''set'', ''interface-status'', name, st]" "\<not> builtin [''set'', ''interface-status'', name, st]"
    using assms(6,7) by (simp_all add: plain_word_def builtin_def lower_words)
  from agent_cli_plain [OF assms(5) this, of "loopback (sonic_agent R H)" W Help grpcPort "(a, w)"] assms(8)
  have "run (RunSetInterfaceStatus (loopback (sonic_agent R H)) ?c cli_printer W ?o) (a, w) = (Returned None, (a', w'))"
    by (auto simp: lower_words exit_code_def split: prod.splits outcome.splits option.splits)
  moreover have "has_config V (hashes_of V w 4) (a, w)" using assms(4) by (simp add: steady_def)
  ultimately show ?thesis using validD [OF set_status_valid [OF assms(1-3)], of _ "(a, w)"] by (fastforce simp: steady_def)
qed

text \<open>The property at a port that is down and is to be up.\<close>

theorem command_line_configures_witness:
  "\<exists>a' w'. run (agent_cli plain_Execute (loopback (sonic_agent mem_redis (mem_host True))) null_writer (\<lambda>_. ret None) []
         [''set'', ''interface-status'', ''Ethernet0'', ''up''])
       (\<lparr>redisAddr = ''h:1'', clientPool = []\<rparr>, [((4, ''PORT|Ethernet0''), [(''alias'', ''eth0-0''), (''admin_status'', ''down'')])])
     = (0, (a', w')) \<and> hashes_of mem_view w' 4 (''PORT|'' @ ''Ethernet0'') ''admin_status'' = Some ''up''"
proof -
  let ?w = "[((4, ''PORT|Ethernet0''), [(''alias'', ''eth0-0''), (''admin_status'', ''down'')])] :: mem"
  let ?a = "\<lparr>redisAddr = ''h:1'', clientPool = []\<rparr> :: int SonicAgent"
  have pl: "plain_word ''Ethernet0''" "plain_word ''up''" by (simp_all add: plain_word_def)
  have l: "list_all plain_word [''set'', ''interface-status'', ''Ethernet0'', ''up'']" "\<not> builtin [''set'', ''interface-status'', ''Ethernet0'', ''up'']"
    by (simp_all add: plain_word_def builtin_def lower_words)
  obtain a' w' where run: "run (agent_cli plain_Execute (loopback (sonic_agent mem_redis (mem_host True))) null_writer (\<lambda>_. ret None) []
      [''set'', ''interface-status'', ''Ethernet0'', ''up'']) (?a, ?w) = (0, (a', w'))"
    using agent_cli_plain [OF plain_Execute_contract l, of "loopback (sonic_agent mem_redis (mem_host True))" null_writer "\<lambda>_. ret None" "[]" "(?a, ?w)"]
      demo_set_status [of "NewDefaultSwitchAgentClient (default_address []) (4 * 10 ^ 9)"]
    by (auto simp: lower_words exit_code_def)
  have p: "pool_ok mem_view ?a" by (simp add: pool_ok_def)
  have n: "iface_name (Some (zero_Interface\<lparr>i_Kind := InterfaceKind, i_Name := ''Ethernet0'', AdminStatus := ''up''\<rparr>)) = Inr ''Ethernet0''"
    by (simp add: iface_name_def)
  from command_line_configures [OF mem_redis_contract mem_host_contract null_writer_contract p plain_Execute_contract pl run] n
  have "hashes_of mem_view w' 4 = put_field (''PORT|'' @ ''Ethernet0'') ''admin_status'' ''up'' (hashes_of mem_view ?w 4)" by auto
  then show ?thesis using run by (auto simp: put_field_def)
qed

text \<open>Property C30. On a line of plain words (but for the commands that cobra adds) the program panics, with exit code 2, exactly when the line is
  \<open>get interface\<close> with a name that starts with neither \<open>Ethernet\<close> nor \<open>eth\<close>: no command indexes its arguments out of range or uses a
  client before it is made. A line that is not one of the seven requests with the right number of arguments gives exit code 1.\<close>

theorem agent_cli_panics_iff:
  assumes "cobra_contract Execute" and "list_all plain_word ts" and "\<not> builtin ts"
  shows "(fst (run (agent_cli Execute (loopback (sonic_agent R H)) W Help grpcPort ts) s) = 2 \<longleftrightarrow>
      (\<exists>g i n. ts = [g, i, n] \<and> ToLower g = ''get'' \<and> ToLower i = ''interface'' \<and> \<not> HasPrefix n ''Ethernet'' \<and> \<not> HasPrefix n ''eth'')) \<and>
    (invocation_of ts = None \<longrightarrow> fst (run (agent_cli Execute (loopback (sonic_agent R H)) W Help grpcPort ts) s) = 1)"
proof -
  let ?run = "run (agent_cli Execute (loopback (sonic_agent R H)) W Help grpcPort ts) s"
  have asks: "invocation_of ts = Some (AskInterface n) \<longleftrightarrow> (\<exists>g i. ts = [g, i, n] \<and> ToLower g = ''get'' \<and> ToLower i = ''interface'')" for n
    by (cases ts rule: invocation_of.cases) auto
  have two: "exit_code r = 2 \<longleftrightarrow> r = Panicked" for r by (auto simp: exit_code_def split: outcome.split option.split)
  show ?thesis
  proof (cases "invocation_of ts")
    case None
    with agent_cli_plain [OF assms, of "loopback (sonic_agent R H)" W Help grpcPort s] asks show ?thesis by auto
  next
    case (Some i)
    with agent_cli_plain [OF assms, of "loopback (sonic_agent R H)" W Help grpcPort s]
    have "fst ?run = 2 \<longleftrightarrow> (\<exists>n. i = AskInterface n \<and> \<not> HasPrefix n ''Ethernet'' \<and> \<not> HasPrefix n ''eth'')"
      using sonic.perform_panics [of R H "NewDefaultSwitchAgentClient (default_address grpcPort) (4 * 10 ^ 9)" W i s]
      by (simp add: two split: prod.splits)
    then show ?thesis using asks Some by auto
  qed
qed

text \<open>The property at a line that panics and at one with too few arguments.\<close>

theorem agent_cli_panics_iff_witness:
  "fst (run (agent_cli plain_Execute (loopback (sonic_agent mem_redis (mem_host True))) null_writer (\<lambda>_. ret None) [] [''get'', ''interface'', ''lo''])
     (\<lparr>redisAddr = ''h:1'', clientPool = []\<rparr>, [])) = 2 \<and>
   fst (run (agent_cli plain_Execute (loopback (sonic_agent mem_redis (mem_host True))) null_writer (\<lambda>_. ret None) [] [''set'', ''interface-status''])
     (\<lparr>redisAddr = ''h:1'', clientPool = []\<rparr>, [])) = 1"
proof -
  have w: "list_all plain_word [''get'', ''interface'', ''lo'']" "\<not> builtin [''get'', ''interface'', ''lo'']"
    "list_all plain_word [''set'', ''interface-status'']" "\<not> builtin [''set'', ''interface-status'']"
    by (simp_all add: plain_word_def builtin_def lower_words)
  have "\<exists>g i n. [''get'', ''interface'', ''lo''] = [g, i, n] \<and> ToLower g = ''get'' \<and> ToLower i = ''interface'' \<and> \<not> HasPrefix n ''Ethernet'' \<and> \<not> HasPrefix n ''eth''"
    by (simp add: lower_words)
  with agent_cli_panics_iff [OF plain_Execute_contract w(1,2), of mem_redis "mem_host True" null_writer "\<lambda>_. ret None" "[]"]
    agent_cli_panics_iff [OF plain_Execute_contract w(3,4), of mem_redis "mem_host True" null_writer "\<lambda>_. ret None" "[]"] show ?thesis
    by (simp add: lower_words)
qed

end
