(* ===== verification/Spec2Isabelle.thy ===== *)
theory Spec2Isabelle
  imports Db_Api Deep_Copy Apply_Schema Interface_Liveness Ztp_Kubeconfig Onie_Log Programs Cli_Tree
begin

text \<open>
  \<^bold>\<open>A verification development of the SONiC operator.\<close>

  \<^bold>\<open>The program.\<close> The operator manages switches that run SONiC. Its parts, from the switch up:

  \<^item> The databases of a switch are Redis databases: CONFIG\_DB, STATE\_DB, APPL\_DB and others.
    The package \<open>pkg/sonic\<close> is a typed accessor for them.
  \<^item> The agent (\<open>internal/agent/sonic\<close>) runs on the switch. It keeps a pool of Redis clients and
    reads and sets the state of interfaces. A gRPC server (\<open>agent_server\<close>) exposes it.
  \<^item> The client (\<open>agent_client/client\<close>) calls the server. The command line \<open>agent_cli\<close> uses it and
    prints the results, and so do the controllers.
  \<^item> Two controllers (\<open>internal/controller\<close>) reconcile the custom resources \<open>Switch\<close> and
    \<open>SwitchInterface\<close> of the cluster with the switches. Under \<open>api/v1alpha1\<close> are these resources, their deep copies
    and the configurations with which the operator applies them.
  \<^item> The provisioning server (\<open>cmd/main.go\<close>, \<open>internal/ztp\<close>, \<open>internal/onie\<close>) answers switches that
    boot: with a script, from a ConfigMap or generated from the \<open>Switch\<close>, and with installer images.

  \<^bold>\<open>How it is modelled.\<close> Go code with effects is a computation of the state monad of the library over
  the state it acts on; \<open>run m s\<close> gives its result and the state it leaves. Errors are values: \<open>'a res\<close>
  is an error or a value, \<open>'a sres\<close> a status of the agent or a value. Where the source returns a
  pointer and an error both, so does the model (\<open>'a ptr_err\<close>), and a nil pointer that is dereferenced
  is the outcome \<open>Panicked\<close>. \<open>on_err\<close> and \<open>on_fail\<close> are the two forms of an early return. Strings are
  byte strings, integers of 64 and 32 bits wrap as in Go, and maps are association lists where
  iteration matters. Go's strings, strconv, fmt, netip, path, http, base64 are modelled as far as they
  are used.

  Code outside the repository is a parameter. The Redis client is the record \<open>redis\<close> with the contract
  \<open>redis_contract\<close>, stated over an abstract content of the databases, and the instance in memory
  \<open>mem_redis\<close> satisfies it. In the same way \<open>host\<close> (netlink, D-Bus, files, clock), \<open>rpc\<close> (the gRPC stubs),
  \<open>kube\<close> and \<open>reader\<close> (the cluster), \<open>writer\<close> (standard output, the layout of tables, \<open>sort.Slice\<close>) and
  \<open>fsys\<close> (opening files) and \<open>runtime\<close> (controller-runtime) are parameters. The contracts \<open>host_contract\<close>, \<open>kube_contract\<close>, \<open>out_contract\<close> and
  \<open>sorts\<close> have instances too. The deep copies of the types of Kubernetes are the parameter \<open>k8s_copies\<close> with the
  contract \<open>k8s_contract\<close>; the parser of schemas and the extraction of managed fields are plain functions. The package cobra, which
  reads the command line, is the parameter \<open>Execute\<close> with the contract \<open>cobra_contract\<close> and the instance \<open>plain_Execute\<close>. How
  \<open>net/http\<close> writes an answer into a response is a parameter with the contract \<open>net_http\<close> and the instance \<open>plain_answer\<close>.

  \<^bold>\<open>The theories.\<close>

  \<^item> \<open>Go_Prelude\<close>, \<open>Go_Strconv\<close>, \<open>Go_Netip\<close>: errors, effects with their triples \<open>valid\<close> and \<open>keeps\<close> and the
    rules that compose them, strings, numbers, IP addresses.
  \<^item> \<open>Redis_Client\<close>: the Redis client, its contract and an instance in memory.
  \<^item> \<open>Db_Accessor\<close>, \<open>Db_Port\<close>, \<open>Db_Interface\<close>, \<open>Db_Vlan\<close>: \<open>pkg/sonic\<close>. The locales \<open>keyed_entries\<close> and
    \<open>exact_entries\<close> are the contract of a table with adding, removing and listing; they are interpreted on
    the addresses of an interface and on the VLANs of a port, and give that synchronising leaves exactly
    what is desired and nothing else changed.
  \<^item> \<open>Db_Api\<close>: the interface \<open>DBAccessor\<close> as a record of operations, and the accessor as one. The locales
    \<open>read_commands\<close> and \<open>write_commands\<close> say what Redis commands keep; every operation is a composition of such commands
    and keeps it too. Interpreted on the content of the databases, this gives that reading changes nothing, and that
    writing changes CONFIG\_DB only.
  \<^item> \<open>Switch_Api\<close>, \<open>Agent_Types\<close>: the custom resources, the types of the agent and the conversions of
    states and names, with their round trips.
  \<^item> \<open>Sonic_Agent\<close>, \<open>Sonic_Interfaces\<close>: the agent. The pool hands out clients of the right database,
    reading changes nothing, setting changes one field, and what happens when saving fails.
  \<^item> \<open>Pool_Concurrency\<close>: the pool as concurrent requests use it. \<open>pool_step\<close> interleaves goroutines inside
    \<open>Connect\<close>, with the read-write lock; \<open>fire\<close> and \<open>schedule\<close> run a given interleaving. Every
    interleaving keeps the pool right and ends, an undisturbed call is the sequential \<open>Connect\<close>, and while
    the server answers all calls for one name share one client and no other is opened. \<open>flaky_redis\<close> is a store with failing pings.
  \<^item> \<open>Agent_Server\<close>, \<open>Agent_Client\<close>: server and client. The locale \<open>switch_agent\<close> is what the server relies
    on, that errors have a code; it is interpreted on the SONiC agent. \<open>loopback\<close> is a transport that delivers.
  \<^item> \<open>Go_Heap\<close>, \<open>Deep_Copy\<close>: memory with pointers and slices, and the deep copies of the resources in it. The
    locale \<open>deep_copier\<close> is the contract of a copy: it stands for the same value, its memory is new, and no
    write to the memory of one is seen through the other. It is closed under structures, slices and pointers, which
    gives it for every type, and it is interpreted on containers and on both specifications.
  \<^item> \<open>Apply_Config\<close>, \<open>Apply_Schema\<close>: the configurations that the operator applies, their JSON and the schema in the
    repository. A configuration conforms to the schema if its lists have keys; what \<open>EnsureInterface\<close> applies does.
  \<^item> \<open>Switch_Controller\<close>, \<open>Interface_Controller\<close>: the reconciliations, and the states of a \<open>SwitchInterface\<close> as a step
    relation.
  \<^item> \<open>Interface_EndToEnd\<close>, \<open>Interface_Liveness\<close>: the properties that span all parts. A \<open>SwitchInterface\<close> that is \<open>Ready\<close> is
    configured on the switch as its specification says; and on a switch that works the reconciliation does configure it,
    and makes it \<open>Ready\<close> unless the agent cannot read how the neighbour describes its port.
  \<^item> \<open>Ztp_Script\<close>, \<open>Ztp_Kubeconfig\<close>, \<open>Ztp\<close>: the generated script, which the shell must read as it was meant;
    the credential in it; and which switch a request is from. A lexer of shell words is the reference.
  \<^item> \<open>Onie\<close>, \<open>Onie_Log\<close>, \<open>Provisioning\<close>: the images, with the file server of Go's library; the recorder of the status and
    the log, which tells failed requests from served ones; and the whole server.
  \<^item> \<open>Programs\<close>: the start of the operator, from its flags to the running manager and HTTP server, and of the agent.
  \<^item> \<open>Print_Render\<close>, \<open>Cli_Commands\<close>, \<open>Cli_Tree\<close>: the output and the commands of \<open>agent_cli\<close>, followed to the switch, and the
    program itself: the tree of the commands implements \<open>invocation_of\<close>, which reads a command line as a request.

  \<^bold>\<open>Loops.\<close> The loop over a Redis cursor, \<open>scan_loop\<close>, ends only if the server returns the cursor 0 at
  some time. It is a \<open>partial_function\<close> in the option type, so that not returning is \<open>None\<close>, and the
  contract of a reachable server gives that it returns. All other loops are recursive functions that
  terminate. There is no fuel; the steps of $n$ concurrent calls of \<open>Connect\<close> are bounded by $10n$.

  \<^bold>\<open>What the code does not do as intended\<close> is proved as well: \<open>client_hides_errors\<close> and
  \<open>switch_status_wiped_on_agent_error\<close>, \<open>SetInterfaceAdminStatus_creates_port\<close>, \<open>SetInterfaceAdminStatus_rollback\<close>, \<open>abstract_names_not_injective\<close>,
  \<open>agent_cli_panics_iff\<close>, \<open>onie_empty_name_lists\<close>, \<open>interface_states_reachable\<close>, \<open>client_closed_in_use\<close>,
  \<open>operator_exits_by_default\<close>, \<open>interface_converges\<close>.

  \<^bold>\<open>Not modelled.\<close> Concurrency outside \<open>Connect\<close>: the other operations of the agent run one after the
  other in the model. That a waiting writer stops new readers of a lock. Contexts and timeouts.
  Logging, but for that of the ONIE endpoint, and there the entry for a file that cannot be opened. The parsing of flags and of
  the command line, which the packages flag and cobra do: of a command line with flags the contract of cobra covers one leading flag.
  The manager of controller-runtime, a parameter.
  Protocol buffers, which protoc generates: the messages are records. The controllers work on values and not on the memory
  of \<open>Go_Heap\<close>; that their deep copies are snapshots is a property of its own. JSON decoding of the configuration of the images
  is a parameter.
\<close>

end
